(* ===== verification/Prelude.thy ===== *)
theory Prelude imports Complex_Main "HOL-Library.Word" begin

text \<open>
  What every component shares: the Python exceptions the bindings raise and the result type
  \<open>PyResult\<close>, the combinators that stand for \<open>?\<close>, \<open>transpose\<close> and \<open>collect\<close>, the machine
  integers and the \<open>f64\<close> arguments, Rust byte strings, and the call logs by which a builder of
  the upstream crate is recorded. The development's rewrite collections are declared here.
\<close>

named_theorems res_simps \<open>rewriting of results and of the combinators over them\<close>
named_theorems log_simps \<open>rewriting of builder call logs\<close>

section \<open>Machine integers and floats\<close>

type_synonym u8 = "8 word"
type_synonym u16 = "16 word"
type_synonym u32 = "32 word"
type_synonym u64 = "64 word"
type_synonym bytes = "8 word list"

text \<open>
  \<open>usize\<close> is 64 bits on every platform the wheels are built for. A finite \<open>f64\<close> is kept as its
  exact rational value; the two zeros are the same value and compare as the code compares them.
\<close>

type_synonym usize = u64

lemma u64_of_nat_mono: "m \<le> n \<Longrightarrow> n < 2 ^ 64 \<Longrightarrow> (word_of_nat m :: u64) \<le> word_of_nat n"
  by (simp add: word_le_nat_alt unat_of_nat take_bit_nat_eq_self)

datatype f64 = F64_NaN | F64_Inf bool | F64_Fin rat

fun is_finite :: "f64 \<Rightarrow> bool" where
  "is_finite (F64_Fin q) = True"
| "is_finite _ = False"

text \<open>Comparison with a finite constant: every comparison with NaN is false.\<close>

fun f64_lt :: "f64 \<Rightarrow> rat \<Rightarrow> bool" where
  "f64_lt (F64_Fin q) c = (q < c)"
| "f64_lt (F64_Inf negative) c = negative"
| "f64_lt F64_NaN c = False"

fun f64_le :: "f64 \<Rightarrow> rat \<Rightarrow> bool" where
  "f64_le (F64_Fin q) c = (q \<le> c)"
| "f64_le (F64_Inf negative) c = negative"
| "f64_le F64_NaN c = False"

text \<open>
  A \<open>Duration\<close> in nanoseconds. \<open>Duration::from_secs_f64\<close> rounds to the nearest nanosecond, ties
  to even, and panics on a value that is negative, not finite, or too large for the \<open>u64\<close> seconds.
\<close>

type_synonym duration = nat

definition duration_limit :: nat where
  "duration_limit = 2 ^ 64 * 10 ^ 9"

definition round_half_even :: "rat \<Rightarrow> int" where
  "round_half_even x =
     (let f = \<lfloor>x\<rfloor>; r = x - of_int f in
      if r < 1 / 2 then f else if r > 1 / 2 then f + 1 else if even f then f else f + 1)"

fun from_secs_f64 :: "f64 \<Rightarrow> duration option" where
  "from_secs_f64 (F64_Fin q) =
     (if q < 0 then None
      else let n = nat (round_half_even (q * 10 ^ 9)) in
           if n < duration_limit then Some n else None)"
| "from_secs_f64 _ = None"

section \<open>Exceptions and results\<close>

text \<open>
  The exception classes the bindings raise. \<open>PanicException\<close> is what PyO3 raises for a Rust panic,
  \<open>JSONDecodeError\<close> the class of the \<open>json\<close> module.
  An exception carries the literal text of its message and the values the code formats into it;
  of a long literal only the leading words are kept.
\<close>

datatype exc_kind =
    ValueError | TypeError | RuntimeError | KeyError | IOError | LookupError
  | StopIteration | StopAsyncIteration | PanicException
  | RequestError | TlsError | ProxyError | HttpStatusError | LkConnectionError | LkTimeoutError
  | TooManyRedirectsError | ResourceLimitError | JsonDecodeError
  | JSONDecodeError | BufferError

datatype ip_addr = V4 "32 word" | V6 "128 word"

datatype socket_addr = SocketAddr (ip: ip_addr) (port: u16)

datatype fmt_arg = AStr string | ANat nat | AF64 f64 | AAddr socket_addr

datatype exc = PyExc (kind: exc_kind) (message: string) (args: "fmt_arg list")

type_synonym 'a result = "exc + 'a"

abbreviation raise :: "exc_kind \<Rightarrow> string \<Rightarrow> 'a result" where
  "raise k m \<equiv> Inl (PyExc k m [])"

abbreviation raise_with :: "exc_kind \<Rightarrow> string \<Rightarrow> fmt_arg list \<Rightarrow> 'a result" where
  "raise_with k m xs \<equiv> Inl (PyExc k m xs)"

text \<open>\<open>ok_then r f\<close> is \<open>let x = r?; f x\<close>.\<close>

fun ok_then :: "'e + 'a \<Rightarrow> ('a \<Rightarrow> 'e + 'b) \<Rightarrow> 'e + 'b" where
  "ok_then (Inl e) f = Inl e"
| "ok_then (Inr x) f = f x"

fun map_ok :: "('a \<Rightarrow> 'b) \<Rightarrow> 'e + 'a \<Rightarrow> 'e + 'b" where
  "map_ok f (Inl e) = Inl e"
| "map_ok f (Inr x) = Inr (f x)"

text \<open>\<open>option.map(f).transpose()?\<close>.\<close>

fun transpose_map :: "('a \<Rightarrow> 'e + 'b) \<Rightarrow> 'a option \<Rightarrow> 'e + 'b option" where
  "transpose_map f None = Inr None"
| "transpose_map f (Some x) = map_ok Some (f x)"

text \<open>\<open>iter.map(f).collect::<Result<Vec<_>, _>>()\<close>: the first error in iteration order wins.\<close>

fun collect_map :: "('a \<Rightarrow> 'e + 'b) \<Rightarrow> 'a list \<Rightarrow> 'e + 'b list" where
  "collect_map f [] = Inr []"
| "collect_map f (x # xs) = ok_then (f x) (\<lambda>y. map_ok ((#) y) (collect_map f xs))"

text \<open>\<open>option.ok_or_else(|| e)\<close>.\<close>

fun ok_or :: "'e \<Rightarrow> 'a option \<Rightarrow> 'e + 'a" where
  "ok_or e None = Inl e"
| "ok_or e (Some x) = Inr x"

fun is_ok :: "'e + 'a \<Rightarrow> bool" where
  "is_ok (Inl e) = False"
| "is_ok (Inr x) = True"

lemma ok_then_Inr [res_simps]: "ok_then r f = Inr y \<longleftrightarrow> (\<exists>x. r = Inr x \<and> f x = Inr y)"
  by (cases r) auto

lemma ok_then_Inl [res_simps]:
  "ok_then r f = Inl e \<longleftrightarrow> r = Inl e \<or> (\<exists>x. r = Inr x \<and> f x = Inl e)"
  by (cases r) auto

lemma map_ok_Inr [res_simps]: "map_ok f r = Inr y \<longleftrightarrow> (\<exists>x. r = Inr x \<and> f x = y)"
  by (cases r) auto

lemma map_ok_Inl [res_simps]: "map_ok f r = Inl e \<longleftrightarrow> r = Inl e"
  by (cases r) auto

lemma transpose_map_Inr [res_simps]:
  "transpose_map f x = Inr y \<longleftrightarrow>
     (case x of None \<Rightarrow> y = None | Some a \<Rightarrow> \<exists>b. f a = Inr b \<and> y = Some b)"
  by (cases x) (auto simp: res_simps)

lemma ok_or_Inr [res_simps]: "ok_or e x = Inr y \<longleftrightarrow> x = Some y"
  by (cases x) auto

lemma ok_or_Inl [res_simps]: "ok_or e x = Inl e' \<longleftrightarrow> x = None \<and> e' = e"
  by (cases x) auto

lemma is_ok_iff: "is_ok r \<longleftrightarrow> (\<exists>x. r = Inr x)"
  by (cases r) auto

lemma ok_then_assoc: "ok_then (ok_then r f) g = ok_then r (\<lambda>x. ok_then (f x) g)"
  by (cases r) auto

lemma collect_map_Inr [res_simps]:
  "collect_map f xs = Inr ys \<longleftrightarrow> list_all2 (\<lambda>x y. f x = Inr y) xs ys"
proof (induction xs arbitrary: ys)
  case Nil
  show ?case by auto
next
  case (Cons x xs)
  show ?case by (cases ys) (auto simp: res_simps Cons.IH)
qed

lemma collect_map_is_ok: "is_ok (collect_map f xs) \<longleftrightarrow> (\<forall>x \<in> set xs. is_ok (f x))"
proof (induction xs)
  case (Cons x xs)
  then show ?case by (cases "f x"; cases "collect_map f xs") auto
qed simp

lemma collect_map_total:
  assumes "\<And>x. f x = Inr (g x)"
  shows "collect_map f xs = Inr (map g xs)"
  by (induction xs) (simp_all add: assms)

text \<open>\<open>std::task::Poll\<close>.\<close>

datatype 'a poll = Pending | Ready 'a

text \<open>Polling a state machine once per input, the outputs in order.\<close>

fun run_polls :: "('s \<Rightarrow> 'e \<Rightarrow> 'o \<times> 's) \<Rightarrow> 's \<Rightarrow> 'e list \<Rightarrow> 'o list" where
  "run_polls poll s [] = []"
| "run_polls poll s (e # es) = (let (out, s) = poll s e in out # run_polls poll s es)"

section \<open>Builder call logs\<close>

text \<open>
  The upstream builders are opaque: the code only calls setters on them, in an order. A builder
  is therefore the list of the calls made on it, the earliest first, and any real builder is a
  fold over that list. \<open>log_some\<close> is \<open>if let Some(v) = o { b = b.set(v) }\<close>.
\<close>

fun log_some :: "('a \<Rightarrow> 'c) \<Rightarrow> 'a option \<Rightarrow> 'c list \<Rightarrow> 'c list" where
  "log_some c None b = b"
| "log_some c (Some v) b = b @ [c v]"

definition log_if :: "bool \<Rightarrow> 'c \<Rightarrow> 'c list \<Rightarrow> 'c list" where
  "log_if p c b = (if p then b @ [c] else b)"

definition log_all :: "('a \<Rightarrow> 'c) \<Rightarrow> 'a list \<Rightarrow> 'c list \<Rightarrow> 'c list" where
  "log_all c vs b = b @ map c vs"

lemma set_log_some [log_simps]: "set (log_some c x b) = set b \<union> c ` set_option x"
  by (cases x) auto

lemma set_log_if [log_simps]: "set (log_if p c b) = set b \<union> (if p then {c} else {})"
  by (auto simp: log_if_def)

lemma set_log_all [log_simps]: "set (log_all c vs b) = set b \<union> c ` set vs"
  by (auto simp: log_all_def)

lemma filter_log_some [log_simps]:
  "(\<And>v. \<not> P (c v)) \<Longrightarrow> filter P (log_some c x b) = filter P b"
  "(\<And>v. P (c v)) \<Longrightarrow> filter P (log_some c x b) = filter P b @ map c (case x of None \<Rightarrow> [] | Some v \<Rightarrow> [v])"
  by (cases x; auto)+

lemma filter_log_if [log_simps]:
  "filter P (log_if p c b) = filter P b @ (if p \<and> P c then [c] else [])"
  by (auto simp: log_if_def)

lemma filter_log_all [log_simps]:
  "filter P (log_all c vs b) = filter P b @ filter P (map c vs)"
  by (auto simp: log_all_def)

lemma log_Cons:
  "log_some c x (a # b) = a # log_some c x b"
  "log_if p d (a # b) = a # log_if p d b"
  "log_all f vs (a # b) = a # log_all f vs b"
  by (cases x; simp add: log_if_def log_all_def)+

lemma length_log:
  "length (log_some c x b) = length b + of_bool (x \<noteq> None)"
  "length (log_if p d b) = length b + of_bool p"
  "length (log_all f vs b) = length b + length vs"
  by (cases x; simp add: log_if_def log_all_def)+

section \<open>Rust strings\<close>

text \<open>A \<open>String\<close> is its UTF-8 bytes, one \<open>char\<close> each. The ASCII methods touch ASCII bytes only.\<close>

definition ascii_lower :: "char \<Rightarrow> char" where
  "ascii_lower c =
     (let n = (of_char c :: nat) in if 65 \<le> n \<and> n \<le> 90 then char_of (n + 32) else c)"

definition ascii_upper :: "char \<Rightarrow> char" where
  "ascii_upper c =
     (let n = (of_char c :: nat) in if 97 \<le> n \<and> n \<le> 122 then char_of (n - 32) else c)"

definition is_ascii :: "char \<Rightarrow> bool" where
  "is_ascii c = ((of_char c :: nat) < 128)"

definition to_ascii_lowercase :: "string \<Rightarrow> string" where
  "to_ascii_lowercase s = map ascii_lower s"

definition eq_ignore_ascii_case :: "string \<Rightarrow> string \<Rightarrow> bool" where
  "eq_ignore_ascii_case a b = (to_ascii_lowercase a = to_ascii_lowercase b)"

text \<open>\<open>into_bytes\<close> and \<open>as_bytes\<close>.\<close>

definition into_bytes :: "string \<Rightarrow> bytes" where
  "into_bytes s = map (\<lambda>c. word_of_nat (of_char c)) s"

text \<open>
  The \<open>url\<close> crate, on an opaque type of parsed URLs: \<open>Url::parse\<close>, \<open>Url::join\<close>, \<open>to_string\<close> and
  \<open>host_str\<close>.
\<close>

record 'u url_api =
  parse_url :: "string \<Rightarrow> 'u option"
  join_url :: "'u \<Rightarrow> string \<Rightarrow> 'u option"
  url_to_string :: "'u \<Rightarrow> string"
  host_str :: "'u \<Rightarrow> string option"

text \<open>\<open>str::to_uppercase\<close>: on an ASCII string the ASCII table; \<open>uni\<close> is the Unicode table.\<close>

definition to_uppercase :: "(string \<Rightarrow> string) \<Rightarrow> string \<Rightarrow> string" where
  "to_uppercase uni s = (if list_all is_ascii s then map ascii_upper s else uni s)"

lemma ascii_lower_idem [simp]: "ascii_lower (ascii_lower c) = ascii_lower c"
  by (simp add: ascii_lower_def Let_def)

lemma to_ascii_lowercase_idem [simp]:
  "to_ascii_lowercase (to_ascii_lowercase s) = to_ascii_lowercase s"
  by (simp add: to_ascii_lowercase_def comp_def)

lemma eq_ignore_ascii_case_refl [simp]: "eq_ignore_ascii_case a a"
  by (simp add: eq_ignore_ascii_case_def)

text \<open>\<open>split(d)\<close>, \<open>strip_prefix\<close>, the trims and \<open>rsplit_once\<close>, on bytes.\<close>

fun split_on :: "char \<Rightarrow> string \<Rightarrow> string list" where
  "split_on d [] = [[]]"
| "split_on d (c # cs) =
     (if c = d then [] # split_on d cs
      else case split_on d cs of [] \<Rightarrow> [[c]] | p # ps \<Rightarrow> (c # p) # ps)"

fun strip_prefix :: "string \<Rightarrow> string \<Rightarrow> string option" where
  "strip_prefix [] s = Some s"
| "strip_prefix (p # ps) [] = None"
| "strip_prefix (p # ps) (c # cs) = (if p = c then strip_prefix ps cs else None)"

definition trim_by :: "(char \<Rightarrow> bool) \<Rightarrow> string \<Rightarrow> string" where
  "trim_by w s = rev (dropWhile w (rev (dropWhile w s)))"

definition is_ascii_whitespace :: "char \<Rightarrow> bool" where
  "is_ascii_whitespace c = ((of_char c :: nat) \<in> {9, 10, 11, 12, 13, 32})"

definition trim :: "string \<Rightarrow> string" where
  "trim s = trim_by is_ascii_whitespace s"

text \<open>The split at the last \<open>d\<close>, none when there is no \<open>d\<close>.\<close>

fun rsplit_once :: "char \<Rightarrow> string \<Rightarrow> (string \<times> string) option" where
  "rsplit_once d [] = None"
| "rsplit_once d (c # cs) =
     (case rsplit_once d cs of
        Some (a, b) \<Rightarrow> Some (c # a, b)
      | None \<Rightarrow> if c = d then Some ([], cs) else None)"

lemma strip_prefix_Some: "strip_prefix p s = Some t \<longleftrightarrow> s = p @ t"
  by (induction p s rule: strip_prefix.induct) auto

lemma rsplit_once_Some: "rsplit_once d s = Some (a, b) \<Longrightarrow> s = a @ d # b \<and> d \<notin> set b"
proof (induction s arbitrary: a)
  case (Cons c cs)
  have none: "rsplit_once d xs = None \<Longrightarrow> d \<notin> set xs" for xs
    by (induction xs) (auto split: option.splits if_splits)
  show ?case
    using Cons by (auto split: option.splits if_splits dest: none)
qed simp

lemma rsplit_once_append: "d \<notin> set b \<Longrightarrow> rsplit_once d (a @ d # b) = Some (a, b)"
proof (induction a)
  case Nil
  have "d \<notin> set b \<Longrightarrow> rsplit_once d b = None"
    by (induction b) auto
  with Nil show ?case by simp
qed simp

text \<open>Decimal numerals: Rust's \<open>Display\<close> for unsigned integers, and \<open>FromStr\<close> without a sign.\<close>

definition digit_char :: "nat \<Rightarrow> char" where
  "digit_char d = char_of (48 + d)"

definition digit_val :: "char \<Rightarrow> nat option" where
  "digit_val c =
     (let n = (of_char c :: nat) in if 48 \<le> n \<and> n \<le> 57 then Some (n - 48) else None)"

fun show_nat :: "nat \<Rightarrow> string" where
  "show_nat n = (if n < 10 then [digit_char n] else show_nat (n div 10) @ [digit_char (n mod 10)])"

declare show_nat.simps [simp del]

fun digits_val :: "nat \<Rightarrow> string \<Rightarrow> nat option" where
  "digits_val acc [] = Some acc"
| "digits_val acc (c # cs) =
     (case digit_val c of None \<Rightarrow> None | Some d \<Rightarrow> digits_val (acc * 10 + d) cs)"

definition parse_digits :: "string \<Rightarrow> nat option" where
  "parse_digits s = (if s = [] then None else digits_val 0 s)"

lemma digit_val_digit_char [simp]: "d < 10 \<Longrightarrow> digit_val (digit_char d) = Some d"
  by (auto simp: digit_val_def digit_char_def Let_def)

lemma digits_val_append:
  "digits_val acc (s @ t) = (case digits_val acc s of None \<Rightarrow> None | Some n \<Rightarrow> digits_val n t)"
  by (induction s arbitrary: acc) (auto split: option.splits)

lemma digits_val_show_nat: "digits_val 0 (show_nat n) = Some n"
proof (induction n rule: show_nat.induct)
  case (1 n)
  show ?case
  proof (cases "n < 10")
    case True
    then show ?thesis by (simp add: show_nat.simps [of n])
  next
    case False
    with 1 have IH: "digits_val 0 (show_nat (n div 10)) = Some (n div 10)" by simp
    have "digits_val 0 (show_nat n) =
        digits_val (n div 10) [digit_char (n mod 10)]"
      using False IH by (simp add: show_nat.simps [of n] digits_val_append)
    also have "\<dots> = Some n" by simp
    finally show ?thesis .
  qed
qed

lemma show_nat_nonempty [simp]: "show_nat n \<noteq> []"
  by (subst show_nat.simps) simp

lemma parse_digits_show_nat [simp]: "parse_digits (show_nat n) = Some n"
  by (simp add: parse_digits_def digits_val_show_nat)

lemma show_nat_digits: "c \<in> set (show_nat n) \<Longrightarrow> \<exists>d < 10. c = digit_char d"
proof (induction n rule: show_nat.induct)
  case (1 n)
  show ?case
  proof (cases "n < 10")
    case True
    with 1 show ?thesis by (auto simp: show_nat.simps [of n])
  next
    case False
    with 1 show ?thesis by (auto simp: show_nat.simps [of n] intro: exI [of _ "n mod 10"])
  qed
qed

section \<open>Rounding to nanoseconds\<close>

lemma round_half_even_nonneg: "0 \<le> x \<Longrightarrow> 0 \<le> round_half_even x"
  by (auto simp: round_half_even_def Let_def)

lemma round_half_even_of_int [simp]: "round_half_even (of_int n) = n"
  by (simp add: round_half_even_def Let_def)

lemma round_half_even_close: "\<bar>of_int (round_half_even x) - x\<bar> \<le> (1 / 2 :: rat)"
proof -
  have "of_int \<lfloor>x\<rfloor> \<le> x" "x < of_int \<lfloor>x\<rfloor> + 1" by linarith+
  then show ?thesis
    by (auto simp: round_half_even_def Let_def abs_le_iff)
qed

lemma round_half_even_tie:
  fixes x :: rat
  assumes "\<bar>of_int (round_half_even x) - x\<bar> = 1 / 2"
  shows "even (round_half_even x)"
proof -
  define f where "f = \<lfloor>x\<rfloor>"
  have "of_int f \<le> x" "x < of_int f + 1" unfolding f_def by linarith+
  then show ?thesis using assms unfolding round_half_even_def Let_def f_def [symmetric]
    by (auto simp: abs_if split: if_splits)
qed

text \<open>The nearest integer, ties to the even one, is unique; so rounding keeps the order.\<close>

lemma round_half_even_mono:
  fixes x y :: rat
  assumes "x \<le> y"
  shows "round_half_even x \<le> round_half_even y"
proof (rule ccontr)
  let ?m = "round_half_even x" and ?n = "round_half_even y"
  assume "\<not> ?m \<le> ?n"
  then have n: "(of_int ?n :: rat) + 1 \<le> of_int ?m" by linarith
  have "of_int ?m \<le> x + 1 / 2" and "y - 1 / 2 \<le> of_int ?n"
    using round_half_even_close [of x] round_half_even_close [of y] by linarith+
  then have "of_int ?m = x + 1 / 2" and "of_int ?n = y - 1 / 2" and "x = y" using n assms by linarith+
  then show False using n by simp
qed

lemma round_half_even_less:
  assumes "x \<le> (of_int n :: rat)" shows "round_half_even x \<le> n"
  using round_half_even_mono [OF assms] by simp

lemma from_secs_f64_whole:
  "n < 2 ^ 64 \<Longrightarrow> from_secs_f64 (F64_Fin (of_nat n)) = Some (n * 10 ^ 9)"
proof -
  assume n: "n < 2 ^ 64"
  have "(of_nat n :: rat) * 10 ^ 9 = of_int (int (n * 10 ^ 9))" by simp
  then have "round_half_even ((of_nat n :: rat) * 10 ^ 9) = int (n * 10 ^ 9)"
    by (simp only: round_half_even_of_int)
  moreover have "n * 10 ^ 9 < duration_limit"
    using n by (simp add: duration_limit_def)
  moreover have "nat (int (n * 10 ^ 9)) = n * 10 ^ 9" by (rule nat_int)
  ultimately show ?thesis by (simp only: from_secs_f64.simps Let_def) simp
qed

lemma from_secs_f64_too_large:
  assumes "2 ^ 64 \<le> q"
  shows "from_secs_f64 (F64_Fin q) = None"
proof -
  have "(2 ^ 64 * 10 ^ 9 :: rat) \<le> q * 10 ^ 9"
    using assms by simp
  then have "of_int (2 ^ 64 * 10 ^ 9) \<le> q * 10 ^ 9" by simp
  then have f: "2 ^ 64 * 10 ^ 9 \<le> \<lfloor>q * 10 ^ 9\<rfloor>" by (simp only: le_floor_iff)
  have "2 ^ 64 * 10 ^ 9 \<le> round_half_even (q * 10 ^ 9)"
    using f by (auto simp: round_half_even_def Let_def)
  then have "duration_limit \<le> nat (round_half_even (q * 10 ^ 9))"
    by (simp add: duration_limit_def)
  moreover have "\<not> q < 0" using assms by (auto simp: not_less intro: order_trans [rotated])
  ultimately show ?thesis by (simp add: Let_def)
qed

end
