(* ===== verification/Errors.thy ===== *)
theory Errors imports Prelude begin

text \<open>
  \<open>src/src/error.rs\<close>: the mapping from an upstream error to the Python exception the caller sees.
  The upstream error type is an enum of a crate outside the repository: its variants are those
  the code matches on, \<open>E_Other\<close> stands for every variant it does not name (the request-context
  wrapper of the H3 retry modes among them), and its three methods are a parameter.
\<close>

datatype lk_error =
    E_Timeout nat | E_Connection string | E_Io string | E_Tls string | E_Proxy string
  | E_Status nat | E_TooManyRedirects nat | E_InvalidConfig string
  | E_ResourceLimitExceeded string | E_Http string | E_Other nat

record error_api =
  unwrapped :: "lk_error \<Rightarrow> lk_error"
  err_to_string :: "lk_error \<Rightarrow> string"
  is_address_family_mismatch :: "lk_error \<Rightarrow> bool"

definition describe :: "error_api \<Rightarrow> lk_error \<Rightarrow> string" where
  "describe api err =
     (let message = err_to_string api err in
      if is_address_family_mismatch api err
      then message @ '' (excluded by the client's ip_family setting)'' else message)"

fun exc_class :: "lk_error \<Rightarrow> exc_kind" where
  "exc_class (E_Timeout _) = LkTimeoutError"
| "exc_class (E_Connection _) = LkConnectionError"
| "exc_class (E_Io _) = LkConnectionError"
| "exc_class (E_Tls _) = TlsError"
| "exc_class (E_Proxy _) = ProxyError"
| "exc_class (E_Status _) = HttpStatusError"
| "exc_class (E_TooManyRedirects _) = TooManyRedirectsError"
| "exc_class (E_InvalidConfig _) = ValueError"
| "exc_class (E_ResourceLimitExceeded _) = ResourceLimitError"
| "exc_class _ = RequestError"

definition to_py_err :: "error_api \<Rightarrow> lk_error \<Rightarrow> exc" where
  "to_py_err api err = (let err = unwrapped api err in PyExc (exc_class err) (describe api err) [])"

text \<open>\<open>result.map_err(to_py_err)\<close>.\<close>

fun map_py_err :: "error_api \<Rightarrow> lk_error + 'a \<Rightarrow> 'a result" where
  "map_py_err api (Inl e) = Inl (to_py_err api e)"
| "map_py_err api (Inr x) = Inr x"

lemma map_py_err_Inr [res_simps]: "map_py_err api r = Inr x \<longleftrightarrow> r = Inr x"
  by (cases r) auto

text \<open>No upstream error ends an iteration.\<close>

lemma to_py_err_not_stop: "kind (to_py_err err e) \<notin> {StopIteration, StopAsyncIteration}"
  by (cases "unwrapped err e") (simp_all add: to_py_err_def Let_def)

lemma upstream_never_stops [simp]:
  "to_py_err err e \<noteq> PyExc StopIteration m xs" "to_py_err err e \<noteq> PyExc StopAsyncIteration m xs"
  using to_py_err_not_stop [of err e] by auto

text \<open>The plainest error type, for concrete inputs.\<close>

definition plain_errors :: error_api where
  "plain_errors = \<lparr>unwrapped = id, err_to_string = (\<lambda>_. ''e''), is_address_family_mismatch = (\<lambda>_. False)\<rparr>"

section \<open>The class hierarchy\<close>

text \<open>
  \<open>create_exception!(lkrequest, C, Base)\<close> and, with its two bases in order, \<open>JsonDecodeError\<close>. The base
  of the class of the \<open>json\<close> module is Python's.
\<close>

fun base_classes :: "exc_kind \<Rightarrow> exc_kind list" where
  "base_classes TlsError = [RequestError]"
| "base_classes ProxyError = [RequestError]"
| "base_classes HttpStatusError = [RequestError]"
| "base_classes LkConnectionError = [RequestError]"
| "base_classes LkTimeoutError = [RequestError]"
| "base_classes TooManyRedirectsError = [RequestError]"
| "base_classes ResourceLimitError = [RequestError]"
| "base_classes JsonDecodeError = [JSONDecodeError, RequestError]"
| "base_classes JSONDecodeError = [ValueError]"
| "base_classes _ = []"

text \<open>Whether \<open>except c\<close> catches an exception of class \<open>k\<close>: no class here is more than two steps deep.\<close>

definition is_instance_of :: "exc_kind \<Rightarrow> exc_kind \<Rightarrow> bool" where
  "is_instance_of k c \<longleftrightarrow>
     k = c \<or> List.member (base_classes k) c \<or> List.member (concat (map base_classes (base_classes k))) c"

lemma exc_class_instance:
  "is_instance_of (exc_class e) RequestError \<or> (\<exists>m. e = E_InvalidConfig m)"
  by (cases e) (simp_all add: is_instance_of_def)

section \<open>Errors of the json module\<close>

text \<open>
  What \<open>json.loads\<close> raised: a decode failure with its \<open>msg\<close>, \<open>doc\<close> and \<open>pos\<close>, or anything else. The
  class is there once the module is initialised; calling it is Python's business and may raise.
\<close>

datatype json_error = StdlibDecode string string nat | JsonOther exc

fun json_raised :: "json_error \<Rightarrow> exc" where
  "json_raised (StdlibDecode msg doc pos) = PyExc JSONDecodeError msg [AStr doc, ANat pos]"
| "json_raised (JsonOther e) = e"

fun as_json_decode_error ::
  "(string \<Rightarrow> string \<Rightarrow> nat \<Rightarrow> exc result) option \<Rightarrow> json_error \<Rightarrow> exc option result" where
  "as_json_decode_error json_class (JsonOther e) = Inr None"
| "as_json_decode_error json_class (StdlibDecode msg doc pos) =
     (case json_class of
        None \<Rightarrow> Inr None
      | Some call \<Rightarrow> map_ok Some (call msg doc pos))"

definition to_json_py_err ::
  "(string \<Rightarrow> string \<Rightarrow> nat \<Rightarrow> exc result) option \<Rightarrow> json_error \<Rightarrow> exc" where
  "to_json_py_err json_class err =
     (case as_json_decode_error json_class err of
        Inr (Some converted) \<Rightarrow> converted
      | Inr None \<Rightarrow> json_raised err
      | Inl _ \<Rightarrow> json_raised err)"

text \<open>The class as \<open>build_json_decode_error\<close> makes it: its first base gives it the constructor.\<close>

definition new_json_decode_error :: "string \<Rightarrow> string \<Rightarrow> nat \<Rightarrow> exc result" where
  "new_json_decode_error msg doc pos = Inr (PyExc JsonDecodeError msg [AStr doc, ANat pos])"

text \<open>A body that is not JSON raises an exception both \<open>except RequestError\<close> and
  \<open>except json.JSONDecodeError\<close> (a \<open>ValueError\<close>) catch, with the message, document and position of the
  original; before the class exists, when its constructor fails, and for any other error of the
  \<open>json\<close> module, the original error goes through.\<close>
lemma json_errors_caught:
  "to_json_py_err (Some new_json_decode_error) (StdlibDecode msg doc pos) =
     PyExc JsonDecodeError msg [AStr doc, ANat pos] \<and>
   is_instance_of JsonDecodeError RequestError \<and> is_instance_of JsonDecodeError JSONDecodeError \<and>
   is_instance_of JsonDecodeError ValueError \<and> \<not> is_instance_of JSONDecodeError RequestError \<and>
   to_json_py_err None err = json_raised err \<and>
   to_json_py_err (Some (\<lambda>_ _ _. Inl e)) err = json_raised err \<and>
   to_json_py_err json_class (JsonOther e') = e'"
  by (cases err) (simp_all add: to_json_py_err_def new_json_decode_error_def is_instance_of_def)

end
