(* ===== verification/Middleware.thy ===== *)
theory Middleware imports Errors "HOL-Library.AList" begin

text \<open>
  \<open>src/src/middleware.rs\<close>: the slots that hold the callbacks of a middleware, and the wrapper that
  runs them on a request and on a response. A Python object is its identity. The \<open>http\<close> crate's
  checks of header names and values are a parameter, and so is what a callback returns. A header
  map is the list of its entries in iteration order; one built by \<open>append\<close> is the list of the
  entries appended.
\<close>

type_synonym pyobj = nat
type_synonym header_map = "(string \<times> bytes) list"

record http_api =
  header_name :: "string \<Rightarrow> string option"
  header_value :: "string \<Rightarrow> bytes option"
  header_to_str :: "bytes \<Rightarrow> string option"

section \<open>Slots\<close>

record middleware_slots =
  slot_on_request :: "pyobj option"
  slot_on_response :: "pyobj option"

record py_middleware =
  mw_name :: string
  on_request_fn :: "pyobj option"
  on_response_fn :: "pyobj option"

definition slots_from_py :: "py_middleware \<Rightarrow> middleware_slots" where
  "slots_from_py mw = \<lparr>slot_on_request = on_request_fn mw, slot_on_response = on_response_fn mw\<rparr>"

definition has_on_request :: "middleware_slots \<Rightarrow> bool" where
  [simp]: "has_on_request sl \<longleftrightarrow> slot_on_request sl \<noteq> None"

definition has_on_response :: "middleware_slots \<Rightarrow> bool" where
  [simp]: "has_on_response sl \<longleftrightarrow> slot_on_response sl \<noteq> None"

text \<open>\<open>release\<close> takes both callbacks out and returns them: the caller drops them afterwards.\<close>

definition slots_release :: "middleware_slots \<Rightarrow> middleware_slots \<times> pyobj list" where
  "slots_release sl =
     (let request = slot_on_request sl;
          sl = sl\<lparr>slot_on_request := None\<rparr>;
          response = slot_on_response sl;
          sl = sl\<lparr>slot_on_response := None\<rparr>
      in (sl, (case request of None \<Rightarrow> [] | Some f \<Rightarrow> [f]) @
              (case response of None \<Rightarrow> [] | Some f \<Rightarrow> [f])))"

definition slots_released :: "middleware_slots \<Rightarrow> bool" where
  "slots_released sl \<longleftrightarrow> slot_on_request sl = None \<and> slot_on_response sl = None"

lemma slots_release_released [simp]: "slots_released (fst (slots_release sl))"
  by (simp add: slots_release_def slots_released_def Let_def)

section \<open>Running the callbacks\<close>

record mw_request =
  req_method :: string
  req_url :: string
  req_headers :: header_map

record mw_response =
  resp_status :: u16
  resp_headers :: header_map

text \<open>The argument of a callback, and what the code looks at in the object it returns.\<close>

datatype mw_arg =
    RequestArg string string "(string \<times> string) list"
  | ResponseArg u16 "(string \<times> string) list"

datatype 'a dict_item = Missing | Unusable | Item 'a

datatype mw_return =
    ReturnNone | ReturnOther
  | ReturnDict "string dict_item" "(string option \<times> string option) list dict_item"

type_synonym callback = "pyobj \<Rightarrow> mw_arg \<Rightarrow> string + mw_return"

text \<open>\<open>dict.set_item\<close> for each header: a repeated name overwrites, in its first position.\<close>

definition headers_dict :: "http_api \<Rightarrow> header_map \<Rightarrow> (string \<times> string) list" where
  "headers_dict http hs =
     fold (\<lambda>(k, v). AList.update k (case header_to_str http v of Some s \<Rightarrow> s | None \<Rightarrow> '''')) hs []"

definition new_headers :: "http_api \<Rightarrow> (string option \<times> string option) list \<Rightarrow> header_map" where
  "new_headers http es = List.map_filter (\<lambda>(k, v).
     case (k, v) of
       (Some name, Some val) \<Rightarrow>
         (case (header_name http name, header_value http val) of
            (Some hn, Some hv) \<Rightarrow> Some (hn, hv)
          | _ \<Rightarrow> None)
     | _ \<Rightarrow> None) es"

fun apply_return_request :: "http_api \<Rightarrow> mw_return \<Rightarrow> mw_request \<Rightarrow> mw_request" where
  "apply_return_request http (ReturnDict url headers) req =
     (let req = (case url of Item u \<Rightarrow> req\<lparr>req_url := u\<rparr> | _ \<Rightarrow> req) in
      case headers of Item h \<Rightarrow> req\<lparr>req_headers := new_headers http h\<rparr> | _ \<Rightarrow> req)"
| "apply_return_request http _ req = req"

fun apply_return_response :: "http_api \<Rightarrow> mw_return \<Rightarrow> mw_response \<Rightarrow> mw_response" where
  "apply_return_response http (ReturnDict _ headers) resp =
     (case headers of Item h \<Rightarrow> resp\<lparr>resp_headers := new_headers http h\<rparr> | _ \<Rightarrow> resp)"
| "apply_return_response http _ resp = resp"

text \<open>
  The slot is read twice: once before the GIL is taken and once with it held. \<open>before\<close> and \<open>held\<close>
  are the slots at the two reads; the session may be closed in between.
\<close>

definition mw_on_request ::
  "http_api \<Rightarrow> callback \<Rightarrow> middleware_slots \<Rightarrow> middleware_slots \<Rightarrow> mw_request \<Rightarrow>
   lk_error + mw_request" where
  "mw_on_request http call before held req =
     (if \<not> has_on_request before then Inr req
      else case slot_on_request held of
          None \<Rightarrow> Inr req
        | Some func \<Rightarrow>
            (case call func (RequestArg (req_method req) (req_url req)
                               (headers_dict http (req_headers req))) of
               Inl e \<Rightarrow> Inl (E_Http (''Middleware on_request error: '' @ e))
             | Inr returned \<Rightarrow> Inr (apply_return_request http returned req)))"

definition mw_on_response ::
  "http_api \<Rightarrow> callback \<Rightarrow> middleware_slots \<Rightarrow> middleware_slots \<Rightarrow> mw_response \<Rightarrow>
   lk_error + mw_response" where
  "mw_on_response http call before held resp =
     (if \<not> has_on_response before then Inr resp
      else case slot_on_response held of
          None \<Rightarrow> Inr resp
        | Some func \<Rightarrow>
            (case call func (ResponseArg (resp_status resp)
                               (headers_dict http (resp_headers resp))) of
               Inl e \<Rightarrow> Inl (E_Http (''Middleware on_response error: '' @ e))
             | Inr returned \<Rightarrow> Inr (apply_return_response http returned resp)))"

section \<open>What the callbacks can and cannot do\<close>

text \<open>
  The law of the \<open>http\<close> crate the round trip rests on: a stored name and value are valid, and a
  value that reads as a string is stored again as the same bytes.
\<close>

definition header_law :: "http_api \<Rightarrow> header_map \<Rightarrow> bool" where
  "header_law http hs = list_all (\<lambda>(k, v).
     header_name http k = Some k \<and>
     (case header_to_str http v of Some s \<Rightarrow> header_value http s = Some v | None \<Rightarrow> False)) hs"

definition as_returned :: "(string \<times> string) list \<Rightarrow> (string option \<times> string option) list" where
  "as_returned d = map (\<lambda>(k, v). (Some k, Some v)) d"

text \<open>The last value of each name, the names in the order they first appear.\<close>

definition last_values :: "header_map \<Rightarrow> header_map" where
  "last_values hs = fold (\<lambda>(k, v). AList.update k v) hs []"

lemma new_headers_Nil [simp]: "new_headers http [] = []"
  by (simp add: new_headers_def List.map_filter_def)

lemma map_filter_Cons:
  "List.map_filter f (x # xs) = (case f x of None \<Rightarrow> [] | Some y \<Rightarrow> [y]) @ List.map_filter f xs"
  by (simp add: List.map_filter_def split: option.split)

lemma map_filter_as_update:
  assumes "\<And>p. p \<in> set d \<Longrightarrow> header_name http (fst p) = Some (fst p)"
  shows "new_headers http (as_returned d) =
     List.map_filter (\<lambda>(k, s). map_option (Pair k) (header_value http s)) d"
  using assms
proof (induction d)
  case Nil
  then show ?case by (simp add: as_returned_def List.map_filter_def)
next
  case (Cons p d)
  obtain k s where p: "p = (k, s)" by (cases p)
  have k: "header_name http k = Some k" using Cons.prems [of p] p by simp
  have IH: "new_headers http (as_returned d) =
     List.map_filter (\<lambda>(k, s). map_option (Pair k) (header_value http s)) d"
    by (rule Cons.IH) (use Cons.prems in auto)
  show ?case
    using IH k p by (simp add: new_headers_def as_returned_def map_filter_Cons split: option.split)
qed

lemma map_filter_update:
  assumes "header_value http s = Some v"
    and "\<And>p. p \<in> set d \<Longrightarrow> header_value http (snd p) \<noteq> None"
  shows "List.map_filter (\<lambda>(k, s). map_option (Pair k) (header_value http s)) (AList.update k s d) =
     AList.update k v (List.map_filter (\<lambda>(k, s). map_option (Pair k) (header_value http s)) d)"
  using assms(2)
proof (induction d)
  case Nil
  then show ?case using assms(1) by (simp add: List.map_filter_def)
next
  case (Cons p d)
  obtain k' s' where p: "p = (k', s')" by (cases p)
  obtain v' where v': "header_value http s' = Some v'"
    using Cons.prems [of p] p by auto
  have IH: "List.map_filter (\<lambda>(k, s). map_option (Pair k) (header_value http s)) (AList.update k s d) =
     AList.update k v (List.map_filter (\<lambda>(k, s). map_option (Pair k) (header_value http s)) d)"
    using Cons by simp
  show ?case
    using IH assms(1) p v' by (auto simp: List.map_filter_def)
qed

lemma set_update_subset: "set (AList.update k v d) \<subseteq> insert (k, v) (set d)"
  by (induction d) auto

lemma returned_headers_fold:
  assumes "header_law http hs"
    and "\<And>p. p \<in> set d \<Longrightarrow> header_name http (fst p) = Some (fst p) \<and> header_value http (snd p) \<noteq> None"
  shows "new_headers http (as_returned
      (fold (\<lambda>(k, v). AList.update k (case header_to_str http v of Some s \<Rightarrow> s | None \<Rightarrow> '''')) hs d)) =
    fold (\<lambda>(k, v). AList.update k v) hs (new_headers http (as_returned d))"
  using assms
proof (induction hs arbitrary: d)
  case (Cons h hs)
  obtain k v where h: "h = (k, v)" by (cases h)
  from Cons.prems(1) obtain s where s: "header_to_str http v = Some s" "header_value http s = Some v"
    and k: "header_name http k = Some k" and law: "header_law http hs"
    by (auto simp: header_law_def h split: option.splits)
  let ?d = "AList.update k s d"
  have d': "\<And>p. p \<in> set ?d \<Longrightarrow> header_name http (fst p) = Some (fst p) \<and> header_value http (snd p) \<noteq> None"
    using Cons.prems(2) set_update_subset [of k s d] s k by fastforce
  have "new_headers http (as_returned ?d) = AList.update k v (new_headers http (as_returned d))"
    using Cons.prems(2) d' s by (simp add: map_filter_as_update map_filter_update)
  with Cons.IH [OF law d'] show ?case by (simp add: h s)
qed simp

lemma returned_headers:
  assumes "header_law http hs"
  shows "new_headers http (as_returned (headers_dict http hs)) = last_values hs"
  using returned_headers_fold [OF assms, of "[]"]
  by (simp add: headers_dict_def last_values_def new_headers_def as_returned_def List.map_filter_def)

lemma last_values_fold:
  "distinct (map fst hs) \<Longrightarrow> fst ` set hs \<inter> fst ` set d = {} \<Longrightarrow>
     fold (\<lambda>(k, v). AList.update k v) hs d = d @ hs"
proof (induction hs arbitrary: d)
  case (Cons h hs)
  obtain k v where h: "h = (k, v)" by (cases h)
  have new: "AList.update k v d = d @ [(k, v)]"
    using Cons.prems(2) h by (induction d) auto
  have "fold (\<lambda>(k, v). AList.update k v) hs (d @ [(k, v)]) = (d @ [(k, v)]) @ hs"
    by (rule Cons.IH) (use Cons.prems h in \<open>auto simp: image_iff\<close>)
  then show ?case by (simp add: h new)
qed simp

lemma last_values_distinct: "distinct (map fst hs) \<Longrightarrow> last_values hs = hs"
  by (simp add: last_values_def last_values_fold)

section \<open>Properties\<close>

lemma released_passes:
  "slots_released held \<Longrightarrow> mw_on_request http call before held req = Inr req"
  "slots_released held \<Longrightarrow> mw_on_response http call before held resp = Inr resp"
  by (simp_all add: slots_released_def mw_on_request_def mw_on_response_def)

lemma apply_return_id [simp]:
  "apply_return_request http ReturnNone req = req"
  "apply_return_request http ReturnOther req = req"
  "apply_return_request http (ReturnDict Missing Missing) req = req"
  by simp_all

text \<open>A middleware callback that returns the dict it was given, unchanged, leaves method and
  URL alone and collapses repeated header names to their last value: the dict it sees has one
  entry per name. With no repeated name the request goes through untouched.\<close>
lemma identity_callback_request:
  assumes "slot_on_request before = Some f" and "slot_on_request held = Some f"
    and "\<And>m u d. call f (RequestArg m u d) = Inr (ReturnDict (Item u) (Item (as_returned d)))"
    and "header_law http (req_headers req)"
  shows "mw_on_request http call before held req =
           Inr (req\<lparr>req_headers := last_values (req_headers req)\<rparr>) \<and>
         (distinct (map fst (req_headers req)) \<longrightarrow>
           mw_on_request http call before held req = Inr req)"
  using assms by (simp add: mw_on_request_def returned_headers last_values_distinct)

end
