(* ===== verification/Interfaces.thy ===== *)
theory Interfaces imports Prelude begin

text \<open>
  The contracts several components share, as locales: facts no step undoes, and state machines that come
  to an end. Each is interpreted on the definitions of the components that rely on it.
\<close>

text \<open>A fact about a state that no step undoes.\<close>

locale absorbing =
  fixes move :: "'s \<Rightarrow> 's \<Rightarrow> bool" and holds :: "'s \<Rightarrow> bool"
  assumes keeps: "move s t \<Longrightarrow> holds s \<Longrightarrow> holds t"
begin

lemma forever: "move\<^sup>*\<^sup>* s t \<Longrightarrow> holds s \<Longrightarrow> holds t"
  by (induction rule: rtranclp_induct) (auto intro: keeps)

end

text \<open>
  A state machine that, once \<open>over\<close>, answers every input \<open>e\<close> with \<open>final e\<close> and changes no more: an
  exhausted iterator, a consumed body, a released guard.
\<close>

locale exhaustible =
  fixes poll :: "'s \<Rightarrow> 'e \<Rightarrow> 'o \<times> 's" and over :: "'s \<Rightarrow> bool" and final :: "'e \<Rightarrow> 'o"
  assumes over_stays: "over s \<Longrightarrow> poll s e = (final e, s)"
begin

lemma over_forever: "over s \<Longrightarrow> run_polls poll s es = map final es"
  by (induction es) (simp_all add: over_stays)

end

sublocale exhaustible \<subseteq> runs: absorbing "\<lambda>s t. \<exists>e. t = snd (poll s e)" over
  by unfold_locales (auto simp: over_stays)

text \<open>One whose answers tell: after an answer that \<open>ends\<close> it, it is over.\<close>

locale fused = exhaustible poll over final
  for poll :: "'s \<Rightarrow> 'e \<Rightarrow> 'o \<times> 's" and over :: "'s \<Rightarrow> bool" and final :: "'e \<Rightarrow> 'o" +
  fixes ends :: "'e \<Rightarrow> 'o \<Rightarrow> bool"
  assumes end_is_over: "poll s e = (out, t) \<Longrightarrow> ends e out \<Longrightarrow> over t"
begin

lemma after_last:
  assumes "i < j" and "j < length es" and "ends (es ! i) (run_polls poll s es ! i)"
  shows "run_polls poll s es ! j = final (es ! j)"
  using assms
proof (induction es arbitrary: s i j)
  case (Cons e es)
  obtain out t where p: "poll s e = (out, t)" by (cases "poll s e")
  obtain j' where j: "j = Suc j'" using Cons.prems(1) by (cases j) auto
  show ?case
  proof (cases i)
    case 0
    then have "over t" using Cons.prems(3) p by (auto intro: end_is_over)
    then show ?thesis using Cons.prems(2) j p by (simp add: over_forever)
  next
    case (Suc i')
    then show ?thesis using Cons.IH [of i' j' t] Cons.prems j p by simp
  qed
qed simp

end

end
