(* ===== verification/Response.thy ===== *)
theory Response imports Middleware Interfaces begin

text \<open>
  \<open>src/src/response.rs\<close>: header maps, redirect records, decoding, and buffered responses with their
  caches. The WHATWG decoders of \<open>encoding_rs\<close>, Python's codec registry and its \<open>json\<close> module are
  parameters. The streaming responses are in \<open>Streaming\<close>.
\<close>

section \<open>Header maps\<close>

type_synonym header_entries = "(string \<times> string) list"

definition find_entry :: "string \<Rightarrow> header_entries \<Rightarrow> string option" where
  "find_entry name entries =
     (let lower = to_ascii_lowercase name in
      map_option snd (List.find (\<lambda>(k, _). to_ascii_lowercase k = lower) entries))"

definition header_getitem :: "header_entries \<Rightarrow> string \<Rightarrow> string result" where
  "header_getitem entries name = ok_or (PyExc KeyError '''' [AStr name]) (find_entry name entries)"

definition header_get :: "header_entries \<Rightarrow> string \<Rightarrow> string option \<Rightarrow> string option" where
  "header_get entries name dflt =
     (case find_entry name entries of Some v \<Rightarrow> Some v | None \<Rightarrow> dflt)"

definition header_get_all :: "header_entries \<Rightarrow> string \<Rightarrow> string list" where
  "header_get_all entries name =
     (let lower = to_ascii_lowercase name in
      map snd (filter (\<lambda>(k, _). to_ascii_lowercase k = lower) entries))"

definition header_contains :: "header_entries \<Rightarrow> string \<Rightarrow> bool" where
  "header_contains entries name =
     (let lower = to_ascii_lowercase name in
      list_ex (\<lambda>(k, _). to_ascii_lowercase k = lower) entries)"

definition header_len :: "header_entries \<Rightarrow> nat" where
  "header_len entries = length entries"

definition header_keys :: "header_entries \<Rightarrow> string list" where
  "header_keys entries = map fst entries"

definition header_values :: "header_entries \<Rightarrow> string list" where
  "header_values entries = map snd entries"

definition header_items :: "header_entries \<Rightarrow> (string \<times> string) list" where
  "header_items entries = entries"

text \<open>\<open>dict.set_item\<close> per entry: a repeated name keeps its place and takes the later value.\<close>

definition header_to_dict :: "header_entries \<Rightarrow> (string \<times> string) list" where
  "header_to_dict entries = fold (\<lambda>(k, v). AList.update k v) entries []"

record keys_iter =
  iter_keys :: "string list"
  iter_index :: nat

definition header_iter :: "header_entries \<Rightarrow> keys_iter" where
  "header_iter entries = \<lparr>iter_keys = map fst entries, iter_index = 0\<rparr>"

definition keys_next :: "keys_iter \<Rightarrow> string option \<times> keys_iter" where
  "keys_next it =
     (if iter_index it < length (iter_keys it)
      then (Some (iter_keys it ! iter_index it), it\<lparr>iter_index := iter_index it + 1\<rparr>)
      else (None, it))"

text \<open>Upstream's headers as strings: a value that is not visible ASCII becomes the empty string.\<close>

definition text_headers :: "http_api \<Rightarrow> header_map \<Rightarrow> header_entries" where
  "text_headers http hs =
     map (\<lambda>(k, v). (k, case header_to_str http v of Some s \<Rightarrow> s | None \<Rightarrow> '''')) hs"

record redirect_record =
  rr_url :: string
  rr_status_code :: u16
  rr_headers :: header_entries
  rr_redirect_to :: string

record upstream_redirect =
  ur_url :: string
  ur_status :: u16
  ur_headers :: header_map
  ur_redirect_to :: string

definition redirect_from_rust :: "http_api \<Rightarrow> upstream_redirect \<Rightarrow> redirect_record" where
  "redirect_from_rust http r =
     \<lparr>rr_url = ur_url r, rr_status_code = ur_status r, rr_headers = text_headers http (ur_headers r),
      rr_redirect_to = ur_redirect_to r\<rparr>"

section \<open>Decoding\<close>

text \<open>
  \<open>for_label\<close> and \<open>decode\<close> are \<open>encoding_rs\<close>'s, \<open>'enc\<close> its encodings; \<open>py_decode\<close> is
  \<open>bytes.decode(codec, "replace")\<close> with the downcast of its result, \<open>json_loads n\<close> is the \<open>n\<close>th call of
  \<open>json.loads\<close>, which makes a new object each time, and \<open>json_class\<close> the registered exception class.
\<close>

record 'enc codecs =
  for_label :: "bytes \<Rightarrow> 'enc option"
  utf_8 :: 'enc
  decode_bytes :: "'enc \<Rightarrow> bytes \<Rightarrow> string"
  py_decode :: "bytes \<Rightarrow> string \<Rightarrow> string result"
  json_loads :: "nat \<Rightarrow> string \<Rightarrow> json_error + pyobj"
  json_class :: "(string \<Rightarrow> string \<Rightarrow> nat \<Rightarrow> exc result) option"

definition encoding_for_label :: "'enc codecs \<Rightarrow> string \<Rightarrow> 'enc option" where
  "encoding_for_label lib label = for_label lib (into_bytes label)"

definition decode_body :: "'enc codecs \<Rightarrow> 'enc \<Rightarrow> bytes \<Rightarrow> string" where
  "decode_body lib encoding body = decode_bytes lib encoding body"

definition declared_decoder :: "'enc codecs \<Rightarrow> string option \<Rightarrow> 'enc" where
  "declared_decoder lib declared =
     (case Option.bind declared (encoding_for_label lib) of Some e \<Rightarrow> e | None \<Rightarrow> utf_8 lib)"

definition decode_with_codec :: "'enc codecs \<Rightarrow> bytes \<Rightarrow> string \<Rightarrow> string result" where
  "decode_with_codec lib body codec = py_decode lib body codec"

definition decode_text ::
  "'enc codecs \<Rightarrow> bytes \<Rightarrow> string option \<Rightarrow> string option \<Rightarrow> string result" where
  "decode_text lib body declared encoding =
     (case encoding of
        Some codec \<Rightarrow> decode_with_codec lib body codec
      | None \<Rightarrow> Inr (decode_body lib (declared_decoder lib declared) body))"

text \<open>The two loops of \<open>parse_encoding\<close>; the first parameter that qualifies is returned.\<close>

fun charset_of_parts :: "string list \<Rightarrow> string option" where
  "charset_of_parts [] = None"
| "charset_of_parts (part # parts) =
     (case strip_prefix ''charset='' (trim part) of
        Some charset \<Rightarrow> Some (trim (trim_by (\<lambda>c. c = CHR 0x22) charset))
      | None \<Rightarrow> charset_of_parts parts)"

fun parse_encoding :: "header_entries \<Rightarrow> string option" where
  "parse_encoding [] = None"
| "parse_encoding ((k, v) # hs) =
     (if eq_ignore_ascii_case k ''content-type''
      then case charset_of_parts (split_on CHR '';'' v) of
             Some charset \<Rightarrow> Some charset
           | None \<Rightarrow> parse_encoding hs
      else parse_encoding hs)"

section \<open>Buffered responses\<close>

text \<open>The upstream response, as the code reads it. The version and the diagnostics pass through.\<close>

record ('v, 'd) upstream_resp =
  u_status :: u16
  u_headers :: header_map
  u_url :: string
  u_version :: 'v
  u_cookies :: "(string \<times> string) list"
  u_content_length :: "u64 option"
  u_redirects :: "upstream_redirect list"
  u_bytes :: bytes

record ('v, 'd) py_response =
  r_status_code :: u16
  r_headers :: header_entries
  r_url :: string
  r_version :: 'v
  r_cookies :: "(string \<times> string) list"
  r_content_length :: "u64 option"
  r_body :: bytes
  r_encoding :: "string option"
  r_elapsed :: f64
  r_history :: "redirect_record list"
  r_diagnostics :: 'd
  cached_text :: "string option"
  cached_json :: "pyobj option"

definition from_response ::
  "http_api \<Rightarrow> ('v0 \<Rightarrow> 'v) \<Rightarrow> ('v0, 'd) upstream_resp \<Rightarrow> f64 \<Rightarrow> 'd \<Rightarrow> ('v, 'd) py_response" where
  "from_response http version_from resp elapsed diagnostics =
     (let headers = text_headers http (u_headers resp) in
      \<lparr>r_status_code = u_status resp, r_headers = headers, r_url = u_url resp,
       r_version = version_from (u_version resp), r_cookies = u_cookies resp,
       r_content_length = u_content_length resp, r_body = u_bytes resp,
       r_encoding = parse_encoding headers, r_elapsed = elapsed,
       r_history = map (redirect_from_rust http) (u_redirects resp), r_diagnostics = diagnostics,
       cached_text = None, cached_json = None\<rparr>)"

text \<open>\<open>OnceLock::set\<close>: the first value stays.\<close>

fun once_set :: "'a option \<Rightarrow> 'a \<Rightarrow> 'a option" where
  "once_set None v = Some v"
| "once_set (Some old) v = Some old"

definition response_text ::
  "'enc codecs \<Rightarrow> string option \<Rightarrow> ('v, 'd) py_response \<Rightarrow> string result \<times> ('v, 'd) py_response" where
  "response_text lib encoding self =
     (case encoding of
        Some codec \<Rightarrow> (decode_with_codec lib (r_body self) codec, self)
      | None \<Rightarrow>
          (case cached_text self of
             Some cached \<Rightarrow> (Inr cached, self)
           | None \<Rightarrow>
               let text = decode_body lib (declared_decoder lib (r_encoding self)) (r_body self) in
               (Inr text, self\<lparr>cached_text := once_set (cached_text self) text\<rparr>)))"

text \<open>The state of \<open>json\<close> is the response with the number of \<open>json.loads\<close> calls made so far.\<close>

definition response_json ::
  "'enc codecs \<Rightarrow> nat \<times> ('v, 'd) py_response \<Rightarrow> pyobj result \<times> nat \<times> ('v, 'd) py_response" where
  "response_json lib st =
     (let (n, self) = st in
      case cached_json self of
        Some cached \<Rightarrow> (Inr cached, n, self)
      | None \<Rightarrow>
          (case response_text lib None self of
             (Inl e, self) \<Rightarrow> (Inl e, n, self)
           | (Inr text, self) \<Rightarrow>
               (case json_loads lib n text of
                  Inl e \<Rightarrow> (Inl (to_json_py_err (json_class lib) e), n + 1, self)
                | Inr res \<Rightarrow> (Inr res, n + 1, self\<lparr>cached_json := once_set (cached_json self) res\<rparr>))))"

definition error_for_status :: "('v, 'd) py_response \<Rightarrow> unit result" where
  "error_for_status self =
     (if r_status_code self \<ge> 400
      then raise_with HttpStatusError '' for url: '' [ANat (unat (r_status_code self)), AStr (r_url self)]
      else Inr ())"

text \<open>The getters that hand out a field.\<close>

definition response_line :: "('v, 'd) py_response \<Rightarrow> u16 \<times> string \<times> 'v \<times> u64 option \<times> header_entries" where
  "response_line self =
     (r_status_code self, r_url self, r_version self, r_content_length self, r_headers self)"

definition response_extras :: "('v, 'd) py_response \<Rightarrow> string option \<times> f64 \<times> redirect_record list" where
  "response_extras self = (r_encoding self, r_elapsed self, r_history self)"

definition response_ok :: "('v, 'd) py_response \<Rightarrow> bool" where
  "response_ok self = (r_status_code self < 400)"

definition was_redirected :: "('v, 'd) py_response \<Rightarrow> bool" where
  "was_redirected self = (r_history self \<noteq> [])"

definition response_bool :: "('v, 'd) py_response \<Rightarrow> bool" where
  "response_bool self = (r_status_code self < 400)"

definition response_len :: "('v, 'd) py_response \<Rightarrow> nat" where
  "response_len self = length (r_body self)"

definition response_cookies :: "('v, 'd) py_response \<Rightarrow> (string \<times> string) list" where
  "response_cookies self = fold (\<lambda>(k, v). AList.update k v) (r_cookies self) []"

definition response_headers_list :: "('v, 'd) py_response \<Rightarrow> (string \<times> string) list" where
  "response_headers_list self = r_headers self"

definition response_content :: "('v, 'd) py_response \<Rightarrow> bytes" where
  "response_content self = r_body self"

text \<open>
  Upstream's diagnostics, as the code reads them, and the dict made of them. A duration in milliseconds
  that was not measured is absent.
\<close>

record request_diagnostics =
  d_dns_ms :: "u64 option"
  d_tcp_ms :: "u64 option"
  d_tls_ms :: "u64 option"
  d_ttfb_ms :: "u64 option"
  d_total_ms :: "u64 option"
  d_remote_addr :: "string option"
  d_protocol :: "string option"
  d_cipher_suite :: "string option"

datatype diag_value = DiagMs "u64 option" | DiagStr "string option"

definition response_diagnostics ::
  "('v, request_diagnostics) py_response \<Rightarrow> (string \<times> diag_value) list" where
  "response_diagnostics self =
     (let diag = r_diagnostics self in
      fold (\<lambda>(k, v). AList.update k v)
        [(''dns_ms'', DiagMs (d_dns_ms diag)), (''tcp_ms'', DiagMs (d_tcp_ms diag)),
         (''tls_ms'', DiagMs (d_tls_ms diag)), (''ttfb_ms'', DiagMs (d_ttfb_ms diag)),
         (''total_ms'', DiagMs (d_total_ms diag)), (''remote_addr'', DiagStr (d_remote_addr diag)),
         (''protocol'', DiagStr (d_protocol diag)), (''cipher_suite'', DiagStr (d_cipher_suite diag))] [])"

section \<open>Representations\<close>

fun join_with :: "string \<Rightarrow> string list \<Rightarrow> string" where
  "join_with sep [] = []"
| "join_with sep [s] = s"
| "join_with sep (s # ss) = s @ sep @ join_with sep ss"

definition header_repr :: "header_entries \<Rightarrow> string" where
  "header_repr entries =
     ''HeaderMap({'' @ join_with '', '' (map (\<lambda>(k, v). k @ '': '' @ v) entries) @ ''})''"

definition header_str :: "header_entries \<Rightarrow> string" where
  "header_str entries = header_repr entries"

definition redirect_repr :: "redirect_record \<Rightarrow> string" where
  "redirect_repr r = ''<RedirectRecord '' @ show_nat (unat (rr_status_code r)) @ '' '' @ rr_url r @
     '' -> '' @ rr_redirect_to r @ ''>''"

definition response_repr :: "('v, 'd) py_response \<Rightarrow> string" where
  "response_repr self = ''<Response ['' @ show_nat (unat (r_status_code self)) @ '']>''"

text \<open>
  The buffer protocol: what is put in the view, or the error. \<open>PyBUF_WRITABLE\<close> is 1 and \<open>PyBUF_FORMAT\<close>
  is 4.
\<close>

record buffer_view =
  buf_bytes :: bytes
  buf_readonly :: bool
  buf_itemsize :: nat
  buf_format :: "string option"
  buf_shape :: "nat list"

unbundle bit_operations_syntax

definition get_buffer :: "bool \<Rightarrow> 32 word \<Rightarrow> ('v, 'd) py_response \<Rightarrow> buffer_view result" where
  "get_buffer view_is_null flags self =
     (if view_is_null then raise BufferError ''null Py_buffer''
      else if flags AND 1 \<noteq> 0 then raise BufferError ''Response buffer is read-only''
      else Inr \<lparr>buf_bytes = r_body self, buf_readonly = True, buf_itemsize = 1,
                buf_format = (if flags AND 4 \<noteq> 0 then Some ''B'' else None),
                buf_shape = [length (r_body self)]\<rparr>)"


section \<open>Lemmas\<close>

lemma find_filter: "List.find p xs = (case filter p xs of [] \<Rightarrow> None | x # _ \<Rightarrow> Some x)"
  by (induction xs) auto

lemma header_get_all_find:
  "find_entry name es = (case header_get_all es name of [] \<Rightarrow> None | v # _ \<Rightarrow> Some v)"
  by (simp add: find_entry_def header_get_all_def find_filter Let_def split: list.split)

lemma keys_next_run:
  "run_polls (\<lambda>it _. keys_next it) \<lparr>iter_keys = ks, iter_index = i\<rparr> (replicate n ()) =
     map Some (take n (drop i ks)) @ replicate (n - (length ks - i)) None"
proof (induction n arbitrary: i)
  case (Suc n)
  show ?case
  proof (cases "i < length ks")
    case True
    then have "drop i ks = ks ! i # drop (Suc i) ks" by (rule Cons_nth_drop_Suc [symmetric])
    moreover have "Suc n - (length ks - i) = n - (length ks - Suc i)" using True by simp
    ultimately show ?thesis using True Suc.IH [of "Suc i"] by (simp add: keys_next_def)
  next
    case False
    then show ?thesis using Suc.IH [of i] by (simp add: keys_next_def)
  qed
qed simp

lemma split_on_none: "d \<notin> set a \<Longrightarrow> split_on d a = [a]"
  by (induction a) auto

lemma split_on_append: "d \<notin> set a \<Longrightarrow> split_on d (a @ d # b) = a # split_on d b"
  by (induction a) auto

lemma trim_by_keep:
  assumes "s \<noteq> [] \<Longrightarrow> \<not> w (hd s) \<and> \<not> w (last s)"
  shows "trim_by w s = s"
proof (cases s)
  case (Cons c cs)
  then have "dropWhile w s = s" using assms by simp
  moreover have "dropWhile w (rev s) = rev s"
    using assms by (cases "s = []") (simp_all add: dropWhile_eq_self_iff hd_rev)
  ultimately show ?thesis by (simp add: trim_by_def)
qed (simp add: trim_by_def)

lemma trim_by_left: "w c \<Longrightarrow> trim_by w (c # s) = trim_by w s"
  by (simp add: trim_by_def)

text \<open>A charset label as servers send it: non-empty, without quotes, semicolons and white space.\<close>

definition label_char :: "char \<Rightarrow> bool" where
  "label_char c \<longleftrightarrow> c \<noteq> CHR '';'' \<and> c \<noteq> CHR 0x22 \<and> \<not> is_ascii_whitespace c"

lemma charset_part:
  assumes "list_all label_char label" and "label \<noteq> []"
  shows "charset_of_parts [CHR '' '' # ''charset='' @ label] = Some label"
    and "charset_of_parts [CHR '' '' # ''charset='' @ CHR 0x22 # label @ [CHR 0x22]] = Some label"
    and "charset_of_parts [CHR '' '' # ''Charset='' @ label] = None"
proof -
  have ends: "label_char (hd label)" "label_char (last label)"
    using assms by (auto simp: list_all_iff)
  have lead: "trim (CHR '' '' # s) = trim s" for s
    by (simp add: trim_def trim_by_left is_ascii_whitespace_def)
  have keep: "trim s = s" if "s \<noteq> []" "\<not> is_ascii_whitespace (hd s)" "\<not> is_ascii_whitespace (last s)" for s
    unfolding trim_def using that by (intro trim_by_keep) simp
  have quote: "trim_by (\<lambda>c. c = CHR 0x22) label = label"
    using ends by (intro trim_by_keep) (simp add: label_char_def)
  have unquote: "trim_by (\<lambda>c. c = CHR 0x22) (CHR 0x22 # label @ [CHR 0x22]) = label"
  proof -
    have "dropWhile (\<lambda>c. c = CHR 0x22) (label @ [CHR 0x22]) = label @ [CHR 0x22]"
      using ends(1) assms(2) by (cases label) (auto simp: label_char_def)
    moreover have "dropWhile (\<lambda>c. c = CHR 0x22) (rev label) = rev label"
      using ends(2) assms(2)
      by (simp add: dropWhile_eq_self_iff hd_rev label_char_def)
    ultimately show ?thesis by (simp add: trim_by_def)
  qed
  have label: "trim label = label"
    using ends assms(2) by (intro keep) (simp_all add: label_char_def)
  have ws: "\<not> is_ascii_whitespace CHR ''c''" "\<not> is_ascii_whitespace CHR ''C''" "\<not> is_ascii_whitespace CHR 0x22"
    by (simp_all add: is_ascii_whitespace_def)
  have last: "last (p @ label) = last label" for p using assms(2) by simp
  show "charset_of_parts [CHR '' '' # ''charset='' @ label] = Some label"
    using keep [of "''charset='' @ label"] ends(2) ws assms(2)
    by (simp add: lead quote label label_char_def)
  show "charset_of_parts [CHR '' '' # ''charset='' @ CHR 0x22 # label @ [CHR 0x22]] = Some label"
    using keep [of "''charset='' @ CHR 0x22 # label @ [CHR 0x22]"] ws
    by (simp add: lead unquote label)
  show "charset_of_parts [CHR '' '' # ''Charset='' @ label] = None"
    using keep [of "''Charset='' @ label"] ends(2) ws assms(2)
    by (simp add: lead label_char_def)
qed


section \<open>The caches\<close>

datatype resp_op = OpText "string option" | OpJson

datatype resp_answer = TextIs "string result" | JsonIs "pyobj result"

fun response_op ::
  "'enc codecs \<Rightarrow> nat \<times> ('v, 'd) py_response \<Rightarrow> resp_op \<Rightarrow> resp_answer \<times> nat \<times> ('v, 'd) py_response" where
  "response_op lib (n, self) (OpText encoding) =
     (let (r, self) = response_text lib encoding self in (TextIs r, n, self))"
| "response_op lib (n, self) OpJson =
     (let (r, n, self) = response_json lib (n, self) in (JsonIs r, n, self))"

text \<open>The specification: a response without caches, whose only state is the object \<open>json\<close> returned.\<close>

fun response_spec ::
  "'enc codecs \<Rightarrow> bytes \<Rightarrow> string option \<Rightarrow> nat \<times> pyobj option \<Rightarrow> resp_op \<Rightarrow> resp_answer \<times> nat \<times> pyobj option"
where
  "response_spec lib body declared (n, ob) (OpText encoding) =
     (TextIs (decode_text lib body declared encoding), n, ob)"
| "response_spec lib body declared (n, Some ob) OpJson = (JsonIs (Inr ob), n, Some ob)"
| "response_spec lib body declared (n, None) OpJson =
     (case json_loads lib n (decode_body lib (declared_decoder lib declared) body) of
        Inl e \<Rightarrow> (JsonIs (Inl (to_json_py_err (json_class lib) e)), n + 1, None)
      | Inr ob \<Rightarrow> (JsonIs (Inr ob), n + 1, Some ob))"

text \<open>The invariant: the text cache is empty or holds what a new decode would give.\<close>

definition text_cache_ok :: "'enc codecs \<Rightarrow> ('v, 'd) py_response \<Rightarrow> bool" where
  "text_cache_ok lib r \<longleftrightarrow>
     cached_text r = None \<or>
     cached_text r = Some (decode_body lib (declared_decoder lib (r_encoding r)) (r_body r))"

lemma response_step:
  assumes "text_cache_ok lib r" and "response_op lib (n, r) op = (ans, m, r')"
  shows "response_spec lib (r_body r) (r_encoding r) (n, cached_json r) op = (ans, m, cached_json r')"
    and "text_cache_ok lib r'" and "r_body r' = r_body r" and "r_encoding r' = r_encoding r"
proof -
  have decoded: "response_text lib None r =
      (Inr (decode_body lib (declared_decoder lib (r_encoding r)) (r_body r)),
       r\<lparr>cached_text := Some (decode_body lib (declared_decoder lib (r_encoding r)) (r_body r))\<rparr>)"
    using assms(1) by (auto simp: response_text_def text_cache_ok_def Let_def)
  have "response_spec lib (r_body r) (r_encoding r) (n, cached_json r) op = (ans, m, cached_json r') \<and>
      text_cache_ok lib r' \<and> r_body r' = r_body r \<and> r_encoding r' = r_encoding r"
  proof (cases op)
    case (OpText encoding)
    then show ?thesis
      using assms decoded
      by (cases encoding) (auto simp: decode_text_def response_text_def [of _ "Some _"] text_cache_ok_def)
  next
    case OpJson
    then show ?thesis
      using assms decoded
      by (cases "cached_json r")
         (auto simp: response_json_def text_cache_ok_def Let_def split: sum.splits)
  qed
  then show "response_spec lib (r_body r) (r_encoding r) (n, cached_json r) op = (ans, m, cached_json r')"
    and "text_cache_ok lib r'" and "r_body r' = r_body r" and "r_encoding r' = r_encoding r" by auto
qed

lemma response_refines:
  "text_cache_ok lib r \<Longrightarrow>
     run_polls (response_op lib) (n, r) ops =
     run_polls (response_spec lib (r_body r) (r_encoding r)) (n, cached_json r) ops"
proof (induction ops arbitrary: n r)
  case (Cons op ops)
  obtain ans m r' where o: "response_op lib (n, r) op = (ans, m, r')" by (metis prod_cases3)
  show ?case using response_step [OF Cons.prems o] Cons.IH [of r' m] o by simp
qed simp

lemma json_stays:
  "j < length ops \<Longrightarrow> ops ! j = OpJson \<Longrightarrow>
     run_polls (response_spec lib body declared) (n, Some ob) ops ! j = JsonIs (Inr ob)"
proof (induction ops arbitrary: n j)
  case (Cons op ops)
  then show ?case by (cases op; cases j) auto
qed simp

lemma json_once:
  assumes "i < j" and "j < length ops" and "ops ! i = OpJson" and "ops ! j = OpJson"
    and "run_polls (response_spec lib body declared) (n, ob) ops ! i = JsonIs (Inr v)"
  shows "run_polls (response_spec lib body declared) (n, ob) ops ! j = JsonIs (Inr v)"
  using assms
proof (induction ops arbitrary: n ob i j)
  case (Cons op ops)
  obtain ans m ob' where o: "response_spec lib body declared (n, ob) op = (ans, m, ob')"
    by (metis prod_cases3)
  obtain j' where j: "j = Suc j'" using Cons.prems(1) by (cases j) auto
  show ?case
  proof (cases i)
    case 0
    then have "ob' = Some v"
      using Cons.prems o by (cases ob) (auto split: sum.splits)
    then show ?thesis using Cons.prems j o by (simp add: json_stays)
  next
    case (Suc i')
    then show ?thesis using Cons.IH [of i' j' m ob'] Cons.prems j o by simp
  qed
qed simp

section \<open>Properties\<close>

text \<open>The ways to read a header map agree, whatever the case of the name asked for: \<open>[]\<close> and \<open>get\<close> give the
  first of the values \<open>get_all\<close> gives, in order of arrival, and \<open>in\<close> whether there is one; iterating gives
  every name in order, repeated names repeatedly, and then ends for good.\<close>
lemma header_map_agrees:
  "header_getitem es name =
     (case header_get_all es name of [] \<Rightarrow> raise_with KeyError '''' [AStr name] | v # _ \<Rightarrow> Inr v) \<and>
   header_get es name dflt = (case header_get_all es name of [] \<Rightarrow> dflt | v # _ \<Rightarrow> Some v) \<and>
   header_contains es name = (header_get_all es name \<noteq> []) \<and>
   header_get_all es name = header_get_all es (to_ascii_lowercase name) \<and>
   run_polls (\<lambda>it _. keys_next it) (header_iter es) (replicate n ()) =
     map Some (take n (header_keys es)) @ replicate (n - header_len es) None"
proof (intro conjI)
  show "header_getitem es name =
     (case header_get_all es name of [] \<Rightarrow> raise_with KeyError '''' [AStr name] | v # _ \<Rightarrow> Inr v)"
    by (simp add: header_getitem_def header_get_all_find split: list.split)
  show "header_get es name dflt = (case header_get_all es name of [] \<Rightarrow> dflt | v # _ \<Rightarrow> Some v)"
    by (simp add: header_get_def header_get_all_find split: list.split)
  show "header_contains es name = (header_get_all es name \<noteq> [])"
    by (auto simp: header_contains_def header_get_all_def list_ex_iff Let_def filter_empty_conv)
  show "header_get_all es name = header_get_all es (to_ascii_lowercase name)"
    by (simp add: header_get_all_def)
  show "run_polls (\<lambda>it _. keys_next it) (header_iter es) (replicate n ()) =
     map Some (take n (header_keys es)) @ replicate (n - header_len es) None"
    using keys_next_run [of "map fst es" 0 n] by (simp add: header_iter_def header_keys_def header_len_def)
qed

text \<open>C12: The caches of a response are transparent: under any sequence of \<open>text\<close> and \<open>json\<close> calls every
  answer is that of a response without a text cache, \<open>encoding=\<close> leaves no trace, and an object \<open>json\<close> has
  returned is returned by every later \<open>json\<close>, without parsing again; a failure is not cached.\<close>
theorem response_caches_transparent:
  "run_polls (response_op lib) (n, from_response http vf resp elapsed diag) ops =
     run_polls (response_spec lib (u_bytes resp) (parse_encoding (text_headers http (u_headers resp)))) (n, None) ops \<and>
   (i < j \<and> j < length ops \<and> ops ! i = OpJson \<and> ops ! j = OpJson \<and>
    run_polls (response_op lib) (n, from_response http vf resp elapsed diag) ops ! i = JsonIs (Inr v) \<longrightarrow>
    run_polls (response_op lib) (n, from_response http vf resp elapsed diag) ops ! j = JsonIs (Inr v))"
proof -
  have "run_polls (response_op lib) (n, from_response http vf resp elapsed diag) ops =
     run_polls (response_spec lib (u_bytes resp) (parse_encoding (text_headers http (u_headers resp)))) (n, None) ops"
    by (subst response_refines) (simp_all add: text_cache_ok_def from_response_def Let_def)
  then show ?thesis using json_once by metis
qed

text \<open>C32: A declared charset is found, quoted or not, under any case of the header name and after any media
  type; but only if the parameter is spelt in lower case: \<open>Charset=\<close> is not, and the body is decoded as
  UTF-8, although parameter names are case-insensitive.\<close>
theorem charset_found:
  assumes "eq_ignore_ascii_case k ''content-type''" and "CHR '';'' \<notin> set mime"
    and "strip_prefix ''charset='' (trim mime) = None" and "list_all label_char label" and "label \<noteq> []"
  shows "parse_encoding ((k, mime @ ''; charset='' @ label) # hs) = Some label \<and>
    parse_encoding ((k, mime @ ''; charset='' @ CHR 0x22 # label @ [CHR 0x22]) # hs) = Some label \<and>
    parse_encoding [(k, mime @ ''; Charset='' @ label)] = None \<and>
    declared_decoder lib (parse_encoding [(k, mime @ ''; Charset='' @ label)]) = utf_8 lib"
proof -
  have l: "CHR '';'' \<notin> set label" using assms(4) by (auto simp: list_all_iff label_char_def)
  have split: "split_on CHR '';'' (mime @ CHR '';'' # rest) = [mime, rest]" if "CHR '';'' \<notin> set rest" for rest
    using assms(2) that by (simp add: split_on_append split_on_none)
  note part = charset_part [OF assms(4,5)]
  have first: "charset_of_parts [mime, p] = charset_of_parts [p]" for p
    using assms(3) by simp
  show ?thesis
    using assms(1) l
      split [of "CHR '' '' # ''charset='' @ label"]
      split [of "CHR '' '' # ''charset='' @ CHR 0x22 # label @ [CHR 0x22]"]
      split [of "CHR '' '' # ''Charset='' @ label"] first part
    by (simp add: declared_decoder_def del: charset_of_parts.simps)
qed

section \<open>Witnesses\<close>

definition ascii_codecs :: "unit codecs" where
  "ascii_codecs = \<lparr>for_label = (\<lambda>_. Some ()), utf_8 = (),
     decode_bytes = (\<lambda>_ b. map (\<lambda>w. char_of (unat w)) b),
     py_decode = (\<lambda>b c. Inr (map (\<lambda>w. char_of (unat w)) b)),
     json_loads = (\<lambda>n s. Inr 0), json_class = None\<rparr>"

definition sample_response :: "(unit, unit) upstream_resp" where
  "sample_response = \<lparr>u_status = 200, u_headers = [], u_url = ''u'', u_version = (), u_cookies = [],
     u_content_length = None, u_redirects = [], u_bytes = [123, 125]\<rparr>"

definition plain_http :: http_api where
  "plain_http = \<lparr>header_name = Some, header_value = (\<lambda>s. Some (into_bytes s)), header_to_str = (\<lambda>_. None)\<rparr>"

theorem response_caches_transparent_witness:
  "run_polls (response_op ascii_codecs) (0, from_response plain_http id sample_response F64_NaN ())
     [OpJson, OpText None, OpJson] ! 2 = JsonIs (Inr 0)"
proof -
  let ?run = "run_polls (response_op ascii_codecs) (0, from_response plain_http id sample_response F64_NaN ())
     [OpJson, OpText None, OpJson]"
  have "?run ! 0 = JsonIs (Inr 0)"
    by (simp add: from_response_def sample_response_def text_headers_def response_json_def response_text_def
        ascii_codecs_def Let_def)
  with response_caches_transparent [of ascii_codecs 0 plain_http id sample_response F64_NaN "()"
      "[OpJson, OpText None, OpJson]" 0 2 0, THEN conjunct2]
  show ?thesis by (simp del: run_polls.simps)
qed

theorem charset_found_witness:
  "parse_encoding [(''Content-Type'', ''text/html; charset=gbk'')] = Some ''gbk'' \<and>
   parse_encoding [(''Content-Type'', ''text/html; Charset=gbk'')] = None"
proof -
  have "trim ''text/html'' = ''text/html''" by code_simp
  moreover have "eq_ignore_ascii_case ''Content-Type'' ''content-type''" by code_simp
  moreover have "list_all label_char ''gbk''" by code_simp
  ultimately show ?thesis
    using charset_found [of "''Content-Type''" "''text/html''" "''gbk''" "[]" ascii_codecs]
    by (simp del: parse_encoding.simps)
qed

end
