(* ===== verification/Streaming.thy ===== *)
theory Streaming imports Response begin

text \<open>
  \<open>src/src/response.rs\<close>: \<open>StreamingResponse\<close> and \<open>BlockingStreamingResponse\<close>. The upstream stream is a
  parameter; what is modelled is who holds it, until when, and what each operation makes of its answers.
\<close>

section \<open>Streaming responses\<close>

text \<open>
  The upstream stream and its three methods. A streaming response holds it in a mutex until it is
  consumed; an operation holds the lock while it waits, so operations are atomic.
\<close>

record 's stream_api =
  api_chunk :: "'s \<Rightarrow> (lk_error + bytes option) \<times> 's"
  api_chunk_decoded :: "'s \<Rightarrow> (lk_error + bytes option) \<times> 's"
  api_bytes :: "'s \<Rightarrow> lk_error + bytes"

abbreviation consumed :: exc where
  "consumed \<equiv> PyExc RuntimeError ''Stream already consumed'' []"

definition streaming_new :: "'s \<Rightarrow> 's option" where
  "streaming_new resp = Some resp"

text \<open>The two classes: the status and the headers are read off before the stream goes into the mutex.\<close>

record 's streaming_response =
  sr_status_code :: u16
  sr_headers :: header_entries
  sr_inner :: "'s option"

definition streaming_response_new :: "http_api \<Rightarrow> u16 \<Rightarrow> header_map \<Rightarrow> 's \<Rightarrow> 's streaming_response" where
  "streaming_response_new http status headers resp =
     \<lparr>sr_status_code = status, sr_headers = text_headers http headers, sr_inner = streaming_new resp\<rparr>"

definition blocking_streaming_response_new ::
  "http_api \<Rightarrow> u16 \<Rightarrow> header_map \<Rightarrow> 's \<Rightarrow> 's streaming_response" where
  "blocking_streaming_response_new http status headers resp =
     \<lparr>sr_status_code = status, sr_headers = text_headers http headers, sr_inner = Some resp\<rparr>"

definition streaming_getters :: "'s streaming_response \<Rightarrow> u16 \<times> header_entries" where
  "streaming_getters self = (sr_status_code self, sr_headers self)"

definition blocking_streaming_getters :: "'s streaming_response \<Rightarrow> u16 \<times> header_entries" where
  "blocking_streaming_getters self = (sr_status_code self, sr_headers self)"

definition streaming_chunk ::
  "'s stream_api \<Rightarrow> error_api \<Rightarrow> 's option \<Rightarrow> bytes option result \<times> 's option" where
  "streaming_chunk api err guard =
     (case guard of
        None \<Rightarrow> (Inl consumed, None)
      | Some stream \<Rightarrow>
          (case api_chunk api stream of
             (Inr (Some chunk), stream) \<Rightarrow> (Inr (Some chunk), Some stream)
           | (Inr None, stream) \<Rightarrow> (Inr None, None)
           | (Inl e, stream) \<Rightarrow> (Inl (to_py_err err e), Some stream)))"

definition streaming_chunk_decoded ::
  "'s stream_api \<Rightarrow> error_api \<Rightarrow> 's option \<Rightarrow> bytes option result \<times> 's option" where
  "streaming_chunk_decoded api err guard =
     (case guard of
        None \<Rightarrow> (Inl consumed, None)
      | Some stream \<Rightarrow>
          (case api_chunk_decoded api stream of
             (Inr (Some chunk), stream) \<Rightarrow> (Inr (Some chunk), Some stream)
           | (Inr None, stream) \<Rightarrow> (Inr None, None)
           | (Inl e, stream) \<Rightarrow> (Inl (to_py_err err e), Some stream)))"

definition streaming_bytes ::
  "'s stream_api \<Rightarrow> error_api \<Rightarrow> 's option \<Rightarrow> bytes result \<times> 's option" where
  "streaming_bytes api err guard =
     (case guard of
        None \<Rightarrow> (Inl consumed, None)
      | Some stream \<Rightarrow> (map_py_err err (api_bytes api stream), None))"

definition streaming_text ::
  "'enc codecs \<Rightarrow> 's stream_api \<Rightarrow> error_api \<Rightarrow> header_entries \<Rightarrow> string option \<Rightarrow> 's option \<Rightarrow>
   string result \<times> 's option" where
  "streaming_text lib api err headers encoding guard =
     (let declared = parse_encoding headers in
      case guard of
        None \<Rightarrow> (Inl consumed, None)
      | Some stream \<Rightarrow>
          (ok_then (map_py_err err (api_bytes api stream)) (\<lambda>body.
             decode_text lib body declared encoding), None))"

definition streaming_next ::
  "'s stream_api \<Rightarrow> error_api \<Rightarrow> 's option \<Rightarrow> bytes result \<times> 's option" where
  "streaming_next api err guard =
     (case guard of
        None \<Rightarrow> (raise StopAsyncIteration [], None)
      | Some s \<Rightarrow>
          (case api_chunk api s of
             (Inr (Some chunk), s) \<Rightarrow> (Inr chunk, Some s)
           | (Inr None, s) \<Rightarrow> (raise StopAsyncIteration [], None)
           | (Inl e, s) \<Rightarrow> (Inl (to_py_err err e), Some s)))"

section \<open>Blocking streaming responses\<close>

definition blocking_streaming_chunk ::
  "'s stream_api \<Rightarrow> error_api \<Rightarrow> 's option \<Rightarrow> bytes option result \<times> 's option" where
  "blocking_streaming_chunk api err guard =
     (case guard of
        None \<Rightarrow> (Inl consumed, None)
      | Some stream \<Rightarrow>
          (case api_chunk api stream of
             (Inr (Some c), stream) \<Rightarrow> (Inr (Some c), Some stream)
           | (Inr None, stream) \<Rightarrow> (Inr None, None)
           | (Inl e, stream) \<Rightarrow> (Inl (to_py_err err e), Some stream)))"

definition blocking_streaming_chunk_decoded ::
  "'s stream_api \<Rightarrow> error_api \<Rightarrow> 's option \<Rightarrow> bytes option result \<times> 's option" where
  "blocking_streaming_chunk_decoded api err guard =
     (case guard of
        None \<Rightarrow> (Inl consumed, None)
      | Some stream \<Rightarrow>
          (case api_chunk_decoded api stream of
             (Inr (Some c), stream) \<Rightarrow> (Inr (Some c), Some stream)
           | (Inr None, stream) \<Rightarrow> (Inr None, None)
           | (Inl e, stream) \<Rightarrow> (Inl (to_py_err err e), Some stream)))"

definition blocking_streaming_bytes ::
  "'s stream_api \<Rightarrow> error_api \<Rightarrow> 's option \<Rightarrow> bytes result \<times> 's option" where
  "blocking_streaming_bytes api err guard =
     (case guard of
        None \<Rightarrow> (Inl consumed, None)
      | Some stream \<Rightarrow> (map_py_err err (api_bytes api stream), None))"

text \<open>Here the headers are parsed after the body is read.\<close>

definition blocking_streaming_text ::
  "'enc codecs \<Rightarrow> 's stream_api \<Rightarrow> error_api \<Rightarrow> header_entries \<Rightarrow> string option \<Rightarrow> 's option \<Rightarrow>
   string result \<times> 's option" where
  "blocking_streaming_text lib api err headers encoding guard =
     (let (body, guard) =
        (case guard of
           None \<Rightarrow> (Inl consumed, None)
         | Some stream \<Rightarrow> (map_py_err err (api_bytes api stream), None)) in
      (ok_then body (\<lambda>body. decode_text lib body (parse_encoding headers) encoding), guard))"

definition blocking_streaming_next ::
  "'s stream_api \<Rightarrow> error_api \<Rightarrow> 's option \<Rightarrow> bytes result \<times> 's option" where
  "blocking_streaming_next api err guard =
     (case guard of
        None \<Rightarrow> (raise StopIteration [], None)
      | Some s \<Rightarrow>
          (case api_chunk api s of
             (Inr (Some c), s) \<Rightarrow> (Inr c, Some s)
           | (Inr None, s) \<Rightarrow> (raise StopIteration [], None)
           | (Inl e, s) \<Rightarrow> (Inl (to_py_err err e), Some s)))"

section \<open>The interface of iteration\<close>

datatype stream_op =
  OpChunk | OpChunkDecoded | OpBytes | OpStreamText "string option" | OpNext

datatype stream_answer =
  ChunkIs "bytes option result" | BytesAre "bytes result" | StrIs "string result"

fun streaming_op ::
  "'enc codecs \<Rightarrow> 's stream_api \<Rightarrow> error_api \<Rightarrow> header_entries \<Rightarrow> 's option \<Rightarrow> stream_op \<Rightarrow>
   stream_answer \<times> 's option" where
  "streaming_op lib api err hs g OpChunk = map_prod ChunkIs id (streaming_chunk api err g)"
| "streaming_op lib api err hs g OpChunkDecoded = map_prod ChunkIs id (streaming_chunk_decoded api err g)"
| "streaming_op lib api err hs g OpBytes = map_prod BytesAre id (streaming_bytes api err g)"
| "streaming_op lib api err hs g (OpStreamText e) = map_prod StrIs id (streaming_text lib api err hs e g)"
| "streaming_op lib api err hs g OpNext = map_prod BytesAre id (streaming_next api err g)"

fun blocking_streaming_op ::
  "'enc codecs \<Rightarrow> 's stream_api \<Rightarrow> error_api \<Rightarrow> header_entries \<Rightarrow> 's option \<Rightarrow> stream_op \<Rightarrow>
   stream_answer \<times> 's option" where
  "blocking_streaming_op lib api err hs g OpChunk = map_prod ChunkIs id (blocking_streaming_chunk api err g)"
| "blocking_streaming_op lib api err hs g OpChunkDecoded =
     map_prod ChunkIs id (blocking_streaming_chunk_decoded api err g)"
| "blocking_streaming_op lib api err hs g OpBytes = map_prod BytesAre id (blocking_streaming_bytes api err g)"
| "blocking_streaming_op lib api err hs g (OpStreamText e) =
     map_prod StrIs id (blocking_streaming_text lib api err hs e g)"
| "blocking_streaming_op lib api err hs g OpNext = map_prod BytesAre id (blocking_streaming_next api err g)"

text \<open>What a consumed response answers, and the answers that tell that it is consumed.\<close>

fun consumed_answer :: "exc_kind \<Rightarrow> stream_op \<Rightarrow> stream_answer" where
  "consumed_answer stop OpNext = BytesAre (raise stop [])"
| "consumed_answer stop OpBytes = BytesAre (Inl consumed)"
| "consumed_answer stop (OpStreamText e) = StrIs (Inl consumed)"
| "consumed_answer stop _ = ChunkIs (Inl consumed)"

fun consuming :: "exc_kind \<Rightarrow> stream_op \<Rightarrow> stream_answer \<Rightarrow> bool" where
  "consuming stop OpNext out \<longleftrightarrow> out = BytesAre (raise stop [])"
| "consuming stop OpBytes out \<longleftrightarrow> True"
| "consuming stop (OpStreamText e) out \<longleftrightarrow> True"
| "consuming stop _ out \<longleftrightarrow> out = ChunkIs (Inr None)"

lemmas streaming_defs =
  streaming_chunk_def streaming_chunk_decoded_def streaming_bytes_def streaming_text_def streaming_next_def
lemmas blocking_streaming_defs =
  blocking_streaming_chunk_def blocking_streaming_chunk_decoded_def blocking_streaming_bytes_def
  blocking_streaming_text_def blocking_streaming_next_def

interpretation streaming: fused "streaming_op lib api err hs" "\<lambda>g. g = None"
    "consumed_answer StopAsyncIteration" "consuming StopAsyncIteration" for lib api err hs
proof (unfold_locales, goal_cases)
  case (1 s op)
  then show ?case by (cases op) (simp_all add: streaming_defs)
next
  case (2 s op out t)
  then show ?case
    by (cases op) (auto simp: streaming_defs split: option.splits prod.splits sum.splits)
qed

interpretation blocking_streaming: fused "blocking_streaming_op lib api err hs" "\<lambda>g. g = None"
    "consumed_answer StopIteration" "consuming StopIteration" for lib api err hs
proof (unfold_locales, goal_cases)
  case (1 s op)
  then show ?case by (cases op) (simp_all add: blocking_streaming_defs)
next
  case (2 s op out t)
  then show ?case
    by (cases op) (auto simp: blocking_streaming_defs split: option.splits prod.splits sum.splits)
qed

text \<open>The two classes differ in the exception that ends an iteration.\<close>

fun with_stop :: "stream_answer \<Rightarrow> stream_answer" where
  "with_stop (BytesAre (Inl e)) =
     BytesAre (Inl (if kind e = StopAsyncIteration then PyExc StopIteration (message e) (args e) else e))"
| "with_stop out = out"

lemma to_py_err_kept:
  "(if kind (to_py_err err e) = StopAsyncIteration then x else to_py_err err e) = to_py_err err e"
  using to_py_err_not_stop [of err e] by auto

lemma blocking_streaming_step:
  "blocking_streaming_op lib api err hs g op = map_prod with_stop id (streaming_op lib api err hs g op)"
proof (cases op)
  case OpBytes
  then show ?thesis
    by (cases g; cases "api_bytes api (the g)")
       (auto simp: streaming_defs blocking_streaming_defs to_py_err_kept)
next
  case OpNext
  then show ?thesis
    by (auto simp: streaming_defs blocking_streaming_defs to_py_err_kept
        split: option.splits prod.splits sum.splits)
qed (auto simp: streaming_defs blocking_streaming_defs Let_def split: option.splits prod.splits sum.splits)

section \<open>Iterating\<close>

text \<open>The upstream stream gives the chunks \<open>cs\<close> and then ends.\<close>

inductive yields :: "'s stream_api \<Rightarrow> 's \<Rightarrow> bytes list \<Rightarrow> bool" for api where
  ended: "api_chunk api s = (Inr None, t) \<Longrightarrow> yields api s []"
| chunk: "api_chunk api s = (Inr (Some c), t) \<Longrightarrow> yields api t cs \<Longrightarrow> yields api s (c # cs)"

inductive_cases yields_NilE: "yields api s []"
inductive_cases yields_ConsE: "yields api s (c # cs)"

text \<open>
  Python's \<open>async for\<close> and \<open>for\<close> over a response: \<open>__anext__\<close> or \<open>__next__\<close> until it raises. The chunks, the
  exception that ended the loop, and the response after it; \<open>None\<close> if it never ends.
\<close>

partial_function (option) for_loop ::
  "('g \<Rightarrow> bytes result \<times> 'g) \<Rightarrow> 'g \<Rightarrow> bytes list \<Rightarrow> (bytes list \<times> exc \<times> 'g) option" where
  "for_loop next_item g got =
     (case next_item g of
        (Inl e, g) \<Rightarrow> Some (got, e, g)
      | (Inr c, g) \<Rightarrow> for_loop next_item g (got @ [c]))"

lemma streaming_next_simps:
  "api_chunk api s = (Inr None, t) \<Longrightarrow> streaming_next api err (Some s) = (raise StopAsyncIteration [], None)"
  "api_chunk api s = (Inr (Some c), t) \<Longrightarrow> streaming_next api err (Some s) = (Inr c, Some t)"
  "api_chunk api s = (Inr None, t) \<Longrightarrow> blocking_streaming_next api err (Some s) = (raise StopIteration [], None)"
  "api_chunk api s = (Inr (Some c), t) \<Longrightarrow> blocking_streaming_next api err (Some s) = (Inr c, Some t)"
  by (simp_all add: streaming_next_def blocking_streaming_next_def)

lemma for_loop_yields:
  assumes "yields api s cs"
  shows "for_loop (streaming_next api err) (Some s) got =
           Some (got @ cs, PyExc StopAsyncIteration [] [], None) \<and>
         for_loop (blocking_streaming_next api err) (Some s) got =
           Some (got @ cs, PyExc StopIteration [] [], None)"
  using assms
proof (induction arbitrary: got rule: yields.induct)
  case (ended s t)
  then show ?case by (simp add: for_loop.simps [of _ "Some s"] streaming_next_simps)
next
  case (chunk s c t cs)
  then show ?case by (simp add: for_loop.simps [of _ "Some s"] streaming_next_simps)
qed

lemma chunks_then_rest:
  "yields api s (pre @ rest) \<Longrightarrow>
     \<exists>t. yields api t rest \<and>
       (\<forall>ops. run_polls (streaming_op lib api err hs) (Some s) (replicate (length pre) OpChunk @ ops) =
         map (\<lambda>c. ChunkIs (Inr (Some c))) pre @ run_polls (streaming_op lib api err hs) (Some t) ops)"
proof (induction pre arbitrary: s)
  case (Cons c pre)
  from Cons.prems obtain t where t: "api_chunk api s = (Inr (Some c), t)" "yields api t (pre @ rest)"
    by (auto elim: yields_ConsE)
  from Cons.IH [OF t(2)] t(1) show ?case by (auto simp: streaming_chunk_def)
qed auto

section \<open>Properties\<close>

text \<open>The body of a streaming response is read once. Whatever calls are made on it, after one that
  tells the end (\<open>chunk\<close> or \<open>chunk_decoded\<close> giving None, an iteration that stops) and after any \<open>bytes\<close>
  or \<open>text\<close>, failed ones too, every call raises \<open>Stream already consumed\<close> and every iteration stops; a
  failed \<open>chunk\<close> or a failed step of an iteration leaves the stream in place.\<close>
lemma stream_consumed_once:
  assumes "i < j" and "j < length ops"
  shows "(consuming StopAsyncIteration (ops ! i) (run_polls (streaming_op lib api err hs) g ops ! i) \<longrightarrow>
      run_polls (streaming_op lib api err hs) g ops ! j = consumed_answer StopAsyncIteration (ops ! j)) \<and>
    (consuming StopIteration (ops ! i) (run_polls (blocking_streaming_op lib api err hs) g ops ! i) \<longrightarrow>
      run_polls (blocking_streaming_op lib api err hs) g ops ! j = consumed_answer StopIteration (ops ! j)) \<and>
    (api_chunk api s = (Inl e, t) \<longrightarrow>
      streaming_chunk api err (Some s) = (Inl (to_py_err err e), Some t) \<and>
      streaming_next api err (Some s) = (Inl (to_py_err err e), Some t))"
proof (intro conjI impI)
  assume "consuming StopAsyncIteration (ops ! i) (run_polls (streaming_op lib api err hs) g ops ! i)"
  with assms show "run_polls (streaming_op lib api err hs) g ops ! j = consumed_answer StopAsyncIteration (ops ! j)"
    by (rule streaming.after_last)
next
  assume "consuming StopIteration (ops ! i) (run_polls (blocking_streaming_op lib api err hs) g ops ! i)"
  with assms show "run_polls (blocking_streaming_op lib api err hs) g ops ! j = consumed_answer StopIteration (ops ! j)"
    by (rule blocking_streaming.after_last)
qed (simp_all add: streaming_defs)

text \<open>C19: Iterating over a streaming response whose body is finite terminates, in both classes: after any
  number of \<open>chunk\<close> calls the loop receives exactly the chunks that are left, in order, ends with the
  exception Python expects, and leaves the response consumed.\<close>
theorem iteration_terminates:
  assumes "yields api s (pre @ rest)"
  shows "\<exists>t. (\<forall>ops. run_polls (streaming_op lib api err hs) (Some s) (replicate (length pre) OpChunk @ ops) =
        map (\<lambda>c. ChunkIs (Inr (Some c))) pre @ run_polls (streaming_op lib api err hs) (Some t) ops) \<and>
      for_loop (streaming_next api err) (Some t) [] =
        Some (rest, PyExc StopAsyncIteration [] [], None) \<and>
      for_loop (blocking_streaming_next api err) (Some t) [] =
        Some (rest, PyExc StopIteration [] [], None)"
  using chunks_then_rest [OF assms, of lib err hs] for_loop_yields [of api _ rest err "[]"] by auto

text \<open>C26: A streaming response of either class shows the status and the headers that the buffered response
  of the same answer has, and its \<open>text\<close> is the buffered \<open>text\<close> for every \<open>encoding=\<close>; and a blocking
  streaming response answers any sequence of calls as the asynchronous one does, but for the exception
  that ends an iteration.\<close>
theorem streaming_text_is_buffered:
  "streaming_getters (streaming_response_new http (u_status resp) (u_headers resp) s) =
     (r_status_code (from_response http vf resp elapsed diag), r_headers (from_response http vf resp elapsed diag)) \<and>
   blocking_streaming_response_new http (u_status resp) (u_headers resp) s =
     streaming_response_new http (u_status resp) (u_headers resp) s \<and>
   (api_bytes api s = Inr (u_bytes resp) \<longrightarrow>
      streaming_text lib api err (sr_headers (streaming_response_new http (u_status resp) (u_headers resp) s)) encoding
          (sr_inner (streaming_response_new http (u_status resp) (u_headers resp) s)) =
        (fst (response_text lib encoding (from_response http vf resp elapsed diag)), None)) \<and>
   run_polls (blocking_streaming_op lib api err hs) g ops =
     map with_stop (run_polls (streaming_op lib api err hs) g ops)"
proof (intro conjI impI)
  assume "api_bytes api s = Inr (u_bytes resp)"
  then show "streaming_text lib api err (sr_headers (streaming_response_new http (u_status resp) (u_headers resp) s))
        encoding (sr_inner (streaming_response_new http (u_status resp) (u_headers resp) s)) =
        (fst (response_text lib encoding (from_response http vf resp elapsed diag)), None)"
    by (cases encoding) (simp_all add: streaming_text_def streaming_new_def streaming_response_new_def response_text_def
        from_response_def decode_text_def Let_def)
next
  show "run_polls (blocking_streaming_op lib api err hs) g ops =
     map with_stop (run_polls (streaming_op lib api err hs) g ops)"
    by (induction ops arbitrary: g) (simp_all add: blocking_streaming_step split: prod.split)
qed (simp_all add: streaming_getters_def streaming_response_new_def blocking_streaming_response_new_def
    streaming_new_def from_response_def Let_def)

section \<open>Witnesses\<close>

text \<open>A stream that is the list of what it will answer.\<close>

definition replay :: "(lk_error + bytes option) list stream_api" where
  "replay = \<lparr>api_chunk = (\<lambda>s. case s of [] \<Rightarrow> (Inr None, []) | a # s \<Rightarrow> (a, s)),
     api_chunk_decoded = (\<lambda>s. case s of [] \<Rightarrow> (Inr None, []) | a # s \<Rightarrow> (a, s)),
     api_bytes = (\<lambda>s. Inr (concat (map (\<lambda>a. case a of Inr (Some c) \<Rightarrow> c | _ \<Rightarrow> []) s)))\<rparr>"

theorem iteration_terminates_witness:
  "\<exists>t. for_loop (streaming_next replay plain_errors) (Some t) [] =
     Some ([[3, 4]], PyExc StopAsyncIteration [] [], None)"
proof -
  have "yields replay [Inr (Some [1, 2]), Inr (Some [3, 4])] ([[1, 2]] @ [[3, 4]])"
    by (auto intro!: yields.intros simp: replay_def)
  from iteration_terminates [OF this, of ascii_codecs plain_errors "[]"] show ?thesis by blast
qed

theorem streaming_text_is_buffered_witness:
  "fst (streaming_text ascii_codecs replay plain_errors [] None (streaming_new [Inr (Some [72, 105])])) =
     Inr ''Hi''"
proof -
  define resp :: "(unit, unit) upstream_resp" where
    "resp = \<lparr>u_status = 200, u_headers = [], u_url = [], u_version = (), u_cookies = [],
       u_content_length = None, u_redirects = [], u_bytes = [72, 105]\<rparr>"
  define http :: http_api where "http = undefined"
  show ?thesis
    using streaming_text_is_buffered [where api = replay and s = "[Inr (Some [72, 105])]" and resp = resp
        and lib = ascii_codecs and err = plain_errors and http = http and encoding = None]
    by (simp add: replay_def resp_def text_headers_def streaming_response_new_def response_text_def from_response_def decode_body_def
        ascii_codecs_def Let_def char_of_def bit_0)
qed

end
