(* ===== verification/Readers.thy ===== *)
theory Readers imports Streaming begin

text \<open>
  \<open>src/src/response.rs\<close>: several tasks reading one \<open>StreamingResponse\<close>. Each method of the class makes a
  future over the same asynchronous mutex; asyncio may interleave the futures and drop any of them at a
  point where it waits. The futures are modelled up to and after their await points, and shown to be a
  sequence of the atomic operations of \<open>Streaming\<close>.
\<close>

section \<open>The futures\<close>

text \<open>
  A future waits for the lock, or holds it and waits for upstream: with the stream left in its slot
  (\<open>as_mut\<close>), or with the stream taken out of it (\<open>take\<close>), in which case it dies with the future.
\<close>

datatype 's phase = Locking | Reading | Collecting 's

text \<open>From the lock to the next await point, or to the end.\<close>

fun reader_locked :: "stream_op \<Rightarrow> 's option \<Rightarrow> stream_answer + 's phase \<times> 's option" where
  "reader_locked OpChunk guard =
     (case guard of None \<Rightarrow> Inl (ChunkIs (Inl consumed)) | Some s \<Rightarrow> Inr (Reading, Some s))"
| "reader_locked OpChunkDecoded guard =
     (case guard of None \<Rightarrow> Inl (ChunkIs (Inl consumed)) | Some s \<Rightarrow> Inr (Reading, Some s))"
| "reader_locked OpBytes guard =
     (case guard of None \<Rightarrow> Inl (BytesAre (Inl consumed)) | Some s \<Rightarrow> Inr (Collecting s, None))"
| "reader_locked (OpStreamText encoding) guard =
     (case guard of None \<Rightarrow> Inl (StrIs (Inl consumed)) | Some s \<Rightarrow> Inr (Collecting s, None))"
| "reader_locked OpNext guard =
     (case guard of None \<Rightarrow> Inl (BytesAre (raise StopAsyncIteration [])) | Some s \<Rightarrow> Inr (Reading, Some s))"

text \<open>After the await: upstream's method on the stream, the answer, and what is left in the slot.\<close>

fun reader_resumed ::
  "'enc codecs \<Rightarrow> 's stream_api \<Rightarrow> error_api \<Rightarrow> header_entries \<Rightarrow> stream_op \<Rightarrow> 's \<Rightarrow>
   stream_answer \<times> 's option" where
  "reader_resumed lib api err hs OpChunk s =
     (case api_chunk api s of
        (Inr (Some c), s) \<Rightarrow> (ChunkIs (Inr (Some c)), Some s)
      | (Inr None, s) \<Rightarrow> (ChunkIs (Inr None), None)
      | (Inl e, s) \<Rightarrow> (ChunkIs (Inl (to_py_err err e)), Some s))"
| "reader_resumed lib api err hs OpChunkDecoded s =
     (case api_chunk_decoded api s of
        (Inr (Some c), s) \<Rightarrow> (ChunkIs (Inr (Some c)), Some s)
      | (Inr None, s) \<Rightarrow> (ChunkIs (Inr None), None)
      | (Inl e, s) \<Rightarrow> (ChunkIs (Inl (to_py_err err e)), Some s))"
| "reader_resumed lib api err hs OpBytes s = (BytesAre (map_py_err err (api_bytes api s)), None)"
| "reader_resumed lib api err hs (OpStreamText encoding) s =
     (StrIs (ok_then (map_py_err err (api_bytes api s)) (\<lambda>body.
        decode_text lib body (parse_encoding hs) encoding)), None)"
| "reader_resumed lib api err hs OpNext s =
     (case api_chunk api s of
        (Inr (Some c), s) \<Rightarrow> (BytesAre (Inr c), Some s)
      | (Inr None, s) \<Rightarrow> (BytesAre (raise StopAsyncIteration []), None)
      | (Inl e, s) \<Rightarrow> (BytesAre (Inl (to_py_err err e)), Some s))"

text \<open>The mutex with its stream, the future that holds it, and the futures that have not ended.\<close>

record 's readers =
  rd_slot :: "'s option"
  rd_lock :: "nat option"
  rd_tasks :: "nat \<rightharpoonup> stream_op \<times> 's phase"

definition readers_new :: "'s \<Rightarrow> 's readers" where
  "readers_new s = \<lparr>rd_slot = streaming_new s, rd_lock = None, rd_tasks = Map.empty\<rparr>"

text \<open>
  What a caller sees: an answer, or that it cancelled a future, which had the stream or had not.
  \<open>torn s t\<close>: upstream's stream may be \<open>t\<close> after one of its reads was dropped half-way.
\<close>

datatype reader_event = Answered nat stream_op stream_answer | Cancelled nat stream_op bool

inductive reader_step ::
  "'enc codecs \<Rightarrow> 's stream_api \<Rightarrow> error_api \<Rightarrow> header_entries \<Rightarrow> ('s \<Rightarrow> 's \<Rightarrow> bool) \<Rightarrow>
   's readers \<Rightarrow> reader_event list \<Rightarrow> 's readers \<Rightarrow> bool"
  for lib api err hs torn where
  called: "rd_tasks st r = None \<Longrightarrow>
    reader_step lib api err hs torn st [] (st\<lparr>rd_tasks := (rd_tasks st)(r \<mapsto> (op, Locking))\<rparr>)"
| refused: "rd_tasks st r = Some (op, Locking) \<Longrightarrow> rd_lock st = None \<Longrightarrow>
    reader_locked op (rd_slot st) = Inl out \<Longrightarrow>
    reader_step lib api err hs torn st [Answered r op out] (st\<lparr>rd_tasks := (rd_tasks st)(r := None)\<rparr>)"
| locked: "rd_tasks st r = Some (op, Locking) \<Longrightarrow> rd_lock st = None \<Longrightarrow>
    reader_locked op (rd_slot st) = Inr (ph, slot) \<Longrightarrow>
    reader_step lib api err hs torn st []
      (st\<lparr>rd_slot := slot, rd_lock := Some r, rd_tasks := (rd_tasks st)(r \<mapsto> (op, ph))\<rparr>)"
| resumed_reading: "rd_tasks st r = Some (op, Reading) \<Longrightarrow> rd_slot st = Some s \<Longrightarrow>
    reader_resumed lib api err hs op s = (out, slot) \<Longrightarrow>
    reader_step lib api err hs torn st [Answered r op out]
      (st\<lparr>rd_slot := slot, rd_lock := None, rd_tasks := (rd_tasks st)(r := None)\<rparr>)"
| resumed_collecting: "rd_tasks st r = Some (op, Collecting s) \<Longrightarrow>
    reader_resumed lib api err hs op s = (out, slot) \<Longrightarrow>
    reader_step lib api err hs torn st [Answered r op out]
      (st\<lparr>rd_lock := None, rd_tasks := (rd_tasks st)(r := None)\<rparr>)"
| dropped_waiting: "rd_tasks st r = Some (op, Locking) \<Longrightarrow>
    reader_step lib api err hs torn st [Cancelled r op False] (st\<lparr>rd_tasks := (rd_tasks st)(r := None)\<rparr>)"
| dropped_reading: "rd_tasks st r = Some (op, Reading) \<Longrightarrow> rd_slot st = Some s \<Longrightarrow> torn s t \<Longrightarrow>
    reader_step lib api err hs torn st [Cancelled r op True]
      (st\<lparr>rd_slot := Some t, rd_lock := None, rd_tasks := (rd_tasks st)(r := None)\<rparr>)"
| dropped_collecting: "rd_tasks st r = Some (op, Collecting s) \<Longrightarrow>
    reader_step lib api err hs torn st [Cancelled r op True]
      (st\<lparr>rd_lock := None, rd_tasks := (rd_tasks st)(r := None)\<rparr>)"

inductive reader_run ::
  "'enc codecs \<Rightarrow> 's stream_api \<Rightarrow> error_api \<Rightarrow> header_entries \<Rightarrow> ('s \<Rightarrow> 's \<Rightarrow> bool) \<Rightarrow>
   's readers \<Rightarrow> reader_event list \<Rightarrow> 's readers \<Rightarrow> bool"
  for lib api err hs torn where
  run_start: "reader_run lib api err hs torn st [] st"
| run_step: "reader_run lib api err hs torn st evs st1 \<Longrightarrow> reader_step lib api err hs torn st1 ev st2 \<Longrightarrow>
    reader_run lib api err hs torn st (evs @ ev) st2"

section \<open>The atomic specification\<close>

text \<open>
  One operation at a time. A cancelled operation that had not got the stream did nothing; a cancelled read
  of one chunk leaves a stream that was torn; a cancelled read of the whole body consumes it.
\<close>

fun whole_body :: "stream_op \<Rightarrow> bool" where
  "whole_body OpBytes = True"
| "whole_body (OpStreamText encoding) = True"
| "whole_body _ = False"

inductive atomic_step ::
  "'enc codecs \<Rightarrow> 's stream_api \<Rightarrow> error_api \<Rightarrow> header_entries \<Rightarrow> ('s \<Rightarrow> 's \<Rightarrow> bool) \<Rightarrow>
   's option \<Rightarrow> reader_event \<Rightarrow> 's option \<Rightarrow> bool"
  for lib api err hs torn where
  answered: "streaming_op lib api err hs g op = (out, g') \<Longrightarrow>
    atomic_step lib api err hs torn g (Answered r op out) g'"
| not_begun: "atomic_step lib api err hs torn g (Cancelled r op False) g"
| chunk_torn: "\<not> whole_body op \<Longrightarrow> torn s t \<Longrightarrow>
    atomic_step lib api err hs torn (Some s) (Cancelled r op True) (Some t)"
| body_lost: "whole_body op \<Longrightarrow> atomic_step lib api err hs torn (Some s) (Cancelled r op True) None"

inductive_simps atomic_answered: "atomic_step lib api err hs torn g (Answered r op out) g'"
inductive_simps atomic_cancelled: "atomic_step lib api err hs torn g (Cancelled r op begun) g'"

inductive atomic_run ::
  "'enc codecs \<Rightarrow> 's stream_api \<Rightarrow> error_api \<Rightarrow> header_entries \<Rightarrow> ('s \<Rightarrow> 's \<Rightarrow> bool) \<Rightarrow>
   's option \<Rightarrow> reader_event list \<Rightarrow> 's option \<Rightarrow> bool"
  for lib api err hs torn where
  atomic_done: "atomic_run lib api err hs torn g [] g"
| atomic_more: "atomic_step lib api err hs torn g ev g1 \<Longrightarrow> atomic_run lib api err hs torn g1 evs g2 \<Longrightarrow>
    atomic_run lib api err hs torn g (ev # evs) g2"

inductive_simps atomic_run_Nil: "atomic_run lib api err hs torn g [] g'"
inductive_simps atomic_run_Cons: "atomic_run lib api err hs torn g (ev # evs) g'"

text \<open>The events after which the body is consumed, and what later events may be.\<close>

fun event_ends :: "reader_event \<Rightarrow> bool" where
  "event_ends (Answered r op out) \<longleftrightarrow> consuming StopAsyncIteration op out"
| "event_ends (Cancelled r op begun) \<longleftrightarrow> begun \<and> whole_body op"

fun event_after_end :: "reader_event \<Rightarrow> bool" where
  "event_after_end (Answered r op out) \<longleftrightarrow> out = consumed_answer StopAsyncIteration op"
| "event_after_end (Cancelled r op begun) \<longleftrightarrow> \<not> begun"

section \<open>The futures refine it\<close>

text \<open>
  The invariant: a future past the lock holds it, with the stream in the slot or out of it; and the lock is
  held by a future past it. The abstraction gives a stream that was taken back to the slot.
\<close>

definition holding :: "'s readers \<Rightarrow> stream_op \<Rightarrow> 's phase \<Rightarrow> bool" where
  "holding st op ph =
     (case ph of
        Locking \<Rightarrow> False
      | Reading \<Rightarrow> \<not> whole_body op \<and> rd_slot st \<noteq> None
      | Collecting s \<Rightarrow> whole_body op \<and> rd_slot st = None)"

definition readers_ok :: "'s readers \<Rightarrow> bool" where
  "readers_ok st \<longleftrightarrow>
     (\<forall>r op ph. rd_tasks st r = Some (op, ph) \<longrightarrow> ph \<noteq> Locking \<longrightarrow> rd_lock st = Some r) \<and>
     (\<forall>r. rd_lock st = Some r \<longrightarrow> (\<exists>op ph. rd_tasks st r = Some (op, ph) \<and> holding st op ph))"

definition readers_abs :: "'s readers \<Rightarrow> 's option" where
  "readers_abs st =
     (case rd_lock st of
        None \<Rightarrow> rd_slot st
      | Some r \<Rightarrow> (case rd_tasks st r of Some (op, Collecting s) \<Rightarrow> Some s | _ \<Rightarrow> rd_slot st))"

lemma locked_refuses:
  "reader_locked op g = Inl out \<Longrightarrow> g = None \<and> streaming_op lib api err hs None op = (out, None)"
  by (cases op; cases g) (auto simp: streaming_defs)

lemma locked_holds:
  "reader_locked op g = Inr (ph, slot) \<Longrightarrow> \<exists>s. g = Some s \<and>
     (if whole_body op then ph = Collecting s \<and> slot = None else ph = Reading \<and> slot = Some s)"
  by (cases op; cases g) auto

lemma resumed_is_atomic: "streaming_op lib api err hs (Some s) op = reader_resumed lib api err hs op s"
  by (cases op) (auto simp: streaming_defs split: prod.split sum.split option.split)

lemma resumed_whole: "whole_body op \<Longrightarrow> reader_resumed lib api err hs op s = (out, slot) \<Longrightarrow> slot = None"
  by (cases op) auto

lemma readers_okD:
  assumes "readers_ok st"
  shows "rd_tasks st r = Some (op, Reading) \<Longrightarrow> rd_lock st = Some r \<and> \<not> whole_body op"
    and "rd_tasks st r = Some (op, Collecting s) \<Longrightarrow>
      rd_lock st = Some r \<and> whole_body op \<and> rd_slot st = None"
    and "rd_tasks st q = Some (op, ph) \<Longrightarrow> rd_lock st \<noteq> Some q \<Longrightarrow> ph = Locking"
  using assms unfolding readers_ok_def holding_def by fastforce+

lemma lock_holder:
  assumes "readers_ok st" and "rd_lock st = Some r"
  shows "\<exists>op ph. rd_tasks st r = Some (op, ph) \<and> holding st op ph"
  using assms unfolding readers_ok_def by blast

text \<open>Ending a future that holds the lock gives the lock back.\<close>

lemma readers_ok_unlocked:
  "rd_lock st = None \<Longrightarrow> readers_ok st \<longleftrightarrow> (\<forall>r op ph. rd_tasks st r = Some (op, ph) \<longrightarrow> ph = Locking)"
  by (auto simp: readers_ok_def)

lemma others_wait:
  assumes "readers_ok st" and "rd_lock st = Some r" and "rd_tasks st q = Some (op, ph)" and "q \<noteq> r"
  shows "ph = Locking"
  using readers_okD(3) [OF assms(1,3)] assms(2,4) by simp

lemma ok_after_release:
  assumes "readers_ok st" and "rd_lock st = Some r"
  shows "readers_ok (st\<lparr>rd_slot := slot, rd_lock := None, rd_tasks := (rd_tasks st)(r := None)\<rparr>)"
    and "readers_abs (st\<lparr>rd_slot := slot, rd_lock := None, rd_tasks := (rd_tasks st)(r := None)\<rparr>) = slot"
  using others_wait [OF assms] by (auto simp: readers_ok_unlocked readers_abs_def split: if_splits)

lemma ok_after_loss:
  assumes "readers_ok st" and "rd_lock st = Some r"
  shows "readers_ok (st\<lparr>rd_lock := None, rd_tasks := (rd_tasks st)(r := None)\<rparr>)"
    and "readers_abs (st\<lparr>rd_lock := None, rd_tasks := (rd_tasks st)(r := None)\<rparr>) = rd_slot st"
  using others_wait [OF assms] by (auto simp: readers_ok_unlocked readers_abs_def split: if_splits)

text \<open>A future that waits for the lock comes and goes unnoticed.\<close>

lemma ok_waiting:
  assumes "readers_ok st" and "rd_tasks st r = None \<or> rd_tasks st r = Some (op, Locking)"
    and "task = None \<or> task = Some (op, Locking)"
  shows "readers_ok (st\<lparr>rd_tasks := (rd_tasks st)(r := task)\<rparr>) \<and>
    readers_abs (st\<lparr>rd_tasks := (rd_tasks st)(r := task)\<rparr>) = readers_abs st"
proof
  have lock: "rd_lock st \<noteq> Some r"
    using lock_holder [OF assms(1), of r] assms(2) by (auto simp: holding_def)
  then show "readers_abs (st\<lparr>rd_tasks := (rd_tasks st)(r := task)\<rparr>) = readers_abs st"
    by (cases "rd_lock st") (auto simp: readers_abs_def split: option.split prod.split phase.split)
  show "readers_ok (st\<lparr>rd_tasks := (rd_tasks st)(r := task)\<rparr>)"
  proof (cases "rd_lock st")
    case None
    then show ?thesis using assms(1,3) by (auto simp: readers_ok_unlocked split: if_splits)
  next
    case (Some h)
    then have "h \<noteq> r" using lock by simp
    moreover obtain op' ph where "rd_tasks st h = Some (op', ph)" "holding st op' ph"
      using lock_holder [OF assms(1) Some] by blast
    moreover have "q = h" if "((rd_tasks st)(r := task)) q = Some (op2, ph2)" "ph2 \<noteq> Locking" for q op2 ph2
      using readers_okD(3) [OF assms(1), of q op2 ph2] that assms(3) Some by (auto split: if_splits)
    ultimately show ?thesis using Some
      by (cases ph) (simp_all add: readers_ok_def holding_def)
  qed
qed

lemma reader_step_refines:
  assumes "reader_step lib api err hs torn st evs st'" and "readers_ok st"
  shows "readers_ok st' \<and> atomic_run lib api err hs torn (readers_abs st) evs (readers_abs st')"
  using assms
proof (cases rule: reader_step.cases)
  case (called r op)
  then show ?thesis using ok_waiting [OF assms(2), of r op "Some (op, Locking)"] by (auto simp: atomic_run_Nil)
next
  case (refused r op out)
  then have "readers_abs st = None" "streaming_op lib api err hs None op = (out, None)"
    using locked_refuses [of op "rd_slot st" out] by (auto simp: readers_abs_def)
  then show ?thesis using refused ok_waiting [OF assms(2), of r op None]
    by (simp add: atomic_run_Cons atomic_run_Nil atomic_answered)
next
  case (locked r op ph slot)
  then have "readers_ok st' \<and> readers_abs st' = readers_abs st"
    using locked_holds [OF locked(5)] assms(2)
    by (auto simp: readers_ok_def readers_abs_def holding_def split: if_splits)
  then show ?thesis using locked by (auto simp: atomic_run_Nil)
next
  case (resumed_reading r op s out slot)
  note ok = readers_okD(1) [OF assms(2) resumed_reading(3)]
  have "readers_abs st = Some s" using resumed_reading ok by (simp add: readers_abs_def)
  then show ?thesis using resumed_reading ok ok_after_release [OF assms(2), of r slot]
    by (simp add: atomic_run_Cons atomic_run_Nil atomic_answered resumed_is_atomic)
next
  case (resumed_collecting r op s out slot)
  note ok = readers_okD(2) [OF assms(2) resumed_collecting(3)]
  have "readers_abs st = Some s" "slot = None"
    using resumed_collecting ok by (auto simp: readers_abs_def intro: resumed_whole)
  then show ?thesis using resumed_collecting ok ok_after_loss [OF assms(2), of r]
    by (simp add: atomic_run_Cons atomic_run_Nil atomic_answered resumed_is_atomic)
next
  case (dropped_waiting r op)
  then show ?thesis using ok_waiting [OF assms(2), of r op None]
    by (simp add: atomic_run_Cons atomic_run_Nil atomic_cancelled)
next
  case (dropped_reading r op s t)
  note ok = readers_okD(1) [OF assms(2) dropped_reading(3)]
  have "readers_abs st = Some s" using dropped_reading ok by (simp add: readers_abs_def)
  then show ?thesis using dropped_reading ok ok_after_release [OF assms(2), of r "Some t"]
    by (simp add: atomic_run_Cons atomic_run_Nil atomic_cancelled)
next
  case (dropped_collecting r op s)
  note ok = readers_okD(2) [OF assms(2) dropped_collecting(3)]
  have "readers_abs st = Some s" using dropped_collecting ok by (simp add: readers_abs_def)
  then show ?thesis using dropped_collecting ok ok_after_loss [OF assms(2), of r]
    by (simp add: atomic_run_Cons atomic_run_Nil atomic_cancelled)
qed

lemma atomic_run_append:
  "atomic_run lib api err hs torn g evs g1 \<Longrightarrow> atomic_run lib api err hs torn g1 evs' g2 \<Longrightarrow>
   atomic_run lib api err hs torn g (evs @ evs') g2"
  by (induction rule: atomic_run.induct) (auto intro: atomic_run.intros)

lemma readers_new_ok: "readers_ok (readers_new s)" "readers_abs (readers_new s) = Some s"
  by (simp_all add: readers_ok_def readers_abs_def readers_new_def streaming_new_def)

lemma reader_run_refines:
  assumes "reader_run lib api err hs torn st evs st'" and "readers_ok st"
  shows "readers_ok st' \<and> atomic_run lib api err hs torn (readers_abs st) evs (readers_abs st')"
  using assms by (induction rule: reader_run.induct)
    (auto intro: atomic_done atomic_run_append dest: reader_step_refines)

section \<open>Consumed for good, and never stuck\<close>

lemma atomic_step_ends:
  assumes "atomic_step lib api err hs torn g ev g'" and "event_ends ev"
  shows "g' = None"
  using assms
proof (cases rule: atomic_step.cases)
  case (answered op out r)
  then show ?thesis using assms(2) streaming.end_is_over [of lib api err hs g op out g'] by simp
qed (use assms(2) in auto)

lemma atomic_step_over: "atomic_step lib api err hs torn None ev g' \<Longrightarrow> g' = None \<and> event_after_end ev"
  by (cases ev) (auto simp: atomic_answered atomic_cancelled streaming.over_stays)

lemma atomic_run_over:
  "atomic_run lib api err hs torn g evs g' \<Longrightarrow> g = None \<Longrightarrow> list_all event_after_end evs"
  by (induction rule: atomic_run.induct) (auto dest: atomic_step_over)

lemma atomic_run_after_end:
  "atomic_run lib api err hs torn g evs g' \<Longrightarrow> i < j \<Longrightarrow> j < length evs \<Longrightarrow> event_ends (evs ! i) \<Longrightarrow>
   event_after_end (evs ! j)"
proof (induction arbitrary: i j rule: atomic_run.induct)
  case (atomic_more g ev g1 evs g2)
  then obtain j' where j: "j = Suc j'" by (cases j) auto
  show ?case
  proof (cases i)
    case 0
    then have "g1 = None" using atomic_more by (auto dest: atomic_step_ends)
    then show ?thesis using atomic_more j by (auto dest!: atomic_run_over simp: list_all_length)
  next
    case (Suc i')
    then show ?thesis using atomic_more.IH [of i' j'] atomic_more.prems j by simp
  qed
qed simp

text \<open>A task that waits can be answered after at most one other has ended.\<close>

lemma reader_answered:
  assumes "readers_ok st" and "rd_tasks st r \<noteq> None"
  shows "\<exists>q op out st'. reader_run lib api err hs torn st [Answered q op out] st'"
proof (cases "rd_lock st")
  case (Some h)
  then obtain op ph where h: "rd_tasks st h = Some (op, ph)" "holding st op ph"
    using lock_holder [OF assms(1) Some] by blast
  have "\<exists>out st'. reader_step lib api err hs torn st [Answered h op out] st'"
  proof (cases ph)
    case Locking
    then show ?thesis using h by (simp add: holding_def)
  next
    case Reading
    then obtain s where "rd_slot st = Some s" using h by (auto simp: holding_def)
    then show ?thesis using h Reading
      by (cases "reader_resumed lib api err hs op s") (blast intro: resumed_reading)
  next
    case (Collecting s)
    then show ?thesis using h
      by (cases "reader_resumed lib api err hs op s") (blast intro: resumed_collecting)
  qed
  then show ?thesis using run_step [OF run_start] by fastforce
next
  case None
  then obtain op where r: "rd_tasks st r = Some (op, Locking)"
    using assms readers_okD(3) [OF assms(1)] by fastforce
  show ?thesis
  proof (cases "reader_locked op (rd_slot st)")
    case (Inl out)
    from run_step [OF run_start refused [OF r None this]] show ?thesis by fastforce
  next
    case (Inr p)
    obtain ph slot where p: "p = (ph, slot)" by (cases p)
    let ?st = "st\<lparr>rd_slot := slot, rd_lock := Some r, rd_tasks := (rd_tasks st)(r \<mapsto> (op, ph))\<rparr>"
    obtain s where s: "ph = Collecting s \<or> ph = Reading \<and> slot = Some s"
      using locked_holds Inr p by (metis (full_types))
    obtain out slot' where "reader_resumed lib api err hs op s = (out, slot')" by fastforce
    note out = this
    from s have "\<exists>st'. reader_step lib api err hs torn ?st [Answered r op out] st'"
    proof
      assume "ph = Collecting s"
      then have "rd_tasks ?st r = Some (op, Collecting s)" by simp
      from resumed_collecting [OF this out] show ?thesis by (rule exI)
    next
      assume "ph = Reading \<and> slot = Some s"
      then have "rd_tasks ?st r = Some (op, Reading)" "rd_slot ?st = Some s" by simp_all
      from resumed_reading [OF this out] show ?thesis by (rule exI)
    qed
    moreover have "reader_step lib api err hs torn st [] ?st"
      by (rule locked [OF r None]) (simp add: Inr p)
    ultimately show ?thesis using run_step [OF run_step [OF run_start]] by fastforce
  qed
qed

section \<open>Property\<close>

text \<open>C18: However the tasks that read one streaming response interleave, and whichever of them are
  cancelled while they wait, what they are told is what some sequence of atomic operations tells, in the
  order of the answers; once a task was told the end, read the whole body, or was cancelled while it did,
  every later call is told that the body is consumed, and no later cancellation finds a stream to lose; at
  most one task is past the lock; and a cancelled one never leaves it locked: as long as a task waits,
  one can be answered.\<close>
theorem concurrent_reads_atomic:
  assumes "reader_run lib api err hs torn (readers_new s) evs st"
  shows "(\<exists>g. atomic_run lib api err hs torn (Some s) evs g) \<and>
    (\<forall>i j. i < j \<longrightarrow> j < length evs \<longrightarrow> event_ends (evs ! i) \<longrightarrow> event_after_end (evs ! j)) \<and>
    (\<forall>q r op op' ph ph'. rd_tasks st q = Some (op, ph) \<longrightarrow> rd_tasks st r = Some (op', ph') \<longrightarrow>
      ph \<noteq> Locking \<longrightarrow> ph' \<noteq> Locking \<longrightarrow> q = r) \<and>
    (\<forall>r. rd_tasks st r \<noteq> None \<longrightarrow>
      (\<exists>q op out st'. reader_run lib api err hs torn st [Answered q op out] st'))"
proof (intro conjI)
  have ok: "readers_ok st" and run: "atomic_run lib api err hs torn (Some s) evs (readers_abs st)"
    using reader_run_refines [OF assms readers_new_ok(1)] by (simp_all add: readers_new_ok)
  show "\<exists>g. atomic_run lib api err hs torn (Some s) evs g" using run by blast
  show "\<forall>i j. i < j \<longrightarrow> j < length evs \<longrightarrow> event_ends (evs ! i) \<longrightarrow> event_after_end (evs ! j)"
    using atomic_run_after_end [OF run] by blast
  show "\<forall>q r op op' ph ph'. rd_tasks st q = Some (op, ph) \<longrightarrow> rd_tasks st r = Some (op', ph') \<longrightarrow>
      ph \<noteq> Locking \<longrightarrow> ph' \<noteq> Locking \<longrightarrow> q = r"
    using readers_okD(3) [OF ok] by (metis option.inject)
  show "\<forall>r. rd_tasks st r \<noteq> None \<longrightarrow>
      (\<exists>q op out st'. reader_run lib api err hs torn st [Answered q op out] st')"
    using reader_answered [OF ok] by blast
qed

section \<open>Witness\<close>

text \<open>Task 1 reads the whole body and is cancelled; the iteration of task 2 then stops.\<close>

definition cancelled_trace :: "reader_event list" where
  "cancelled_trace = [Cancelled 1 OpBytes True, Answered 2 OpNext (BytesAre (raise StopAsyncIteration []))]"

lemma cancelled_trace_runs:
  "\<exists>st. reader_run ascii_codecs replay plain_errors [] (=) (readers_new [Inr (Some [1])]) cancelled_trace st"
proof -
  let ?step = "reader_step ascii_codecs replay plain_errors [] (=)"
  let ?s = "[Inr (Some [1])]"
  have 1: "?step (readers_new ?s) [] \<lparr>rd_slot = Some ?s, rd_lock = None, rd_tasks = [1 \<mapsto> (OpBytes, Locking)]\<rparr>"
    using called [of "readers_new ?s" 1 ascii_codecs replay plain_errors "[]" "(=)" OpBytes]
    by (simp add: readers_new_def streaming_new_def)
  have 2: "?step \<lparr>rd_slot = Some ?s, rd_lock = None, rd_tasks = [1 \<mapsto> (OpBytes, Locking)]\<rparr> []
      \<lparr>rd_slot = None, rd_lock = Some 1, rd_tasks = [1 \<mapsto> (OpBytes, Collecting ?s)]\<rparr>"
    using locked [of "\<lparr>rd_slot = Some ?s, rd_lock = None, rd_tasks = [1 \<mapsto> (OpBytes, Locking)]\<rparr>" 1
        OpBytes "Collecting ?s" None ascii_codecs replay plain_errors "[]" "(=)"]
    by simp
  have 3: "?step \<lparr>rd_slot = None, rd_lock = Some 1, rd_tasks = [1 \<mapsto> (OpBytes, Collecting ?s)]\<rparr>
      [Cancelled 1 OpBytes True] \<lparr>rd_slot = None, rd_lock = None, rd_tasks = Map.empty\<rparr>"
    using dropped_collecting [of
        "\<lparr>rd_slot = None, rd_lock = Some 1, rd_tasks = [1 \<mapsto> (OpBytes, Collecting ?s)]\<rparr>" 1
        OpBytes ?s ascii_codecs replay plain_errors "[]" "(=)"]
    by simp
  have 4: "?step \<lparr>rd_slot = None, rd_lock = None, rd_tasks = Map.empty\<rparr> []
      \<lparr>rd_slot = None, rd_lock = None, rd_tasks = [2 \<mapsto> (OpNext, Locking)]\<rparr>"
    using called [of "\<lparr>rd_slot = None, rd_lock = None, rd_tasks = Map.empty\<rparr>" 2
        ascii_codecs replay plain_errors "[]" "(=)" OpNext] by simp
  have 5: "?step \<lparr>rd_slot = None, rd_lock = None, rd_tasks = [2 \<mapsto> (OpNext, Locking)]\<rparr>
      [Answered 2 OpNext (BytesAre (raise StopAsyncIteration []))]
      \<lparr>rd_slot = None, rd_lock = None, rd_tasks = Map.empty\<rparr>"
    using refused [of "\<lparr>rd_slot = None, rd_lock = None, rd_tasks = [2 \<mapsto> (OpNext, Locking)]\<rparr>" 2
        OpNext _ ascii_codecs replay plain_errors "[]" "(=)"] by simp
  from run_step [OF run_step [OF run_step [OF run_step [OF run_step [OF run_start 1] 2] 3] 4] 5]
  show ?thesis unfolding cancelled_trace_def by auto
qed

theorem concurrent_reads_atomic_witness:
  "\<exists>g. atomic_run ascii_codecs replay plain_errors [] (=) (Some [Inr (Some [1])]) cancelled_trace g"
proof -
  obtain st where "reader_run ascii_codecs replay plain_errors [] (=) (readers_new [Inr (Some [1])])
      cancelled_trace st"
    using cancelled_trace_runs by blast
  from concurrent_reads_atomic [OF this] show ?thesis by blast
qed

end
