(* ===== verification/Types.thy ===== *)
theory Types imports Errors begin

text \<open>
  \<open>src/src/types.rs\<close>: duration validation, the \<open>dict\<close>-or-pairs argument type, the value classes
  \<open>TimeoutConfig\<close>, \<open>ResourceLimits\<close> and \<open>H2DataFramePolicy\<close>, and the preset tables. The upstream
  configuration values are the calls made on them (see the prelude); an upstream preset is named
  by the function that builds it.
\<close>

section \<open>Durations\<close>

definition validated_duration :: "f64 \<Rightarrow> duration result" where
  "validated_duration secs =
     (if \<not> is_finite secs \<or> f64_lt secs 0
      then raise_with ValueError ''Duration must be a finite non-negative number, got '' [AF64 secs]
      else ok_or (PyExc PanicException ''can not convert float seconds to Duration'' [])
             (from_secs_f64 secs))"

lemma validated_duration_Inr:
  "validated_duration secs = Inr d \<longleftrightarrow>
     (\<exists>q \<ge> 0. secs = F64_Fin q \<and> d = nat (round_half_even (q * 10 ^ 9)) \<and> d < duration_limit)"
  by (cases secs) (auto simp: validated_duration_def res_simps Let_def)

section \<open>String pairs\<close>

text \<open>
  What the code inspects of the object: a \<open>dict\<close> with, for each entry in insertion order, the
  string extraction of its key and of its value; a sequence that extracts as pairs of strings;
  anything else.
\<close>

type_synonym pairs = "(string \<times> string) list"

datatype str_pairs_obj =
    PairsDict "(string result \<times> string result) list" | PairsSeq pairs | PairsOther

fun str_pairs :: "str_pairs_obj \<Rightarrow> pairs result" where
  "str_pairs (PairsDict es) =
     collect_map (\<lambda>(k, v). ok_then k (\<lambda>k. ok_then v (\<lambda>v. Inr (k, v)))) es"
| "str_pairs (PairsSeq ps) = Inr ps"
| "str_pairs PairsOther =
     raise TypeError ''expected a dict[str, str] or a sequence of (str, str) pairs''"

section \<open>Timeouts and limits\<close>

datatype timeout_call =
    WithDnsTimeout duration | WithTcpConnectTimeout duration | WithTlsHandshakeTimeout duration
  | WithTtfbTimeout duration | WithTotalTimeout duration

definition timeout_config_new ::
  "f64 option \<Rightarrow> f64 option \<Rightarrow> f64 option \<Rightarrow> f64 option \<Rightarrow> f64 option \<Rightarrow> timeout_call list result" where
  "timeout_config_new dns tcp_connect tls_handshake ttfb tot =
     ok_then (transpose_map validated_duration dns) (\<lambda>dns.
     ok_then (transpose_map validated_duration tcp_connect) (\<lambda>tcp_connect.
     ok_then (transpose_map validated_duration tls_handshake) (\<lambda>tls_handshake.
     ok_then (transpose_map validated_duration ttfb) (\<lambda>ttfb.
     ok_then (transpose_map validated_duration tot) (\<lambda>tot.
       Inr (log_some WithTotalTimeout tot
           (log_some WithTtfbTimeout ttfb
           (log_some WithTlsHandshakeTimeout tls_handshake
           (log_some WithTcpConnectTimeout tcp_connect
           (log_some WithDnsTimeout dns []))))))))))"

datatype limit_call =
    WithMaxResponseBodySize usize | WithMaxConnectionsPerSession usize
  | WithMinTransferRate usize duration

definition resource_limits_new ::
  "usize option \<Rightarrow> usize option \<Rightarrow> usize option \<Rightarrow> f64 option \<Rightarrow> limit_call list result" where
  "resource_limits_new max_response_body_size max_connections_per_session min_transfer_rate
     transfer_rate_window =
     (let limits = log_some WithMaxConnectionsPerSession max_connections_per_session
                  (log_some WithMaxResponseBodySize max_response_body_size []) in
      if transfer_rate_window \<noteq> None \<and> min_transfer_rate = None
      then raise ValueError ''transfer_rate_window has no effect without min_transfer_rate''
      else case min_transfer_rate of
          None \<Rightarrow> Inr limits
        | Some rate \<Rightarrow>
            ok_then (validated_duration (case transfer_rate_window of None \<Rightarrow> F64_Fin 10 | Some w \<Rightarrow> w))
              (\<lambda>window. Inr (limits @ [WithMinTransferRate rate window])))"

datatype h2_data_frame_policy =
    BrowserDefault | PeerMaxFrameSize | FixedPayload usize | SocketWriteAligned usize

definition fixed_payload :: "usize \<Rightarrow> h2_data_frame_policy result" where
  "fixed_payload max_payload =
     (if max_payload = 0 then raise ValueError ''max_payload must be greater than zero''
      else Inr (FixedPayload max_payload))"

definition socket_write_aligned :: "usize \<Rightarrow> h2_data_frame_policy result" where
  "socket_write_aligned max_write_size =
     (if max_write_size \<le> 9
      then raise ValueError ''max_write_size must exceed the 9-byte HTTP/2 frame header''
      else Inr (SocketWriteAligned max_write_size))"

text \<open>The policies upstream accepts without its assertions firing.\<close>

fun h2_policy_ok :: "h2_data_frame_policy \<Rightarrow> bool" where
  "h2_policy_ok (FixedPayload n) = (0 < n)"
| "h2_policy_ok (SocketWriteAligned n) = (9 < n)"
| "h2_policy_ok _ = True"

lemma fixed_payload_ok: "fixed_payload n = Inr p \<Longrightarrow> h2_policy_ok p"
  by (auto simp: fixed_payload_def word_neq_0_conv split: if_splits)

lemma socket_write_aligned_ok: "socket_write_aligned n = Inr p \<Longrightarrow> h2_policy_ok p"
  by (auto simp: socket_write_aligned_def split: if_splits)

section \<open>Preset tables\<close>

text \<open>A browser profile name and the upstream function it selects.\<close>

definition tls_profiles :: "(string \<times> string) list" where
  "tls_profiles =
    [(''chrome_131'', ''chrome_131''), (''chrome_144'', ''chrome_144''),
     (''chrome_145'', ''chrome_145''), (''chrome_146'', ''chrome_146''),
     (''chrome_147'', ''chrome_147''), (''chrome_148'', ''chrome_148''),
     (''chrome_149'', ''chrome_149''), (''chrome_150'', ''chrome_150''),
     (''chrome_151'', ''chrome_151''), (''chrome_152'', ''chrome_152''),
     (''chrome_153'', ''chrome_153''), (''chrome_154'', ''chrome_154''),
     (''chrome_155'', ''chrome_155''), (''firefox_133'', ''firefox_133''),
     (''firefox_147'', ''firefox_147''), (''firefox_156'', ''firefox_156''),
     (''safari_18'', ''safari_18''), (''safari_26'', ''safari_26'')]"

definition resolve_tls_profile :: "string \<Rightarrow> string result" where
  "resolve_tls_profile name =
     (case map_of tls_profiles name of
        Some p \<Rightarrow> Inr p
      | None \<Rightarrow> raise_with ValueError ''Unknown TLS profile: '' [AStr name])"

definition h2_profiles :: "(string \<times> string) list" where
  "h2_profiles =
    [(''chrome_131'', ''chrome_131_h2''), (''chrome_144'', ''chrome_144_h2''),
     (''chrome_145'', ''chrome_145_h2''), (''chrome_146'', ''chrome_146_h2''),
     (''chrome_147'', ''chrome_147_h2''), (''chrome_148'', ''chrome_148_h2''),
     (''chrome_149'', ''chrome_149_h2''), (''chrome_150'', ''chrome_150_h2''),
     (''chrome_151'', ''chrome_151_h2''), (''chrome_152'', ''chrome_152_h2''),
     (''chrome_153'', ''chrome_153_h2''), (''chrome_154'', ''chrome_154_h2''),
     (''chrome_155'', ''chrome_155_h2''), (''firefox_133'', ''firefox_133_h2''),
     (''firefox_147'', ''firefox_147_h2''), (''firefox_156'', ''firefox_156_h2''),
     (''safari_18'', ''safari_18_h2''), (''safari_26'', ''safari_26_h2'')]"

definition resolve_h2_profile :: "string \<Rightarrow> string result" where
  "resolve_h2_profile name =
     (case map_of h2_profiles name of
        Some p \<Rightarrow> Inr p
      | None \<Rightarrow> raise_with ValueError ''Unknown H2 profile: '' [AStr name])"

text \<open>A TCP fingerprint is a preset or what upstream's JA4T parser made of the string.\<close>

datatype tcp_fingerprint = TcpPreset string | TcpJa4t string

definition tcp_presets :: "string list" where
  "tcp_presets =
    [''chrome'', ''chrome_win'', ''chrome_linux'', ''chrome_macos'', ''firefox'', ''firefox_win'',
     ''firefox_linux'', ''firefox_macos'', ''safari'']"

definition resolve_tcp_fingerprint ::
  "(string \<Rightarrow> string + tcp_fingerprint) \<Rightarrow> string \<Rightarrow> tcp_fingerprint result" where
  "resolve_tcp_fingerprint from_ja4t name =
     (if List.member tcp_presets name then Inr (TcpPreset name)
      else case from_ja4t name of
          Inr f \<Rightarrow> Inr f
        | Inl e \<Rightarrow> raise_with ValueError ''Unknown TCP fingerprint preset'' [AStr name, AStr e])"

section \<open>JSON bodies\<close>

text \<open>\<open>dumps\<close> is \<open>json.dumps\<close> with the extraction of its result as a string.\<close>

fun serialize_json :: "('o \<Rightarrow> string result) \<Rightarrow> 'o option \<Rightarrow> string option result" where
  "serialize_json dumps None = Inr None"
| "serialize_json dumps (Some obj) = map_ok Some (dumps obj)"

section \<open>Properties\<close>

lemma str_pairs_dict_strings:
  "str_pairs (PairsDict (map (\<lambda>(k, v). (Inr k, Inr v)) ps)) = Inr ps"
  by (induction ps) (auto simp: res_simps)

lemma timeout_config_new_fields:
  assumes "timeout_config_new dns tcp tls ttfb tot = Inr cs"
  shows "WithDnsTimeout d \<in> set cs \<longleftrightarrow> (\<exists>s. dns = Some s \<and> validated_duration s = Inr d)"
    and "WithTotalTimeout d \<in> set cs \<longleftrightarrow> (\<exists>s. tot = Some s \<and> validated_duration s = Inr d)"
proof -
  from assms obtain ds cs' es fs ts where
    "transpose_map validated_duration dns = Inr ds" "transpose_map validated_duration tot = Inr ts"
    "cs = log_some WithTotalTimeout ts (log_some WithTtfbTimeout fs (log_some WithTlsHandshakeTimeout es
       (log_some WithTcpConnectTimeout cs' (log_some WithDnsTimeout ds []))))"
    unfolding timeout_config_new_def ok_then_Inr by blast
  then show "WithDnsTimeout d \<in> set cs \<longleftrightarrow> (\<exists>s. dns = Some s \<and> validated_duration s = Inr d)"
    and "WithTotalTimeout d \<in> set cs \<longleftrightarrow> (\<exists>s. tot = Some s \<and> validated_duration s = Inr d)"
    by (cases dns; cases tot; auto simp: res_simps log_simps)+
qed

section \<open>Versions, statistics and resumption\<close>

text \<open>The upstream enum may grow: \<open>LkVersionOther\<close> is any other variant. The discriminants are Python's.\<close>

datatype lk_http_version = LkHttp10 | LkHttp11 | LkH2 | LkH3 | LkVersionOther nat

datatype py_http_version = HTTP10 | HTTP11 | H2 | VersionUnknown | H3

fun py_http_version_from :: "lk_http_version \<Rightarrow> py_http_version" where
  "py_http_version_from LkHttp10 = HTTP10"
| "py_http_version_from LkHttp11 = HTTP11"
| "py_http_version_from LkH2 = H2"
| "py_http_version_from LkH3 = H3"
| "py_http_version_from _ = VersionUnknown"

fun http_version_int :: "py_http_version \<Rightarrow> nat" where
  "http_version_int HTTP10 = 0"
| "http_version_int HTTP11 = 1"
| "http_version_int H2 = 2"
| "http_version_int VersionUnknown = 3"
| "http_version_int H3 = 4"

text \<open>\<open>eq_int\<close>: equality of the enum is equality of its discriminants.\<close>

lemma http_version_int_inject [simp]: "http_version_int a = http_version_int b \<longleftrightarrow> a = b"
  by (cases a; cases b) simp_all

record pool_stats =
  h2_connections :: usize
  h1_connections :: usize
  total_connections :: usize
  max_total :: usize
  at_capacity :: bool

record py_pool_stats =
  py_h2_connections :: usize
  py_h1_connections :: usize
  py_total :: usize
  py_max_total :: usize
  py_at_capacity :: bool

definition py_pool_stats_from :: "pool_stats \<Rightarrow> py_pool_stats" where
  "py_pool_stats_from s =
     \<lparr>py_h2_connections = h2_connections s, py_h1_connections = h1_connections s,
      py_total = total_connections s, py_max_total = max_total s, py_at_capacity = at_capacity s\<rparr>"

record session_pool_stats =
  idle_sessions :: usize
  max_sessions :: usize

record py_session_pool_stats =
  py_idle_sessions :: usize
  py_max_sessions :: usize

definition py_session_pool_stats_from :: "session_pool_stats \<Rightarrow> py_session_pool_stats" where
  "py_session_pool_stats_from s =
     \<lparr>py_idle_sessions = idle_sessions s, py_max_sessions = max_sessions s\<rparr>"

record resumption_config =
  tls13_psk :: bool
  tls12_session_ticket :: bool
  store_tickets :: bool
  max_tickets_per_host :: "usize option"

definition session_resumption_new :: "bool \<Rightarrow> bool \<Rightarrow> bool \<Rightarrow> usize option \<Rightarrow> resumption_config" where
  "session_resumption_new psk tickets store per_host =
     \<lparr>tls13_psk = psk, tls12_session_ticket = tickets, store_tickets = store,
      max_tickets_per_host = per_host\<rparr>"

text \<open>The defaults of the signature.\<close>

definition session_resumption_default :: resumption_config where
  "session_resumption_default = session_resumption_new True True True None"

end
