(* ===== verification/SessionState.thy ===== *)
theory SessionState imports Middleware Interfaces begin

text \<open>
  \<open>src/src/session_state.rs\<close>: event hooks, middleware callbacks and the closed flag of a session.
  Handles share them by reference, so the model has a heap: a \<open>PyList\<close>, a \<open>watch\<close> channel and a
  \<open>MiddlewareSlots\<close> are cells of it, and a clone of a state is the same references.
\<close>

type_synonym ref = nat

record heap =
  py_lists :: "ref \<Rightarrow> pyobj list"
  watches :: "ref \<Rightarrow> bool"
  slot_cells :: "ref \<Rightarrow> middleware_slots"
  next_ref :: ref

record event_hooks =
  request_hooks :: ref
  response_hooks :: ref

record session_state =
  hooks :: event_hooks
  closed_ref :: ref
  middleware :: "ref list"

section \<open>Construction and cloning\<close>

definition new_list :: "heap \<Rightarrow> ref \<times> heap" where
  "new_list h = (next_ref h, h\<lparr>py_lists := (py_lists h)(next_ref h := []), next_ref := next_ref h + 1\<rparr>)"

definition event_hooks_default :: "heap \<Rightarrow> event_hooks \<times> heap" where
  "event_hooks_default h =
     (let (rq, h) = new_list h; (rs, h) = new_list h
      in (\<lparr>request_hooks = rq, response_hooks = rs\<rparr>, h))"

definition session_state_default :: "heap \<Rightarrow> session_state \<times> heap" where
  "session_state_default h =
     (let (hk, h) = event_hooks_default h; w = next_ref h
      in (\<lparr>hooks = hk, closed_ref = w, middleware = []\<rparr>,
          h\<lparr>watches := (watches h)(w := False), next_ref := w + 1\<rparr>))"

definition with_middleware :: "ref list \<Rightarrow> session_state \<Rightarrow> session_state" where
  "with_middleware mw st = st\<lparr>middleware := mw\<rparr>"

text \<open>\<open>PyMiddlewareWrapper::from_py\<close> puts the callbacks of a middleware in a cell of their own.\<close>

definition new_slots :: "py_middleware \<Rightarrow> heap \<Rightarrow> ref \<times> heap" where
  "new_slots mw h =
     (next_ref h, h\<lparr>slot_cells := (slot_cells h)(next_ref h := slots_from_py mw),
                    next_ref := next_ref h + 1\<rparr>)"

section \<open>Hooks\<close>

definition append_to :: "ref \<Rightarrow> pyobj \<Rightarrow> heap \<Rightarrow> heap" where
  "append_to r f h = h\<lparr>py_lists := (py_lists h)(r := py_lists h r @ [f])\<rparr>"

definition push_request :: "event_hooks \<Rightarrow> pyobj \<Rightarrow> heap \<Rightarrow> heap" where
  "push_request e f h = append_to (request_hooks e) f h"

definition push_response :: "event_hooks \<Rightarrow> pyobj \<Rightarrow> heap \<Rightarrow> heap" where
  "push_response e f h = append_to (response_hooks e) f h"

definition snapshot :: "ref \<Rightarrow> heap \<Rightarrow> pyobj list" where
  "snapshot r h = py_lists h r"

definition empty_list :: "ref \<Rightarrow> heap \<Rightarrow> heap" where
  "empty_list r h = h\<lparr>py_lists := (py_lists h)(r := [])\<rparr>"

definition hooks_clear :: "event_hooks \<Rightarrow> heap \<Rightarrow> heap" where
  "hooks_clear e h = empty_list (response_hooks e) (empty_list (request_hooks e) h)"

text \<open>
  A call of a hook. The hook is arbitrary Python: \<open>run\<close> says what it does to the heap and whether
  it returned or raised; an exception is logged and the next hook runs. The record of the calls
  made is returned with the heap.
\<close>

datatype hook_call =
    RequestHook pyobj string string "(string \<times> string) list"
  | ResponseHook pyobj u16 string f64

type_synonym python = "hook_call \<Rightarrow> heap \<Rightarrow> heap \<times> bool"

fun call_hooks :: "python \<Rightarrow> hook_call list \<Rightarrow> heap \<Rightarrow> hook_call list \<times> heap" where
  "call_hooks run [] h = ([], h)"
| "call_hooks run (c # cs) h =
     (let (h, returned) = run c h; (calls, h) = call_hooks run cs h in (c # calls, h))"

text \<open>\<open>into_iter().collect()\<close> of pairs into a \<open>HashMap\<close>: a later pair replaces an earlier one.\<close>

definition collect_hash_map :: "(string \<times> string) list \<Rightarrow> (string \<times> string) list" where
  "collect_hash_map ps = fold (\<lambda>(k, v). AList.update k v) ps []"

definition fire_request ::
  "python \<Rightarrow> event_hooks \<Rightarrow> string \<Rightarrow> string \<Rightarrow> (string \<times> string) list option \<Rightarrow> heap \<Rightarrow>
   hook_call list \<times> heap" where
  "fire_request run e method url headers h =
     (let hs = snapshot (request_hooks e) h in
      if hs = [] then ([], h)
      else let headers_val = collect_hash_map (case headers of None \<Rightarrow> [] | Some p \<Rightarrow> p)
           in call_hooks run (map (\<lambda>f. RequestHook f method url headers_val) hs) h)"

definition fire_response ::
  "python \<Rightarrow> event_hooks \<Rightarrow> u16 \<Rightarrow> string \<Rightarrow> f64 \<Rightarrow> heap \<Rightarrow> hook_call list \<times> heap" where
  "fire_response run e status_code url elapsed h =
     call_hooks run (map (\<lambda>f. ResponseHook f status_code url elapsed)
       (snapshot (response_hooks e) h)) h"

section \<open>Closing\<close>

definition is_closed :: "session_state \<Rightarrow> heap \<Rightarrow> bool" where
  "is_closed st h = watches h (closed_ref st)"

definition ensure_open :: "session_state \<Rightarrow> heap \<Rightarrow> unit result" where
  "ensure_open st h = (if is_closed st h then raise RuntimeError ''Session is closed'' else Inr ())"

text \<open>
  \<open>close\<close> in its atomic actions. Emptying a list or dropping a callback can run arbitrary Python
  (\<open>__del__\<close>) and lets other threads in, so what happens between two of them matters.
\<close>

datatype action = SendReplace ref | EmptyList ref | ReleaseSlots ref

fun perform :: "action \<Rightarrow> heap \<Rightarrow> heap" where
  "perform (SendReplace r) h = h\<lparr>watches := (watches h)(r := True)\<rparr>"
| "perform (EmptyList r) h = empty_list r h"
| "perform (ReleaseSlots r) h =
     h\<lparr>slot_cells := (slot_cells h)(r := fst (slots_release (slot_cells h r)))\<rparr>"

definition clear_actions :: "event_hooks \<Rightarrow> action list" where
  "clear_actions e = [EmptyList (request_hooks e), EmptyList (response_hooks e)]"

definition close_actions :: "session_state \<Rightarrow> action list" where
  "close_actions st =
     SendReplace (closed_ref st) # clear_actions (hooks st) @ map ReleaseSlots (middleware st)"

definition close :: "session_state \<Rightarrow> heap \<Rightarrow> heap" where
  "close st h = fold perform (close_actions st) h"

definition clear_for_gc :: "session_state \<Rightarrow> heap \<Rightarrow> heap" where
  "clear_for_gc st h = hooks_clear (hooks st) h"

text \<open>\<open>__traverse__\<close>: the references reported, up to the first visit that fails.\<close>

definition traverse :: "session_state \<Rightarrow> (ref \<Rightarrow> bool) \<Rightarrow> ref list" where
  "traverse st visit =
     request_hooks (hooks st) #
     (if visit (request_hooks (hooks st)) then [response_hooks (hooks st)] else [])"

text \<open>The session's own \<open>on_request\<close> and \<open>on_response\<close> methods (session.rs).\<close>

definition session_on_request :: "session_state \<Rightarrow> pyobj \<Rightarrow> heap \<Rightarrow> heap result" where
  "session_on_request st f h =
     ok_then (ensure_open st h) (\<lambda>_. Inr (push_request (hooks st) f h))"

definition session_on_response :: "session_state \<Rightarrow> pyobj \<Rightarrow> heap \<Rightarrow> heap result" where
  "session_on_response st f h =
     ok_then (ensure_open st h) (\<lambda>_. Inr (push_response (hooks st) f h))"

section \<open>Requests in flight\<close>

text \<open>
  One poll of \<open>Closing::guard\<close>. The work of the request is ready with a result or pending;
  \<open>tokio::select!\<close> polls its two branches in a random order, so when both are ready either may
  win.
\<close>

definition abandoned :: "'a result" where
  "abandoned = raise RuntimeError ''Session was closed while the request was in flight''"

inductive guard_poll :: "bool \<Rightarrow> 'a result poll \<Rightarrow> 'a result poll \<Rightarrow> bool" where
  work_done: "guard_poll shut (Ready r) (Ready r)"
| closed_first: "guard_poll True work (Ready abandoned)"
| both_pending: "guard_poll False Pending Pending"

inductive_simps guard_poll_open: "guard_poll False work out"
inductive_simps guard_poll_closed: "guard_poll True work out"

text \<open>
  A request polled until it is ready. Each poll sees the closed flag and the state of the work at
  that moment; \<open>wait_for\<close> reads the current value first, so a close before the first poll counts.
\<close>

inductive guard_run :: "(bool \<times> 'a result poll) list \<Rightarrow> 'a result poll \<Rightarrow> bool" where
  not_polled: "guard_run [] Pending"
| poll_again: "guard_poll shut work Pending \<Longrightarrow> guard_run ps out \<Longrightarrow>
    guard_run ((shut, work) # ps) out"
| poll_ready: "guard_poll shut work (Ready r) \<Longrightarrow> guard_run ((shut, work) # ps) (Ready r)"

inductive_simps guard_run_Nil [simp]: "guard_run [] out"
inductive_simps guard_run_Cons: "guard_run ((shut, work) # ps) out"

section \<open>Closing among other threads\<close>

text \<open>
  The system around one session: the heap and the calls of \<open>close\<close> under way, each with the
  actions it still has to perform. Between two actions anybody may register a hook on any handle
  of the session, call \<open>close\<close> again, or change cells that are not the session's; the collector
  may clear the hooks.
\<close>

record system =
  sheap :: heap
  closers :: "action list list"

definition same_cells :: "session_state \<Rightarrow> heap \<Rightarrow> heap \<Rightarrow> bool" where
  "same_cells st h h' \<longleftrightarrow>
     watches h' (closed_ref st) = watches h (closed_ref st) \<and>
     py_lists h' (request_hooks (hooks st)) = py_lists h (request_hooks (hooks st)) \<and>
     py_lists h' (response_hooks (hooks st)) = py_lists h (response_hooks (hooks st)) \<and>
     (\<forall>r \<in> set (middleware st). slot_cells h' r = slot_cells h r)"

inductive step :: "session_state \<Rightarrow> system \<Rightarrow> system \<Rightarrow> bool" for st where
  call_close: "step st s (s\<lparr>closers := closers s @ [close_actions st]\<rparr>)"
| close_action: "i < length (closers s) \<Longrightarrow> closers s ! i = a # as \<Longrightarrow>
    step st s (s\<lparr>sheap := perform a (sheap s), closers := (closers s)[i := as]\<rparr>)"
| register_request: "session_on_request st f (sheap s) = Inr h \<Longrightarrow> step st s (s\<lparr>sheap := h\<rparr>)"
| register_response: "session_on_response st f (sheap s) = Inr h \<Longrightarrow> step st s (s\<lparr>sheap := h\<rparr>)"
| collect: "step st s (s\<lparr>sheap := clear_for_gc st (sheap s)\<rparr>)"
| elsewhere: "same_cells st (sheap s) h \<Longrightarrow> step st s (s\<lparr>sheap := h\<rparr>)"

text \<open>What an action has achieved, and whether a session holds nothing any more.\<close>

fun achieved :: "action \<Rightarrow> heap \<Rightarrow> bool" where
  "achieved (SendReplace r) h = watches h r"
| "achieved (EmptyList r) h = (py_lists h r = [])"
| "achieved (ReleaseSlots r) h = slots_released (slot_cells h r)"

definition let_go :: "session_state \<Rightarrow> heap \<Rightarrow> bool" where
  "let_go st h \<longleftrightarrow>
     is_closed st h \<and> py_lists h (request_hooks (hooks st)) = [] \<and>
     py_lists h (response_hooks (hooks st)) = [] \<and>
     (\<forall>r \<in> set (middleware st). slots_released (slot_cells h r))"

lemma let_go_achieved: "let_go st h \<longleftrightarrow> (\<forall>a \<in> set (close_actions st). achieved a h)"
  by (auto simp: let_go_def close_actions_def clear_actions_def is_closed_def)

lemma perform_achieves: "achieved a (perform a h)"
  by (cases a) (simp_all add: empty_list_def)

lemma perform_keeps: "achieved b h \<Longrightarrow> achieved b (perform a h)"
  by (cases a; cases b) (auto simp: empty_list_def)

lemma fold_perform_achieves: "a \<in> set as \<Longrightarrow> achieved a (fold perform as h)"
proof (induction as arbitrary: h)
  case (Cons b as)
  have keep: "achieved b (fold perform xs h')" if "achieved b h'" for xs h'
    using that by (induction xs arbitrary: h') (auto intro: perform_keeps)
  show ?case using Cons by (auto intro: keep perform_achieves)
qed simp

section \<open>Lemmas\<close>

lemma ensure_open_Inr [simp]: "ensure_open st h = Inr u \<longleftrightarrow> \<not> is_closed st h"
  by (simp add: ensure_open_def)

lemma register_request_Inr: "session_on_request st f h = Inr h' \<longleftrightarrow>
    \<not> is_closed st h \<and> h' = push_request (hooks st) f h"
  by (auto simp: session_on_request_def res_simps)

lemma register_response_Inr: "session_on_response st f h = Inr h' \<longleftrightarrow>
    \<not> is_closed st h \<and> h' = push_response (hooks st) f h"
  by (auto simp: session_on_response_def res_simps)

lemma achieved_push:
  "a = SendReplace (closed_ref st) \<or> (\<exists>r. a = ReleaseSlots r) \<Longrightarrow>
   achieved a (append_to q f h) = achieved a h"
  by (auto simp: append_to_def)

lemma is_closed_push [simp]: "is_closed st (append_to q f h) = is_closed st h"
  by (simp add: is_closed_def append_to_def)

lemma step_closed: "step st s t \<Longrightarrow> is_closed st (sheap s) \<Longrightarrow> is_closed st (sheap t)"
proof (induction rule: step.induct)
  case (close_action i s a as)
  then show ?case by (cases a) (auto simp: is_closed_def empty_list_def)
qed (auto simp: is_closed_def clear_for_gc_def hooks_clear_def empty_list_def same_cells_def
       register_request_Inr register_response_Inr push_request_def push_response_def append_to_def)

interpretation closed_flag: absorbing "step st" "\<lambda>s. is_closed st (sheap s)"
  by unfold_locales (rule step_closed)

text \<open>
  The invariant: the actions a closer has behind it are still achieved. The flag is the first of
  them, and with the flag up nothing is registered any more.
\<close>

definition closing_inv :: "session_state \<Rightarrow> system \<Rightarrow> bool" where
  "closing_inv st s \<longleftrightarrow> (\<forall>as \<in> set (closers s). \<exists>done.
     close_actions st = done @ as \<and> (\<forall>a \<in> set done. achieved a (sheap s)))"

lemma achieved_same_cells:
  assumes "same_cells st h h'" and "a \<in> set (close_actions st)" and "achieved a h"
  shows "achieved a h'"
  using assms
  by (auto simp: same_cells_def close_actions_def clear_actions_def slots_released_def)

lemma achieved_clear: "achieved a h \<Longrightarrow> achieved a (clear_for_gc st h)"
  by (cases a) (auto simp: clear_for_gc_def hooks_clear_def empty_list_def)

lemma close_actions_first:
  assumes "close_actions st = done @ as" and "done \<noteq> []"
  shows "SendReplace (closed_ref st) \<in> set done"
  using assms by (cases "done") (auto simp: close_actions_def)

lemma closing_inv_push:
  assumes "closing_inv st s" and "\<not> is_closed st (sheap s)"
  shows "closing_inv st (s\<lparr>sheap := h\<rparr>)"
proof -
  have "close_actions st = as" if as: "as \<in> set (closers s)" for as
  proof -
    from assms(1) as obtain dn where dn: "close_actions st = dn @ as"
      "\<forall>a \<in> set dn. achieved a (sheap s)" by (auto simp: closing_inv_def)
    have "dn = []"
      using close_actions_first [OF dn(1)] dn(2) assms(2) by (fastforce simp: is_closed_def)
    with dn show ?thesis by simp
  qed
  then show ?thesis by (auto simp: closing_inv_def)
qed

lemma closing_inv_mono:
  assumes "closing_inv st s"
    and "\<And>a. a \<in> set (close_actions st) \<Longrightarrow> achieved a (sheap s) \<Longrightarrow> achieved a h"
  shows "closing_inv st (s\<lparr>sheap := h\<rparr>)"
  using assms unfolding closing_inv_def by simp (metis Un_iff set_append)

lemma closing_inv_action:
  assumes inv: "closing_inv st s" and i: "i < length (closers s)" "closers s ! i = a # as"
  shows "closing_inv st (s\<lparr>sheap := perform a (sheap s), closers := (closers s)[i := as]\<rparr>)"
proof -
  have old: "\<exists>dn. close_actions st = dn @ bs \<and> (\<forall>b \<in> set dn. achieved b (perform a (sheap s)))"
    if "bs \<in> set (closers s)" for bs
    using inv that unfolding closing_inv_def by (metis perform_keeps)
  obtain dn where dn: "close_actions st = dn @ a # as" "\<forall>b \<in> set dn. achieved b (perform a (sheap s))"
    using old [of "a # as"] i by (metis nth_mem)
  have "\<exists>dn. close_actions st = dn @ as \<and> (\<forall>b \<in> set dn. achieved b (perform a (sheap s)))"
    by (rule exI [of _ "dn @ [a]"]) (use dn in \<open>auto simp: perform_achieves\<close>)
  then show ?thesis
    using old set_update_subset_insert [of "closers s" i as] by (auto simp: closing_inv_def)
qed

lemma closing_inv_step: "step st s t \<Longrightarrow> closing_inv st s \<Longrightarrow> closing_inv st t"
proof (induction rule: step.induct)
  case (call_close s)
  then show ?case by (auto simp: closing_inv_def)
next
  case (close_action i s a as)
  then show ?case by (simp add: closing_inv_action)
next
  case (collect s)
  then show ?case by (auto intro: closing_inv_mono achieved_clear)
next
  case (elsewhere s h)
  then show ?case by (auto intro: closing_inv_mono achieved_same_cells)
qed (auto simp: register_request_Inr register_response_Inr intro: closing_inv_push)

interpretation closing: absorbing "step st" "closing_inv st"
  by unfold_locales (rule closing_inv_step)

lemma let_go_step: "step st s t \<Longrightarrow> let_go st (sheap s) \<Longrightarrow> let_go st (sheap t)"
proof (induction rule: step.induct)
  case (close_action i s a as)
  then show ?case by (auto simp: let_go_achieved intro: perform_keeps)
next
  case (collect s)
  then show ?case by (auto simp: let_go_achieved intro: achieved_clear)
next
  case (elsewhere s h)
  then show ?case by (auto simp: let_go_achieved intro: achieved_same_cells)
next
  case (register_request f s h)
  then show ?case by (simp add: register_request_Inr let_go_def)
next
  case (register_response f s h)
  then show ?case by (simp add: register_response_Inr let_go_def)
qed simp

interpretation let_go_forever: absorbing "step st" "\<lambda>s. let_go st (sheap s)"
  by unfold_locales (rule let_go_step)

lemma closer_finished: "closing_inv st s \<Longrightarrow> [] \<in> set (closers s) \<Longrightarrow> let_go st (sheap s)"
  by (auto simp: closing_inv_def let_go_achieved)

lemma perform_frame:
  "EmptyList r \<noteq> a \<Longrightarrow> py_lists (perform a h) r = py_lists h r"
  "SendReplace r \<noteq> a \<Longrightarrow> watches (perform a h) r = watches h r"
  "ReleaseSlots r \<noteq> a \<Longrightarrow> slot_cells (perform a h) r = slot_cells h r"
  by (cases a; auto simp: empty_list_def)+

lemma fold_perform_frame:
  "EmptyList r \<notin> set as \<Longrightarrow> py_lists (fold perform as h) r = py_lists h r"
  "SendReplace r \<notin> set as \<Longrightarrow> watches (fold perform as h) r = watches h r"
  "ReleaseSlots r \<notin> set as \<Longrightarrow> slot_cells (fold perform as h) r = slot_cells h r"
  by (induction as arbitrary: h) (simp_all add: perform_frame)

lemma perform_again: "achieved a h \<Longrightarrow> perform a h = h"
proof (cases a)
  case (ReleaseSlots r)
  assume "achieved a h"
  then have "fst (slots_release (slot_cells h r)) = slot_cells h r"
    using ReleaseSlots by (simp add: slots_release_def slots_released_def Let_def)
  then show ?thesis using ReleaseSlots by simp
qed (simp_all add: empty_list_def fun_upd_idem)

lemma fold_perform_again: "(\<And>a. a \<in> set as \<Longrightarrow> achieved a h) \<Longrightarrow> fold perform as h = h"
  by (induction as) (simp_all add: perform_again)

lemma call_hooks_calls [simp]: "fst (call_hooks run cs h) = cs"
proof (induction cs arbitrary: h)
  case (Cons c cs)
  obtain h1 b where r: "run c h = (h1, b)" by (cases "run c h")
  show ?case using Cons.IH [of h1] r by (cases "call_hooks run cs h1") simp
qed simp

lemma call_hooks_fst: "call_hooks run cs h = (calls, h') \<Longrightarrow> calls = cs"
  by (metis call_hooks_calls fst_conv)

lemma collect_hash_map_last: "map_of (collect_hash_map ps) = map_of (rev ps)"
proof -
  have "map_of (fold (\<lambda>(k, v). AList.update k v) ps d) = map_of (rev ps @ d)" for d
    by (induction ps arbitrary: d) (auto simp: update_conv' map_add_def split: option.splits)
  from this [of "[]"] show ?thesis by (simp add: collect_hash_map_def)
qed

lemma close_actions_frame:
  "r \<noteq> closed_ref st \<Longrightarrow> SendReplace r \<notin> set (close_actions st)"
  "r \<noteq> request_hooks (hooks st) \<and> r \<noteq> response_hooks (hooks st) \<Longrightarrow>
     EmptyList r \<notin> set (close_actions st)"
  "r \<notin> set (middleware st) \<Longrightarrow> ReleaseSlots r \<notin> set (close_actions st)"
  by (auto simp: close_actions_def clear_actions_def)

lemma close_watches: "watches (close st h) = (watches h)(closed_ref st := True)"
proof -
  have release: "watches (fold perform (map ReleaseSlots rs) h) = watches h" for rs h
    by (induction rs arbitrary: h) simp_all
  show ?thesis by (simp add: close_def close_actions_def clear_actions_def release empty_list_def)
qed

section \<open>Properties\<close>

text \<open>C2: However the actions of a \<open>close\<close> interleave with registrations from other threads or from
  code that the release of a callback runs, with other calls of \<open>close\<close> and with the collector:
  once one \<open>close\<close> has returned, and ever after, the session is closed and holds no hook and no
  middleware callback.\<close>
theorem close_is_final:
  assumes start: "closers s = []" and reach: "(step st)\<^sup>*\<^sup>* s t" and fin: "[] \<in> set (closers t)"
    and later: "(step st)\<^sup>*\<^sup>* t u"
  shows "let_go st (sheap u) \<and> ensure_open st (sheap u) = raise RuntimeError ''Session is closed''"
proof -
  have "closing_inv st s" using start by (simp add: closing_inv_def)
  then have "closing_inv st t" by (rule closing.forever [OF reach])
  then have "let_go st (sheap t)" using fin by (rule closer_finished)
  then have "let_go st (sheap u)" by (rule let_go_forever.forever [OF later])
  then show ?thesis by (simp add: let_go_def ensure_open_def)
qed

text \<open>\<open>close\<close> run on its own closes the session, empties both hook lists and releases the
  callbacks of every middleware, and touches no flag, list or slots of anything else.\<close>
lemma close_effect:
  "let_go st (close st h) \<and>
   (r \<noteq> closed_ref st \<longrightarrow> watches (close st h) r = watches h r) \<and>
   (r \<noteq> request_hooks (hooks st) \<and> r \<noteq> response_hooks (hooks st) \<longrightarrow>
      py_lists (close st h) r = py_lists h r) \<and>
   (r \<notin> set (middleware st) \<longrightarrow> slot_cells (close st h) r = slot_cells h r) \<and>
   close st (close st h) = close st h"
proof (intro conjI impI)
  show go: "let_go st (close st h)"
    by (simp add: let_go_achieved close_def fold_perform_achieves)
  show "close st (close st h) = close st h"
    using go by (simp add: close_def [of st "close st h"] let_go_achieved fold_perform_again)
qed (simp_all add: close_def fold_perform_frame close_actions_frame)

lemma closer_runs:
  "(step st)\<^sup>*\<^sup>* (s\<lparr>closers := cs @ [as]\<rparr>) (s\<lparr>sheap := fold perform as (sheap s), closers := cs @ [[]]\<rparr>)"
proof (induction as arbitrary: s)
  case (Cons a as)
  have "step st (s\<lparr>closers := cs @ [a # as]\<rparr>)
      (s\<lparr>sheap := perform a (sheap s), closers := cs @ [as]\<rparr>)"
    using close_action [of "length cs" "s\<lparr>closers := cs @ [a # as]\<rparr>" a as st] by simp
  also have "(step st)\<^sup>*\<^sup>* \<dots> (s\<lparr>sheap := fold perform as (perform a (sheap s)), closers := cs @ [[]]\<rparr>)"
    using Cons.IH [of "s\<lparr>sheap := perform a (sheap s)\<rparr>"] by simp
  finally show ?case by simp
qed simp

lemma close_runs:
  "(step st)\<^sup>*\<^sup>* s (s\<lparr>sheap := close st (sheap s), closers := closers s @ [[]]\<rparr>)"
proof -
  have "step st s (s\<lparr>closers := closers s @ [close_actions st]\<rparr>)" by (rule call_close)
  also have "(step st)\<^sup>*\<^sup>* \<dots> (s\<lparr>sheap := close st (sheap s), closers := closers s @ [[]]\<rparr>)"
    using closer_runs by (simp add: close_def)
  finally show ?thesis .
qed

definition sample_state :: session_state where
  "sample_state = \<lparr>hooks = \<lparr>request_hooks = 0, response_hooks = 1\<rparr>, closed_ref = 0, middleware = [0]\<rparr>"

definition sample_heap :: heap where
  "sample_heap = \<lparr>py_lists = (\<lambda>r. [7]), watches = (\<lambda>r. False),
     slot_cells = (\<lambda>r. \<lparr>slot_on_request = Some 8, slot_on_response = None\<rparr>), next_ref = 2\<rparr>"

definition sample_system :: system where
  "sample_system = \<lparr>sheap = sample_heap, closers = []\<rparr>"

theorem close_is_final_witness:
  "let_go sample_state (close sample_state sample_heap) \<and>
   py_lists (close sample_state sample_heap) 0 = [] \<and> py_lists sample_heap 0 = [7]"
  using close_is_final [OF _ close_runs [of sample_state sample_system] _ rtranclp.rtrancl_refl]
  by (simp add: sample_system_def let_go_def sample_state_def sample_heap_def)

text \<open>C16: A request that is polled until the session is closed or its work is ready does finish
  there: with the result of its work, or abandoned, and abandoned only if some poll found the
  session closed. A request whose session stays open gets exactly what its work produced.\<close>
theorem guarded_request_finishes:
  assumes run: "guard_run ps out" and some: "\<exists>p \<in> set ps. fst p \<or> snd p \<noteq> Pending"
  shows "\<exists>r. out = Ready r \<and>
           (Ready r \<in> snd ` set ps \<or> r = abandoned \<and> True \<in> fst ` set ps)"
  using run some
proof (induction rule: guard_run.induct)
  case (poll_again shut work ps out)
  then have "\<not> shut \<and> work = Pending" by (auto elim: guard_poll.cases)
  with poll_again show ?case by auto
next
  case (poll_ready shut work r ps)
  then show ?case by (auto elim: guard_poll.cases)
qed simp

theorem guarded_request_finishes_witness:
  "\<exists>r. Ready (abandoned :: nat result) = Ready r \<and>
     (Ready r \<in> snd ` set [(False, Pending), (True, Pending :: nat result poll)] \<or>
      r = abandoned \<and> True \<in> fst ` set [(False, Pending), (True, Pending :: nat result poll)])"
proof (rule guarded_request_finishes)
  show "guard_run [(False, Pending), (True, Pending :: nat result poll)] (Ready abandoned)"
    by (intro poll_again poll_ready both_pending closed_first)
qed simp

text \<open>Firing the request hooks calls exactly the hooks registered at that moment, each once and
  in order of registration, whatever the hooks themselves do to the session (register others,
  close it, raise); every one gets the method, the URL and, of a repeated header, the last value.\<close>
lemma fire_request_calls:
  "fst (fire_request run e method url headers h) =
     map (\<lambda>f. RequestHook f method url (collect_hash_map (case headers of None \<Rightarrow> [] | Some p \<Rightarrow> p)))
       (py_lists h (request_hooks e)) \<and>
   map_of (collect_hash_map ps) = map_of (rev ps)"
  by (simp add: fire_request_def snapshot_def Let_def collect_hash_map_last)

text \<open>A new session is open, without hooks and middleware, and shares no cell with a session
  made before it: closing either leaves the other open with the hooks it had.\<close>
lemma fresh_sessions_independent:
  assumes "session_state_default h = (a, h1)" and "session_state_default h1 = (b, h2)"
  shows "\<not> is_closed a h2 \<and> \<not> is_closed b h2 \<and> snapshot (request_hooks (hooks b)) h2 = [] \<and>
     \<not> is_closed b (close a (push_request (hooks b) f h2)) \<and>
     snapshot (request_hooks (hooks b)) (close a (push_request (hooks b) f h2)) = [f] \<and>
     \<not> is_closed a (close b (push_request (hooks a) f h2)) \<and>
     snapshot (request_hooks (hooks a)) (close b (push_request (hooks a) f h2)) = [f]"
  using assms
  by (auto simp: session_state_default_def event_hooks_default_def new_list_def Let_def is_closed_def
      snapshot_def push_request_def append_to_def close_def close_actions_def clear_actions_def
      empty_list_def)

end
