(* ===== verification/Upload.thy ===== *)
theory Upload imports Middleware Interfaces begin

text \<open>
  \<open>src/src/upload.rs\<close>: the classification of a \<open>body_stream\<close> argument and the two streams that pull
  chunks out of Python. What a pull finds (what \<open>read\<close>, \<open>__next__\<close> or \<open>__anext__\<close> returned or
  raised, and whether it has finished yet) is an input of each poll.
\<close>

definition READ_CHUNK_SIZE :: nat where
  "READ_CHUNK_SIZE = 16 * 1024"

section \<open>Sources\<close>

text \<open>The Python object as the code probes it.\<close>

record py_source =
  has_read :: "bool result"
  has_aiter :: "bool result"
  call_aiter :: "pyobj result"
  try_iter :: "pyobj result"
  source_obj :: pyobj
  source_type :: "string option"

datatype upload_source = Reader pyobj | SyncIter pyobj | AsyncIter pyobj nat

definition type_name :: "string option \<Rightarrow> string" where
  "type_name n = (case n of Some s \<Rightarrow> s | None \<Rightarrow> ''<unknown>'')"

text \<open>\<open>locals\<close> is the event loop running in the calling task, if there is one.\<close>

definition extract_source :: "nat option \<Rightarrow> py_source \<Rightarrow> upload_source result" where
  "extract_source task_locals source =
     ok_then (has_read source) (\<lambda>readable.
     if readable then Inr (Reader (source_obj source))
     else ok_then (has_aiter source) (\<lambda>async_iterable.
     if async_iterable then
       ok_then (call_aiter source) (\<lambda>it.
       ok_then (ok_or (PyExc TypeError
           ''body_stream got an async iterable, which needs a running event loop'' []) task_locals)
         (\<lambda>loc. Inr (AsyncIter it loc)))
     else case try_iter source of
         Inr it \<Rightarrow> Inr (SyncIter it)
       | Inl _ \<Rightarrow> raise_with TypeError
           ''body_stream must be a file-like object with read(), an iterable of bytes''
           [AStr (type_name (source_type source))]))"

section \<open>Chunks\<close>

datatype py_chunk =
    ChunkNone | ChunkBytes bytes | ChunkStr | ChunkByteSeq bytes | ChunkOther "string option"

fun is_none_chunk :: "py_chunk \<Rightarrow> bool" where
  "is_none_chunk ChunkNone = True"
| "is_none_chunk _ = False"

fun extract_chunk :: "py_chunk \<Rightarrow> bytes result" where
  "extract_chunk (ChunkBytes b) = Inr b"
| "extract_chunk ChunkStr = raise TypeError ''body_stream produced str, expected bytes''"
| "extract_chunk (ChunkByteSeq b) = Inr b"
| "extract_chunk ChunkNone =
     raise_with TypeError ''body_stream must produce bytes-like chunks, got '' [AStr ''NoneType'']"
| "extract_chunk (ChunkOther n) =
     raise_with TypeError ''body_stream must produce bytes-like chunks, got '' [AStr (type_name n)]"

definition pull_reader :: "py_chunk result \<Rightarrow> bytes option result" where
  "pull_reader read = ok_then read (\<lambda>chunk.
     if is_none_chunk chunk then Inr None
     else ok_then (extract_chunk chunk) (\<lambda>chunk.
       Inr (if chunk \<noteq> [] then Some chunk else None)))"

fun pull_sync_iter :: "py_chunk result \<Rightarrow> bytes option result" where
  "pull_sync_iter (Inr item) = map_ok Some (extract_chunk item)"
| "pull_sync_iter (Inl error) = (if kind error = StopIteration then Inr None else Inl error)"

datatype io_error = SourceFailed exc | TaskFailed string

type_synonym stream_item = "io_error + bytes"

definition producer_error :: "exc \<Rightarrow> io_error" where
  "producer_error error = SourceFailed error"

definition end_or_error :: "exc \<Rightarrow> stream_item option" where
  "end_or_error error =
     (if kind error = StopAsyncIteration then None else Some (Inl (producer_error error)))"

section \<open>The blocking stream\<close>

datatype blocking_kind = KReader | KSyncIter

text \<open>\<open>spawned\<close> counts the pulls started so far.\<close>

record blocking_source =
  blocking_kind :: blocking_kind
  pending :: bool
  finished :: bool
  spawned :: nat

definition blocking_new :: "blocking_kind \<Rightarrow> blocking_source" where
  "blocking_new k = \<lparr>blocking_kind = k, pending = False, finished = False, spawned = 0\<rparr>"

fun pull :: "blocking_kind \<Rightarrow> py_chunk result \<Rightarrow> bytes option result" where
  "pull KReader r = pull_reader r"
| "pull KSyncIter r = pull_sync_iter r"

text \<open>
  One \<open>poll_next\<close>; the input is the poll of the join handle: what the pull found in Python, or the
  message of a join error.
\<close>

definition blocking_poll ::
  "blocking_source \<Rightarrow> (string + py_chunk result) poll \<Rightarrow> stream_item option poll \<times> blocking_source"
where
  "blocking_poll this handle =
     (if finished this then (Ready None, this)
      else
        let this = (if pending this then this\<lparr>pending := False\<rparr>
                    else this\<lparr>spawned := spawned this + 1\<rparr>) in
        case handle of
          Pending \<Rightarrow> (Pending, this\<lparr>pending := True\<rparr>)
        | Ready joined \<Rightarrow>
            let this = this\<lparr>finished := True\<rparr> in
            (case joined of
               Inl join \<Rightarrow> (Ready (Some (Inl (TaskFailed join))), this)
             | Inr found \<Rightarrow>
                 (case pull (blocking_kind this) found of
                    Inr (Some chunk) \<Rightarrow> (Ready (Some (Inr chunk)), this\<lparr>finished := False\<rparr>)
                  | Inr None \<Rightarrow> (Ready None, this)
                  | Inl error \<Rightarrow> (Ready (Some (Inl (producer_error error))), this))))"

section \<open>The asynchronous stream\<close>

record async_source =
  a_iterator :: pyobj
  a_locals :: nat
  a_pending :: bool
  a_finished :: bool
  a_started :: nat

definition async_new :: "pyobj \<Rightarrow> nat \<Rightarrow> async_source" where
  "async_new it loc = \<lparr>a_iterator = it, a_locals = loc, a_pending = False, a_finished = False,
     a_started = 0\<rparr>"

text \<open>
  The inputs of a poll: what starting \<open>__anext__\<close> gives (used only when nothing is pending), and
  the poll of its future.
\<close>

definition async_poll ::
  "async_source \<Rightarrow> unit result \<times> py_chunk result poll \<Rightarrow> stream_item option poll \<times> async_source"
where
  "async_poll this e =
     (if a_finished this then (Ready None, this)
      else
        case (if a_pending this then Inr () else fst e) of
          Inl error \<Rightarrow> (Ready (end_or_error error), this\<lparr>a_finished := True\<rparr>)
        | Inr _ \<Rightarrow>
            let this = (if a_pending this then this\<lparr>a_pending := False\<rparr>
                        else this\<lparr>a_started := a_started this + 1\<rparr>) in
            (case snd e of
               Pending \<Rightarrow> (Pending, this\<lparr>a_pending := True\<rparr>)
             | Ready (Inl error) \<Rightarrow> (Ready (end_or_error error), this\<lparr>a_finished := True\<rparr>)
             | Ready (Inr item) \<Rightarrow>
                 (case extract_chunk item of
                    Inr chunk \<Rightarrow> (Ready (Some (Inr chunk)), this)
                  | Inl error \<Rightarrow>
                      (Ready (Some (Inl (producer_error error))), this\<lparr>a_finished := True\<rparr>))))"

datatype upload_stream = BlockingStream pyobj blocking_source | AsyncStream async_source

fun into_stream :: "upload_source \<Rightarrow> upload_stream" where
  "into_stream (Reader source) = BlockingStream source (blocking_new KReader)"
| "into_stream (SyncIter source) = BlockingStream source (blocking_new KSyncIter)"
| "into_stream (AsyncIter it loc) = AsyncStream (async_new it loc)"

section \<open>Fused streams\<close>

text \<open>
  What the transport relies on: after the end of the stream, or its error, a poll changes nothing
  and finds nothing.
\<close>

definition last_item :: "'e \<Rightarrow> stream_item option poll \<Rightarrow> bool" where
  "last_item e out \<longleftrightarrow> out = Ready None \<or> (\<exists>x. out = Ready (Some (Inl x)))"

lemma end_or_error_None: "end_or_error e = None \<longleftrightarrow> kind e = StopAsyncIteration"
  by (simp add: end_or_error_def)

interpretation blocking_stream: fused blocking_poll finished "\<lambda>_. Ready None" last_item
  by unfold_locales
     (auto simp: blocking_poll_def last_item_def Let_def
        split: if_splits poll.splits sum.splits option.splits)

interpretation async_stream: fused async_poll a_finished "\<lambda>_. Ready None" last_item
  by unfold_locales
     (auto simp: async_poll_def last_item_def Let_def split: if_splits poll.splits sum.splits)

section \<open>A stream against its source\<close>

text \<open>
  The specification: the items of a source whose \<open>i\<close>th pull finds \<open>src i\<close>, for \<open>n\<close> pulls. The end
  and the first error are final.
\<close>

fun expected :: "blocking_kind \<Rightarrow> (nat \<Rightarrow> py_chunk result) \<Rightarrow> nat \<Rightarrow> nat \<Rightarrow> stream_item list" where
  "expected k src 0 i = []"
| "expected k src (Suc n) i =
     (case pull k (src i) of
        Inr None \<Rightarrow> []
      | Inr (Some c) \<Rightarrow> Inr c # expected k src n (Suc i)
      | Inl e \<Rightarrow> [Inl (producer_error e)])"

text \<open>
  The stream driven by a transport: each element of the schedule is a poll, true when the pull
  under way has finished by then. Returned are the items, the stream and the pulls completed.
\<close>

fun drive :: "(nat \<Rightarrow> py_chunk result) \<Rightarrow> blocking_source \<Rightarrow> nat \<Rightarrow> bool list \<Rightarrow>
    stream_item list \<times> blocking_source \<times> nat" where
  "drive src s i [] = ([], s, i)"
| "drive src s i (b # bs) =
     (let (out, t) = blocking_poll s (if b then Ready (Inr (src i)) else Pending);
          (items, u, j) = drive src t (if b \<and> \<not> finished s then Suc i else i) bs
      in ((case out of Ready (Some item) \<Rightarrow> [item] | _ \<Rightarrow> []) @ items, u, j))"

definition in_step :: "blocking_source \<Rightarrow> nat \<Rightarrow> bool" where
  "in_step s i \<longleftrightarrow> spawned s = i + (if pending s then 1 else 0)"

lemma drive_finished: "finished s \<Longrightarrow> drive src s i bs = ([], s, i)"
  by (induction bs) (simp_all add: blocking_stream.over_stays Let_def)

lemma drive_spec:
  assumes "\<not> finished s" and "in_step s i" and "drive src s i bs = (items, t, j)"
  shows "items = expected (blocking_kind s) src (count_list bs True) i \<and> in_step t j"
  using assms
proof (induction bs arbitrary: s i items)
  case Nil
  then show ?case by simp
next
  case (Cons b bs)
  show ?case
  proof (cases b)
    case False
    let ?s = "(if pending s then s else s\<lparr>spawned := spawned s + 1\<rparr>)\<lparr>pending := True\<rparr>"
    have p: "blocking_poll s Pending = (Pending, ?s)"
      using Cons.prems(1) by (simp add: blocking_poll_def Let_def)
    have "drive src ?s i bs = (items, t, j)"
      using Cons.prems(1,3) False p by (simp add: Let_def split: prod.splits)
    moreover have "in_step ?s i" using Cons.prems(2) by (simp add: in_step_def)
    ultimately show ?thesis
      using Cons.IH [of ?s i items] Cons.prems(1) False by simp
  next
    case True
    let ?s = "(if pending s then s\<lparr>pending := False\<rparr> else s\<lparr>spawned := spawned s + 1\<rparr>)"
    have st: "in_step ?s (Suc i)" "in_step (?s\<lparr>finished := f\<rparr>) (Suc i)" "blocking_kind ?s = blocking_kind s"
      for f using Cons.prems(2) by (auto simp: in_step_def)
    show ?thesis
    proof (cases "pull (blocking_kind s) (src i)")
      case (Inl e)
      then show ?thesis
        using Cons.prems(1,3) True st
        by (auto simp: blocking_poll_def Let_def drive_finished)
    next
      case (Inr r)
      show ?thesis
      proof (cases r)
        case None
        then show ?thesis
          using Cons.prems(1,3) True st Inr
          by (auto simp: blocking_poll_def Let_def drive_finished)
      next
        case (Some c)
        let ?t = "?s\<lparr>finished := False\<rparr>"
        obtain rest where rest: "drive src ?t (Suc i) bs = (rest, t, j)" "items = Inr c # rest"
          using Cons.prems(1,3) True st Inr Some
          by (auto simp: blocking_poll_def Let_def split: prod.splits)
        have "\<not> finished ?t" "in_step ?t (Suc i)" "blocking_kind ?t = blocking_kind s" using st by auto
        with Cons.IH [of ?t "Suc i" rest] rest show ?thesis using True Inr Some by simp
      qed
    qed
  qed
qed

section \<open>A file\<close>

text \<open>What successive \<open>read(READ_CHUNK_SIZE)\<close> of a binary file return.\<close>

definition file_reads :: "bytes \<Rightarrow> nat \<Rightarrow> py_chunk result" where
  "file_reads content i =
     Inr (ChunkBytes (take READ_CHUNK_SIZE (drop (i * READ_CHUNK_SIZE) content)))"

lemma read_chunk_pos [simp]: "0 < READ_CHUNK_SIZE"
  by (simp add: READ_CHUNK_SIZE_def)

lemma pull_file:
  "pull_reader (file_reads content i) =
     (if drop (i * READ_CHUNK_SIZE) content = [] then Inr None
      else Inr (Some (take READ_CHUNK_SIZE (drop (i * READ_CHUNK_SIZE) content))))"
  by (simp add: pull_reader_def file_reads_def READ_CHUNK_SIZE_def)

lemma expected_file:
  assumes "length content < (i + n) * READ_CHUNK_SIZE"
  shows "\<exists>cs. expected KReader (file_reads content) n i = map Inr cs \<and>
     concat cs = drop (i * READ_CHUNK_SIZE) content \<and>
     (\<forall>c \<in> set cs. 0 < length c \<and> length c \<le> READ_CHUNK_SIZE) \<and>
     (\<forall>c \<in> set (butlast cs). length c = READ_CHUNK_SIZE)"
  using assms
proof (induction n arbitrary: i)
  case 0
  then show ?case by simp
next
  case (Suc n)
  let ?rest = "drop (i * READ_CHUNK_SIZE) content"
  show ?case
  proof (cases "?rest = []")
    case True
    then show ?thesis by (intro exI [of _ "[]"]) (simp add: pull_file)
  next
    case False
    from Suc.IH [of "Suc i"] Suc.prems obtain cs where
      cs: "expected KReader (file_reads content) n (Suc i) = map Inr cs"
        "concat cs = drop (Suc i * READ_CHUNK_SIZE) content"
        "\<forall>c \<in> set cs. 0 < length c \<and> length c \<le> READ_CHUNK_SIZE"
        "\<forall>c \<in> set (butlast cs). length c = READ_CHUNK_SIZE" by auto
    let ?c = "take READ_CHUNK_SIZE ?rest"
    have full: "cs \<noteq> [] \<Longrightarrow> length ?c = READ_CHUNK_SIZE"
    proof -
      assume "cs \<noteq> []"
      then have "concat cs \<noteq> []" using cs(3) by (cases cs) auto
      then show ?thesis using cs(2) by simp
    qed
    have tail: "?c @ drop (Suc i * READ_CHUNK_SIZE) content = ?rest"
      by (metis append_take_drop_id drop_drop mult_Suc)
    show ?thesis
    proof (intro exI [of _ "?c # cs"] conjI)
      show "concat (?c # cs) = ?rest" using cs(2) tail by simp
      show "\<forall>c \<in> set (?c # cs). 0 < length c \<and> length c \<le> READ_CHUNK_SIZE"
        using cs(3) False by auto
      show "\<forall>c \<in> set (butlast (?c # cs)). length c = READ_CHUNK_SIZE"
        using cs(4) full by auto
    qed (use cs(1) False in \<open>simp add: pull_file\<close>)
  qed
qed

section \<open>Properties\<close>

text \<open>C6: Whatever the order in which polls and pulls happen, the stream made of a synchronous
  source yields exactly the items its completed pulls found, up to and including the end or the
  first error, and never has more than one pull under way: nothing is read ahead.\<close>
theorem blocking_stream_delivers:
  assumes "drive src (blocking_new k) 0 schedule = (items, t, j)"
  shows "items = expected k src (count_list schedule True) 0 \<and> spawned t \<le> j + 1"
  using drive_spec [OF _ _ assms] by (auto simp: blocking_new_def in_step_def split: if_splits)

theorem blocking_stream_delivers_witness:
  "fst (drive (\<lambda>i. if i = 0 then Inr (ChunkBytes [1]) else Inl (PyExc StopIteration [] []))
     (blocking_new KSyncIter) 0 [False, True, False, True, True]) = [Inr [1]]"
proof -
  let ?src = "\<lambda>i. if i = (0::nat) then Inr (ChunkBytes [1]) else Inl (PyExc StopIteration [] [])"
  obtain items t j where
    d: "drive ?src (blocking_new KSyncIter) 0 [False, True, False, True, True] = (items, t, j)"
    by (metis prod_cases3)
  have n: "count_list [False, True, False, True, True] True = Suc (Suc (Suc 0))" by simp
  have e: "expected KSyncIter ?src (Suc (Suc (Suc 0))) 0 = [Inr [1]]" by simp
  show ?thesis using blocking_stream_delivers [OF d] unfolding d n e by simp
qed

text \<open>A binary file is uploaded without loss: once enough reads have completed, the chunks put
  back together are the file, none is empty or larger than 16 KiB, and all but the last are
  exactly 16 KiB.\<close>
lemma file_upload_lossless:
  assumes "drive (file_reads content) (blocking_new KReader) 0 schedule = (items, t, j)"
    and "length content < count_list schedule True * READ_CHUNK_SIZE"
  shows "\<exists>cs. items = map Inr cs \<and> concat cs = content \<and>
     (\<forall>c \<in> set cs. 0 < length c \<and> length c \<le> READ_CHUNK_SIZE) \<and>
     (\<forall>c \<in> set (butlast cs). length c = READ_CHUNK_SIZE)"
  using expected_file [of content 0 "count_list schedule True"] drive_spec [OF _ _ assms(1)] assms(2)
  by (simp add: blocking_new_def in_step_def)

text \<open>Both upload streams are fused: after a poll that found the end of the stream or its error,
  every later poll finds the end, whatever the source does.\<close>
lemma upload_streams_fused:
  assumes "i < j"
  shows "(j < length es \<longrightarrow>
       run_polls blocking_poll s es ! i = Ready None \<or>
       (\<exists>x. run_polls blocking_poll s es ! i = Ready (Some (Inl x))) \<longrightarrow>
       run_polls blocking_poll s es ! j = Ready None) \<and>
    (j < length fs \<longrightarrow>
       run_polls async_poll a fs ! i = Ready None \<or>
       (\<exists>x. run_polls async_poll a fs ! i = Ready (Some (Inl x))) \<longrightarrow>
       run_polls async_poll a fs ! j = Ready None)"
  by (intro conjI impI blocking_stream.after_last [OF assms] async_stream.after_last [OF assms])
     (simp_all add: last_item_def)

text \<open>Classification of a \<open>body_stream\<close> argument: an object with \<open>read\<close> is read even if it can
  be iterated, and an asynchronous source needs a running event loop: the blocking client, which
  has none, never gets one.\<close>
lemma extract_source_classes:
  "(has_read source = Inr True \<longrightarrow> extract_source l source = Inr (Reader (source_obj source))) \<and>
   (extract_source l source = Inr (AsyncIter it loc) \<longrightarrow> l = Some loc \<and> has_read source = Inr False) \<and>
   extract_source None source \<noteq> Inr (AsyncIter it loc)"
  by (auto simp: extract_source_def res_simps split: if_splits sum.splits option.splits)

end
