(* ===== verification/Metrics.thy ===== *)
theory Metrics imports Prelude "HOL-Library.AList" begin

text \<open>
  \<open>src/src/metrics.rs\<close>: per-host request, error and byte counters and latency histograms. Counters
  are \<open>AtomicU64\<close> and wrap; the map of hosts is an association list in the iteration order of the
  \<open>HashMap\<close>. The duration sum is a float accumulator, its rounding addition a parameter.
\<close>

section \<open>State\<close>

text \<open>The bucket bounds are the exact values of the \<open>f64\<close> literals, beside how they print.\<close>

definition HISTOGRAM_BUCKETS :: "(string \<times> rat) list" where
  "HISTOGRAM_BUCKETS =
    [(''0.01'', 5764607523034235 / 2 ^ 59), (''0.025'', 3602879701896397 / 2 ^ 57),
     (''0.05'', 3602879701896397 / 2 ^ 56), (''0.1'', 3602879701896397 / 2 ^ 55),
     (''0.25'', 1 / 4), (''0.5'', 1 / 2), (''1'', 1), (''2.5'', 5 / 2), (''5'', 5), (''10'', 10)]"

record host_metrics =
  requests :: u64
  errors :: u64
  bytes_received :: u64
  histogram_counts :: "u64 list"
  histogram_sum :: f64

record metrics =
  global_requests :: u64
  global_errors :: u64
  global_bytes_received :: u64
  per_host :: "(string \<times> host_metrics) list"
  poisoned :: bool

definition host_metrics_new :: host_metrics where
  "host_metrics_new = \<lparr>requests = 0, errors = 0, bytes_received = 0,
     histogram_counts = map (\<lambda>_. 0) HISTOGRAM_BUCKETS, histogram_sum = F64_Fin 0\<rparr>"

definition metrics_new :: metrics where
  "metrics_new = \<lparr>global_requests = 0, global_errors = 0, global_bytes_received = 0,
     per_host = [], poisoned = False\<rparr>"

section \<open>Recording\<close>

text \<open>
  The CAS loop of the duration sum. Each attempt loads the accumulator and stores the new value
  only if nobody changed it meanwhile and the exchange does not fail spuriously; \<open>others\<close> is what
  the other threads make of the accumulator between the load and the exchange, the flag whether
  the exchange fails spuriously. The result is the accumulator and whether the loop has ended.
\<close>

fun cas_add :: "(f64 \<Rightarrow> f64 \<Rightarrow> f64) \<Rightarrow> f64 \<Rightarrow> ((f64 \<Rightarrow> f64) \<times> bool) list \<Rightarrow> f64 \<Rightarrow> f64 \<times> bool" where
  "cas_add add elapsed [] mem = (mem, False)"
| "cas_add add elapsed ((others, spurious) # attempts) mem =
     (let current = mem; new_f = add current elapsed; mem = others mem in
      if mem = current \<and> \<not> spurious then (new_f, True)
      else cas_add add elapsed attempts mem)"

definition host_record ::
  "(f64 \<Rightarrow> f64 \<Rightarrow> f64) \<Rightarrow> f64 \<Rightarrow> u64 \<Rightarrow> bool \<Rightarrow> host_metrics \<Rightarrow> host_metrics" where
  "host_record add elapsed body_size is_error hm =
     hm\<lparr>requests := requests hm + 1,
        bytes_received := bytes_received hm + body_size,
        errors := (if is_error then errors hm + 1 else errors hm),
        histogram_counts := map2 (\<lambda>(_, bucket) c. if f64_le elapsed bucket then c + 1 else c)
          HISTOGRAM_BUCKETS (histogram_counts hm),
        histogram_sum := add (histogram_sum hm) elapsed\<rparr>"

text \<open>\<open>get_host_metrics\<close> inserts a fresh entry for a new host; none if the lock is poisoned.\<close>

definition get_host_metrics :: "string \<Rightarrow> metrics \<Rightarrow> (host_metrics \<times> metrics) option" where
  "get_host_metrics host m =
     (if poisoned m then None
      else case map_of (per_host m) host of
          Some hm \<Rightarrow> Some (hm, m)
        | None \<Rightarrow> Some (host_metrics_new, m\<lparr>per_host := per_host m @ [(host, host_metrics_new)]\<rparr>))"

definition metrics_record ::
  "(f64 \<Rightarrow> f64 \<Rightarrow> f64) \<Rightarrow> string \<Rightarrow> f64 \<Rightarrow> u64 \<Rightarrow> bool \<Rightarrow> metrics \<Rightarrow> metrics" where
  "metrics_record add host elapsed body_size is_error m =
     (let m = m\<lparr>global_requests := global_requests m + 1\<rparr>;
          m = m\<lparr>global_bytes_received := global_bytes_received m + body_size\<rparr>;
          m = (if is_error then m\<lparr>global_errors := global_errors m + 1\<rparr> else m) in
      case get_host_metrics host m of
        None \<Rightarrow> m
      | Some (hm, m) \<Rightarrow>
          m\<lparr>per_host := AList.update host (host_record add elapsed body_size is_error hm) (per_host m)\<rparr>)"

definition host_of_url :: "'u url_api \<Rightarrow> string \<Rightarrow> string" where
  "host_of_url lib url =
     (case Option.bind (parse_url lib url) (host_str lib) of Some h \<Rightarrow> h | None \<Rightarrow> ''unknown'')"

definition collector_record ::
  "'u url_api \<Rightarrow> (f64 \<Rightarrow> f64 \<Rightarrow> f64) \<Rightarrow> string \<Rightarrow> f64 \<Rightarrow> u64 \<Rightarrow> bool \<Rightarrow> metrics \<Rightarrow> metrics" where
  "collector_record lib add url = metrics_record add (host_of_url lib url)"

text \<open>
  The process-wide metrics: the static holds one strong reference and every \<open>MetricsCollector\<close>
  alive another.
\<close>

record global_metrics =
  store :: metrics
  strong_count :: nat

definition global_metrics_init :: global_metrics where
  "global_metrics_init = \<lparr>store = metrics_new, strong_count = 1\<rparr>"

definition enable_metrics :: "global_metrics \<Rightarrow> global_metrics" where
  "enable_metrics g = g\<lparr>strong_count := strong_count g + 1\<rparr>"

definition record_global_metrics ::
  "'u url_api \<Rightarrow> (f64 \<Rightarrow> f64 \<Rightarrow> f64) \<Rightarrow> string \<Rightarrow> f64 \<Rightarrow> u64 \<Rightarrow> bool \<Rightarrow> global_metrics \<Rightarrow>
   global_metrics" where
  "record_global_metrics lib add url elapsed body_size is_error g =
     (if strong_count g > 1
      then g\<lparr>store := metrics_record add (host_of_url lib url) elapsed body_size is_error (store g)\<rparr>
      else g)"

section \<open>Reading and resetting\<close>

record host_snapshot =
  hs_requests :: u64
  hs_errors :: u64
  hs_bytes_received :: u64
  hs_duration_sum :: f64
  hs_duration_buckets :: "(string \<times> u64) list"

record metrics_snapshot =
  requests_total :: u64
  errors_total :: u64
  bytes_received_total :: u64
  hosts :: "(string \<times> host_snapshot) list"

definition host_snapshot_of :: "host_metrics \<Rightarrow> host_snapshot" where
  "host_snapshot_of hm =
     \<lparr>hs_requests = requests hm, hs_errors = errors hm, hs_bytes_received = bytes_received hm,
      hs_duration_sum = histogram_sum hm,
      hs_duration_buckets = zip (map fst HISTOGRAM_BUCKETS) (histogram_counts hm)\<rparr>"

definition take_snapshot :: "metrics \<Rightarrow> metrics_snapshot result" where
  "take_snapshot m =
     (if poisoned m then raise RuntimeError ''Metrics lock poisoned''
      else Inr \<lparr>requests_total = global_requests m, errors_total = global_errors m,
        bytes_received_total = global_bytes_received m,
        hosts = map (\<lambda>(host, hm). (host, host_snapshot_of hm)) (per_host m)\<rparr>)"

definition metrics_reset :: "metrics \<Rightarrow> metrics \<times> unit result" where
  "metrics_reset m =
     (let m = m\<lparr>global_requests := 0, global_errors := 0, global_bytes_received := 0\<rparr> in
      if poisoned m then (m, raise RuntimeError ''Metrics lock poisoned'')
      else (m\<lparr>per_host := []\<rparr>, Inr ()))"

section \<open>The Prometheus text\<close>

fun replace_char :: "char \<Rightarrow> string \<Rightarrow> string \<Rightarrow> string" where
  "replace_char c by [] = []"
| "replace_char c by (x # xs) = (if x = c then by else [x]) @ replace_char c by xs"

definition backslash :: char where "backslash = char_of (92 :: nat)"
definition quote :: char where "quote = char_of (34 :: nat)"
definition newline :: string where "newline = [char_of (10 :: nat)]"

definition escape_host :: "string \<Rightarrow> string" where
  "escape_host host =
     replace_char quote [backslash, quote] (replace_char backslash [backslash, backslash] host)"

definition show_u64 :: "u64 \<Rightarrow> string" where
  "show_u64 w = show_nat (unat w)"

definition quoted :: "string \<Rightarrow> string" where
  "quoted s = [quote] @ s @ [quote]"

definition bucket_line :: "string \<Rightarrow> string \<Rightarrow> u64 \<Rightarrow> string" where
  "bucket_line escaped_host le count =
     ''lkrequest_request_duration_seconds_bucket{host='' @ quoted escaped_host @ '',le='' @ quoted le
     @ ''} '' @ show_u64 count @ newline"

definition host_text :: "(f64 \<Rightarrow> string) \<Rightarrow> string \<times> host_metrics \<Rightarrow> string" where
  "host_text show_f64 e =
     (let escaped_host = escape_host (fst e); hm = snd e; req_count = requests hm in
      concat (map2 (\<lambda>(bucket, _) count. bucket_line escaped_host bucket count)
        HISTOGRAM_BUCKETS (histogram_counts hm)) @
      bucket_line escaped_host ''+Inf'' req_count @
      ''lkrequest_request_duration_seconds_sum{host='' @ quoted escaped_host @ ''} ''
        @ show_f64 (histogram_sum hm) @ newline @
      ''lkrequest_request_duration_seconds_count{host='' @ quoted escaped_host @ ''} ''
        @ show_u64 req_count @ newline)"

definition counter_text :: "string \<Rightarrow> string \<Rightarrow> u64 \<Rightarrow> string" where
  "counter_text name help v =
     ''# HELP '' @ name @ '' '' @ help @ newline @ ''# TYPE '' @ name @ '' counter'' @ newline @
     name @ '' '' @ show_u64 v @ newline"

definition prometheus_text :: "(f64 \<Rightarrow> string) \<Rightarrow> metrics \<Rightarrow> string" where
  "prometheus_text show_f64 m =
     counter_text ''lkrequest_requests_total'' ''Total number of HTTP requests.'' (global_requests m) @
     counter_text ''lkrequest_errors_total'' ''Total number of failed HTTP requests.''
       (global_errors m) @
     counter_text ''lkrequest_bytes_received_total'' ''Total bytes received across all responses.''
       (global_bytes_received m) @
     ''# HELP lkrequest_request_duration_seconds HTTP request duration in seconds.'' @ newline @
     ''# TYPE lkrequest_request_duration_seconds histogram'' @ newline @
     (if poisoned m then [] else concat (map (host_text show_f64) (per_host m)))"

section \<open>The abstract log\<close>

text \<open>A request as the metrics see it, and what a list of them amounts to for one host.\<close>

type_synonym log_entry = "string \<times> f64 \<times> u64 \<times> bool"

definition entry_host :: "log_entry \<Rightarrow> string" where "entry_host = fst"
definition entry_elapsed :: "log_entry \<Rightarrow> f64" where "entry_elapsed e = fst (snd e)"
definition entry_size :: "log_entry \<Rightarrow> u64" where "entry_size e = fst (snd (snd e))"
definition entry_error :: "log_entry \<Rightarrow> bool" where "entry_error e = snd (snd (snd e))"

definition record_entry :: "(f64 \<Rightarrow> f64 \<Rightarrow> f64) \<Rightarrow> log_entry \<Rightarrow> metrics \<Rightarrow> metrics" where
  "record_entry add e m =
     metrics_record add (entry_host e) (entry_elapsed e) (entry_size e) (entry_error e) m"

definition summary :: "(f64 \<Rightarrow> f64 \<Rightarrow> f64) \<Rightarrow> log_entry list \<Rightarrow> host_metrics" where
  "summary add es =
     \<lparr>requests = word_of_nat (length es),
      errors = word_of_nat (length (filter entry_error es)),
      bytes_received = sum_list (map entry_size es),
      histogram_counts = map (\<lambda>(_, bucket).
        word_of_nat (length (filter (\<lambda>e. f64_le (entry_elapsed e) bucket) es))) HISTOGRAM_BUCKETS,
      histogram_sum = foldl (\<lambda>a e. add a (entry_elapsed e)) (F64_Fin 0) es\<rparr>"

lemma summary_Nil [simp]: "summary add [] = host_metrics_new"
  by (simp add: summary_def host_metrics_new_def case_prod_beta)

lemma map2_map_same: "map2 f xs (map g xs) = map (\<lambda>x. f x (g x)) xs"
  by (induction xs) auto

lemma summary_snoc:
  "summary add (es @ [e]) =
     host_record add (entry_elapsed e) (entry_size e) (entry_error e) (summary add es)"
  by (auto simp: summary_def host_record_def map2_map_same)

text \<open>The abstraction: the store is the log, host by host.\<close>

definition of_host :: "string \<Rightarrow> log_entry list \<Rightarrow> log_entry list" where
  "of_host h hist = filter (\<lambda>e. entry_host e = h) hist"

definition agrees :: "(f64 \<Rightarrow> f64 \<Rightarrow> f64) \<Rightarrow> log_entry list \<Rightarrow> metrics \<Rightarrow> bool" where
  "agrees add hist m \<longleftrightarrow>
     \<not> poisoned m \<and>
     global_requests m = word_of_nat (length hist) \<and>
     global_errors m = word_of_nat (length (filter entry_error hist)) \<and>
     global_bytes_received m = sum_list (map entry_size hist) \<and>
     distinct (map fst (per_host m)) \<and>
     (\<forall>h. map_of (per_host m) h =
        (if of_host h hist = [] then None else Some (summary add (of_host h hist))))"

lemma agrees_new [simp]: "agrees add [] metrics_new"
  by (simp add: agrees_def metrics_new_def of_host_def)

lemma of_host_snoc:
  "of_host h (hist @ [e]) = of_host h hist @ (if entry_host e = h then [e] else [])"
  by (simp add: of_host_def)

lemma update_append_fresh:
  "map_of xs k = None \<Longrightarrow> AList.update k v (xs @ [(k, w)]) = AList.update k v xs"
  by (induction xs) (auto split: if_splits)

lemma record_entry_fields:
  assumes "\<not> poisoned m"
  shows "per_host (record_entry add e m) = AList.update (entry_host e)
      (host_record add (entry_elapsed e) (entry_size e) (entry_error e)
        (case map_of (per_host m) (entry_host e) of None \<Rightarrow> host_metrics_new | Some hm \<Rightarrow> hm))
      (per_host m)"
    and "global_requests (record_entry add e m) = global_requests m + 1"
    and "global_errors (record_entry add e m) = global_errors m + (if entry_error e then 1 else 0)"
    and "global_bytes_received (record_entry add e m) = global_bytes_received m + entry_size e"
    and "poisoned (record_entry add e m) = poisoned m"
  using assms
  by (auto simp: record_entry_def metrics_record_def get_host_metrics_def Let_def update_append_fresh
      split: option.splits)

lemma agrees_record:
  assumes "agrees add hist m"
  shows "agrees add (hist @ [e]) (record_entry add e m)"
proof -
  have ok: "\<not> poisoned m" and dist: "distinct (map fst (per_host m))"
    and hosts: "map_of (per_host m) h =
      (if of_host h hist = [] then None else Some (summary add (of_host h hist)))" for h
    using assms by (simp_all add: agrees_def)
  have old: "(case map_of (per_host m) h of None \<Rightarrow> host_metrics_new | Some hm \<Rightarrow> hm) =
      summary add (of_host h hist)" for h
    by (simp add: hosts)
  show ?thesis
    using assms ok summary_snoc [of add "[]" e]
    by (simp add: agrees_def record_entry_fields old summary_snoc [symmetric] update_conv'
        distinct_update of_host_snoc)
qed

lemma agrees_fold: "agrees add hist m \<Longrightarrow> agrees add (hist @ es) (fold (record_entry add) es m)"
proof (induction es arbitrary: hist m)
  case (Cons e es)
  show ?case using Cons.IH [OF agrees_record [OF Cons.prems, of e]] by simp
qed simp

section \<open>Escaping\<close>

fun unescape :: "string \<Rightarrow> string" where
  "unescape [] = []"
| "unescape [x] = [x]"
| "unescape (x # y # xs) = (if x = backslash then y # unescape xs else x # unescape (y # xs))"

definition escape_char :: "char \<Rightarrow> string" where
  "escape_char c = (if c = backslash \<or> c = quote then [backslash, c] else [c])"

lemma backslash_quote [simp]: "backslash \<noteq> quote" "quote \<noteq> backslash"
  by (simp_all add: backslash_def quote_def)

lemma replace_char_append: "replace_char c by (xs @ ys) = replace_char c by xs @ replace_char c by ys"
  by (induction xs) auto

lemma escape_host_concat: "escape_host host = concat (map escape_char host)"
  by (induction host) (auto simp: escape_host_def escape_char_def replace_char_append)

lemma unescape_escape_append: "unescape (escape_char c @ s) = c # unescape s"
  by (cases s) (auto simp: escape_char_def)

text \<open>A scan for an unescaped quote: the end of a quoted label.\<close>

fun closes_early :: "string \<Rightarrow> bool" where
  "closes_early [] = False"
| "closes_early [x] = (x = quote \<or> x = backslash)"
| "closes_early (x # y # xs) =
     (if x = backslash then closes_early xs else x = quote \<or> closes_early (y # xs))"

lemma closes_early_escape: "closes_early (escape_char c @ s) = closes_early s"
  by (cases s) (auto simp: escape_char_def)

section \<open>The CAS loop\<close>

lemma cas_add_linear:
  assumes "cas_add add x attempts mem = (mem', True)"
  shows "\<exists>pre others post. attempts = pre @ (others, False) # post \<and>
    (let m = fold (\<lambda>(o1, _) m. o1 m) pre mem in others m = m \<and> mem' = add m x)"
  using assms
proof (induction attempts arbitrary: mem)
  case (Cons a attempts)
  obtain others spurious where a: "a = (others, spurious)" by (cases a)
  show ?case
  proof (cases "others mem = mem \<and> \<not> spurious")
    case True
    then show ?thesis using Cons.prems a
      by (intro exI [of _ "[]"] exI [of _ others] exI [of _ attempts]) auto
  next
    case False
    then have "cas_add add x attempts (others mem) = (mem', True)"
      using Cons.prems a by (auto simp: Let_def split: if_splits)
    from Cons.IH [OF this] obtain pre o2 post where
      "attempts = pre @ (o2, False) # post"
      "let m = fold (\<lambda>(o1, _) m. o1 m) pre (others mem) in o2 m = m \<and> mem' = add m x" by blast
    then show ?thesis
      by (intro exI [of _ "a # pre"] exI [of _ o2] exI [of _ post]) (auto simp: a)
  qed
qed simp

section \<open>Properties\<close>

text \<open>C7: After any sequence of recorded requests the store is exactly what the log of them says:
  the global counters count the requests, the failed ones and the bytes of the whole log (modulo
  2^64), and every host that occurs has one entry, with the counters, the cumulative buckets and
  the duration sum of its own requests in their order.\<close>
theorem metrics_refine_log:
  "fold (record_entry add) hist metrics_new = m \<Longrightarrow>
   global_requests m = word_of_nat (length hist) \<and>
   global_errors m = word_of_nat (length (filter entry_error hist)) \<and>
   global_bytes_received m = sum_list (map entry_size hist) \<and>
   distinct (map fst (per_host m)) \<and>
   map_of (per_host m) h =
     (if of_host h hist = [] then None else Some (summary add (of_host h hist)))"
  using agrees_fold [OF agrees_new, of add hist] by (simp add: agrees_def)

theorem metrics_refine_log_witness:
  "map_of (per_host (fold (record_entry (\<lambda>a b. b))
     [(''a'', F64_Fin (1/2), 10, False), (''b'', F64_Fin 3, 1, True), (''a'', F64_Fin 7, 5, True)]
     metrics_new)) ''a'' =
   Some \<lparr>requests = 2, errors = 1, bytes_received = 15,
     histogram_counts = [0, 0, 0, 0, 0, 1, 1, 1, 1, 2], histogram_sum = F64_Fin 7\<rparr>"
  using metrics_refine_log [OF refl, of "\<lambda>a b. b"
     "[(''a'', F64_Fin (1/2), 10, False), (''b'', F64_Fin 3, 1, True), (''a'', F64_Fin 7, 5, True)]" "''a''"]
  by (simp add: of_host_def entry_host_def summary_def entry_error_def entry_size_def
      entry_elapsed_def HISTOGRAM_BUCKETS_def)

text \<open>The buckets of a host are cumulative: fewer than 2^64 requests recorded, no bucket counts
  more than a later one, and none more than the host's requests, which the text exports as \<open>+Inf\<close>.\<close>
lemma buckets_cumulative:
  assumes "length es < 2 ^ 64" and "i \<le> j" and "j < length HISTOGRAM_BUCKETS"
  shows "histogram_counts (summary add es) ! i \<le> histogram_counts (summary add es) ! j \<and>
         histogram_counts (summary add es) ! j \<le> requests (summary add es)"
proof -
  let ?n = "\<lambda>k. length (filter (\<lambda>e. f64_le (entry_elapsed e) (snd (HISTOGRAM_BUCKETS ! k))) es)"
  have sorted: "sorted (map snd HISTOGRAM_BUCKETS)" by (simp add: HISTOGRAM_BUCKETS_def)
  then have "snd (HISTOGRAM_BUCKETS ! i) \<le> snd (HISTOGRAM_BUCKETS ! j)"
    using sorted_nth_mono [OF sorted assms(2)] assms(2,3) by simp
  then have mono: "f64_le x (snd (HISTOGRAM_BUCKETS ! i)) \<Longrightarrow> f64_le x (snd (HISTOGRAM_BUCKETS ! j))"
    for x by (cases x) auto
  have "?n i \<le> ?n j"
    using mono by (induction es) auto
  moreover have le: "?n j \<le> length es" by (rule length_filter_le)
  moreover have "histogram_counts (summary add es) ! k = word_of_nat (?n k)"
    if "k < length HISTOGRAM_BUCKETS" for k
    using that by (simp add: summary_def case_prod_beta)
  ultimately show ?thesis
    using assms le_less_trans [OF le assms(1)] by (simp add: summary_def u64_of_nat_mono)
qed

text \<open>C36: The CAS loop of the duration sum loses no update: when it ends, its effect is that of the
  other threads' changes up to some moment followed by one addition at that moment, on the value
  the accumulator had then.\<close>
theorem cas_add_atomic:
  assumes "cas_add add x attempts mem = (mem', True)"
  shows "\<exists>pre others post. attempts = pre @ (others, False) # post \<and>
    (let m = fold (\<lambda>(o1, _) m. o1 m) pre mem in others m = m \<and> mem' = add m x)"
  by (rule cas_add_linear [OF assms])

theorem cas_add_atomic_witness:
  "\<exists>pre others post. [(\<lambda>_. F64_Fin 5, False), (id, True), (id, False)] = pre @ (others, False) # post \<and>
    (let m = fold (\<lambda>(o1, _) m. o1 m) pre (F64_Fin 1) in others m = m \<and> F64_Inf False = (\<lambda>a b. F64_Inf False) m (F64_Fin 2))"
  by (rule cas_add_atomic) (simp add: Let_def)

text \<open>Escaping a host name for the Prometheus text loses nothing and cannot end the label early:
  the escaped text reads back as the host and contains no unescaped quote.\<close>
lemma escape_host_safe:
  "unescape (escape_host host) = host \<and> \<not> closes_early (escape_host host)"
  by (induction host) (simp_all add: escape_host_concat unescape_escape_append closes_early_escape)

end
