(* ===== verification/Protocol.thy ===== *)
theory Protocol imports Prelude begin

text \<open>
  \<open>src/src/protocol.rs\<close> and \<open>src/src/priority.rs\<close>: the enums that steer protocol selection, their
  conversions to the upstream enums, and the policies and priorities, which are opaque upstream
  values named by the constructor they come from and the overrides applied to it.
\<close>

section \<open>HTTP intent\<close>

datatype py_http_intent =
    PyH2Only | PyH3Only | PyAcquireH3WhenViable | PyReuseExistingProtocol

text \<open>\<open>PreferH3\<close> and \<open>Auto\<close> are deprecated upstream variants that the Python side never makes.\<close>

datatype http_intent =
    H2Only | H3Only | AcquireH3WhenViable | ReuseExistingProtocol | PreferH3 | Intent_Auto

fun into_intent :: "py_http_intent \<Rightarrow> http_intent" where
  "into_intent PyH2Only = H2Only"
| "into_intent PyH3Only = H3Only"
| "into_intent PyAcquireH3WhenViable = AcquireH3WhenViable"
| "into_intent PyReuseExistingProtocol = ReuseExistingProtocol"

fun from_intent :: "http_intent \<Rightarrow> py_http_intent" where
  "from_intent H2Only = PyH2Only"
| "from_intent H3Only = PyH3Only"
| "from_intent AcquireH3WhenViable = PyAcquireH3WhenViable"
| "from_intent PreferH3 = PyAcquireH3WhenViable"
| "from_intent ReuseExistingProtocol = PyReuseExistingProtocol"
| "from_intent Intent_Auto = PyReuseExistingProtocol"

section \<open>Protocol policy\<close>

datatype protocol_policy =
    ChromeStandard | ChromeConservative | CrawlerThroughput | H3Strict
  | WithIntent protocol_policy http_intent

definition policy_with_intent :: "protocol_policy \<Rightarrow> py_http_intent \<Rightarrow> protocol_policy" where
  "policy_with_intent inner intent = WithIntent inner (into_intent intent)"

text \<open>The getter; the intent of an upstream policy is a parameter.\<close>

definition policy_intent :: "(protocol_policy \<Rightarrow> http_intent) \<Rightarrow> protocol_policy \<Rightarrow> py_http_intent" where
  "policy_intent intent_of inner = from_intent (intent_of inner)"

section \<open>The other enums\<close>

datatype py_preferred_http_version =
    PyAuto | PyHttp1Only | PyHttp2Only | PyHttp3Only | PyHttp3WithFallback

datatype preferred_http_version =
    Auto | Http1Only | Http2Only | Http3Only | Http3WithFallback

fun into_preferred :: "py_preferred_http_version \<Rightarrow> preferred_http_version" where
  "into_preferred PyAuto = Auto"
| "into_preferred PyHttp1Only = Http1Only"
| "into_preferred PyHttp2Only = Http2Only"
| "into_preferred PyHttp3Only = Http3Only"
| "into_preferred PyHttp3WithFallback = Http3WithFallback"

datatype py_idempotency = PyDefault | PyIdempotent | PyNotIdempotent

datatype idempotency = Default | Idempotent | NotIdempotent

fun into_idempotency :: "py_idempotency \<Rightarrow> idempotency" where
  "into_idempotency PyDefault = Default"
| "into_idempotency PyIdempotent = Idempotent"
| "into_idempotency PyNotIdempotent = NotIdempotent"

datatype py_broken_quic_policy = PyStrict | PyResilient | PyDisabled

datatype broken_quic_policy = Strict | Resilient | Disabled

fun into_broken_quic :: "py_broken_quic_policy \<Rightarrow> broken_quic_policy" where
  "into_broken_quic PyStrict = Strict"
| "into_broken_quic PyResilient = Resilient"
| "into_broken_quic PyDisabled = Disabled"

datatype py_h3_retry_mode = PySafe | PyChrome155ProtocolErrors

datatype h3_retry_mode = Safe | Chrome155ProtocolErrors

fun into_h3_retry :: "py_h3_retry_mode \<Rightarrow> h3_retry_mode" where
  "into_h3_retry PySafe = Safe"
| "into_h3_retry PyChrome155ProtocolErrors = Chrome155ProtocolErrors"

section \<open>Request priority\<close>

datatype request_priority =
    PriorityCustom u8 bool | PriorityNavigation | PriorityFetch | PriorityImage | PriorityBackground

definition request_priority_new :: "u8 \<Rightarrow> bool \<Rightarrow> request_priority" where
  "request_priority_new urgency incremental = PriorityCustom urgency incremental"

section \<open>Properties\<close>

lemma from_into_intent [simp]: "from_intent (into_intent v) = v"
  by (cases v) simp_all

lemma into_from_intent: "into_intent (from_intent v) = v \<longleftrightarrow> v \<noteq> PreferH3 \<and> v \<noteq> Intent_Auto"
  by (cases v) simp_all

end
