(* ===== verification/Multipart.thy ===== *)
theory Multipart imports Prelude begin

text \<open>
  \<open>src/src/multipart.rs\<close>: the \<open>Multipart\<close> form, an upstream builder recorded by its calls, which
  a request takes out of the Python object, and \<open>Part\<close>.
\<close>

datatype multipart_call =
    MultipartText string string | MultipartFile string string string bytes

type_synonym multipart = "multipart_call list"

definition multipart_new :: multipart where
  "multipart_new = []"

text \<open>
  \<open>std::mem::replace\<close> leaves an empty form in the object while upstream consumes the old one; the
  result goes back into the object.
\<close>

definition multipart_text :: "multipart \<Rightarrow> string \<Rightarrow> string \<Rightarrow> multipart" where
  "multipart_text inner name v = (let mp = inner; inner = multipart_new in mp @ [MultipartText name v])"

definition multipart_file :: "multipart \<Rightarrow> string \<Rightarrow> string \<Rightarrow> string \<Rightarrow> bytes \<Rightarrow> multipart" where
  "multipart_file inner name filename content_type data =
     (let mp = inner; inner = multipart_new in mp @ [MultipartFile name filename content_type data])"

text \<open>\<open>extract_multipart\<close> of session.rs: the form given to the request, and what stays behind.\<close>

fun extract_multipart :: "multipart option \<Rightarrow> multipart option \<times> multipart option" where
  "extract_multipart (Some inner) = (Some inner, Some multipart_new)"
| "extract_multipart None = (None, None)"

datatype part_call = PartNew string bytes | PartFilename string | PartContentType string

type_synonym py_part = "part_call list option"

definition part_new :: "string \<Rightarrow> bytes \<Rightarrow> py_part" where
  "part_new name body = Some [PartNew name body]"

definition part_filename :: "py_part \<Rightarrow> string \<Rightarrow> py_part" where
  "part_filename inner filename =
     (case inner of Some part \<Rightarrow> Some (part @ [PartFilename filename]) | None \<Rightarrow> None)"

definition part_content_type :: "py_part \<Rightarrow> string \<Rightarrow> py_part" where
  "part_content_type inner ct =
     (case inner of Some part \<Rightarrow> Some (part @ [PartContentType ct]) | None \<Rightarrow> None)"

end
