(* ===== verification/Session.thy ===== *)
theory Session imports Types SessionState Upload Metrics Protocol Multipart begin

text \<open>
  \<open>src/src/session.rs\<close>: what a request is prepared from, how its options reach the upstream request
  builder, and its life from the call to the response. \<open>Verbs\<close> holds the methods of the two session
  classes.
\<close>

section \<open>Prepared requests\<close>

text \<open>
  Upstream values that only pass through are handles. A \<open>HashMap\<close> of cookies is the list of its
  entries in iteration order.
\<close>

type_synonym handle = nat
type_synonym basic_credentials = "string \<times> string option"

record request_opts =
  priority :: "request_priority option"
  h2_priority_weight :: "u8 option"
  preferred_http_version :: "preferred_http_version option"
  idempotency :: "idempotency option"
  header_order :: "string list option"
  cookie_order :: "string list option"
  h3_header_order :: "string list option"
  protocol_policy :: "protocol_policy option"
  http_intent :: "http_intent option"
  body_stream :: "upload_source option"
  content_length :: "u64 option"

definition request_opts_default :: request_opts where
  "request_opts_default = \<lparr>priority = None, h2_priority_weight = None, preferred_http_version = None,
     idempotency = None, header_order = None, cookie_order = None, h3_header_order = None,
     protocol_policy = None, http_intent = None, body_stream = None, content_length = None\<rparr>"

record prepared_request =
  req_method :: string
  url :: string
  headers :: "pairs option"
  params :: "pairs option"
  json_body :: "string option"
  form_data :: "pairs option"
  raw_body :: "bytes option"
  cookies :: "pairs option"
  cookie_overrides :: "pairs option"
  timeout :: "f64 option"
  bearer_auth :: "string option"
  basic_auth :: "basic_credentials option"
  multipart :: "multipart option"
  proxy :: "string option"
  no_auto_decompress :: bool
  accept_encoding :: "handle option"
  opts :: request_opts

section \<open>The request builder\<close>

datatype http_method = GET | POST | PUT | DELETE | HEAD | PATCH | OPTIONS

datatype rb_call =
    RbNew http_method string | RbHeader string string | RbQuery pairs | RbCookie string string
  | RbCookieOverride string string | RbBearerAuth string | RbBasicAuth string "string option"
  | RbTimeout duration | RbProxy string | RbNoAutoDecompress | RbAcceptEncoding handle
  | RbPriority request_priority | RbH2PriorityWeight u8
  | RbPreferredHttpVersion preferred_http_version | RbIdempotency idempotency
  | RbHeaderOrder "string list" | RbCookieOrder "string list" | RbH3HeaderOrder "string list"
  | RbProtocolPolicy protocol_policy | RbHttpIntent http_intent
  | RbBody bytes | RbForm pairs | RbMultipart multipart
  | RbBodyStream upload_stream "u64 option"

definition methods :: "(string \<times> http_method) list" where
  "methods = [(''GET'', GET), (''POST'', POST), (''PUT'', PUT), (''DELETE'', DELETE),
     (''HEAD'', HEAD), (''PATCH'', PATCH), (''OPTIONS'', OPTIONS)]"

definition opt_list :: "'a list option \<Rightarrow> 'a list" where
  "opt_list o1 = (case o1 of None \<Rightarrow> [] | Some xs \<Rightarrow> xs)"

text \<open>The body: the first of the forms that is present.\<close>

definition apply_body :: "prepared_request \<Rightarrow> rb_call list \<Rightarrow> rb_call list" where
  "apply_body req rb =
     (case json_body req of
        Some json_str \<Rightarrow>
          rb @ [RbHeader ''content-type'' ''application/json'', RbBody (into_bytes json_str)]
      | None \<Rightarrow> (case form_data req of
        Some form \<Rightarrow> rb @ [RbForm form]
      | None \<Rightarrow> (case multipart req of
        Some mp \<Rightarrow> rb @ [RbMultipart mp]
      | None \<Rightarrow> (case raw_body req of
        Some body \<Rightarrow> rb @ [RbBody body]
      | None \<Rightarrow> (case body_stream (opts req) of
        Some source \<Rightarrow> rb @ [RbBodyStream (into_stream source) (content_length (opts req))]
      | None \<Rightarrow> rb)))))"

definition apply_identity :: "prepared_request \<Rightarrow> rb_call list \<Rightarrow> rb_call list" where
  "apply_identity req rb =
     (let rb = log_all (\<lambda>(k, v). RbHeader k v) (opt_list (headers req)) rb;
          rb = log_some RbQuery (params req) rb;
          rb = log_all (\<lambda>(k, v). RbCookie k v) (opt_list (cookies req)) rb;
          rb = log_all (\<lambda>(k, v). RbCookieOverride k v) (opt_list (cookie_overrides req)) rb;
          rb = log_some RbBearerAuth (bearer_auth req) rb
      in log_some (\<lambda>(user, pass). RbBasicAuth user pass) (basic_auth req) rb)"

definition apply_tuning :: "prepared_request \<Rightarrow> rb_call list \<Rightarrow> rb_call list" where
  "apply_tuning req rb =
     (let rb = log_some RbProxy (proxy req) rb;
          rb = log_if (no_auto_decompress req) RbNoAutoDecompress rb;
          rb = log_some RbAcceptEncoding (accept_encoding req) rb;
          rb = log_some RbPriority (priority (opts req)) rb;
          rb = log_some RbH2PriorityWeight (h2_priority_weight (opts req)) rb;
          rb = log_some RbPreferredHttpVersion (preferred_http_version (opts req)) rb;
          rb = log_some RbIdempotency (idempotency (opts req)) rb;
          rb = log_some RbHeaderOrder (header_order (opts req)) rb;
          rb = log_some RbCookieOrder (cookie_order (opts req)) rb;
          rb = log_some RbH3HeaderOrder (h3_header_order (opts req)) rb;
          rb = log_some RbProtocolPolicy (protocol_policy (opts req)) rb
      in log_some RbHttpIntent (http_intent (opts req)) rb)"

definition apply_request_options :: "prepared_request \<Rightarrow> rb_call list result" where
  "apply_request_options req =
     (case map_of methods (req_method req) of
        None \<Rightarrow> raise_with ValueError ''Unsupported HTTP method: '' [AStr (req_method req)]
      | Some verb \<Rightarrow>
          ok_then (transpose_map validated_duration (timeout req)) (\<lambda>t.
            Inr (apply_body req (apply_tuning req
              (log_some RbTimeout t (apply_identity req [RbNew verb (url req)]))))))"

section \<open>Validation\<close>

definition validate_body_params ::
  "string option \<Rightarrow> pairs option \<Rightarrow> bytes option \<Rightarrow> multipart option \<Rightarrow> upload_source option \<Rightarrow>
   u64 option \<Rightarrow> unit result" where
  "validate_body_params json data body mp stream len =
     (let count = of_bool (json \<noteq> None) + of_bool (data \<noteq> None) + of_bool (body \<noteq> None)
                  + of_bool (mp \<noteq> None) + of_bool (stream \<noteq> None) :: u8 in
      if count > 1
      then raise ValueError
             ''Cannot specify more than one of: json, data, body, multipart, body_stream''
      else if len \<noteq> None \<and> stream = None
      then raise ValueError ''content_length requires body_stream''
      else Inr ())"

definition resolve_base_url :: "'u url_api \<Rightarrow> string option \<Rightarrow> string \<Rightarrow> string" where
  "resolve_base_url lib base u =
     (case base of
        Some b \<Rightarrow>
          (if parse_url lib u = None
           then case Option.bind (parse_url lib b) (\<lambda>bu. join_url lib bu u) of
                  Some joined \<Rightarrow> url_to_string lib joined
                | None \<Rightarrow> u
           else u)
      | None \<Rightarrow> u)"

section \<open>Executing a request\<close>

text \<open>The process around a request: the Python heap, the metrics, and the record of hook calls.\<close>

record world =
  w_heap :: heap
  w_metrics :: global_metrics
  w_calls :: "hook_call list"

text \<open>
  What upstream answers: an error, or a response of which the code reads the final URL, the
  status and the body. The duration measured and the conversion to a \<open>Response\<close> are inputs too.
  \<open>meanwhile\<close> is what everybody else does to the process while the request awaits its answer: other tasks, a
  \<open>close\<close>, the middleware callbacks upstream runs.
\<close>

record upstream_response =
  up_url :: string
  up_status :: u16
  up_body :: bytes

record 'r network =
  send :: "rb_call list \<Rightarrow> lk_error + upstream_response"
  meanwhile :: "rb_call list \<Rightarrow> world \<Rightarrow> world"
  elapsed_secs :: f64
  to_response :: "upstream_response \<Rightarrow> f64 \<Rightarrow> 'r result"

record 'u libs =
  url_lib :: "'u url_api"
  errors_lib :: error_api
  f64_add :: "f64 \<Rightarrow> f64 \<Rightarrow> f64"
  python_code :: python

definition world_fire_request ::
  "python \<Rightarrow> event_hooks \<Rightarrow> string \<Rightarrow> string \<Rightarrow> pairs option \<Rightarrow> world \<Rightarrow> world" where
  "world_fire_request run hk m u hs w =
     (let (calls, h) = fire_request run hk m u hs (w_heap w)
      in w\<lparr>w_heap := h, w_calls := w_calls w @ calls\<rparr>)"

definition world_fire_response ::
  "python \<Rightarrow> event_hooks \<Rightarrow> u16 \<Rightarrow> string \<Rightarrow> f64 \<Rightarrow> world \<Rightarrow> world" where
  "world_fire_response run hk status u elapsed w =
     (let (calls, h) = fire_response run hk status u elapsed (w_heap w)
      in w\<lparr>w_heap := h, w_calls := w_calls w @ calls\<rparr>)"

text \<open>
  \<open>execute_request\<close> up to its await and from it on. Between the await and the response hooks the code
  touches no Python object, so what others do to the heap there may as well have been done while it waited.
\<close>

definition begin_request ::
  "'u libs \<Rightarrow> prepared_request \<Rightarrow> event_hooks \<Rightarrow> world \<Rightarrow> rb_call list result \<times> world" where
  "begin_request lib req hk w =
     (let w = world_fire_request (python_code lib) hk (req_method req) (url req) (headers req) w
      in (apply_request_options req, w))"

definition finish_request ::
  "'u libs \<Rightarrow> 'r network \<Rightarrow> event_hooks \<Rightarrow> (lk_error + upstream_response) \<Rightarrow> world \<Rightarrow> 'r result \<times> world" where
  "finish_request lib net hk send_result w =
     (case send_result of
        Inl e \<Rightarrow> (Inl (to_py_err (errors_lib lib) e), w)
      | Inr resp \<Rightarrow>
          let elapsed = elapsed_secs net;
              final_url = up_url resp;
              status_code = up_status resp;
              body_size = word_of_nat (length (up_body resp));
              is_error = status_code \<ge> 400 in
          (case to_response net resp elapsed of
             Inl e \<Rightarrow> (Inl e, w)
           | Inr py_resp \<Rightarrow>
               let w = w\<lparr>w_metrics := record_global_metrics (url_lib lib) (f64_add lib)
                           final_url elapsed body_size is_error (w_metrics w)\<rparr>;
                   w = world_fire_response (python_code lib) hk status_code final_url elapsed w
               in (Inr py_resp, w)))"

definition execute_request ::
  "'u libs \<Rightarrow> 'r network \<Rightarrow> prepared_request \<Rightarrow> event_hooks \<Rightarrow> world \<Rightarrow> 'r result \<times> world" where
  "execute_request lib net req hk w =
     (case begin_request lib req hk w of
        (Inl e, w) \<Rightarrow> (Inl e, w)
      | (Inr rb, w) \<Rightarrow> finish_request lib net hk (send net rb) (meanwhile net rb w))"

section \<open>Lemmas\<close>

fun is_body :: "rb_call \<Rightarrow> bool" where
  "is_body (RbBody _) = True"
| "is_body (RbForm _) = True"
| "is_body (RbMultipart _) = True"
| "is_body (RbBodyStream _ _) = True"
| "is_body _ = False"

fun is_header :: "rb_call \<Rightarrow> bool" where
  "is_header (RbHeader _ _) = True"
| "is_header _ = False"

text \<open>The calls a single body form would make.\<close>

definition body_forms :: "prepared_request \<Rightarrow> rb_call list list" where
  "body_forms req =
    [case json_body req of Some j \<Rightarrow> [RbBody (into_bytes j)] | None \<Rightarrow> [],
     case form_data req of Some f \<Rightarrow> [RbForm f] | None \<Rightarrow> [],
     case multipart req of Some mp \<Rightarrow> [RbMultipart mp] | None \<Rightarrow> [],
     case raw_body req of Some b \<Rightarrow> [RbBody b] | None \<Rightarrow> [],
     case body_stream (opts req) of
       Some src \<Rightarrow> [RbBodyStream (into_stream src) (content_length (opts req))] | None \<Rightarrow> []]"

definition content_type_json :: "prepared_request \<Rightarrow> rb_call list" where
  "content_type_json req =
     (if json_body req = None then [] else [RbHeader ''content-type'' ''application/json''])"

definition validated :: "prepared_request \<Rightarrow> bool" where
  "validated req \<longleftrightarrow> validate_body_params (json_body req) (form_data req) (raw_body req)
     (multipart req) (body_stream (opts req)) (content_length (opts req)) = Inr ()"

lemma filter_map_none: "(\<And>x. \<not> P (f x)) \<Longrightarrow> filter P (map f xs) = []"
  by (induction xs) auto

lemma filter_map_all: "(\<And>x. P (f x)) \<Longrightarrow> filter P (map f xs) = map f xs"
  by (induction xs) auto

lemma not_body_pair [simp]:
  "\<not> is_body (case p of (k, v) \<Rightarrow> RbHeader k v)" "\<not> is_body (case p of (k, v) \<Rightarrow> RbCookie k v)"
  "\<not> is_body (case p of (k, v) \<Rightarrow> RbCookieOverride k v)"
  "\<not> is_body (case c of (user, pass) \<Rightarrow> RbBasicAuth user pass)"
  by (simp_all split: prod.split)

lemma header_pair [simp]:
  "is_header (case p of (k, v) \<Rightarrow> RbHeader k v)" "\<not> is_header (case p of (k, v) \<Rightarrow> RbCookie k v)"
  "\<not> is_header (case p of (k, v) \<Rightarrow> RbCookieOverride k v)"
  "\<not> is_header (case c of (user, pass) \<Rightarrow> RbBasicAuth user pass)"
  by (simp_all split: prod.split)

lemma case_option_Nil [simp]: "(case x of None \<Rightarrow> [] | Some v \<Rightarrow> []) = []"
  by (cases x) simp_all

lemma filter_body_identity [simp]: "filter is_body (apply_identity req rb) = filter is_body rb"
  by (simp add: apply_identity_def Let_def log_simps filter_map_none)

lemma filter_body_tuning [simp]: "filter is_body (apply_tuning req rb) = filter is_body rb"
  by (simp add: apply_tuning_def Let_def log_simps)

lemma filter_header_identity [simp]:
  "filter is_header (apply_identity req rb) =
     filter is_header rb @ map (\<lambda>(k, v). RbHeader k v) (opt_list (headers req))"
  by (simp add: apply_identity_def Let_def log_simps filter_map_none filter_map_all)

lemma filter_header_tuning [simp]: "filter is_header (apply_tuning req rb) = filter is_header rb"
  by (simp add: apply_tuning_def Let_def log_simps)

lemma filter_header_body [simp]:
  "filter is_header (apply_body req rb) = filter is_header rb @ content_type_json req"
  by (simp add: apply_body_def content_type_json_def split: option.split)

lemma count_flags:
  "(of_bool a + of_bool b + of_bool c + of_bool d + of_bool e :: u8) > 1 \<longleftrightarrow>
     \<not> (length (filter id [a, b, c, d, e]) \<le> 1)"
  by (cases a; cases b; cases c; cases d; cases e) simp_all

lemma validated_iff:
  "validated req \<longleftrightarrow>
     length (filter (\<lambda>f. f \<noteq> []) (body_forms req)) \<le> 1 \<and>
     (content_length (opts req) \<noteq> None \<longrightarrow> body_stream (opts req) \<noteq> None)"
  unfolding validated_def validate_body_params_def Let_def count_flags
  by (cases "json_body req"; cases "form_data req"; cases "raw_body req"; cases "multipart req";
      cases "body_stream (opts req)") (simp_all add: body_forms_def)

lemma filter_body_body:
  "length (filter (\<lambda>f. f \<noteq> []) (body_forms req)) \<le> 1 \<Longrightarrow>
     filter is_body (apply_body req rb) = filter is_body rb @ concat (body_forms req)"
  by (cases "json_body req"; cases "form_data req"; cases "raw_body req"; cases "multipart req";
      cases "body_stream (opts req)") (simp_all add: body_forms_def apply_body_def)

lemma apply_Inr:
  "apply_request_options req = Inr rb \<longleftrightarrow>
     (\<exists>verb t. map_of methods (req_method req) = Some verb \<and>
        transpose_map validated_duration (timeout req) = Inr t \<and>
        rb = apply_body req (apply_tuning req
               (log_some RbTimeout t (apply_identity req [RbNew verb (url req)]))))"
  by (auto simp: apply_request_options_def res_simps split: option.splits)

section \<open>Properties\<close>

text \<open>Body parameters are accepted exactly when at most one of the five body forms is given and
  a content length comes with a stream only; the \<open>u8\<close> sum that counts the forms does not wrap.\<close>
lemma validate_body_params_iff:
  "validate_body_params json data body mp stream len = Inr () \<longleftrightarrow>
     length (filter id [json \<noteq> None, data \<noteq> None, body \<noteq> None, mp \<noteq> None, stream \<noteq> None]) \<le> 1 \<and>
     (len = None \<or> stream \<noteq> None)"
  unfolding validate_body_params_def Let_def count_flags by auto

lemma body_and_headers_concat:
  assumes "validated req" and "apply_request_options req = Inr rb"
  shows "filter is_body rb = concat (body_forms req)"
proof -
  have one: "length (filter (\<lambda>f. f \<noteq> []) (body_forms req)) \<le> 1"
    using assms(1) by (simp add: validated_iff)
  with assms(2) show ?thesis
    by (auto simp: apply_Inr filter_body_body [OF one] log_simps split: option.split)
qed

text \<open>C5: A validated request that reaches the builder sends the one body it was given and no
  other, its headers are the caller's in the caller's order, and a JSON body adds its content type
  after them.\<close>
theorem body_and_headers_sent:
  assumes "validated req" and "apply_request_options req = Inr rb"
  shows "filter is_body rb = concat (body_forms req) \<and> length (filter is_body rb) \<le> 1 \<and>
     filter is_header rb =
       map (\<lambda>(k, v). RbHeader k v) (opt_list (headers req)) @ content_type_json req"
proof -
  have one: "length (filter (\<lambda>f. f \<noteq> []) (body_forms req)) \<le> 1"
    using assms(1) by (simp add: validated_iff)
  then have "length (concat (body_forms req)) \<le> 1"
    by (cases "json_body req"; cases "form_data req"; cases "raw_body req"; cases "multipart req";
        cases "body_stream (opts req)") (simp_all add: body_forms_def)
  with assms(2) body_and_headers_concat [OF assms] show ?thesis
    by (auto simp: apply_Inr log_simps split: option.split)
qed

definition sample_request :: prepared_request where
  "sample_request = \<lparr>req_method = ''POST'', url = ''https://h/p'',
     headers = Some [(''b'', ''1''), (''a'', ''2'')], params = None, json_body = Some ''{}'',
     form_data = None, raw_body = None, cookies = None, cookie_overrides = None,
     timeout = Some (F64_Fin 3), bearer_auth = None, basic_auth = None, multipart = None,
     proxy = None, no_auto_decompress = True, accept_encoding = None,
     opts = request_opts_default\<lparr>header_order := Some [''a'']\<rparr>\<rparr>"

lemma validated_duration_3: "validated_duration (F64_Fin 3) = Inr 3000000000"
  using from_secs_f64_whole [of 3] by (simp add: validated_duration_def del: from_secs_f64.simps)

lemma sample_request_applies:
  "apply_request_options sample_request = Inr [RbNew POST ''https://h/p'', RbHeader ''b'' ''1'',
     RbHeader ''a'' ''2'', RbTimeout 3000000000, RbNoAutoDecompress, RbHeaderOrder [''a''],
     RbHeader ''content-type'' ''application/json'', RbBody [123, 125]]"
  by (simp add: apply_request_options_def sample_request_def methods_def validated_duration_3
      apply_identity_def apply_tuning_def apply_body_def log_all_def log_if_def Let_def opt_list_def
      request_opts_default_def into_bytes_def)

theorem body_and_headers_sent_witness:
  "filter is_body [RbNew POST ''https://h/p'', RbHeader ''b'' ''1'',
     RbHeader ''a'' ''2'', RbTimeout 3000000000, RbNoAutoDecompress, RbHeaderOrder [''a''],
     RbHeader ''content-type'' ''application/json'', RbBody [123, 125]] =
     concat (body_forms sample_request)"
proof -
  have "validated sample_request"
    by (simp add: validated_iff sample_request_def body_forms_def request_opts_default_def)
  from body_and_headers_sent [OF this sample_request_applies] show ?thesis by (rule conjunct1)
qed

definition body_calls :: "prepared_request \<Rightarrow> rb_call list" where
  "body_calls req = apply_body req []"

lemma apply_body_append: "apply_body req rb = rb @ body_calls req"
  by (simp add: apply_body_def body_calls_def split: option.split)

text \<open>C24: Nothing a caller set is dropped on the way to the builder, and nothing else is added: the
  calls made on the builder are the method and URL first, then exactly one for each option given,
  with the timeout as the validated duration, and the calls of the body last.\<close>
theorem options_reach_builder:
  assumes "apply_request_options req = Inr rb"
  shows "(\<exists>verb. map_of methods (req_method req) = Some verb \<and> hd rb = RbNew verb (url req)) \<and>
    (\<exists>options. tl rb = options @ body_calls req \<and>
      set options =
        (\<lambda>(k, v). RbHeader k v) ` set (opt_list (headers req)) \<union> RbQuery ` set_option (params req) \<union>
        (\<lambda>(k, v). RbCookie k v) ` set (opt_list (cookies req)) \<union>
        (\<lambda>(k, v). RbCookieOverride k v) ` set (opt_list (cookie_overrides req)) \<union>
        RbBearerAuth ` set_option (bearer_auth req) \<union>
        (\<lambda>(u, p). RbBasicAuth u p) ` set_option (basic_auth req) \<union>
        RbTimeout ` {d. \<exists>t. timeout req = Some t \<and> validated_duration t = Inr d} \<union>
        RbProxy ` set_option (proxy req) \<union>
        (if no_auto_decompress req then {RbNoAutoDecompress} else {}) \<union>
        RbAcceptEncoding ` set_option (accept_encoding req) \<union>
        RbPriority ` set_option (priority (opts req)) \<union>
        RbH2PriorityWeight ` set_option (h2_priority_weight (opts req)) \<union>
        RbPreferredHttpVersion ` set_option (preferred_http_version (opts req)) \<union>
        RbIdempotency ` set_option (idempotency (opts req)) \<union>
        RbHeaderOrder ` set_option (header_order (opts req)) \<union>
        RbCookieOrder ` set_option (cookie_order (opts req)) \<union>
        RbH3HeaderOrder ` set_option (h3_header_order (opts req)) \<union>
        RbProtocolPolicy ` set_option (protocol_policy (opts req)) \<union>
        RbHttpIntent ` set_option (http_intent (opts req)) \<and>
      length options = length (opt_list (headers req)) + length (opt_list (cookies req)) +
        length (opt_list (cookie_overrides req)) + of_bool (params req \<noteq> None) +
        of_bool (bearer_auth req \<noteq> None) + of_bool (basic_auth req \<noteq> None) +
        of_bool (timeout req \<noteq> None) + of_bool (proxy req \<noteq> None) +
        of_bool (no_auto_decompress req) + of_bool (accept_encoding req \<noteq> None) +
        of_bool (priority (opts req) \<noteq> None) + of_bool (h2_priority_weight (opts req) \<noteq> None) +
        of_bool (preferred_http_version (opts req) \<noteq> None) +
        of_bool (idempotency (opts req) \<noteq> None) + of_bool (header_order (opts req) \<noteq> None) +
        of_bool (cookie_order (opts req) \<noteq> None) + of_bool (h3_header_order (opts req) \<noteq> None) +
        of_bool (protocol_policy (opts req) \<noteq> None) + of_bool (http_intent (opts req) \<noteq> None))"
    (is "_ \<and> (\<exists>os. tl rb = os @ body_calls req \<and> set os = ?S \<and> length os = ?n)")
proof -
  from assms obtain verb t where verb: "map_of methods (req_method req) = Some verb"
    and t: "transpose_map validated_duration (timeout req) = Inr t"
    and rb: "rb = apply_tuning req (log_some RbTimeout t (apply_identity req [RbNew verb (url req)]))
                  @ body_calls req"
    by (auto simp: apply_Inr apply_body_append)
  define options where
    "options = apply_tuning req (log_some RbTimeout t (apply_identity req []))"
  have front: "apply_tuning req (log_some RbTimeout t (apply_identity req [RbNew verb (url req)])) =
      RbNew verb (url req) # options"
    by (simp add: options_def apply_tuning_def apply_identity_def Let_def log_Cons)
  have ts: "set_option t = {d. \<exists>x. timeout req = Some x \<and> validated_duration x = Inr d}"
    and tn: "(t \<noteq> None) = (timeout req \<noteq> None)"
    using t by (auto simp: res_simps split: option.splits)
  show ?thesis
  proof (intro conjI exI [of _ verb] exI [of _ options])
    show "map_of methods (req_method req) = Some verb" by (rule verb)
    show "hd rb = RbNew verb (url req)" and "tl rb = options @ body_calls req"
      using rb front by simp_all
  next
    show "set options = ?S"
      unfolding options_def apply_tuning_def apply_identity_def Let_def
      by (simp only: log_simps list.set Un_empty_left ts)
  next
    show "length options = ?n"
      unfolding options_def apply_tuning_def apply_identity_def Let_def
      by (simp only: length_log list.size tn)
  qed
qed

theorem options_reach_builder_witness:
  "\<exists>options. [RbHeader ''b'' ''1'', RbHeader ''a'' ''2'', RbTimeout 3000000000, RbNoAutoDecompress,
     RbHeaderOrder [''a''], RbHeader ''content-type'' ''application/json'', RbBody [123, 125]] =
     options @ body_calls sample_request"
  using conjunct2 [OF options_reach_builder [OF sample_request_applies]] by auto

text \<open>A request is refused before anything is sent exactly when its method is not one of the
  seven or its timeout is not a valid duration, and the method is checked first.\<close>
lemma apply_request_options_refuses:
  "apply_request_options req = Inl e \<longleftrightarrow>
     (if req_method req \<notin> set (map fst methods)
      then e = PyExc ValueError ''Unsupported HTTP method: '' [AStr (req_method req)]
      else \<exists>t. timeout req = Some t \<and> validated_duration t = Inl e)"
proof (cases "map_of methods (req_method req)")
  case None
  then have "req_method req \<notin> set (map fst methods)" by (auto simp: map_of_eq_None_iff)
  with None show ?thesis by (auto simp: apply_request_options_def)
next
  case (Some verb)
  then have "req_method req \<in> set (map fst methods)"
    by (metis map_of_eq_None_iff option.distinct(1) list.set_map)
  with Some show ?thesis
    by (cases "timeout req") (auto simp: apply_request_options_def res_simps)
qed

text \<open>A URL that parses on its own is used as it is, whatever the base; without a base every URL
  is; a relative URL is the join if there is one, and otherwise the string itself. With a library
  whose URLs parse again, resolving twice is resolving once.\<close>
lemma resolve_base_url_spec:
  assumes "\<And>p. parse_url lib (url_to_string lib p) \<noteq> None"
  shows "resolve_base_url lib base u =
     (if base = None \<or> parse_url lib u \<noteq> None then u
      else case parse_url lib (the base) of
          None \<Rightarrow> u
        | Some bu \<Rightarrow> (case join_url lib bu u of None \<Rightarrow> u | Some j \<Rightarrow> url_to_string lib j)) \<and>
     resolve_base_url lib base (resolve_base_url lib base u) = resolve_base_url lib base u"
proof -
  have again: "(parse_url lib (url_to_string lib p) = None) = False" for p using assms by simp
  show ?thesis by (auto simp: resolve_base_url_def again split: option.splits)
qed

text \<open>URLs for the witness: a URL is absolute when it starts with \<open>h\<close>, and a join appends.\<close>

definition tiny_urls :: "string url_api" where
  "tiny_urls = \<lparr>parse_url = (\<lambda>s. if s \<noteq> [] \<and> hd s = CHR ''h'' then Some (tl s) else None),
     join_url = (\<lambda>b r. Some (b @ r)), url_to_string = (\<lambda>u. CHR ''h'' # u), host_str = Some\<rparr>"

text \<open>The process when the request hooks have run, and when the answer arrives.\<close>

definition world_sent :: "'u libs \<Rightarrow> prepared_request \<Rightarrow> event_hooks \<Rightarrow> world \<Rightarrow> world" where
  "world_sent lib req hk w =
     (let (calls, h) = fire_request (python_code lib) hk (req_method req) (url req) (headers req) (w_heap w)
      in w\<lparr>w_heap := h, w_calls := w_calls w @ calls\<rparr>)"

lemma begin_request_sent: "begin_request lib req hk w = (apply_request_options req, world_sent lib req hk w)"
  by (simp add: begin_request_def world_sent_def world_fire_request_def Let_def)

lemma finish_request_Inr:
  "finish_request lib net hk answer w = (Inr py, w') \<Longrightarrow>
    \<exists>resp. answer = Inr resp \<and> to_response net resp (elapsed_secs net) = Inr py \<and>
      w_metrics w' = record_global_metrics (url_lib lib) (f64_add lib) (up_url resp)
        (elapsed_secs net) (word_of_nat (length (up_body resp))) (up_status resp \<ge> 400) (w_metrics w) \<and>
      w_calls w' = w_calls w @
        map (\<lambda>f. ResponseHook f (up_status resp) (up_url resp) (elapsed_secs net))
          (snapshot (response_hooks hk) (w_heap w))"
  by (auto simp: finish_request_def world_fire_response_def fire_response_def Let_def
      split: prod.splits sum.splits dest!: call_hooks_fst)

lemma finish_request_Inl: "finish_request lib net hk answer w = (Inl e, w') \<Longrightarrow> w' = w"
  by (auto simp: finish_request_def Let_def split: prod.splits sum.splits)

text \<open>C22: Every execution of a request fires the request hooks once, first. Whatever
  everybody else does while it waits for its answer, only a request that got its response goes on
  to record metrics, once, with the final URL and the error flag of its status, and then to fire the
  response hooks registered by then; any failure leaves metrics and response hooks alone.\<close>
theorem execute_request_accounting:
  assumes "execute_request lib net req hk w = (r, w')"
  shows "let (calls, h) = fire_request (python_code lib) hk (req_method req) (url req) (headers req)
           (w_heap w);
         sent = w\<lparr>w_heap := h, w_calls := w_calls w @ calls\<rparr> in
     case apply_request_options req of
       Inl e \<Rightarrow> r = Inl e \<and> w' = sent
     | Inr rb \<Rightarrow>
        (case r of
           Inl e \<Rightarrow> w' = meanwhile net rb sent
         | Inr py \<Rightarrow> \<exists>resp.
             send net rb = Inr resp \<and> to_response net resp (elapsed_secs net) = Inr py \<and>
             w_metrics w' = record_global_metrics (url_lib lib) (f64_add lib) (up_url resp)
               (elapsed_secs net) (word_of_nat (length (up_body resp))) (up_status resp \<ge> 400)
               (w_metrics (meanwhile net rb sent)) \<and>
             w_calls w' = w_calls (meanwhile net rb sent) @
               map (\<lambda>f. ResponseHook f (up_status resp) (up_url resp) (elapsed_secs net))
                 (snapshot (response_hooks hk) (w_heap (meanwhile net rb sent))))"
proof -
  obtain calls h where f:
    "fire_request (python_code lib) hk (req_method req) (url req) (headers req) (w_heap w) = (calls, h)"
    by fastforce
  let ?sent = "w\<lparr>w_heap := h, w_calls := w_calls w @ calls\<rparr>"
  show ?thesis
  proof (cases "apply_request_options req")
    case (Inl e)
    with assms show ?thesis by (simp add: f execute_request_def begin_request_sent world_sent_def)
  next
    case (Inr rb)
    with assms have run: "finish_request lib net hk (send net rb) (meanwhile net rb ?sent) = (r, w')"
      by (simp add: f execute_request_def begin_request_sent world_sent_def)
    then show ?thesis
      by (cases r) (simp_all add: f Inr finish_request_Inl finish_request_Inr)
  qed
qed

definition sample_libs :: "string libs" where
  "sample_libs = \<lparr>url_lib = tiny_urls,
     errors_lib = \<lparr>unwrapped = id, err_to_string = (\<lambda>_. []), is_address_family_mismatch = (\<lambda>_. False)\<rparr>,
     f64_add = (\<lambda>a b. b), python_code = (\<lambda>c h. (h, True))\<rparr>"

text \<open>While the request waits, another response hook is registered; it runs.\<close>

definition sample_network :: "nat network" where
  "sample_network = \<lparr>send = (\<lambda>rb. Inr \<lparr>up_url = ''h2'', up_status = 404, up_body = [1, 2]\<rparr>),
     meanwhile = (\<lambda>rb w. w\<lparr>w_heap := append_to 1 8 (w_heap w)\<rparr>),
     elapsed_secs = F64_Fin 1, to_response = (\<lambda>_ _. Inr 9)\<rparr>"

definition sample_world :: world where
  "sample_world = \<lparr>w_heap = sample_heap, w_metrics = enable_metrics global_metrics_init, w_calls = []\<rparr>"

theorem execute_request_accounting_witness:
  "w_calls (snd (execute_request sample_libs sample_network sample_request
     \<lparr>request_hooks = 0, response_hooks = 1\<rparr> sample_world)) =
   [RequestHook 7 ''POST'' ''https://h/p'' [(''b'', ''1''), (''a'', ''2'')],
    ResponseHook 7 404 ''h2'' (F64_Fin 1), ResponseHook 8 404 ''h2'' (F64_Fin 1)]"
proof -
  let ?hk = "\<lparr>request_hooks = 0, response_hooks = 1\<rparr>"
  obtain r w' where e: "execute_request sample_libs sample_network sample_request ?hk sample_world = (r, w')"
    by (cases "execute_request sample_libs sample_network sample_request ?hk sample_world")
  have "r = Inr 9"
    using e by (auto simp: execute_request_def begin_request_def finish_request_def sample_request_applies
        sample_network_def Let_def)
  with execute_request_accounting [OF e] e show ?thesis
    by (auto simp: fire_request_def snapshot_def sample_world_def sample_heap_def sample_libs_def append_to_def
        sample_network_def sample_request_def sample_request_applies [unfolded sample_request_def]
        collect_hash_map_def Let_def)
qed

end
