(* ===== verification/Verbs.thy ===== *)
theory Verbs imports Session begin

text \<open>
  \<open>src/src/session.rs\<close>: the HTTP methods of \<open>Session\<close> and \<open>BlockingSession\<close>. Each turns its
  keyword arguments into a task: the prepared request with the handles it runs with. What becomes
  of the task (a bridged future there, a blocking run here) is the continuation \<open>submit\<close>; a
  method that takes a \<open>Multipart\<close> also says what is left in that object.
\<close>

section \<open>Arguments\<close>

record common_args =
  kw_url :: string
  kw_headers :: "pairs option"
  kw_params :: "pairs option"
  kw_cookies :: "pairs option"
  kw_cookie_override :: "pairs option"
  kw_timeout :: "f64 option"
  kw_bearer_auth :: "string option"
  kw_basic_auth :: "basic_credentials option"
  kw_proxy :: "string option"
  kw_header_order :: "string list option"
  kw_cookie_order :: "string list option"
  kw_h3_header_order :: "string list option"
  kw_protocol_policy :: "protocol_policy option"
  kw_http_intent :: "py_http_intent option"

record tuned_args = common_args +
  kw_no_decompress :: bool
  kw_accept_encoding :: "handle option"
  kw_priority :: "request_priority option"
  kw_h2_priority_weight :: "u8 option"
  kw_preferred_http_version :: "py_preferred_http_version option"
  kw_idempotency :: "py_idempotency option"

record body_args = tuned_args +
  kw_json :: "pyobj option"
  kw_data :: "pairs option"
  kw_body :: "bytes option"
  kw_body_stream :: "py_source option"
  kw_content_length :: "u64 option"

record upload_args = body_args +
  kw_multipart :: "multipart option"

record streaming_args = common_args +
  st_json :: "pyobj option"
  st_data :: "pairs option"
  st_body :: "bytes option"
  st_multipart :: "multipart option"
  st_body_stream :: "py_source option"
  st_content_length :: "u64 option"
  st_accept_encoding :: "handle option"

section \<open>The session and its tasks\<close>

record py_session =
  inner :: handle
  state :: session_state
  base_url :: "string option"

record request_task =
  task_session :: handle
  task_request :: prepared_request
  task_hooks :: event_hooks
  task_closing :: ref

text \<open>
  What a call sees of Python: \<open>json.dumps\<close>, the event loop of the calling task, and the tables of
  Rust's Unicode upper-casing, beside the \<open>url\<close> crate.
\<close>

record 'u py_env =
  env_url :: "'u url_api"
  json_dumps :: "pyobj \<Rightarrow> string result"
  env_locals :: "nat option"
  unicode_upper :: "string \<Rightarrow> string"

text \<open>The first two statements of every method with a body: serialise the JSON, classify the stream.\<close>

definition prepare_body ::
  "'u py_env \<Rightarrow> pyobj option \<Rightarrow> py_source option \<Rightarrow> (string option \<times> upload_source option) result" where
  "prepare_body env json stream =
     ok_then (serialize_json (json_dumps env) json) (\<lambda>json_str.
     ok_then (transpose_map (extract_source (env_locals env)) stream) (\<lambda>upload.
       Inr (json_str, upload)))"

section \<open>The asynchronous session\<close>

definition make_request ::
  "'u py_env \<Rightarrow> (request_task \<Rightarrow> 'r result) \<Rightarrow> heap \<Rightarrow> py_session \<Rightarrow> string \<Rightarrow> string \<Rightarrow> pairs option \<Rightarrow>
   pairs option \<Rightarrow> string option \<Rightarrow> pairs option \<Rightarrow> bytes option \<Rightarrow> pairs option \<Rightarrow> pairs option \<Rightarrow>
   f64 option \<Rightarrow> string option \<Rightarrow> basic_credentials option \<Rightarrow> multipart option \<Rightarrow> string option \<Rightarrow>
   bool \<Rightarrow> handle option \<Rightarrow> request_opts \<Rightarrow> 'r result" where
  "make_request env submit h self method u hs ps json form raw cs overrides t bearer basic mp pr
     no_decompress accept os =
     (let u = resolve_base_url (env_url env) (base_url self) u in
      ok_then (validate_body_params json form raw mp (body_stream os) (content_length os)) (\<lambda>_.
      ok_then (ensure_open (state self) h) (\<lambda>_.
      submit \<lparr>task_session = inner self,
        task_request = \<lparr>req_method = method, url = u, headers = hs, params = ps, json_body = json,
          form_data = form, raw_body = raw, cookies = cs, cookie_overrides = overrides, timeout = t,
          bearer_auth = bearer, basic_auth = basic, multipart = mp, proxy = pr,
          no_auto_decompress = no_decompress, accept_encoding = accept, opts = os\<rparr>,
        task_hooks = hooks (state self), task_closing = closed_ref (state self)\<rparr>)))"

definition session_get ::
  "'u py_env \<Rightarrow> (request_task \<Rightarrow> 'r result) \<Rightarrow> heap \<Rightarrow> py_session \<Rightarrow> tuned_args \<Rightarrow> 'r result"
where
  "session_get env submit h self a =
     make_request env submit h self ''GET'' (kw_url a) (kw_headers a) (kw_params a)
       None None None (kw_cookies a) (kw_cookie_override a) (kw_timeout a) (kw_bearer_auth a)
       (kw_basic_auth a) None (kw_proxy a) (kw_no_decompress a) (kw_accept_encoding a)
       \<lparr>priority = kw_priority a, h2_priority_weight = kw_h2_priority_weight a,
        preferred_http_version = map_option into_preferred (kw_preferred_http_version a),
        idempotency = map_option into_idempotency (kw_idempotency a),
        header_order = kw_header_order a, cookie_order = kw_cookie_order a,
        h3_header_order = kw_h3_header_order a, protocol_policy = kw_protocol_policy a,
        http_intent = map_option into_intent (kw_http_intent a),
        body_stream = None, content_length = None\<rparr>"

definition session_post ::
  "'u py_env \<Rightarrow> (request_task \<Rightarrow> 'r result) \<Rightarrow> heap \<Rightarrow> py_session \<Rightarrow> upload_args \<Rightarrow>
   'r result \<times> multipart option"
where
  "session_post env submit h self a =
     (case prepare_body env (kw_json a) (kw_body_stream a) of
        Inl e \<Rightarrow> (Inl e, kw_multipart a)
      | Inr (json_str, upload) \<Rightarrow>
          let (mp, left) = extract_multipart (kw_multipart a) in
          (make_request env submit h self ''POST'' (kw_url a) (kw_headers a) (kw_params a)
       json_str (kw_data a) (kw_body a) (kw_cookies a) (kw_cookie_override a) (kw_timeout a) (kw_bearer_auth a)
       (kw_basic_auth a) mp (kw_proxy a) (kw_no_decompress a) (kw_accept_encoding a)
       \<lparr>priority = kw_priority a, h2_priority_weight = kw_h2_priority_weight a,
        preferred_http_version = map_option into_preferred (kw_preferred_http_version a),
        idempotency = map_option into_idempotency (kw_idempotency a),
        header_order = kw_header_order a, cookie_order = kw_cookie_order a,
        h3_header_order = kw_h3_header_order a, protocol_policy = kw_protocol_policy a,
        http_intent = map_option into_intent (kw_http_intent a),
        body_stream = upload, content_length = kw_content_length a\<rparr>,
           left))"

definition session_request ::
  "'u py_env \<Rightarrow> (request_task \<Rightarrow> 'r result) \<Rightarrow> heap \<Rightarrow> py_session \<Rightarrow> string \<Rightarrow> upload_args \<Rightarrow>
   'r result \<times> multipart option"
where
  "session_request env submit h self method a =
     (case prepare_body env (kw_json a) (kw_body_stream a) of
        Inl e \<Rightarrow> (Inl e, kw_multipart a)
      | Inr (json_str, upload) \<Rightarrow>
          let (mp, left) = extract_multipart (kw_multipart a) in
          (make_request env submit h self (to_uppercase (unicode_upper env) method) (kw_url a) (kw_headers a) (kw_params a)
       json_str (kw_data a) (kw_body a) (kw_cookies a) (kw_cookie_override a) (kw_timeout a) (kw_bearer_auth a)
       (kw_basic_auth a) mp (kw_proxy a) (kw_no_decompress a) (kw_accept_encoding a)
       \<lparr>priority = kw_priority a, h2_priority_weight = kw_h2_priority_weight a,
        preferred_http_version = map_option into_preferred (kw_preferred_http_version a),
        idempotency = map_option into_idempotency (kw_idempotency a),
        header_order = kw_header_order a, cookie_order = kw_cookie_order a,
        h3_header_order = kw_h3_header_order a, protocol_policy = kw_protocol_policy a,
        http_intent = map_option into_intent (kw_http_intent a),
        body_stream = upload, content_length = kw_content_length a\<rparr>,
           left))"

definition session_put ::
  "'u py_env \<Rightarrow> (request_task \<Rightarrow> 'r result) \<Rightarrow> heap \<Rightarrow> py_session \<Rightarrow> upload_args \<Rightarrow>
   'r result \<times> multipart option"
where
  "session_put env submit h self a =
     (case prepare_body env (kw_json a) (kw_body_stream a) of
        Inl e \<Rightarrow> (Inl e, kw_multipart a)
      | Inr (json_str, upload) \<Rightarrow>
          let (mp, left) = extract_multipart (kw_multipart a) in
          (make_request env submit h self ''PUT'' (kw_url a) (kw_headers a) (kw_params a)
       json_str (kw_data a) (kw_body a) (kw_cookies a) (kw_cookie_override a) (kw_timeout a) (kw_bearer_auth a)
       (kw_basic_auth a) mp (kw_proxy a) (kw_no_decompress a) (kw_accept_encoding a)
       \<lparr>priority = kw_priority a, h2_priority_weight = kw_h2_priority_weight a,
        preferred_http_version = map_option into_preferred (kw_preferred_http_version a),
        idempotency = map_option into_idempotency (kw_idempotency a),
        header_order = kw_header_order a, cookie_order = kw_cookie_order a,
        h3_header_order = kw_h3_header_order a, protocol_policy = kw_protocol_policy a,
        http_intent = map_option into_intent (kw_http_intent a),
        body_stream = upload, content_length = kw_content_length a\<rparr>,
           left))"

definition session_delete ::
  "'u py_env \<Rightarrow> (request_task \<Rightarrow> 'r result) \<Rightarrow> heap \<Rightarrow> py_session \<Rightarrow> body_args \<Rightarrow> 'r result"
where
  "session_delete env submit h self a =
     ok_then (prepare_body env (kw_json a) (kw_body_stream a)) (\<lambda>(json_str, upload).
     make_request env submit h self ''DELETE'' (kw_url a) (kw_headers a) (kw_params a)
       json_str (kw_data a) (kw_body a) (kw_cookies a) (kw_cookie_override a) (kw_timeout a) (kw_bearer_auth a)
       (kw_basic_auth a) None (kw_proxy a) (kw_no_decompress a) (kw_accept_encoding a)
       \<lparr>priority = kw_priority a, h2_priority_weight = kw_h2_priority_weight a,
        preferred_http_version = map_option into_preferred (kw_preferred_http_version a),
        idempotency = map_option into_idempotency (kw_idempotency a),
        header_order = kw_header_order a, cookie_order = kw_cookie_order a,
        h3_header_order = kw_h3_header_order a, protocol_policy = kw_protocol_policy a,
        http_intent = map_option into_intent (kw_http_intent a),
        body_stream = upload, content_length = kw_content_length a\<rparr>)"

definition session_head ::
  "'u py_env \<Rightarrow> (request_task \<Rightarrow> 'r result) \<Rightarrow> heap \<Rightarrow> py_session \<Rightarrow> common_args \<Rightarrow> 'r result"
where
  "session_head env submit h self a =
     make_request env submit h self ''HEAD'' (kw_url a) (kw_headers a) (kw_params a)
       None None None (kw_cookies a) (kw_cookie_override a) (kw_timeout a) (kw_bearer_auth a)
       (kw_basic_auth a) None (kw_proxy a) False None
       (request_opts_default\<lparr>header_order := kw_header_order a, cookie_order := kw_cookie_order a,
        h3_header_order := kw_h3_header_order a, protocol_policy := kw_protocol_policy a,
        http_intent := map_option into_intent (kw_http_intent a),
        body_stream := None, content_length := None\<rparr>)"

definition session_patch ::
  "'u py_env \<Rightarrow> (request_task \<Rightarrow> 'r result) \<Rightarrow> heap \<Rightarrow> py_session \<Rightarrow> upload_args \<Rightarrow>
   'r result \<times> multipart option"
where
  "session_patch env submit h self a =
     (case prepare_body env (kw_json a) (kw_body_stream a) of
        Inl e \<Rightarrow> (Inl e, kw_multipart a)
      | Inr (json_str, upload) \<Rightarrow>
          let (mp, left) = extract_multipart (kw_multipart a) in
          (make_request env submit h self ''PATCH'' (kw_url a) (kw_headers a) (kw_params a)
       json_str (kw_data a) (kw_body a) (kw_cookies a) (kw_cookie_override a) (kw_timeout a) (kw_bearer_auth a)
       (kw_basic_auth a) mp (kw_proxy a) (kw_no_decompress a) (kw_accept_encoding a)
       \<lparr>priority = kw_priority a, h2_priority_weight = kw_h2_priority_weight a,
        preferred_http_version = map_option into_preferred (kw_preferred_http_version a),
        idempotency = map_option into_idempotency (kw_idempotency a),
        header_order = kw_header_order a, cookie_order = kw_cookie_order a,
        h3_header_order = kw_h3_header_order a, protocol_policy = kw_protocol_policy a,
        http_intent = map_option into_intent (kw_http_intent a),
        body_stream = upload, content_length = kw_content_length a\<rparr>,
           left))"

definition session_options ::
  "'u py_env \<Rightarrow> (request_task \<Rightarrow> 'r result) \<Rightarrow> heap \<Rightarrow> py_session \<Rightarrow> common_args \<Rightarrow> 'r result"
where
  "session_options env submit h self a =
     make_request env submit h self ''OPTIONS'' (kw_url a) (kw_headers a) (kw_params a)
       None None None (kw_cookies a) (kw_cookie_override a) (kw_timeout a) (kw_bearer_auth a)
       (kw_basic_auth a) None (kw_proxy a) False None
       (request_opts_default\<lparr>header_order := kw_header_order a, cookie_order := kw_cookie_order a,
        h3_header_order := kw_h3_header_order a, protocol_policy := kw_protocol_policy a,
        http_intent := map_option into_intent (kw_http_intent a),
        body_stream := None, content_length := None\<rparr>)"

definition session_send_streaming ::
  "'u py_env \<Rightarrow> (request_task \<Rightarrow> 'r result) \<Rightarrow> heap \<Rightarrow> py_session \<Rightarrow> string \<Rightarrow> streaming_args \<Rightarrow>
   'r result \<times> multipart option"
where
  "session_send_streaming env submit h self method a =
     (case ok_then (ensure_open (state self) h) (\<lambda>_. prepare_body env (st_json a) (st_body_stream a)) of
        Inl e \<Rightarrow> (Inl e, st_multipart a)
      | Inr (json_str, upload) \<Rightarrow>
          let (mp, left) = extract_multipart (st_multipart a);
              u = resolve_base_url (env_url env) (base_url self) (kw_url a) in
          (ok_then (validate_body_params json_str (st_data a) (st_body a) mp upload (st_content_length a))
            (\<lambda>_. submit \<lparr>task_session = inner self,
               task_request = \<lparr>req_method = method, url = u, headers = kw_headers a,
                 params = kw_params a, json_body = json_str, form_data = st_data a,
                 raw_body = st_body a, cookies = kw_cookies a,
                 cookie_overrides = kw_cookie_override a, timeout = kw_timeout a,
                 bearer_auth = kw_bearer_auth a, basic_auth = kw_basic_auth a, multipart = mp,
                 proxy = kw_proxy a, no_auto_decompress = False,
                 accept_encoding = st_accept_encoding a,
                 opts = request_opts_default\<lparr>header_order := kw_header_order a,
                   cookie_order := kw_cookie_order a, h3_header_order := kw_h3_header_order a,
                   protocol_policy := kw_protocol_policy a,
                   http_intent := map_option into_intent (kw_http_intent a),
                   body_stream := upload, content_length := st_content_length a\<rparr>\<rparr>,
               task_hooks = hooks (state self), task_closing = closed_ref (state self)\<rparr>),
           left))"

section \<open>The blocking session\<close>

definition make_blocking_request ::
  "'u py_env \<Rightarrow> (request_task \<Rightarrow> 'r result) \<Rightarrow> heap \<Rightarrow> py_session \<Rightarrow> string \<Rightarrow> string \<Rightarrow> pairs option \<Rightarrow>
   pairs option \<Rightarrow> string option \<Rightarrow> pairs option \<Rightarrow> bytes option \<Rightarrow> pairs option \<Rightarrow> pairs option \<Rightarrow>
   f64 option \<Rightarrow> string option \<Rightarrow> basic_credentials option \<Rightarrow> multipart option \<Rightarrow> string option \<Rightarrow>
   bool \<Rightarrow> handle option \<Rightarrow> request_opts \<Rightarrow> 'r result" where
  "make_blocking_request env submit h self method u hs ps json form raw cs overrides t bearer basic mp pr
     no_decompress accept os =
     (let u = resolve_base_url (env_url env) (base_url self) u in
      ok_then (validate_body_params json form raw mp (body_stream os) (content_length os)) (\<lambda>_.
      ok_then (ensure_open (state self) h) (\<lambda>_.
      submit \<lparr>task_session = inner self,
        task_request = \<lparr>req_method = method, url = u, headers = hs, params = ps, json_body = json,
          form_data = form, raw_body = raw, cookies = cs, cookie_overrides = overrides, timeout = t,
          bearer_auth = bearer, basic_auth = basic, multipart = mp, proxy = pr,
          no_auto_decompress = no_decompress, accept_encoding = accept, opts = os\<rparr>,
        task_hooks = hooks (state self), task_closing = closed_ref (state self)\<rparr>)))"

definition blocking_get ::
  "'u py_env \<Rightarrow> (request_task \<Rightarrow> 'r result) \<Rightarrow> heap \<Rightarrow> py_session \<Rightarrow> tuned_args \<Rightarrow> 'r result"
where
  "blocking_get env submit h self a =
     make_blocking_request env submit h self ''GET'' (kw_url a) (kw_headers a) (kw_params a)
       None None None (kw_cookies a) (kw_cookie_override a) (kw_timeout a) (kw_bearer_auth a)
       (kw_basic_auth a) None (kw_proxy a) (kw_no_decompress a) (kw_accept_encoding a)
       \<lparr>priority = kw_priority a, h2_priority_weight = kw_h2_priority_weight a,
        preferred_http_version = map_option into_preferred (kw_preferred_http_version a),
        idempotency = map_option into_idempotency (kw_idempotency a),
        header_order = kw_header_order a, cookie_order = kw_cookie_order a,
        h3_header_order = kw_h3_header_order a, protocol_policy = kw_protocol_policy a,
        http_intent = map_option into_intent (kw_http_intent a),
        body_stream = None, content_length = None\<rparr>"

definition blocking_post ::
  "'u py_env \<Rightarrow> (request_task \<Rightarrow> 'r result) \<Rightarrow> heap \<Rightarrow> py_session \<Rightarrow> upload_args \<Rightarrow>
   'r result \<times> multipart option"
where
  "blocking_post env submit h self a =
     (case prepare_body env (kw_json a) (kw_body_stream a) of
        Inl e \<Rightarrow> (Inl e, kw_multipart a)
      | Inr (json_str, upload) \<Rightarrow>
          let (mp, left) = extract_multipart (kw_multipart a) in
          (make_blocking_request env submit h self ''POST'' (kw_url a) (kw_headers a) (kw_params a)
       json_str (kw_data a) (kw_body a) (kw_cookies a) (kw_cookie_override a) (kw_timeout a) (kw_bearer_auth a)
       (kw_basic_auth a) mp (kw_proxy a) (kw_no_decompress a) (kw_accept_encoding a)
       \<lparr>priority = kw_priority a, h2_priority_weight = kw_h2_priority_weight a,
        preferred_http_version = map_option into_preferred (kw_preferred_http_version a),
        idempotency = map_option into_idempotency (kw_idempotency a),
        header_order = kw_header_order a, cookie_order = kw_cookie_order a,
        h3_header_order = kw_h3_header_order a, protocol_policy = kw_protocol_policy a,
        http_intent = map_option into_intent (kw_http_intent a),
        body_stream = upload, content_length = kw_content_length a\<rparr>,
           left))"

definition blocking_request ::
  "'u py_env \<Rightarrow> (request_task \<Rightarrow> 'r result) \<Rightarrow> heap \<Rightarrow> py_session \<Rightarrow> string \<Rightarrow> upload_args \<Rightarrow>
   'r result \<times> multipart option"
where
  "blocking_request env submit h self method a =
     (case prepare_body env (kw_json a) (kw_body_stream a) of
        Inl e \<Rightarrow> (Inl e, kw_multipart a)
      | Inr (json_str, upload) \<Rightarrow>
          let (mp, left) = extract_multipart (kw_multipart a) in
          (make_blocking_request env submit h self (to_uppercase (unicode_upper env) method) (kw_url a) (kw_headers a) (kw_params a)
       json_str (kw_data a) (kw_body a) (kw_cookies a) (kw_cookie_override a) (kw_timeout a) (kw_bearer_auth a)
       (kw_basic_auth a) mp (kw_proxy a) (kw_no_decompress a) (kw_accept_encoding a)
       \<lparr>priority = kw_priority a, h2_priority_weight = kw_h2_priority_weight a,
        preferred_http_version = map_option into_preferred (kw_preferred_http_version a),
        idempotency = map_option into_idempotency (kw_idempotency a),
        header_order = kw_header_order a, cookie_order = kw_cookie_order a,
        h3_header_order = kw_h3_header_order a, protocol_policy = kw_protocol_policy a,
        http_intent = map_option into_intent (kw_http_intent a),
        body_stream = upload, content_length = kw_content_length a\<rparr>,
           left))"

definition blocking_put ::
  "'u py_env \<Rightarrow> (request_task \<Rightarrow> 'r result) \<Rightarrow> heap \<Rightarrow> py_session \<Rightarrow> upload_args \<Rightarrow>
   'r result \<times> multipart option"
where
  "blocking_put env submit h self a =
     (case prepare_body env (kw_json a) (kw_body_stream a) of
        Inl e \<Rightarrow> (Inl e, kw_multipart a)
      | Inr (json_str, upload) \<Rightarrow>
          let (mp, left) = extract_multipart (kw_multipart a) in
          (make_blocking_request env submit h self ''PUT'' (kw_url a) (kw_headers a) (kw_params a)
       json_str (kw_data a) (kw_body a) (kw_cookies a) (kw_cookie_override a) (kw_timeout a) (kw_bearer_auth a)
       (kw_basic_auth a) mp (kw_proxy a) (kw_no_decompress a) (kw_accept_encoding a)
       \<lparr>priority = kw_priority a, h2_priority_weight = kw_h2_priority_weight a,
        preferred_http_version = map_option into_preferred (kw_preferred_http_version a),
        idempotency = map_option into_idempotency (kw_idempotency a),
        header_order = kw_header_order a, cookie_order = kw_cookie_order a,
        h3_header_order = kw_h3_header_order a, protocol_policy = kw_protocol_policy a,
        http_intent = map_option into_intent (kw_http_intent a),
        body_stream = upload, content_length = kw_content_length a\<rparr>,
           left))"

definition blocking_delete ::
  "'u py_env \<Rightarrow> (request_task \<Rightarrow> 'r result) \<Rightarrow> heap \<Rightarrow> py_session \<Rightarrow> body_args \<Rightarrow> 'r result"
where
  "blocking_delete env submit h self a =
     ok_then (prepare_body env (kw_json a) (kw_body_stream a)) (\<lambda>(json_str, upload).
     make_blocking_request env submit h self ''DELETE'' (kw_url a) (kw_headers a) (kw_params a)
       json_str (kw_data a) (kw_body a) (kw_cookies a) (kw_cookie_override a) (kw_timeout a) (kw_bearer_auth a)
       (kw_basic_auth a) None (kw_proxy a) (kw_no_decompress a) (kw_accept_encoding a)
       \<lparr>priority = kw_priority a, h2_priority_weight = kw_h2_priority_weight a,
        preferred_http_version = map_option into_preferred (kw_preferred_http_version a),
        idempotency = map_option into_idempotency (kw_idempotency a),
        header_order = kw_header_order a, cookie_order = kw_cookie_order a,
        h3_header_order = kw_h3_header_order a, protocol_policy = kw_protocol_policy a,
        http_intent = map_option into_intent (kw_http_intent a),
        body_stream = upload, content_length = kw_content_length a\<rparr>)"

definition blocking_head ::
  "'u py_env \<Rightarrow> (request_task \<Rightarrow> 'r result) \<Rightarrow> heap \<Rightarrow> py_session \<Rightarrow> common_args \<Rightarrow> 'r result"
where
  "blocking_head env submit h self a =
     make_blocking_request env submit h self ''HEAD'' (kw_url a) (kw_headers a) (kw_params a)
       None None None (kw_cookies a) (kw_cookie_override a) (kw_timeout a) (kw_bearer_auth a)
       (kw_basic_auth a) None (kw_proxy a) False None
       (request_opts_default\<lparr>header_order := kw_header_order a, cookie_order := kw_cookie_order a,
        h3_header_order := kw_h3_header_order a, protocol_policy := kw_protocol_policy a,
        http_intent := map_option into_intent (kw_http_intent a),
        body_stream := None, content_length := None\<rparr>)"

definition blocking_patch ::
  "'u py_env \<Rightarrow> (request_task \<Rightarrow> 'r result) \<Rightarrow> heap \<Rightarrow> py_session \<Rightarrow> upload_args \<Rightarrow>
   'r result \<times> multipart option"
where
  "blocking_patch env submit h self a =
     (case prepare_body env (kw_json a) (kw_body_stream a) of
        Inl e \<Rightarrow> (Inl e, kw_multipart a)
      | Inr (json_str, upload) \<Rightarrow>
          let (mp, left) = extract_multipart (kw_multipart a) in
          (make_blocking_request env submit h self ''PATCH'' (kw_url a) (kw_headers a) (kw_params a)
       json_str (kw_data a) (kw_body a) (kw_cookies a) (kw_cookie_override a) (kw_timeout a) (kw_bearer_auth a)
       (kw_basic_auth a) mp (kw_proxy a) (kw_no_decompress a) (kw_accept_encoding a)
       \<lparr>priority = kw_priority a, h2_priority_weight = kw_h2_priority_weight a,
        preferred_http_version = map_option into_preferred (kw_preferred_http_version a),
        idempotency = map_option into_idempotency (kw_idempotency a),
        header_order = kw_header_order a, cookie_order = kw_cookie_order a,
        h3_header_order = kw_h3_header_order a, protocol_policy = kw_protocol_policy a,
        http_intent = map_option into_intent (kw_http_intent a),
        body_stream = upload, content_length = kw_content_length a\<rparr>,
           left))"

definition blocking_options ::
  "'u py_env \<Rightarrow> (request_task \<Rightarrow> 'r result) \<Rightarrow> heap \<Rightarrow> py_session \<Rightarrow> common_args \<Rightarrow> 'r result"
where
  "blocking_options env submit h self a =
     make_blocking_request env submit h self ''OPTIONS'' (kw_url a) (kw_headers a) (kw_params a)
       None None None (kw_cookies a) (kw_cookie_override a) (kw_timeout a) (kw_bearer_auth a)
       (kw_basic_auth a) None (kw_proxy a) False None
       (request_opts_default\<lparr>header_order := kw_header_order a, cookie_order := kw_cookie_order a,
        h3_header_order := kw_h3_header_order a, protocol_policy := kw_protocol_policy a,
        http_intent := map_option into_intent (kw_http_intent a),
        body_stream := None, content_length := None\<rparr>)"

definition blocking_send_streaming ::
  "'u py_env \<Rightarrow> (request_task \<Rightarrow> 'r result) \<Rightarrow> heap \<Rightarrow> py_session \<Rightarrow> string \<Rightarrow> streaming_args \<Rightarrow>
   'r result \<times> multipart option"
where
  "blocking_send_streaming env submit h self method a =
     (case ok_then (ensure_open (state self) h) (\<lambda>_. prepare_body env (st_json a) (st_body_stream a)) of
        Inl e \<Rightarrow> (Inl e, st_multipart a)
      | Inr (json_str, upload) \<Rightarrow>
          let (mp, left) = extract_multipart (st_multipart a);
              u = resolve_base_url (env_url env) (base_url self) (kw_url a) in
          (ok_then (validate_body_params json_str (st_data a) (st_body a) mp upload (st_content_length a))
            (\<lambda>_. submit \<lparr>task_session = inner self,
               task_request = \<lparr>req_method = method, url = u, headers = kw_headers a,
                 params = kw_params a, json_body = json_str, form_data = st_data a,
                 raw_body = st_body a, cookies = kw_cookies a,
                 cookie_overrides = kw_cookie_override a, timeout = kw_timeout a,
                 bearer_auth = kw_bearer_auth a, basic_auth = kw_basic_auth a, multipart = mp,
                 proxy = kw_proxy a, no_auto_decompress = False,
                 accept_encoding = st_accept_encoding a,
                 opts = request_opts_default\<lparr>header_order := kw_header_order a,
                   cookie_order := kw_cookie_order a, h3_header_order := kw_h3_header_order a,
                   protocol_policy := kw_protocol_policy a,
                   http_intent := map_option into_intent (kw_http_intent a),
                   body_stream := upload, content_length := st_content_length a\<rparr>\<rparr>,
               task_hooks = hooks (state self), task_closing = closed_ref (state self)\<rparr>),
           left))"

section \<open>WebSocket handshakes and preconnects\<close>

datatype ws_call = WsNew string | WsHeader string string | WsProtocol string

definition ws_builder :: "string \<Rightarrow> pairs option \<Rightarrow> string list option \<Rightarrow> ws_call list" where
  "ws_builder u hs protocols =
     log_all WsProtocol (opt_list protocols)
       (log_all (\<lambda>(k, v). WsHeader k v) (opt_list hs) [WsNew u])"

text \<open>\<open>run\<close> is the guarded future with the closed flag it watches, bridged or blocked on.\<close>

definition session_ws_connect ::
  "(handle \<Rightarrow> ref \<Rightarrow> ws_call list \<Rightarrow> 'r result) \<Rightarrow> heap \<Rightarrow> py_session \<Rightarrow> string \<Rightarrow> pairs option \<Rightarrow>
   string list option \<Rightarrow> 'r result" where
  "session_ws_connect run h self u hs protocols =
     ok_then (ensure_open (state self) h) (\<lambda>_.
       run (inner self) (closed_ref (state self)) (ws_builder u hs protocols))"

definition blocking_ws_connect ::
  "(handle \<Rightarrow> ref \<Rightarrow> ws_call list \<Rightarrow> 'r result) \<Rightarrow> heap \<Rightarrow> py_session \<Rightarrow> string \<Rightarrow> pairs option \<Rightarrow>
   string list option \<Rightarrow> 'r result" where
  "blocking_ws_connect run h self u hs protocols =
     ok_then (ensure_open (state self) h) (\<lambda>_.
       run (inner self) (closed_ref (state self)) (ws_builder u hs protocols))"

definition session_preconnect ::
  "(handle \<Rightarrow> ref \<Rightarrow> string \<Rightarrow> unit result) \<Rightarrow> heap \<Rightarrow> py_session \<Rightarrow> string \<Rightarrow> unit result" where
  "session_preconnect run h self u =
     ok_then (ensure_open (state self) h) (\<lambda>_. run (inner self) (closed_ref (state self)) u)"

text \<open>The dicts \<open>preconnect_many\<close> returns: one per URL, \<open>zip\<close>ped with upstream's results.\<close>

record preconnect_entry =
  pre_url :: string
  pre_success :: bool
  pre_error :: "string option"

definition preconnect_entries ::
  "error_api \<Rightarrow> (lk_error + unit) list \<Rightarrow> string list \<Rightarrow> preconnect_entry list" where
  "preconnect_entries api results urls =
     map2 (\<lambda>r u. \<lparr>pre_url = u, pre_success = is_ok r,
            pre_error = (case r of Inl e \<Rightarrow> Some (err_to_string api e) | Inr _ \<Rightarrow> None)\<rparr>)
       results urls"

definition session_preconnect_many ::
  "error_api \<Rightarrow> (handle \<Rightarrow> ref \<Rightarrow> string list \<Rightarrow> (lk_error + unit) list result) \<Rightarrow> heap \<Rightarrow> py_session \<Rightarrow>
   string list \<Rightarrow> preconnect_entry list result" where
  "session_preconnect_many api run h self urls =
     ok_then (ensure_open (state self) h) (\<lambda>_.
     ok_then (run (inner self) (closed_ref (state self)) urls) (\<lambda>results.
       Inr (preconnect_entries api results urls)))"

definition blocking_preconnect_many ::
  "error_api \<Rightarrow> (handle \<Rightarrow> ref \<Rightarrow> string list \<Rightarrow> (lk_error + unit) list result) \<Rightarrow> heap \<Rightarrow> py_session \<Rightarrow>
   string list \<Rightarrow> preconnect_entry list result" where
  "blocking_preconnect_many api run h self urls =
     ok_then (ensure_open (state self) h) (\<lambda>_.
     ok_then (run (inner self) (closed_ref (state self)) urls) (\<lambda>results.
       Inr (preconnect_entries api results urls)))"

section \<open>Lifecycle\<close>

text \<open>What a session does to the upstream session besides sending: here, clearing its pool.\<close>

datatype inner_call = PoolClear handle

definition session_close :: "py_session \<Rightarrow> heap \<times> inner_call list \<Rightarrow> heap \<times> inner_call list" where
  "session_close self w = (let (h, calls) = w in (close (state self) h, calls @ [PoolClear (inner self)]))"

definition session_enter :: "heap \<Rightarrow> py_session \<Rightarrow> py_session result" where
  "session_enter h self = ok_then (ensure_open (state self) h) (\<lambda>_. Inr self)"

text \<open>The exit of the context manager returns \<open>False\<close>: the exception, if any, goes on.\<close>

definition session_exit :: "py_session \<Rightarrow> heap \<times> inner_call list \<Rightarrow> bool \<times> heap \<times> inner_call list" where
  "session_exit self w = (False, session_close self w)"

section \<open>Lemmas\<close>

lemmas verb_defs =
  session_get_def session_post_def session_request_def session_put_def session_delete_def
  session_head_def session_patch_def session_options_def session_send_streaming_def

lemmas blocking_verb_defs =
  blocking_get_def blocking_post_def blocking_request_def blocking_put_def blocking_delete_def
  blocking_head_def blocking_patch_def blocking_options_def blocking_send_streaming_def

lemma make_request_parity: "make_blocking_request env = make_request env"
  by (intro ext) (simp add: make_request_def make_blocking_request_def)

lemma make_request_closed:
  "is_closed (state self) h \<Longrightarrow>
     \<exists>e. make_request env submit h self method u hs ps json form raw cs overrides t bearer basic mp
           pr no_decompress accept os = Inl e"
  by (cases "validate_body_params json form raw mp (body_stream os) (content_length os)")
     (simp_all add: make_request_def ensure_open_def)

lemma make_request_Inr:
  "make_request env Inr h self method u hs ps json form raw cs overrides t bearer basic mp
     pr no_decompress accept os = Inr task \<Longrightarrow>
   validated (task_request task) \<and> \<not> is_closed (state self) h \<and>
   task_closing task = closed_ref (state self) \<and> req_method (task_request task) = method"
  by (auto simp: make_request_def res_simps validated_def Let_def)

lemma extract_multipart_left [simp]:
  "snd (extract_multipart mp) = map_option (\<lambda>_. []) mp"
  by (cases mp) (simp_all add: multipart_new_def)

definition task_ok :: "py_session \<Rightarrow> heap \<Rightarrow> string set \<Rightarrow> request_task \<Rightarrow> bool" where
  "task_ok self h names task \<longleftrightarrow>
     validated (task_request task) \<and> ensure_open (state self) h = Inr () \<and>
     task_closing task = closed_ref (state self) \<and> req_method (task_request task) \<in> names"

lemma make_request_ok:
  "make_request env Inr h self method u hs ps json form raw cs overrides t bearer basic mp
     pr no_decompress accept os = Inr task \<Longrightarrow> method \<in> names \<Longrightarrow> task_ok self h names task"
  by (drule make_request_Inr) (simp add: task_ok_def)

definition verb_names :: "string set" where
  "verb_names = fst ` set methods"

lemma in_verb_names [simp]:
  "''GET'' \<in> verb_names" "''POST'' \<in> verb_names" "''PUT'' \<in> verb_names" "''DELETE'' \<in> verb_names"
  "''HEAD'' \<in> verb_names" "''PATCH'' \<in> verb_names" "''OPTIONS'' \<in> verb_names"
  by (simp_all add: verb_names_def methods_def)

lemma submitted_plain:
  "session_get env Inr h self ta = Inr task \<Longrightarrow> task_ok self h verb_names task"
  "session_head env Inr h self ca = Inr task \<Longrightarrow> task_ok self h verb_names task"
  "session_options env Inr h self ca = Inr task \<Longrightarrow> task_ok self h verb_names task"
  by (unfold session_get_def session_head_def session_options_def)
     (erule make_request_ok, rule in_verb_names)+

lemma bodied_Inr:
  assumes "fst (case r of Inl e \<Rightarrow> (Inl e, left) | Inr (j, u) \<Rightarrow>
      let (mp, left) = extract_multipart mp0 in (f j u mp, left)) = Inr task"
  shows "\<exists>j u mp. f j u mp = Inr task"
  using assms by (cases r) (auto simp: Let_def split: prod.splits)

lemma submitted_bodied:
  "fst (session_post env Inr h self ua) = Inr task \<Longrightarrow> task_ok self h verb_names task"
  "fst (session_put env Inr h self ua) = Inr task \<Longrightarrow> task_ok self h verb_names task"
  "fst (session_patch env Inr h self ua) = Inr task \<Longrightarrow> task_ok self h verb_names task"
  "fst (session_request env Inr h self m ua) = Inr task \<Longrightarrow>
     task_ok self h {to_uppercase (unicode_upper env) m} task"
  by (unfold session_post_def session_put_def session_patch_def session_request_def)
     (drule bodied_Inr, elim exE, erule make_request_ok, simp)+

lemma submitted_delete:
  "session_delete env Inr h self ba = Inr task \<Longrightarrow> task_ok self h verb_names task"
  by (auto simp: session_delete_def ok_then_Inr intro: make_request_ok)

lemma submitted_streaming:
  "fst (session_send_streaming env Inr h self m sa) = Inr task \<Longrightarrow> task_ok self h {m} task"
  by (auto simp: session_send_streaming_def res_simps validated_def task_ok_def Let_def
      split: sum.splits prod.splits)

section \<open>Properties\<close>

text \<open>C21: The asynchronous and the blocking session cannot drift apart: for every method, arguments,
  session and state of the heap, both refuse with the same exception or hand on the same task, and
  leave the same form behind.\<close>
theorem async_blocking_parity:
  "session_get env submit h self ta = blocking_get env submit h self ta \<and>
   session_post env submit h self ua = blocking_post env submit h self ua \<and>
   session_request env submit h self m ua = blocking_request env submit h self m ua \<and>
   session_put env submit h self ua = blocking_put env submit h self ua \<and>
   session_delete env submit h self ba = blocking_delete env submit h self ba \<and>
   session_head env submit h self ca = blocking_head env submit h self ca \<and>
   session_patch env submit h self ua = blocking_patch env submit h self ua \<and>
   session_options env submit h self ca = blocking_options env submit h self ca \<and>
   session_send_streaming env submit h self m sa = blocking_send_streaming env submit h self m sa"
  by (simp only: verb_defs blocking_verb_defs make_request_parity simp_thms)

text \<open>C30: A closed session hands nothing on: every method raises, whatever is submitted would do, and
  the methods without a body raise \<open>RuntimeError: Session is closed\<close>.\<close>
theorem closed_session_refuses:
  assumes "is_closed (state self) h"
  shows "session_get env submit h self ta = raise RuntimeError ''Session is closed'' \<and>
     session_head env submit h self ca = raise RuntimeError ''Session is closed'' \<and>
     session_options env submit h self ca = raise RuntimeError ''Session is closed'' \<and>
     (\<exists>e. fst (session_post env submit h self ua) = Inl e) \<and>
     (\<exists>e. fst (session_request env submit h self m ua) = Inl e) \<and>
     (\<exists>e. fst (session_put env submit h self ua) = Inl e) \<and>
     (\<exists>e. fst (session_patch env submit h self ua) = Inl e) \<and>
     (\<exists>e. session_delete env submit h self ba = Inl e) \<and>
     session_send_streaming env submit h self m sa =
       (raise RuntimeError ''Session is closed'', st_multipart sa)"
proof (intro conjI)
  show "session_get env submit h self ta = raise RuntimeError ''Session is closed''"
    "session_head env submit h self ca = raise RuntimeError ''Session is closed''"
    "session_options env submit h self ca = raise RuntimeError ''Session is closed''"
    using assms by (simp_all add: verb_defs make_request_def validate_body_params_def ensure_open_def
        request_opts_default_def)
  show "session_send_streaming env submit h self m sa =
      (raise RuntimeError ''Session is closed'', st_multipart sa)"
    using assms by (simp add: session_send_streaming_def ensure_open_def)
  show "\<exists>e. session_delete env submit h self ba = Inl e"
    using make_request_closed [OF assms]
    by (cases "prepare_body env (kw_json ba) (kw_body_stream ba)") (auto simp: session_delete_def)
qed (auto simp: verb_defs make_request_closed [OF assms] split: sum.split prod.split)

text \<open>C4: Whatever a method hands on was validated on an open session: at most one body, a content
  length only with a stream, the method's own name, and the session's closed flag to watch.\<close>
theorem submitted_tasks_valid:
  "(session_get env Inr h self ta = Inr task \<or> session_head env Inr h self ca = Inr task \<or>
    session_options env Inr h self ca = Inr task \<or> session_delete env Inr h self ba = Inr task \<or>
    fst (session_post env Inr h self ua) = Inr task \<or> fst (session_put env Inr h self ua) = Inr task \<or>
    fst (session_patch env Inr h self ua) = Inr task \<longrightarrow> task_ok self h verb_names task) \<and>
   (fst (session_request env Inr h self m ua) = Inr task \<longrightarrow>
      task_ok self h {to_uppercase (unicode_upper env) m} task) \<and>
   (fst (session_send_streaming env Inr h self m sa) = Inr task \<longrightarrow> task_ok self h {m} task)"
  by (auto intro: submitted_plain submitted_bodied submitted_delete submitted_streaming)

text \<open>\<open>request\<close> with any spelling of a method's name is that method: the same task or exception,
  and the same form left behind.\<close>
lemma request_is_the_verb:
  "(to_uppercase (unicode_upper env) m = ''POST'' \<longrightarrow>
      session_request env submit h self m ua = session_post env submit h self ua) \<and>
   (to_uppercase (unicode_upper env) m = ''PUT'' \<longrightarrow>
      session_request env submit h self m ua = session_put env submit h self ua) \<and>
   (to_uppercase (unicode_upper env) m = ''PATCH'' \<longrightarrow>
      session_request env submit h self m ua = session_patch env submit h self ua) \<and>
   (to_uppercase (unicode_upper env) m = ''DELETE'' \<and> kw_multipart ua = None \<longrightarrow>
      session_request env submit h self m ua =
        (session_delete env submit h self (body_args.truncate ua), None)) \<and>
   (to_uppercase (unicode_upper env) m = ''GET'' \<and> kw_multipart ua = None \<and> kw_json ua = None \<and>
      kw_data ua = None \<and> kw_body ua = None \<and> kw_body_stream ua = None \<and> kw_content_length ua = None \<longrightarrow>
      session_request env submit h self m ua =
        (session_get env submit h self (tuned_args.truncate ua), None))"
proof (intro conjI impI)
  assume "to_uppercase (unicode_upper env) m = ''DELETE'' \<and> kw_multipart ua = None"
  then show "session_request env submit h self m ua =
      (session_delete env submit h self (body_args.truncate ua), None)"
    by (cases "prepare_body env (kw_json ua) (kw_body_stream ua)")
       (auto simp: session_request_def session_delete_def body_args.truncate_def)
next
  assume "to_uppercase (unicode_upper env) m = ''GET'' \<and> kw_multipart ua = None \<and> kw_json ua = None \<and>
      kw_data ua = None \<and> kw_body ua = None \<and> kw_body_stream ua = None \<and> kw_content_length ua = None"
  then show "session_request env submit h self m ua =
      (session_get env submit h self (tuned_args.truncate ua), None)"
    by (simp add: session_request_def session_get_def tuned_args.truncate_def prepare_body_def)
qed (simp_all only: session_request_def session_post_def session_put_def session_patch_def)

text \<open>The methods that take a form, of both classes, with what is left in the caller's object.\<close>

definition form_calls ::
  "'u py_env \<Rightarrow> heap \<Rightarrow> py_session \<Rightarrow> string \<Rightarrow> upload_args \<Rightarrow> (request_task result \<times> multipart option) list" where
  "form_calls env h self m ua =
     [session_post env Inr h self ua, session_put env Inr h self ua, session_patch env Inr h self ua,
      session_request env Inr h self m ua, blocking_post env Inr h self ua, blocking_put env Inr h self ua,
      blocking_patch env Inr h self ua, blocking_request env Inr h self m ua]"

definition streaming_form_calls ::
  "'u py_env \<Rightarrow> heap \<Rightarrow> py_session \<Rightarrow> string \<Rightarrow> streaming_args \<Rightarrow> (request_task result \<times> multipart option) list" where
  "streaming_form_calls env h self m sa =
     [session_send_streaming env Inr h self m sa, blocking_send_streaming env Inr h self m sa]"

text \<open>Why a call is refused, once the body is prepared.\<close>

definition call_refused :: "unit result \<Rightarrow> unit result \<Rightarrow> 'r result \<Rightarrow> bool" where
  "call_refused bodies open_check r \<longleftrightarrow>
     (case bodies of
        Inl e \<Rightarrow> r = Inl e
      | Inr _ \<Rightarrow> (case open_check of Inl e \<Rightarrow> r = Inl e | Inr _ \<Rightarrow> \<exists>task. r = Inr task))"

lemma make_request_refused:
  "call_refused (validate_body_params json form raw mp (body_stream os) (content_length os))
     (ensure_open (state self) h)
     (make_request env Inr h self method u hs ps json form raw cs overrides t bearer basic mp pr no_decompress accept os)"
  by (cases "is_closed (state self) h")
     (auto simp: call_refused_def make_request_def ensure_open_def Let_def split: sum.split)

definition form_taken :: "multipart option \<Rightarrow> multipart option" where
  "form_taken mp = map_option (\<lambda>_. multipart_new) mp"

lemma extract_multipart_pair: "extract_multipart mp = (mp, form_taken mp)"
  by (cases mp) (simp_all add: form_taken_def)

lemma form_methods_agree:
  "blocking_post env submit h self ua = session_post env submit h self ua"
  "blocking_put env submit h self ua = session_put env submit h self ua"
  "blocking_patch env submit h self ua = session_patch env submit h self ua"
  "blocking_request env submit h self m ua = session_request env submit h self m ua"
  "blocking_send_streaming env submit h self m sa = session_send_streaming env submit h self m sa"
  by (simp_all only: verb_defs blocking_verb_defs make_request_parity)

lemma form_calls_parity:
  "set (form_calls env h self m ua) =
     {session_post env Inr h self ua, session_put env Inr h self ua, session_patch env Inr h self ua,
      session_request env Inr h self m ua}"
  "set (streaming_form_calls env h self m sa) = {session_send_streaming env Inr h self m sa}"
  by (auto simp: form_calls_def streaming_form_calls_def form_methods_agree)

text \<open>C38: What becomes of a caller's form. The buffered methods of both classes prepare the body first, and a call
  that fails there leaves the form alone; then they take the form out of its \<open>Multipart\<close>, and only then
  refuse two bodies, a length without a stream, or a closed session, in this order, so such a call has
  emptied the caller's object although nothing was sent. \<open>send_streaming\<close> looks at the session first: on a
  closed one the form is left alone, on an open one two bodies empty it as well.\<close>
theorem refused_call_empties_form:
  assumes "r \<in> set (form_calls env h self m ua)" and "q \<in> set (streaming_form_calls env h self m sa)"
  shows "(case prepare_body env (kw_json ua) (kw_body_stream ua) of
      Inl e \<Rightarrow> r = (Inl e, kw_multipart ua)
    | Inr (json, upload) \<Rightarrow> snd r = form_taken (kw_multipart ua) \<and>
        call_refused
          (validate_body_params json (kw_data ua) (kw_body ua) (kw_multipart ua) upload (kw_content_length ua))
          (ensure_open (state self) h) (fst r)) \<and>
   (case ok_then (ensure_open (state self) h) (\<lambda>_. prepare_body env (st_json sa) (st_body_stream sa)) of
      Inl e \<Rightarrow> q = (Inl e, st_multipart sa)
    | Inr (json, upload) \<Rightarrow> snd q = form_taken (st_multipart sa) \<and>
        call_refused
          (validate_body_params json (st_data sa) (st_body sa) (st_multipart sa) upload (st_content_length sa))
          (Inr ()) (fst q))"
proof (intro conjI)
  note refused = make_request_refused [where os = "\<lparr>priority = _, h2_priority_weight = _,
      preferred_http_version = _, idempotency = _, header_order = _, cookie_order = _, h3_header_order = _,
      protocol_policy = _, http_intent = _, body_stream = _, content_length = _\<rparr>", simplified]
  show "case prepare_body env (kw_json ua) (kw_body_stream ua) of
      Inl e \<Rightarrow> r = (Inl e, kw_multipart ua)
    | Inr (json, upload) \<Rightarrow> snd r = form_taken (kw_multipart ua) \<and>
        call_refused
          (validate_body_params json (kw_data ua) (kw_body ua) (kw_multipart ua) upload (kw_content_length ua))
          (ensure_open (state self) h) (fst r)"
    using assms(1) unfolding form_calls_parity
    by (cases "prepare_body env (kw_json ua) (kw_body_stream ua)")
       (auto simp: session_post_def session_put_def session_patch_def session_request_def extract_multipart_pair refused)
  show "case ok_then (ensure_open (state self) h) (\<lambda>_. prepare_body env (st_json sa) (st_body_stream sa)) of
      Inl e \<Rightarrow> q = (Inl e, st_multipart sa)
    | Inr (json, upload) \<Rightarrow> snd q = form_taken (st_multipart sa) \<and>
        call_refused
          (validate_body_params json (st_data sa) (st_body sa) (st_multipart sa) upload (st_content_length sa))
          (Inr ()) (fst q)"
    using assms(2) unfolding form_calls_parity
    by (auto simp: session_send_streaming_def extract_multipart_pair call_refused_def Let_def split: sum.split)
qed

section \<open>Witnesses\<close>

definition sample_env :: "string py_env" where
  "sample_env = \<lparr>env_url = tiny_urls, json_dumps = (\<lambda>_. Inr ''{}''), env_locals = None,
     unicode_upper = id\<rparr>"

definition sample_session :: py_session where
  "sample_session = \<lparr>inner = 4, state = sample_state, base_url = None\<rparr>"

definition sample_args :: upload_args where
  "sample_args = \<lparr>kw_url = ''http'', kw_headers = None, kw_params = None, kw_cookies = None,
     kw_cookie_override = None, kw_timeout = None, kw_bearer_auth = None, kw_basic_auth = None,
     kw_proxy = None, kw_header_order = None, kw_cookie_order = None, kw_h3_header_order = None,
     kw_protocol_policy = None, kw_http_intent = None, kw_no_decompress = False,
     kw_accept_encoding = None, kw_priority = None, kw_h2_priority_weight = None,
     kw_preferred_http_version = None, kw_idempotency = None, kw_json = None, kw_data = None,
     kw_body = None, kw_body_stream = None, kw_content_length = None,
     kw_multipart = Some [MultipartText ''a'' ''b'']\<rparr>"

definition closed_heap :: heap where
  "closed_heap = sample_heap\<lparr>watches := (\<lambda>_. True)\<rparr>"

lemma sample_closed: "is_closed (state sample_session) closed_heap"
  by (simp add: is_closed_def closed_heap_def sample_session_def)

theorem closed_session_refuses_witness:
  "session_head sample_env Inr closed_heap sample_session (common_args.truncate sample_args) =
     raise RuntimeError ''Session is closed''"
  using closed_session_refuses [OF sample_closed, of sample_env Inr _ "common_args.truncate sample_args"]
  by blast

theorem submitted_tasks_valid_witness:
  "case fst (session_post sample_env Inr sample_heap sample_session sample_args) of
     Inr task \<Rightarrow> validated (task_request task) | Inl _ \<Rightarrow> False"
proof -
  let ?r = "fst (session_post sample_env Inr sample_heap sample_session sample_args)"
  obtain task where r: "?r = Inr task"
    by (simp add: session_post_def sample_args_def prepare_body_def make_request_def Let_def
        validate_body_params_def ensure_open_def is_closed_def sample_session_def sample_state_def
        sample_heap_def)
  with submitted_tasks_valid [where env = sample_env and h = sample_heap and self = sample_session and
      ua = sample_args and task = task] show ?thesis by (auto simp: task_ok_def)
qed

definition sample_streaming_args :: streaming_args where
  "sample_streaming_args = undefined\<lparr>st_json := None, st_body_stream := None, st_multipart := Some [MultipartText ''a'' ''b'']\<rparr>"

theorem refused_call_empties_form_witness:
  "session_post sample_env Inr closed_heap sample_session sample_args =
     (raise RuntimeError ''Session is closed'', Some []) \<and>
   kw_multipart sample_args = Some [MultipartText ''a'' ''b''] \<and>
   session_send_streaming sample_env Inr closed_heap sample_session ''POST'' sample_streaming_args =
     (raise RuntimeError ''Session is closed'', Some [MultipartText ''a'' ''b''])"
proof -
  let ?r = "session_post sample_env Inr closed_heap sample_session sample_args"
  let ?q = "session_send_streaming sample_env Inr closed_heap sample_session ''POST'' sample_streaming_args"
  have "prepare_body sample_env (kw_json sample_args) (kw_body_stream sample_args) = Inr (None, None)"
    by (simp add: prepare_body_def sample_args_def)
  moreover have "ensure_open (state sample_session) closed_heap = raise RuntimeError ''Session is closed''"
    using sample_closed by (simp add: ensure_open_def)
  moreover have "?r \<in> set (form_calls sample_env closed_heap sample_session ''POST'' sample_args)"
    and "?q \<in> set (streaming_form_calls sample_env closed_heap sample_session ''POST'' sample_streaming_args)"
    by (simp_all add: form_calls_def streaming_form_calls_def)
  ultimately show ?thesis
    using refused_call_empties_form [where r = ?r and env = sample_env and h = closed_heap and self = sample_session
        and m = "''POST''" and ua = sample_args and q = ?q and sa = sample_streaming_args]
    by (cases ?r) (simp add: call_refused_def form_taken_def multipart_new_def validate_body_params_def sample_args_def
        sample_streaming_args_def)
qed

end
