(* ===== verification/WebSocket.thy ===== *)
theory WebSocket imports Errors Interfaces begin

text \<open>
  \<open>src/src/websocket.rs\<close>: messages, and the connection a WebSocket object shares with the operations in
  flight on it. The connection is upstream's; what it answers is the input of each operation. The methods
  are modelled twice: each as it runs on its own, and as the atomic steps its concurrent runs are made of.
\<close>

section \<open>Messages\<close>

text \<open>The upstream message and the Python one.\<close>

datatype lk_ws_message =
  LkText string | LkBinary bytes | LkPing bytes | LkPong bytes | LkClose "u16 option" string

datatype py_ws_message =
  WsText string | WsBinary bytes | WsPing bytes | WsPong bytes | WsClose "u16 option" string

definition ws_message_text :: "string \<Rightarrow> py_ws_message" where
  "ws_message_text data = WsText data"

definition ws_message_binary :: "bytes \<Rightarrow> py_ws_message" where
  "ws_message_binary data = WsBinary data"

fun ws_is_text :: "py_ws_message \<Rightarrow> bool" where
  "ws_is_text (WsText _) = True"
| "ws_is_text _ = False"

fun ws_is_binary :: "py_ws_message \<Rightarrow> bool" where
  "ws_is_binary (WsBinary _) = True"
| "ws_is_binary _ = False"

fun ws_is_close :: "py_ws_message \<Rightarrow> bool" where
  "ws_is_close (WsClose _ _) = True"
| "ws_is_close _ = False"

fun ws_msg_type :: "lk_ws_message \<Rightarrow> string" where
  "ws_msg_type (LkText _) = ''text''"
| "ws_msg_type (LkBinary _) = ''binary''"
| "ws_msg_type (LkPing _) = ''ping''"
| "ws_msg_type (LkPong _) = ''pong''"
| "ws_msg_type (LkClose _ _) = ''close''"

fun rust_ws_to_py :: "lk_ws_message \<Rightarrow> py_ws_message" where
  "rust_ws_to_py (LkText s) = WsText s"
| "rust_ws_to_py (LkBinary b) = WsBinary b"
| "rust_ws_to_py (LkPing b) = WsPing b"
| "rust_ws_to_py (LkPong b) = WsPong b"
| "rust_ws_to_py (LkClose code reason) = WsClose code reason"

section \<open>The shared connection\<close>

text \<open>
  \<open>SharedConnection\<close> is the slot, emptied by \<open>release\<close>. \<open>'c\<close> is the connection, and \<open>ws_api\<close> what its
  methods answer this time.
\<close>

record 'c ws_api =
  conn_send_text :: "'c \<Rightarrow> string \<Rightarrow> lk_error + unit"
  conn_send_binary :: "'c \<Rightarrow> bytes \<Rightarrow> lk_error + unit"
  conn_recv :: "'c \<Rightarrow> lk_error + lk_ws_message"
  conn_close :: "'c \<Rightarrow> (u16 \<times> string) option \<Rightarrow> lk_error + unit"

definition shared_new :: "'c \<Rightarrow> 'c option" where
  "shared_new conn = Some conn"

definition shared_get :: "'c option \<Rightarrow> 'c option" where
  "shared_get slot = slot"

definition shared_open :: "'c option \<Rightarrow> 'c result" where
  "shared_open slot = ok_or (PyExc RuntimeError ''WebSocket is closed'' []) (shared_get slot)"

definition shared_release :: "'c option \<Rightarrow> 'c option" where
  "shared_release slot = None"

section \<open>The methods, one at a time\<close>

definition ws_send_text ::
  "error_api \<Rightarrow> 'c ws_api \<Rightarrow> string \<Rightarrow> 'c option \<Rightarrow> unit result \<times> 'c option" where
  "ws_send_text err api msg shared =
     (ok_then (shared_open shared) (\<lambda>conn.
      ok_then (map_py_err err (conn_send_text api conn msg)) (\<lambda>_. Inr ())), shared)"

definition ws_send_binary ::
  "error_api \<Rightarrow> 'c ws_api \<Rightarrow> bytes \<Rightarrow> 'c option \<Rightarrow> unit result \<times> 'c option" where
  "ws_send_binary err api data shared =
     (ok_then (shared_open shared) (\<lambda>conn.
      ok_then (map_py_err err (conn_send_binary api conn data)) (\<lambda>_. Inr ())), shared)"

definition ws_recv ::
  "error_api \<Rightarrow> 'c ws_api \<Rightarrow> 'c option \<Rightarrow> py_ws_message result \<times> 'c option" where
  "ws_recv err api shared =
     (ok_then (shared_open shared) (\<lambda>conn.
      ok_then (map_py_err err (conn_recv api conn)) (\<lambda>msg. Inr (rust_ws_to_py msg))), shared)"

definition ws_close ::
  "error_api \<Rightarrow> 'c ws_api \<Rightarrow> u16 option \<Rightarrow> string \<Rightarrow> 'c option \<Rightarrow> unit result \<times> 'c option" where
  "ws_close err api code reason shared =
     (case shared_open shared of
        Inl e \<Rightarrow> (Inl e, shared)
      | Inr conn \<Rightarrow>
          let close_info = map_option (\<lambda>c. (c, reason)) code in
          (case map_py_err err (conn_close api conn close_info) of
             Inl e \<Rightarrow> (Inl e, shared)
           | Inr _ \<Rightarrow> (Inr (), shared_release shared)))"

definition ws_anext :: "'c ws_api \<Rightarrow> 'c option \<Rightarrow> py_ws_message result \<times> 'c option" where
  "ws_anext api shared =
     (case shared_get shared of
        None \<Rightarrow> (raise StopAsyncIteration [], shared)
      | Some conn \<Rightarrow>
          (case conn_recv api conn of
             Inr (LkClose _ _) \<Rightarrow> (raise StopAsyncIteration [], shared_release shared)
           | Inl _ \<Rightarrow> (raise StopAsyncIteration [], shared_release shared)
           | Inr msg \<Rightarrow> (Inr (rust_ws_to_py msg), shared)))"

text \<open>The blocking class; \<open>None\<close> from \<open>__next__\<close> ends the iteration.\<close>

definition blocking_ws_send_text ::
  "error_api \<Rightarrow> 'c ws_api \<Rightarrow> string \<Rightarrow> 'c option \<Rightarrow> unit result \<times> 'c option" where
  "blocking_ws_send_text err api msg shared =
     (ok_then (shared_open shared) (\<lambda>conn. map_py_err err (conn_send_text api conn msg)), shared)"

definition blocking_ws_send_binary ::
  "error_api \<Rightarrow> 'c ws_api \<Rightarrow> bytes \<Rightarrow> 'c option \<Rightarrow> unit result \<times> 'c option" where
  "blocking_ws_send_binary err api data shared =
     (ok_then (shared_open shared) (\<lambda>conn. map_py_err err (conn_send_binary api conn data)), shared)"

definition blocking_ws_recv ::
  "error_api \<Rightarrow> 'c ws_api \<Rightarrow> 'c option \<Rightarrow> py_ws_message result \<times> 'c option" where
  "blocking_ws_recv err api shared =
     (ok_then (shared_open shared) (\<lambda>conn.
      ok_then (map_py_err err (conn_recv api conn)) (\<lambda>msg. Inr (rust_ws_to_py msg))), shared)"

definition blocking_ws_close ::
  "error_api \<Rightarrow> 'c ws_api \<Rightarrow> u16 option \<Rightarrow> string \<Rightarrow> 'c option \<Rightarrow> unit result \<times> 'c option" where
  "blocking_ws_close err api code reason shared =
     (case shared_open shared of
        Inl e \<Rightarrow> (Inl e, shared)
      | Inr conn \<Rightarrow>
          let close_info = map_option (\<lambda>c. (c, reason)) code in
          (case map_py_err err (conn_close api conn close_info) of
             Inl e \<Rightarrow> (Inl e, shared)
           | Inr _ \<Rightarrow> (Inr (), shared_release shared)))"

definition blocking_ws_next :: "'c ws_api \<Rightarrow> 'c option \<Rightarrow> py_ws_message option result \<times> 'c option" where
  "blocking_ws_next api shared =
     (case shared_get shared of
        None \<Rightarrow> (Inr None, shared)
      | Some conn \<Rightarrow>
          (case conn_recv api conn of
             Inr (LkClose _ _) \<Rightarrow> (Inr None, shared_release shared)
           | Inl _ \<Rightarrow> (Inr None, shared_release shared)
           | Inr msg \<Rightarrow> (Inr (Some (rust_ws_to_py msg)), shared)))"

section \<open>Closed for good\<close>

datatype ws_op = OpSendText string | OpSendBinary bytes | OpRecv | OpClose "u16 option" string | OpNextMsg

datatype ws_answer = SentIs "unit result" | MessageIs "py_ws_message result"

fun ws_method :: "error_api \<Rightarrow> 'c option \<Rightarrow> ws_op \<times> 'c ws_api \<Rightarrow> ws_answer \<times> 'c option" where
  "ws_method err s (OpSendText t, api) = map_prod SentIs id (ws_send_text err api t s)"
| "ws_method err s (OpSendBinary d, api) = map_prod SentIs id (ws_send_binary err api d s)"
| "ws_method err s (OpRecv, api) = map_prod MessageIs id (ws_recv err api s)"
| "ws_method err s (OpClose code reason, api) = map_prod SentIs id (ws_close err api code reason s)"
| "ws_method err s (OpNextMsg, api) = map_prod MessageIs id (ws_anext api s)"

text \<open>The blocking class, its end of iteration written as the exception it stands for.\<close>

fun next_answer :: "py_ws_message option result \<Rightarrow> py_ws_message result" where
  "next_answer (Inr None) = raise StopIteration []"
| "next_answer (Inr (Some msg)) = Inr msg"
| "next_answer (Inl e) = Inl e"

fun blocking_ws_method :: "error_api \<Rightarrow> 'c option \<Rightarrow> ws_op \<times> 'c ws_api \<Rightarrow> ws_answer \<times> 'c option" where
  "blocking_ws_method err s (OpSendText t, api) = map_prod SentIs id (blocking_ws_send_text err api t s)"
| "blocking_ws_method err s (OpSendBinary d, api) = map_prod SentIs id (blocking_ws_send_binary err api d s)"
| "blocking_ws_method err s (OpRecv, api) = map_prod MessageIs id (blocking_ws_recv err api s)"
| "blocking_ws_method err s (OpClose code reason, api) =
     map_prod SentIs id (blocking_ws_close err api code reason s)"
| "blocking_ws_method err s (OpNextMsg, api) =
     map_prod (\<lambda>r. MessageIs (next_answer r)) id (blocking_ws_next api s)"

text \<open>What a released connection answers, and the answers that tell that it is released.\<close>

abbreviation ws_closed :: exc where
  "ws_closed \<equiv> PyExc RuntimeError ''WebSocket is closed'' []"

fun released_answer :: "exc_kind \<Rightarrow> ws_op \<Rightarrow> ws_answer" where
  "released_answer stop OpRecv = MessageIs (Inl ws_closed)"
| "released_answer stop OpNextMsg = MessageIs (raise stop [])"
| "released_answer stop _ = SentIs (Inl ws_closed)"

fun releasing :: "exc_kind \<Rightarrow> ws_op \<times> 'c ws_api \<Rightarrow> ws_answer \<Rightarrow> bool" where
  "releasing stop (OpClose code reason, api) out \<longleftrightarrow> out = SentIs (Inr ())"
| "releasing stop (OpNextMsg, api) out \<longleftrightarrow> out = MessageIs (raise stop [])"
| "releasing stop _ out \<longleftrightarrow> False"

lemmas ws_defs = ws_send_text_def ws_send_binary_def ws_recv_def ws_close_def ws_anext_def
  blocking_ws_send_text_def blocking_ws_send_binary_def blocking_ws_recv_def blocking_ws_close_def
  blocking_ws_next_def shared_open_def shared_get_def shared_release_def

lemma unit_result: "ok_then r (\<lambda>u :: unit. Inr ()) = r" "ok_then r Inr = r"
  by (cases r; simp)+

text \<open>The two classes differ in the exception that ends an iteration.\<close>

fun with_stop_iteration :: "ws_answer \<Rightarrow> ws_answer" where
  "with_stop_iteration (MessageIs (Inl e)) =
     MessageIs (Inl (if kind e = StopAsyncIteration then PyExc StopIteration (message e) (args e) else e))"
| "with_stop_iteration out = out"

lemma with_stop_kept:
  "with_stop_iteration (MessageIs (ok_then (map_py_err err r) (\<lambda>m. Inr (f m)))) =
   MessageIs (ok_then (map_py_err err r) (\<lambda>m. Inr (f m)))"
  using to_py_err_not_stop by (cases r) auto

lemma blocking_ws_step:
  "blocking_ws_method err s (op, api) = map_prod with_stop_iteration id (ws_method err s (op, api))"
  by (cases s; cases op)
     (auto simp: ws_defs unit_result with_stop_kept Let_def split: sum.splits lk_ws_message.splits)

interpretation web_socket: fused "ws_method err" "\<lambda>s. s = None"
    "\<lambda>(op, api). released_answer StopAsyncIteration op" "releasing StopAsyncIteration" for err
proof (unfold_locales, goal_cases)
  case (1 s e)
  then show ?case by (cases e; cases "fst e") (auto simp: ws_defs)
next
  case (2 s e out t)
  obtain op api where e: "e = (op, api)" by (cases e)
  show ?case
    using 2 by (cases op) (auto simp: e ws_defs split: option.splits sum.splits lk_ws_message.splits)
qed

lemma with_stop_releasing:
  "releasing StopIteration (op, api) (with_stop_iteration (fst (ws_method err s (op, api)))) \<Longrightarrow>
   releasing StopAsyncIteration (op, api) (fst (ws_method err s (op, api)))"
  by (cases s; cases op) (auto simp: ws_defs split: sum.splits lk_ws_message.splits)

interpretation blocking_web_socket: fused "blocking_ws_method err" "\<lambda>s. s = None"
    "\<lambda>(op, api). released_answer StopIteration op" "releasing StopIteration" for err
proof (unfold_locales, goal_cases)
  case (1 s e)
  then show ?case by (cases e; cases "fst e") (auto simp: ws_defs)
next
  case (2 s e out t)
  obtain op api where e: "e = (op, api)" by (cases e)
  have "releasing StopAsyncIteration (op, api) (fst (ws_method err s (op, api)))"
    using 2 e by (intro with_stop_releasing) (auto simp: blocking_ws_step map_prod_def split: prod.splits)
  then show ?case
    using 2 e web_socket.end_is_over [of err s e] by (cases "ws_method err s (op, api)") (auto simp: blocking_ws_step)
qed

section \<open>The concurrent operations\<close>

text \<open>
  A method in steps: \<open>open\<close> or \<open>get\<close> takes a handle on the connection, the upstream call answers at any
  later time, \<open>release\<close> empties the slot where the method gets that far, and leaving the method drops the
  handle. \<open>ws_finish\<close> is what a method makes of the answer, with whether it goes on to \<open>release\<close>.
\<close>

fun ws_finish :: "error_api \<Rightarrow> 'c ws_api \<Rightarrow> 'c \<Rightarrow> ws_op \<Rightarrow> ws_answer \<times> bool" where
  "ws_finish err api conn (OpSendText t) = (SentIs (map_py_err err (conn_send_text api conn t)), False)"
| "ws_finish err api conn (OpSendBinary d) = (SentIs (map_py_err err (conn_send_binary api conn d)), False)"
| "ws_finish err api conn OpRecv =
     (MessageIs (ok_then (map_py_err err (conn_recv api conn)) (\<lambda>msg. Inr (rust_ws_to_py msg))), False)"
| "ws_finish err api conn (OpClose code reason) =
     (let r = map_py_err err (conn_close api conn (map_option (\<lambda>c. (c, reason)) code)) in (SentIs r, is_ok r))"
| "ws_finish err api conn OpNextMsg =
     (case conn_recv api conn of
        Inr (LkClose _ _) \<Rightarrow> (MessageIs (raise StopAsyncIteration []), True)
      | Inl _ \<Rightarrow> (MessageIs (raise StopAsyncIteration []), True)
      | Inr msg \<Rightarrow> (MessageIs (Inr (rust_ws_to_py msg)), False))"

datatype ws_task = InFlight ws_op | Releasing ws_answer | Leaving ws_answer | Done ws_answer | Dropped

text \<open>\<open>handles\<close> is the reference count of the connection, \<open>teardowns\<close> how often it was torn down.\<close>

record 'c ws_state =
  slot :: "'c option"
  handles :: nat
  teardowns :: nat
  tasks :: "ws_task list"

definition ws_init :: "'c \<Rightarrow> 'c ws_state" where
  "ws_init conn = \<lparr>slot = shared_new conn, handles = 1, teardowns = 0, tasks = []\<rparr>"

definition drop_handle :: "'c ws_state \<Rightarrow> 'c ws_state" where
  "drop_handle s = s\<lparr>handles := handles s - 1,
     teardowns := (if handles s = 1 then teardowns s + 1 else teardowns s)\<rparr>"

definition set_task :: "nat \<Rightarrow> ws_task \<Rightarrow> 'c ws_state \<Rightarrow> 'c ws_state" where
  "set_task i t s = s\<lparr>tasks := (tasks s)[i := t]\<rparr>"

text \<open>\<open>release\<close>: the handle taken out of the slot is dropped, if there was one.\<close>

definition release_slot :: "'c ws_state \<Rightarrow> 'c ws_state" where
  "release_slot s =
     (case slot s of
        None \<Rightarrow> s
      | Some _ \<Rightarrow> drop_handle (s\<lparr>slot := shared_release (slot s)\<rparr>))"

text \<open>A task holds the connection, and with it the shared slot, until it is over.\<close>

fun has_handle :: "ws_task \<Rightarrow> bool" where
  "has_handle (InFlight _) = True"
| "has_handle (Releasing _) = True"
| "has_handle (Leaving _) = True"
| "has_handle _ = False"

text \<open>\<open>ws_unreferenced\<close>: the Python object goes without a \<open>close\<close>, and the slot with it, once no future uses it.\<close>

inductive ws_step :: "error_api \<Rightarrow> 'c \<Rightarrow> 'c ws_state \<Rightarrow> 'c ws_state \<Rightarrow> bool" for err conn where
  ws_start: "shared_get (slot s) = Some conn \<Longrightarrow>
    ws_step err conn s (s\<lparr>handles := handles s + 1, tasks := tasks s @ [InFlight op]\<rparr>)"
| ws_refused: "shared_get (slot s) = None \<Longrightarrow>
    ws_step err conn s (s\<lparr>tasks := tasks s @ [Done (released_answer StopAsyncIteration op)]\<rparr>)"
| ws_answered: "i < length (tasks s) \<Longrightarrow> tasks s ! i = InFlight op \<Longrightarrow>
    ws_finish err api conn op = (out, False) \<Longrightarrow> ws_step err conn s (set_task i (Leaving out) s)"
| ws_ended: "i < length (tasks s) \<Longrightarrow> tasks s ! i = InFlight op \<Longrightarrow>
    ws_finish err api conn op = (out, True) \<Longrightarrow> ws_step err conn s (set_task i (Releasing out) s)"
| ws_release: "i < length (tasks s) \<Longrightarrow> tasks s ! i = Releasing out \<Longrightarrow>
    ws_step err conn s (release_slot (set_task i (Leaving out) s))"
| ws_leave: "i < length (tasks s) \<Longrightarrow> tasks s ! i = Leaving out \<Longrightarrow>
    ws_step err conn s (drop_handle (set_task i (Done out) s))"
| ws_cancelled: "i < length (tasks s) \<Longrightarrow> tasks s ! i = InFlight op \<Longrightarrow>
    ws_step err conn s (drop_handle (set_task i Dropped s))"
| ws_unreferenced: "(\<forall>t \<in> set (tasks s). \<not> has_handle t) \<Longrightarrow> ws_step err conn s (release_slot s)"

definition holders :: "ws_task list \<Rightarrow> nat" where
  "holders ts = length (filter has_handle ts)"

text \<open>
  The invariant: the reference count is the number of holders, the object's slot among them; the
  connection is torn down once, when there is none left; and the slot holds the connection or nothing.
\<close>

definition ws_inv :: "'c \<Rightarrow> 'c ws_state \<Rightarrow> bool" where
  "ws_inv conn s \<longleftrightarrow>
     handles s = of_bool (slot s \<noteq> None) + holders (tasks s) \<and>
     teardowns s = of_bool (handles s = 0) \<and>
     (slot s = None \<or> slot s = Some conn)"

lemma holders_update:
  assumes "i < length ts"
  shows "holders (ts[i := t]) + of_bool (has_handle (ts ! i)) = holders ts + of_bool (has_handle t)"
  using assms
proof (induction ts arbitrary: i)
  case (Cons x ts)
  then show ?case by (cases i) (auto simp: holders_def)
qed simp

lemma holders_pos: "i < length ts \<Longrightarrow> has_handle (ts ! i) \<Longrightarrow> 0 < holders ts"
  by (auto simp: holders_def filter_empty_conv)

lemma holders_append: "holders (ts @ [t]) = holders ts + of_bool (has_handle t)"
  by (simp add: holders_def)

lemma ws_inv_step: "ws_step err conn s t \<Longrightarrow> ws_inv conn s \<Longrightarrow> ws_inv conn t"
proof (induction rule: ws_step.induct)
  case (ws_start s op)
  then show ?case by (auto simp: ws_inv_def shared_get_def holders_append)
next
  case (ws_refused s op)
  then show ?case by (cases op) (auto simp: ws_inv_def shared_get_def holders_append)
next
  case (ws_release i s out)
  then show ?case
    using holders_update [of i "tasks s" "Leaving out"] holders_pos [of i "tasks s"]
    by (auto simp: ws_inv_def release_slot_def shared_release_def drop_handle_def set_task_def split: option.split)
next
  case (ws_leave i s out)
  then show ?case
    using holders_update [of i "tasks s" "Done out"] holders_pos [of i "tasks s"]
    by (auto simp: ws_inv_def drop_handle_def set_task_def)
next
  case (ws_cancelled i s op)
  then show ?case
    using holders_update [of i "tasks s" Dropped] holders_pos [of i "tasks s"]
    by (auto simp: ws_inv_def drop_handle_def set_task_def)
next
  case (ws_unreferenced s)
  then show ?case
    by (auto simp: ws_inv_def release_slot_def shared_release_def drop_handle_def split: option.split)
next
  case (ws_answered i s op api out)
  then show ?case
    using holders_update [of i "tasks s" "Leaving out"] by (auto simp: ws_inv_def set_task_def)
next
  case (ws_ended i s op api out)
  then show ?case
    using holders_update [of i "tasks s" "Releasing out"] by (auto simp: ws_inv_def set_task_def)
qed

interpretation ws_handles: absorbing "ws_step err conn" "ws_inv conn" for err conn
  by unfold_locales (rule ws_inv_step)

text \<open>Once released: the slot stays empty, and every operation started from then on is refused.\<close>

definition refused_from :: "nat \<Rightarrow> 'c ws_state \<Rightarrow> bool" where
  "refused_from n s \<longleftrightarrow> slot s = None \<and> n \<le> length (tasks s) \<and>
     (\<forall>i < length (tasks s). n \<le> i \<longrightarrow> (\<exists>op. tasks s ! i = Done (released_answer StopAsyncIteration op)))"

lemma refused_set: "i < length (tasks s) \<Longrightarrow> has_handle (tasks s ! i) \<Longrightarrow> refused_from n s \<Longrightarrow>
   refused_from n (set_task i t s)"
  by (fastforce simp: refused_from_def set_task_def nth_list_update)

lemma refused_drop: "refused_from n (drop_handle s) = refused_from n s"
  by (simp add: refused_from_def drop_handle_def)

interpretation ws_refusal: absorbing "ws_step err conn" "refused_from n" for err conn n
proof unfold_locales
  fix s t
  assume "ws_step err conn s t" "refused_from n s"
  then show "refused_from n t"
  proof (induction rule: ws_step.induct)
    case (ws_start s op)
    then show ?case by (simp add: refused_from_def shared_get_def)
  next
    case (ws_refused s op)
    then show ?case by (auto simp: refused_from_def nth_append less_Suc_eq)
  next
    case (ws_release i s out)
    then have "refused_from n (set_task i (Leaving out) s)" by (intro refused_set) auto
    then show ?case by (simp add: release_slot_def refused_from_def)
  next
    case (ws_unreferenced s)
    then show ?case by (simp add: release_slot_def refused_from_def)
  qed (auto simp: refused_drop intro: refused_set)
qed

text \<open>The steps of one operation, run without interruption, are the method.\<close>

lemma ws_method_in_steps:
  "ws_method err s (op, api) =
     (case shared_get s of
        None \<Rightarrow> (released_answer StopAsyncIteration op, s)
      | Some conn \<Rightarrow>
          let (out, ends) = ws_finish err api conn op in (out, if ends then shared_release s else s))"
  by (cases op) (auto simp: ws_defs unit_result Let_def split: option.splits sum.splits lk_ws_message.splits)

section \<open>Properties\<close>

text \<open>C11: A WebSocket connection outlives its operations: in every interleaving of sends, receives, closes,
  iterations and cancellations, and when the object is dropped, it is torn down at most once, never while an operation is using it, and
  exactly when it has been released, or dropped, and the last operation has left.\<close>
theorem ws_outlives_operations:
  assumes "(ws_step err conn)\<^sup>*\<^sup>* (ws_init conn) s"
  shows "teardowns s \<le> 1 \<and>
    (teardowns s = 1 \<longleftrightarrow> slot s = None \<and> (\<forall>i < length (tasks s). \<not> has_handle (tasks s ! i)))"
proof -
  have "ws_inv conn (ws_init conn)" by (simp add: ws_inv_def ws_init_def shared_new_def holders_def)
  with assms have inv: "ws_inv conn s" by (rule ws_handles.forever)
  moreover have "holders (tasks s) = 0 \<longleftrightarrow> (\<forall>i < length (tasks s). \<not> has_handle (tasks s ! i))"
    by (auto simp: holders_def filter_empty_conv all_set_conv_all_nth)
  ultimately show ?thesis by (auto simp: ws_inv_def)
qed

text \<open>C23: Once a close has succeeded or an iteration has ended, nothing reopens a WebSocket: whatever the
  operations still in flight do, every operation started from then on is refused with
  \<open>WebSocket is closed\<close>, or ends its iteration.\<close>
theorem ws_closed_for_good:
  assumes "slot s = None" and "(ws_step err conn)\<^sup>*\<^sup>* s t"
  shows "slot t = None \<and>
    (\<forall>i < length (tasks t). length (tasks s) \<le> i \<longrightarrow>
       (\<exists>op. tasks t ! i = Done (released_answer StopAsyncIteration op)))"
proof -
  have "refused_from (length (tasks s)) s" using assms(1) by (simp add: refused_from_def)
  with assms(2) have "refused_from (length (tasks s)) t" by (rule ws_refusal.forever)
  then show ?thesis by (simp add: refused_from_def)
qed

text \<open>C34: The methods of a WebSocket, whatever the connection answers each time: after a close that succeeded
  or an iteration that ended, every later call is refused; a close whose handshake fails releases nothing;
  an error while iterating ends the iteration as a close message does; and the blocking class answers as
  the asynchronous one, but for the exception that ends an iteration.\<close>
theorem ws_methods_end:
  assumes "i < j" and "j < length calls"
  shows "(releasing StopAsyncIteration (calls ! i) (run_polls (ws_method err) s calls ! i) \<longrightarrow>
      run_polls (ws_method err) s calls ! j = released_answer StopAsyncIteration (fst (calls ! j))) \<and>
    run_polls (blocking_ws_method err) s calls = map with_stop_iteration (run_polls (ws_method err) s calls) \<and>
    (conn_close api conn (map_option (\<lambda>c. (c, reason)) code) = Inl e \<longrightarrow>
      ws_close err api code reason (Some conn) = (Inl (to_py_err err e), Some conn)) \<and>
    (conn_recv api conn \<in> {Inl e, Inr (LkClose code reason)} \<longrightarrow>
      ws_anext api (Some conn) = (raise StopAsyncIteration [], None))"
proof (intro conjI impI)
  assume "releasing StopAsyncIteration (calls ! i) (run_polls (ws_method err) s calls ! i)"
  from web_socket.after_last [OF assms this]
  show "run_polls (ws_method err) s calls ! j = released_answer StopAsyncIteration (fst (calls ! j))"
    by (simp add: case_prod_beta)
next
  show "run_polls (blocking_ws_method err) s calls = map with_stop_iteration (run_polls (ws_method err) s calls)"
  proof (induction calls arbitrary: s)
    case (Cons c calls)
    obtain op api where "c = (op, api)" by (cases c)
    then show ?case using Cons.IH by (simp add: blocking_ws_step split: prod.split)
  qed simp
qed (auto simp: ws_defs)

section \<open>Witnesses\<close>

definition quiet_ws :: "unit ws_api" where
  "quiet_ws = \<lparr>conn_send_text = (\<lambda>_ _. Inr ()), conn_send_binary = (\<lambda>_ _. Inr ()),
     conn_recv = (\<lambda>_. Inr (LkText ''hi'')), conn_close = (\<lambda>_ _. Inr ())\<rparr>"

text \<open>A close that ran while a receive was waiting, which then left.\<close>

definition ws_after :: "unit ws_state" where
  "ws_after = \<lparr>slot = None, handles = 0, teardowns = 1, tasks = [Dropped, Done (SentIs (Inr ()))]\<rparr>"

lemma ws_after_reachable: "(ws_step plain_errors ())\<^sup>*\<^sup>* (ws_init ()) ws_after"
proof -
  let ?R = "(ws_step plain_errors ())\<^sup>*\<^sup>*"
  let ?c = "OpClose None []"
  let ?s = "\<lambda>sl h ts. \<lparr>slot = sl, handles = h, teardowns = 0, tasks = ts\<rparr> :: unit ws_state"
  have "?R (ws_init ()) (?s (Some ()) 2 [InFlight OpRecv])"
    using ws_start [of "ws_init ()" "()" plain_errors OpRecv]
    by (auto intro!: r_into_rtranclp simp: ws_init_def shared_new_def shared_get_def numeral_2_eq_2)
  also have "?R (?s (Some ()) 2 [InFlight OpRecv]) (?s (Some ()) 3 [InFlight OpRecv, InFlight ?c])"
    using ws_start [of "?s (Some ()) 2 [InFlight OpRecv]" "()" plain_errors ?c]
    by (auto intro!: r_into_rtranclp simp: shared_get_def)
  also have "?R (?s (Some ()) 3 [InFlight OpRecv, InFlight ?c])
      (?s (Some ()) 3 [InFlight OpRecv, Releasing (SentIs (Inr ()))])"
    using ws_ended [of 1 "?s (Some ()) 3 [InFlight OpRecv, InFlight ?c]" ?c plain_errors quiet_ws]
    by (auto intro!: r_into_rtranclp simp: set_task_def quiet_ws_def)
  also have "?R (?s (Some ()) 3 [InFlight OpRecv, Releasing (SentIs (Inr ()))])
      (?s None 2 [InFlight OpRecv, Leaving (SentIs (Inr ()))])"
    using ws_release [of 1 "?s (Some ()) 3 [InFlight OpRecv, Releasing (SentIs (Inr ()))]"]
    by (auto intro!: r_into_rtranclp simp: set_task_def release_slot_def drop_handle_def shared_release_def)
  also have "?R (?s None 2 [InFlight OpRecv, Leaving (SentIs (Inr ()))])
      (?s None 1 [InFlight OpRecv, Done (SentIs (Inr ()))])"
    using ws_leave [of 1 "?s None 2 [InFlight OpRecv, Leaving (SentIs (Inr ()))]"]
    by (auto intro!: r_into_rtranclp simp: set_task_def drop_handle_def)
  also have "?R (?s None 1 [InFlight OpRecv, Done (SentIs (Inr ()))]) ws_after"
    using ws_cancelled [of 0 "?s None 1 [InFlight OpRecv, Done (SentIs (Inr ()))]"]
    by (auto intro!: r_into_rtranclp simp: set_task_def drop_handle_def ws_after_def)
  finally show ?thesis .
qed

theorem ws_outlives_operations_witness: "teardowns ws_after = 1 \<and> slot ws_after = None"
  using ws_outlives_operations [OF ws_after_reachable] by (simp add: ws_after_def)

theorem ws_closed_for_good_witness:
  "\<exists>op. tasks (ws_after\<lparr>tasks := tasks ws_after @ [Done (MessageIs (raise StopAsyncIteration []))]\<rparr>) ! 2 =
     Done (released_answer StopAsyncIteration op)"
proof -
  let ?t = "ws_after\<lparr>tasks := tasks ws_after @ [Done (MessageIs (raise StopAsyncIteration []))]\<rparr>"
  have step: "(ws_step plain_errors ())\<^sup>*\<^sup>* ws_after ?t"
    using ws_refused [of ws_after plain_errors "()" OpNextMsg]
    by (intro r_into_rtranclp) (simp add: ws_after_def shared_get_def)
  have "slot ws_after = None" by (simp add: ws_after_def)
  from ws_closed_for_good [OF this step] show ?thesis by (auto simp: ws_after_def dest: spec [of _ 2])
qed

theorem ws_methods_end_witness:
  "run_polls (ws_method plain_errors) (Some ()) [(OpClose None [], quiet_ws), (OpRecv, quiet_ws)] ! 1 =
     released_answer StopAsyncIteration OpRecv"
  using ws_methods_end [of 0 1 "[(OpClose None [], quiet_ws), (OpRecv, quiet_ws)]" plain_errors "Some ()"
      quiet_ws "()"]
  by (simp add: ws_close_def shared_open_def shared_get_def quiet_ws_def)

end
