(* ===== verification/SessionExtras.thy ===== *)
theory SessionExtras imports Verbs WebSocket begin

text \<open>
  The rest of \<open>src/src/session.rs\<close>: cookies, prefetching, pool statistics, and the lifecycle of the blocking
  session. The cookie jar and the connection pool are upstream's, reached through the session's handle; what
  they answer is a parameter, and what is done to them a log of calls.
\<close>

section \<open>Cookies\<close>

record cookie_info =
  ci_name :: string
  ci_value :: string
  ci_domain :: "string option"
  ci_host_only :: bool
  ci_path :: string
  ci_secure :: bool
  ci_http_only :: bool
  ci_same_site :: "string option"
  ci_expires_unix :: "64 word option"

text \<open>\<open>expires\<close> is an \<open>i64\<close>. Equality and hash of the class are those of the fields.\<close>

record py_cookie =
  ck_name :: string
  ck_value :: string
  ck_domain :: "string option"
  ck_host_only :: bool
  ck_path :: string
  ck_secure :: bool
  ck_http_only :: bool
  ck_same_site :: "string option"
  ck_expires :: "64 word option"

definition py_cookie_from :: "cookie_info \<Rightarrow> py_cookie" where
  "py_cookie_from c =
     \<lparr>ck_name = ci_name c, ck_value = ci_value c, ck_domain = ci_domain c, ck_host_only = ci_host_only c,
      ck_path = ci_path c, ck_secure = ci_secure c, ck_http_only = ci_http_only c,
      ck_same_site = ci_same_site c, ck_expires = ci_expires_unix c\<rparr>"

definition is_persistent :: "py_cookie \<Rightarrow> bool" where
  "is_persistent c = (ck_expires c \<noteq> None)"

text \<open>Python's \<open>repr\<close> of a string, of an optional one, of a bool and of an optional integer.\<close>

record py_reprs =
  repr_str :: "string \<Rightarrow> string"
  repr_opt_str :: "string option \<Rightarrow> string"
  repr_bool :: "bool \<Rightarrow> string"
  repr_opt_int :: "64 word option \<Rightarrow> string"

definition cookie_repr :: "py_reprs \<Rightarrow> py_cookie \<Rightarrow> string" where
  "cookie_repr r c =
     ''Cookie(name='' @ repr_str r (ck_name c) @ '', value='' @ repr_str r (ck_value c) @
     '', domain='' @ repr_opt_str r (ck_domain c) @ '', path='' @ repr_str r (ck_path c) @
     '', secure='' @ repr_bool r (ck_secure c) @ '', http_only='' @ repr_bool r (ck_http_only c) @
     '', same_site='' @ repr_opt_str r (ck_same_site c) @ '', expires='' @ repr_opt_int r (ck_expires c) @ '')''"

text \<open>What is asked of the jar of a session, and what it answers now.\<close>

record jar_api =
  jar_get_cookie :: "handle \<Rightarrow> string \<Rightarrow> string \<Rightarrow> string option"
  jar_get_cookies :: "handle \<Rightarrow> string \<Rightarrow> pairs"
  jar_with_attrs :: "handle \<Rightarrow> string \<Rightarrow> cookie_info list"
  jar_all :: "handle \<Rightarrow> cookie_info list"
  jar_values :: "handle \<Rightarrow> string \<Rightarrow> string \<Rightarrow> string list"
  jar_header :: "handle \<Rightarrow> string \<Rightarrow> string option"

datatype jar_call =
    JarSet handle string string string
  | JarSetAttrs handle string string string "string option" "string option" bool bool
  | JarSetRaw handle string string
  | JarRemove handle string string
  | JarClear handle

definition session_set_cookie :: "py_session \<Rightarrow> string \<Rightarrow> string \<Rightarrow> string \<Rightarrow> jar_call list \<Rightarrow> jar_call list" where
  "session_set_cookie self u name val jar = jar @ [JarSet (inner self) u name val]"

definition session_set_cookie_with_attrs ::
  "py_session \<Rightarrow> string \<Rightarrow> string \<Rightarrow> string \<Rightarrow> string option \<Rightarrow> string option \<Rightarrow> bool \<Rightarrow> bool \<Rightarrow>
   jar_call list \<Rightarrow> jar_call list" where
  "session_set_cookie_with_attrs self u name val path domain sec http_only jar =
     jar @ [JarSetAttrs (inner self) u name val path domain sec http_only]"

definition session_set_cookie_raw :: "py_session \<Rightarrow> string \<Rightarrow> string \<Rightarrow> jar_call list \<Rightarrow> jar_call list" where
  "session_set_cookie_raw self u header jar = jar @ [JarSetRaw (inner self) u header]"

definition session_get_cookie :: "jar_api \<Rightarrow> py_session \<Rightarrow> string \<Rightarrow> string \<Rightarrow> string option" where
  "session_get_cookie api self u name = jar_get_cookie api (inner self) u name"

definition session_get_cookies :: "jar_api \<Rightarrow> py_session \<Rightarrow> string \<Rightarrow> pairs" where
  "session_get_cookies api self u = jar_get_cookies api (inner self) u"

definition session_get_cookies_with_attrs :: "jar_api \<Rightarrow> py_session \<Rightarrow> string \<Rightarrow> py_cookie list" where
  "session_get_cookies_with_attrs api self u = map py_cookie_from (jar_with_attrs api (inner self) u)"

definition session_get_all_cookies :: "jar_api \<Rightarrow> py_session \<Rightarrow> py_cookie list" where
  "session_get_all_cookies api self = map py_cookie_from (jar_all api (inner self))"

definition session_remove_cookie :: "py_session \<Rightarrow> string \<Rightarrow> string \<Rightarrow> jar_call list \<Rightarrow> jar_call list" where
  "session_remove_cookie self u name jar = jar @ [JarRemove (inner self) u name]"

definition session_get_cookie_values :: "jar_api \<Rightarrow> py_session \<Rightarrow> string \<Rightarrow> string \<Rightarrow> string list" where
  "session_get_cookie_values api self u name = jar_values api (inner self) u name"

definition session_cookie_header :: "jar_api \<Rightarrow> py_session \<Rightarrow> string \<Rightarrow> string option" where
  "session_cookie_header api self u = jar_header api (inner self) u"

definition session_clear_cookies :: "py_session \<Rightarrow> jar_call list \<Rightarrow> jar_call list" where
  "session_clear_cookies self jar = jar @ [JarClear (inner self)]"

text \<open>The blocking session's.\<close>

definition blocking_set_cookie :: "py_session \<Rightarrow> string \<Rightarrow> string \<Rightarrow> string \<Rightarrow> jar_call list \<Rightarrow> jar_call list" where
  "blocking_set_cookie self u name val jar = jar @ [JarSet (inner self) u name val]"

definition blocking_set_cookie_with_attrs ::
  "py_session \<Rightarrow> string \<Rightarrow> string \<Rightarrow> string \<Rightarrow> string option \<Rightarrow> string option \<Rightarrow> bool \<Rightarrow> bool \<Rightarrow>
   jar_call list \<Rightarrow> jar_call list" where
  "blocking_set_cookie_with_attrs self u name val path domain sec http_only jar =
     jar @ [JarSetAttrs (inner self) u name val path domain sec http_only]"

definition blocking_set_cookie_raw :: "py_session \<Rightarrow> string \<Rightarrow> string \<Rightarrow> jar_call list \<Rightarrow> jar_call list" where
  "blocking_set_cookie_raw self u header jar = jar @ [JarSetRaw (inner self) u header]"

definition blocking_get_cookie :: "jar_api \<Rightarrow> py_session \<Rightarrow> string \<Rightarrow> string \<Rightarrow> string option" where
  "blocking_get_cookie api self u name = jar_get_cookie api (inner self) u name"

definition blocking_get_cookies :: "jar_api \<Rightarrow> py_session \<Rightarrow> string \<Rightarrow> pairs" where
  "blocking_get_cookies api self u = jar_get_cookies api (inner self) u"

definition blocking_get_cookies_with_attrs :: "jar_api \<Rightarrow> py_session \<Rightarrow> string \<Rightarrow> py_cookie list" where
  "blocking_get_cookies_with_attrs api self u = map py_cookie_from (jar_with_attrs api (inner self) u)"

definition blocking_get_all_cookies :: "jar_api \<Rightarrow> py_session \<Rightarrow> py_cookie list" where
  "blocking_get_all_cookies api self = map py_cookie_from (jar_all api (inner self))"

definition blocking_remove_cookie :: "py_session \<Rightarrow> string \<Rightarrow> string \<Rightarrow> jar_call list \<Rightarrow> jar_call list" where
  "blocking_remove_cookie self u name jar = jar @ [JarRemove (inner self) u name]"

definition blocking_get_cookie_values :: "jar_api \<Rightarrow> py_session \<Rightarrow> string \<Rightarrow> string \<Rightarrow> string list" where
  "blocking_get_cookie_values api self u name = jar_values api (inner self) u name"

definition blocking_cookie_header :: "jar_api \<Rightarrow> py_session \<Rightarrow> string \<Rightarrow> string option" where
  "blocking_cookie_header api self u = jar_header api (inner self) u"

definition blocking_clear_cookies :: "py_session \<Rightarrow> jar_call list \<Rightarrow> jar_call list" where
  "blocking_clear_cookies self jar = jar @ [JarClear (inner self)]"

text \<open>The cookie methods of the two classes are the same.\<close>

lemmas cookie_defs =
  session_set_cookie_def blocking_set_cookie_def
  session_set_cookie_with_attrs_def blocking_set_cookie_with_attrs_def
  session_set_cookie_raw_def blocking_set_cookie_raw_def
  session_get_cookie_def blocking_get_cookie_def
  session_get_cookies_def blocking_get_cookies_def
  session_get_cookies_with_attrs_def blocking_get_cookies_with_attrs_def
  session_get_all_cookies_def blocking_get_all_cookies_def
  session_remove_cookie_def blocking_remove_cookie_def
  session_get_cookie_values_def blocking_get_cookie_values_def
  session_cookie_header_def blocking_cookie_header_def
  session_clear_cookies_def blocking_clear_cookies_def

lemma cookie_methods_agree:
  "blocking_set_cookie = session_set_cookie"
  "blocking_set_cookie_with_attrs = session_set_cookie_with_attrs"
  "blocking_set_cookie_raw = session_set_cookie_raw"
  "blocking_get_cookie = session_get_cookie"
  "blocking_get_cookies = session_get_cookies"
  "blocking_get_cookies_with_attrs = session_get_cookies_with_attrs"
  "blocking_get_all_cookies = session_get_all_cookies"
  "blocking_remove_cookie = session_remove_cookie"
  "blocking_get_cookie_values = session_get_cookie_values"
  "blocking_cookie_header = session_cookie_header"
  "blocking_clear_cookies = session_clear_cookies"
  by (simp_all add: cookie_defs fun_eq_iff)

section \<open>Statistics, prefetching, preconnecting\<close>

definition session_stats :: "(handle \<Rightarrow> pool_stats) \<Rightarrow> py_session \<Rightarrow> py_pool_stats" where
  "session_stats upstream self = py_pool_stats_from (upstream (inner self))"

definition session_pool_clear :: "py_session \<Rightarrow> inner_call list \<Rightarrow> inner_call list" where
  "session_pool_clear self ics = ics @ [PoolClear (inner self)]"

definition blocking_session_stats :: "(handle \<Rightarrow> pool_stats) \<Rightarrow> py_session \<Rightarrow> py_pool_stats" where
  "blocking_session_stats upstream self = py_pool_stats_from (upstream (inner self))"

definition blocking_session_pool_clear :: "py_session \<Rightarrow> inner_call list \<Rightarrow> inner_call list" where
  "blocking_session_pool_clear self ics = ics @ [PoolClear (inner self)]"

record prefetch_result =
  pf_url :: string
  pf_success :: bool
  pf_duration :: duration
  pf_error :: "string option"

record prefetch_entry =
  pfe_url :: string
  pfe_success :: bool
  pfe_duration_ms :: f64
  pfe_error :: "string option"

text \<open>\<open>to_ms\<close> is \<open>as_secs_f64() * 1000.0\<close>; \<open>run\<close> the guarded future with the closed flag it watches.\<close>

definition prefetch_entries :: "(duration \<Rightarrow> f64) \<Rightarrow> prefetch_result list \<Rightarrow> prefetch_entry list" where
  "prefetch_entries to_ms results =
     map (\<lambda>r. \<lparr>pfe_url = pf_url r, pfe_success = pf_success r, pfe_duration_ms = to_ms (pf_duration r),
       pfe_error = pf_error r\<rparr>) results"

definition session_prefetch ::
  "(duration \<Rightarrow> f64) \<Rightarrow> (handle \<Rightarrow> ref \<Rightarrow> string list \<Rightarrow> prefetch_result list result) \<Rightarrow> heap \<Rightarrow> py_session \<Rightarrow>
   string list \<Rightarrow> prefetch_entry list result" where
  "session_prefetch to_ms run h self urls =
     ok_then (ensure_open (state self) h) (\<lambda>_.
     ok_then (run (inner self) (closed_ref (state self)) urls) (\<lambda>results.
       Inr (prefetch_entries to_ms results)))"

definition blocking_prefetch ::
  "(duration \<Rightarrow> f64) \<Rightarrow> (handle \<Rightarrow> ref \<Rightarrow> string list \<Rightarrow> prefetch_result list result) \<Rightarrow> heap \<Rightarrow> py_session \<Rightarrow>
   string list \<Rightarrow> prefetch_entry list result" where
  "blocking_prefetch to_ms run h self urls =
     ok_then (ensure_open (state self) h) (\<lambda>_.
     ok_then (run (inner self) (closed_ref (state self)) urls) (\<lambda>results.
       Inr (prefetch_entries to_ms results)))"

definition blocking_preconnect ::
  "(handle \<Rightarrow> ref \<Rightarrow> string \<Rightarrow> unit result) \<Rightarrow> heap \<Rightarrow> py_session \<Rightarrow> string \<Rightarrow> unit result" where
  "blocking_preconnect run h self u =
     ok_then (ensure_open (state self) h) (\<lambda>_. run (inner self) (closed_ref (state self)) u)"

section \<open>The blocking session's lifecycle\<close>

definition session_closed :: "py_session \<Rightarrow> heap \<Rightarrow> bool" where
  "session_closed self h = is_closed (state self) h"

definition blocking_on_request :: "session_state \<Rightarrow> pyobj \<Rightarrow> heap \<Rightarrow> heap result" where
  "blocking_on_request st callback h = ok_then (ensure_open st h) (\<lambda>_. Inr (push_request (hooks st) callback h))"

definition blocking_on_response :: "session_state \<Rightarrow> pyobj \<Rightarrow> heap \<Rightarrow> heap result" where
  "blocking_on_response st callback h = ok_then (ensure_open st h) (\<lambda>_. Inr (push_response (hooks st) callback h))"

definition blocking_close :: "py_session \<Rightarrow> heap \<times> inner_call list \<Rightarrow> heap \<times> inner_call list" where
  "blocking_close self w = (let (h, ics) = w in (close (state self) h, ics @ [PoolClear (inner self)]))"

definition blocking_enter :: "heap \<Rightarrow> py_session \<Rightarrow> py_session result" where
  "blocking_enter h self = ok_then (ensure_open (state self) h) (\<lambda>_. Inr self)"

definition blocking_exit :: "py_session \<Rightarrow> heap \<times> inner_call list \<Rightarrow> bool \<times> heap \<times> inner_call list" where
  "blocking_exit self w = (False, blocking_close self w)"

section \<open>Properties\<close>

abbreviation session_closed_exc :: exc where
  "session_closed_exc \<equiv> PyExc RuntimeError ''Session is closed'' []"

lemma closed_refuses: "ok_then (ensure_open st h) f = (if is_closed st h then Inl session_closed_exc else f ())"
  by (simp add: ensure_open_def)

lemmas offline_defs =
  session_ws_connect_def blocking_ws_connect_def session_preconnect_def blocking_preconnect_def
  session_preconnect_many_def blocking_preconnect_many_def session_prefetch_def blocking_prefetch_def
  session_enter_def blocking_enter_def session_on_request_def session_on_response_def
  blocking_on_request_def blocking_on_response_def

text \<open>C35: Leaving the context manager closes: whatever happens in between leaves the session closed, its pool
  cleared and the exception to Python, and then neither class opens a WebSocket, preconnects, prefetches,
  takes a hook or is entered again: each raises \<open>Session is closed\<close> without reaching upstream. While it is
  open, the two classes run the same upstream calls.\<close>
theorem exited_session_is_offline:
  assumes "session_exit self (h, ics) = (swallow, h', ics')"
  shows "\<not> swallow \<and> ics' = ics @ [PoolClear (inner self)] \<and> session_closed self h' \<and>
    blocking_exit self (h, ics) = (swallow, h', ics') \<and>
    session_ws_connect run h' self u hs protocols = Inl session_closed_exc \<and>
    session_preconnect run1 h' self u = Inl session_closed_exc \<and>
    session_preconnect_many api run2 h' self us = Inl session_closed_exc \<and>
    session_prefetch to_ms run3 h' self us = Inl session_closed_exc \<and>
    session_on_request (state self) f h' = Inl session_closed_exc \<and>
    session_on_response (state self) f h' = Inl session_closed_exc \<and>
    session_enter h' self = Inl session_closed_exc \<and>
    blocking_ws_connect run h0 self u hs protocols = session_ws_connect run h0 self u hs protocols \<and>
    blocking_preconnect run1 h0 self u = session_preconnect run1 h0 self u \<and>
    blocking_preconnect_many api run2 h0 self us = session_preconnect_many api run2 h0 self us \<and>
    blocking_prefetch to_ms run3 h0 self us = session_prefetch to_ms run3 h0 self us \<and>
    blocking_on_request (state self) f h0 = session_on_request (state self) f h0 \<and>
    blocking_on_response (state self) f h0 = session_on_response (state self) f h0 \<and>
    blocking_enter h0 self = session_enter h0 self"
proof -
  have exit: "swallow = False" "h' = close (state self) h" "ics' = ics @ [PoolClear (inner self)]"
    using assms by (simp_all add: session_exit_def session_close_def)
  have "is_closed (state self) h'" by (simp add: exit is_closed_def close_watches)
  then show ?thesis
    using exit by (simp add: offline_defs closed_refuses session_closed_def blocking_exit_def blocking_close_def)
qed

section \<open>Witnesses\<close>

theorem exited_session_is_offline_witness:
  "session_enter (close sample_state sample_heap) \<lparr>inner = 5, state = sample_state, base_url = None\<rparr> =
     Inl session_closed_exc"
proof -
  have "session_exit \<lparr>inner = 5, state = sample_state, base_url = None\<rparr> (sample_heap, []) =
      (False, close sample_state sample_heap, [PoolClear 5])"
    by (simp add: session_exit_def session_close_def)
  from exited_session_is_offline [OF this, where run = "\<lambda>_ _ _. Inr ()"] show ?thesis by blast
qed

end
