(* ===== verification/Proxy.thy ===== *)
theory Proxy imports Types begin

text \<open>
  \<open>src/src/proxy.rs\<close> and \<open>src/src/masque.rs\<close>: proxy configurations, pools and health checks, and the
  MASQUE outer hop. Upstream's parsing of proxy URLs and its pool are parameters; a configuration
  is an opaque handle. The build features are a record of flags.
\<close>

record features =
  feature_quic_h3 :: bool
  feature_doh :: bool
  feature_masque :: bool

record proxy_api =
  parse_proxy :: "string \<Rightarrow> lk_error + nat"
  parse_proxy_chain :: "string list \<Rightarrow> lk_error + nat"
  through_hops :: "nat \<Rightarrow> nat list \<Rightarrow> nat"
  proxy_with_header :: "nat \<Rightarrow> bool \<Rightarrow> nat"
  proxy_errors :: error_api

section \<open>Arguments\<close>

datatype proxy_obj = ProxyStr string | ProxyConfigObj nat | ProxyOther

datatype 'a iterable_obj = IsStr | NotIterable | Iterable "'a result list"

definition resolve_proxy :: "proxy_api \<Rightarrow> proxy_obj \<Rightarrow> nat result" where
  "resolve_proxy api obj =
     (case obj of
        ProxyStr u \<Rightarrow> map_py_err (proxy_errors api) (parse_proxy api u)
      | ProxyConfigObj c \<Rightarrow> Inr c
      | ProxyOther \<Rightarrow> raise TypeError ''proxy must be str or ProxyConfig'')"

definition resolve_proxy_list :: "proxy_api \<Rightarrow> proxy_obj iterable_obj \<Rightarrow> nat list result" where
  "resolve_proxy_list api proxies =
     (case proxies of
        IsStr \<Rightarrow> raise TypeError ''proxies must be an iterable of str or ProxyConfig, not a single str''
      | NotIterable \<Rightarrow> raise TypeError ''proxies must be an iterable of str or ProxyConfig''
      | Iterable items \<Rightarrow> collect_map (\<lambda>item. ok_then item (resolve_proxy api)) items)"

definition resolve_proxy_urls :: "string option iterable_obj \<Rightarrow> string list result" where
  "resolve_proxy_urls urls =
     (case urls of
        IsStr \<Rightarrow> raise TypeError ''proxy URLs must be an iterable of str, not a single str''
      | NotIterable \<Rightarrow> raise TypeError ''proxy URLs must be an iterable of str''
      | Iterable items \<Rightarrow> collect_map (\<lambda>item. ok_then item (\<lambda>s.
          ok_or (PyExc TypeError ''every proxy URL must be str'' []) s)) items)"

section \<open>ProxyConfig\<close>

definition proxy_config_parse :: "proxy_api \<Rightarrow> string \<Rightarrow> nat result" where
  "proxy_config_parse api u = map_py_err (proxy_errors api) (parse_proxy api u)"

definition proxy_config_parse_chain :: "proxy_api \<Rightarrow> string option iterable_obj \<Rightarrow> nat result" where
  "proxy_config_parse_chain api urls =
     ok_then (resolve_proxy_urls urls) (\<lambda>us. map_py_err (proxy_errors api) (parse_proxy_chain api us))"

definition proxy_config_through :: "proxy_api \<Rightarrow> nat \<Rightarrow> proxy_obj iterable_obj \<Rightarrow> nat result" where
  "proxy_config_through api inner hops =
     ok_then (resolve_proxy_list api hops) (\<lambda>hs. Inr (through_hops api inner hs))"

text \<open>\<open>with_auth_header\<close>: the flag is true for \<open>Proxy-Authorization\<close>.\<close>

definition with_auth_header :: "proxy_api \<Rightarrow> nat \<Rightarrow> string \<Rightarrow> nat result" where
  "with_auth_header api inner header =
     (let h = to_ascii_lowercase header in
      if h = ''proxy-authorization'' then Inr (proxy_with_header api inner True)
      else if h = ''authorization'' then Inr (proxy_with_header api inner False)
      else raise_with ValueError ''Unknown proxy auth header: '' [AStr header])"

section \<open>MASQUE\<close>

text \<open>
  A \<open>MasqueConfig\<close>, with one trust anchor for each certificate loaded. \<open>load_pem\<close> is upstream's parser of a
  bundle, which yields the certificates in it or refuses it; \<open>read_file\<close> is the file system.
\<close>

record masque_config =
  mq_server_name :: "string option"
  mq_use_native_certs :: bool
  mq_verify :: bool
  mq_tunnel_idle_timeout :: "duration option"
  mq_max_idle_tunnels :: usize
  mq_extra_roots :: "bytes list"

definition add_ca_certs_pem ::
  "error_api \<Rightarrow> (bytes \<Rightarrow> lk_error + bytes list) \<Rightarrow> bytes \<Rightarrow> masque_config \<Rightarrow> masque_config result" where
  "add_ca_certs_pem api load_pem pem m =
     map_ok (\<lambda>certs. m\<lparr>mq_extra_roots := mq_extra_roots m @ certs\<rparr>) (map_py_err api (load_pem pem))"

definition masque_config_new ::
  "error_api \<Rightarrow> (bytes \<Rightarrow> lk_error + bytes list) \<Rightarrow> (string \<Rightarrow> string + bytes) \<Rightarrow> string option \<Rightarrow>
   string option \<Rightarrow> bytes option \<Rightarrow> bool \<Rightarrow> bool \<Rightarrow> f64 option \<Rightarrow> usize \<Rightarrow> masque_config result" where
  "masque_config_new api load_pem read_file server_name ca_cert ca_cert_pem use_native_certs verify
     tunnel_idle_timeout max_idle_tunnels =
     ok_then (transpose_map validated_duration tunnel_idle_timeout) (\<lambda>idle.
     let m = \<lparr>mq_server_name = server_name, mq_use_native_certs = use_native_certs,
              mq_verify = verify, mq_tunnel_idle_timeout = idle,
              mq_max_idle_tunnels = max_idle_tunnels, mq_extra_roots = []\<rparr> in
     ok_then
       (case ca_cert of
          None \<Rightarrow> Inr m
        | Some path \<Rightarrow>
            (case read_file path of
               Inl e \<Rightarrow> raise_with IOError ''Failed to read MASQUE CA cert'' [AStr path, AStr e]
             | Inr pem \<Rightarrow> add_ca_certs_pem api load_pem pem m)) (\<lambda>m.
     case ca_cert_pem of None \<Rightarrow> Inr m | Some pem \<Rightarrow> add_ca_certs_pem api load_pem pem m))"

definition feature_required :: "string \<Rightarrow> exc" where
  "feature_required option =
     PyExc RuntimeError ''requires building lkrequest-py with the 'masque' feature'' [AStr option]"

text \<open>\<open>resolve\<close>: the argument is a \<open>MasqueConfig\<close> or something else.\<close>

datatype masque_obj = MasqueObj masque_config | MasqueOther

definition masque_resolve :: "features \<Rightarrow> masque_obj option \<Rightarrow> masque_config option result" where
  "masque_resolve ft obj =
     (if feature_masque ft then
        transpose_map (\<lambda>ob. case ob of MasqueObj c \<Rightarrow> Inr c
                                   | MasqueOther \<Rightarrow> raise TypeError ''masque must be a MasqueConfig'') obj
      else case obj of None \<Rightarrow> Inr None | Some _ \<Rightarrow> Inl (feature_required ''masque''))"

record health_check =
  hc_interval :: duration
  hc_timeout :: duration
  hc_target_host :: string
  hc_target_port :: u16
  hc_tunnel_probe :: bool
  hc_masque :: "masque_config option"

text \<open>Without the feature the configuration is uninhabited, so \<open>config\<close> is none there.\<close>

definition apply_to_health_check ::
  "features \<Rightarrow> health_check \<Rightarrow> bool \<Rightarrow> masque_config option \<Rightarrow> health_check result" where
  "apply_to_health_check ft health tunnel_probe config =
     (if feature_masque ft then
        (if tunnel_probe \<and> config = None
         then raise ValueError ''tunnel_probe=True needs masque=MasqueConfig(...)''
         else Inr (health\<lparr>hc_tunnel_probe := tunnel_probe, hc_masque := config\<rparr>))
      else if tunnel_probe then Inl (feature_required ''tunnel_probe'') else Inr health)"

definition health_check_new ::
  "features \<Rightarrow> health_check \<Rightarrow> f64 \<Rightarrow> f64 \<Rightarrow> string \<Rightarrow> u16 \<Rightarrow> bool \<Rightarrow> masque_obj option \<Rightarrow>
   health_check result" where
  "health_check_new ft defaults interval timeout target_host target_port tunnel_probe masque =
     ok_then (validated_duration interval) (\<lambda>i.
     ok_then (validated_duration timeout) (\<lambda>t.
     let inner = defaults\<lparr>hc_interval := i, hc_timeout := t, hc_target_host := target_host,
                          hc_target_port := target_port\<rparr> in
     ok_then (masque_resolve ft masque) (apply_to_health_check ft inner tunnel_probe)))"

section \<open>Pools\<close>

record bad_proxy_config =
  failure_threshold :: u32
  window :: duration
  cooldown_duration :: duration
  max_cooldowns :: u32

definition bad_proxy_config_new :: "u32 \<Rightarrow> f64 \<Rightarrow> f64 \<Rightarrow> u32 \<Rightarrow> bad_proxy_config result" where
  "bad_proxy_config_new threshold w cooldown mx =
     ok_then (validated_duration w) (\<lambda>w.
     ok_then (validated_duration cooldown) (\<lambda>c.
       Inr \<lparr>failure_threshold = threshold, window = w, cooldown_duration = c, max_cooldowns = mx\<rparr>))"

datatype proxy_rotation = RotateRoundRobin | RotateRandom

datatype pool_call =
    PbProxies "nat list" | PbMaxProxies usize | PbRotation proxy_rotation
  | PbBadProxyConfig bad_proxy_config | PbHealthCheck health_check

definition proxy_pool_new ::
  "proxy_api \<Rightarrow> proxy_obj iterable_obj \<Rightarrow> usize option \<Rightarrow> string option \<Rightarrow> bad_proxy_config option \<Rightarrow>
   health_check option \<Rightarrow> pool_call list result" where
  "proxy_pool_new api proxies max_proxies rotation bad health =
     ok_then (resolve_proxy_list api proxies) (\<lambda>configs.
     let b = log_some PbMaxProxies max_proxies [PbProxies configs] in
     ok_then (transpose_map (\<lambda>strategy.
         if strategy = ''round_robin'' then Inr RotateRoundRobin
         else if strategy = ''random'' then Inr RotateRandom
         else raise_with ValueError ''Unknown rotation strategy: '' [AStr strategy]) rotation) (\<lambda>rs.
     Inr (log_some PbHealthCheck health (log_some PbBadProxyConfig bad (log_some PbRotation rs b)))))"

lemma tunnel_probe_has_config:
  "health_check_new ft defaults interval timeout target_host target_port True masque = Inr h \<Longrightarrow>
     hc_tunnel_probe h \<and> hc_masque h \<noteq> None"
  by (auto simp: health_check_new_def apply_to_health_check_def res_simps Let_def split: if_splits)

section \<open>Credentials and leases\<close>

text \<open>What upstream makes of a configuration with credentials, and what it shows of one.\<close>

record proxy_views =
  set_user_pass :: "nat \<Rightarrow> string \<Rightarrow> string \<Rightarrow> lk_error + nat"
  set_http_auth :: "nat \<Rightarrow> string \<Rightarrow> string \<Rightarrow> lk_error + nat"
  hops_of :: "nat \<Rightarrow> usize"
  identity_of :: "nat \<Rightarrow> string"

definition proxy_with_user_pass :: "error_api \<Rightarrow> proxy_views \<Rightarrow> nat \<Rightarrow> string \<Rightarrow> string \<Rightarrow> nat result" where
  "proxy_with_user_pass err v self username password =
     map_py_err err (set_user_pass v self username password)"

definition proxy_with_http_auth :: "error_api \<Rightarrow> proxy_views \<Rightarrow> nat \<Rightarrow> string \<Rightarrow> string \<Rightarrow> nat result" where
  "proxy_with_http_auth err v self scheme credentials =
     map_py_err err (set_http_auth v self scheme credentials)"

definition proxy_hop_count :: "proxy_views \<Rightarrow> nat \<Rightarrow> usize" where
  "proxy_hop_count v self = hops_of v self"

definition proxy_identity :: "proxy_views \<Rightarrow> nat \<Rightarrow> string" where
  "proxy_identity v self = identity_of v self"

text \<open>
  \<open>acquire\<close> of a pool: upstream's guard names a proxy or none, and is dropped when the call returns; only
  the name is kept.
\<close>

datatype proxy_lease = ProxyAcquired | ProxyReleased | ProxyMarkedBad string

definition proxy_pool_acquire ::
  "proxy_views \<Rightarrow> nat option \<Rightarrow> proxy_lease list \<Rightarrow> string \<times> proxy_lease list" where
  "proxy_pool_acquire v guard pool =
     (case guard of None \<Rightarrow> [] | Some p \<Rightarrow> identity_of v p, pool @ [ProxyAcquired, ProxyReleased])"

definition proxy_pool_mark_bad :: "string \<Rightarrow> proxy_lease list \<Rightarrow> proxy_lease list" where
  "proxy_pool_mark_bad identity pool = pool @ [ProxyMarkedBad identity]"

section \<open>Reading a MASQUE configuration\<close>

definition masque_ca_cert_count :: "masque_config \<Rightarrow> nat" where
  "masque_ca_cert_count m = length (mq_extra_roots m)"

text \<open>\<open>as_secs\<close> is \<open>Duration::as_secs_f64\<close>.\<close>

definition masque_tunnel_idle_timeout :: "(duration \<Rightarrow> f64) \<Rightarrow> masque_config \<Rightarrow> f64 option" where
  "masque_tunnel_idle_timeout as_secs m = map_option as_secs (mq_tunnel_idle_timeout m)"

text \<open>The trust anchors are the certificates of the bundles that were given, the file's first, and none else.\<close>

lemma masque_roots:
  assumes "masque_config_new api load_pem read_file server ca_cert ca_pem native verify idle mx = Inr m"
  shows "\<exists>file_certs certs.
    (case ca_cert of
       None \<Rightarrow> file_certs = []
     | Some path \<Rightarrow> \<exists>pem. read_file path = Inr pem \<and> load_pem pem = Inr file_certs) \<and>
    (case ca_pem of None \<Rightarrow> certs = [] | Some pem \<Rightarrow> load_pem pem = Inr certs) \<and>
    mq_extra_roots m = file_certs @ certs \<and> masque_ca_cert_count m = length file_certs + length certs"
  using assms
  by (cases ca_cert; cases ca_pem; cases "read_file (the ca_cert)")
     (auto simp: masque_config_new_def masque_ca_cert_count_def add_ca_certs_pem_def res_simps Let_def)

end
