(* ===== verification/ClientPool.thy ===== *)
theory ClientPool imports Prelude "HOL-Library.Multiset" begin

text \<open>
  \<open>src/src/client_pool.rs\<close>: rotation over several clients. The clients are opaque handles; the
  round-robin index is a \<open>usize\<close> that wraps.
\<close>

datatype rotation_strategy = RoundRobin | Random

record client_pool =
  clients :: "nat list"
  index :: usize
  strategy :: rotation_strategy
  poisoned_lock :: bool

definition client_pool_new :: "nat list \<Rightarrow> string \<Rightarrow> client_pool result" where
  "client_pool_new cs rotation =
     (if cs = [] then raise ValueError ''ClientPool requires at least one client''
      else
        ok_then (if rotation = ''round_robin'' then Inr RoundRobin
                 else if rotation = ''random'' then Inr Random
                 else raise_with ValueError ''Unknown rotation strategy: '' [AStr rotation])
          (\<lambda>strat. Inr \<lparr>clients = cs, index = 0, strategy = strat, poisoned_lock = False\<rparr>))"

text \<open>\<open>vec[i]\<close> panics out of bounds, and so does a remainder by zero; \<open>seed\<close> is the fresh hash.\<close>

definition vec_index :: "'a list \<Rightarrow> nat \<Rightarrow> 'a result" where
  "vec_index xs i = (if i < length xs then Inr (xs ! i) else raise PanicException ''index out of bounds'')"

definition checked_rem :: "nat \<Rightarrow> nat \<Rightarrow> nat result" where
  "checked_rem a b = (if b = 0 then raise PanicException ''remainder with a divisor of zero'' else Inr (a mod b))"

definition acquire :: "u64 \<Rightarrow> client_pool \<Rightarrow> nat result \<times> client_pool" where
  "acquire seed pool =
     (if poisoned_lock pool then (raise RuntimeError ''Lock poisoned'', pool)
      else case strategy pool of
          RoundRobin \<Rightarrow>
            (case checked_rem (unat (index pool)) (length (clients pool)) of
               Inl e \<Rightarrow> (Inl e, pool\<lparr>poisoned_lock := True\<rparr>)
             | Inr idx \<Rightarrow>
                 let pool = pool\<lparr>index := index pool + 1\<rparr> in
                 (case vec_index (clients pool) idx of
                    Inl e \<Rightarrow> (Inl e, pool\<lparr>poisoned_lock := True\<rparr>)
                  | Inr client \<Rightarrow> (Inr client, pool)))
        | Random \<Rightarrow>
            (case ok_then (checked_rem (unat seed) (length (clients pool))) (vec_index (clients pool)) of
               Inl e \<Rightarrow> (Inl e, pool\<lparr>poisoned_lock := True\<rparr>)
             | Inr client \<Rightarrow> (Inr client, pool)))"

definition add_client :: "nat \<Rightarrow> client_pool \<Rightarrow> unit result \<times> client_pool" where
  "add_client client pool =
     (if poisoned_lock pool then (raise RuntimeError ''Lock poisoned'', pool)
      else (Inr (), pool\<lparr>clients := clients pool @ [client]\<rparr>))"

definition pool_len :: "client_pool \<Rightarrow> nat result" where
  "pool_len pool = (if poisoned_lock pool then raise RuntimeError ''Lock poisoned'' else Inr (length (clients pool)))"

section \<open>Lemmas\<close>

definition pool_ok :: "client_pool \<Rightarrow> bool" where
  "pool_ok pool \<longleftrightarrow> clients pool \<noteq> [] \<and> \<not> poisoned_lock pool"

lemma new_ok: "client_pool_new cs rotation = Inr pool \<Longrightarrow> pool_ok pool \<and> clients pool = cs \<and> index pool = 0"
  by (auto simp: client_pool_new_def pool_ok_def res_simps split: if_splits)

lemma acquire_ok:
  assumes "pool_ok pool"
  shows "\<exists>i < length (clients pool). fst (acquire seed pool) = Inr (clients pool ! i)"
    and "pool_ok (snd (acquire seed pool))" and "clients (snd (acquire seed pool)) = clients pool"
proof -
  have pos: "0 < length (clients pool)" using assms by (simp add: pool_ok_def)
  show "\<exists>i < length (clients pool). fst (acquire seed pool) = Inr (clients pool ! i)"
  proof (cases "strategy pool")
    case RoundRobin
    with pos assms show ?thesis
      by (intro exI [of _ "unat (index pool) mod length (clients pool)"])
         (simp add: acquire_def pool_ok_def checked_rem_def vec_index_def Let_def)
  next
    case Random
    with pos assms show ?thesis
      by (intro exI [of _ "unat seed mod length (clients pool)"])
         (simp add: acquire_def pool_ok_def checked_rem_def vec_index_def Let_def)
  qed
  show "pool_ok (snd (acquire seed pool))" and "clients (snd (acquire seed pool)) = clients pool"
    using assms
    by (auto simp: acquire_def pool_ok_def checked_rem_def vec_index_def Let_def
        split: rotation_strategy.split)
qed

lemma acquire_round_robin:
  assumes "pool_ok pool" and "strategy pool = RoundRobin"
  shows "acquire seed pool =
    (Inr (clients pool ! (unat (index pool) mod length (clients pool))), pool\<lparr>index := index pool + 1\<rparr>)"
  using assms by (simp add: acquire_def pool_ok_def checked_rem_def vec_index_def Let_def)

lemma add_ok: "pool_ok pool \<Longrightarrow> pool_ok (snd (add_client c pool))"
  by (auto simp: add_client_def pool_ok_def)

text \<open>A sequence of operations of any callers, each under the lock.\<close>

datatype pool_op = Acquire u64 | Add nat

fun run_op :: "pool_op \<Rightarrow> client_pool \<Rightarrow> client_pool" where
  "run_op (Acquire seed) pool = snd (acquire seed pool)"
| "run_op (Add c) pool = snd (add_client c pool)"

lemma run_ops_ok: "pool_ok pool \<Longrightarrow> pool_ok (fold run_op ops pool)"
proof (induction ops arbitrary: pool)
  case (Cons op ops)
  then show ?case by (cases op) (simp_all add: acquire_ok add_ok)
qed simp

fun acquire_n :: "nat \<Rightarrow> client_pool \<Rightarrow> nat result list" where
  "acquire_n 0 pool = []"
| "acquire_n (Suc n) pool = (let (r, pool) = acquire 0 pool in r # acquire_n n pool)"

lemma acquire_n_spec:
  assumes "pool_ok pool" and "strategy pool = RoundRobin" and "unat (index pool) + n \<le> 2 ^ 64"
  shows "acquire_n n pool = map (\<lambda>i. Inr (clients pool ! (i mod length (clients pool))))
    [unat (index pool) ..< unat (index pool) + n]"
  using assms
proof (induction n arbitrary: pool)
  case (Suc n)
  let ?p = "pool\<lparr>index := index pool + 1\<rparr>"
  have ok: "pool_ok ?p" "strategy ?p = RoundRobin" using Suc.prems by (simp_all add: pool_ok_def)
  show ?case
  proof (cases "n = 0")
    case True
    then show ?thesis using Suc.prems by (simp add: acquire_round_robin)
  next
    case False
    have u: "unat (index pool + 1) = unat (index pool) + 1"
      using Suc.prems(3) False by (simp add: unat_word_ariths unat_eq_0)
    have "acquire_n n ?p = map (\<lambda>i. Inr (clients pool ! (i mod length (clients pool))))
        [Suc (unat (index pool)) ..< Suc (unat (index pool) + n)]"
      using Suc.IH [OF ok] Suc.prems(3) u by simp
    then show ?thesis
      using Suc.prems by (simp add: acquire_round_robin upt_conv_Cons del: upt_Suc)
  qed
qed simp

lemma mset_rotation:
  assumes "0 < (n :: nat)"
  shows "image_mset (\<lambda>i. i mod n) (mset [k ..< k + n]) = mset [0 ..< n]"
proof -
  have inj: "inj_on (\<lambda>i. i mod n) {k ..< k + n}"
  proof (rule inj_onI)
    fix a b assume ab: "a \<in> {k ..< k + n}" "b \<in> {k ..< k + n}" "a mod n = b mod n"
    show "a = b"
    proof (rule ccontr)
      assume "a \<noteq> b"
      then consider "a < b" | "b < a" by linarith
      then show False
      proof cases
        case 1
        then have "n dvd b - a" using mod_eq_dvd_iff_nat [of a b n] ab(3) by simp
        with 1 ab show False by (auto dest!: dvd_imp_le)
      next
        case 2
        then have "n dvd a - b" using mod_eq_dvd_iff_nat [of b a n] ab(3) by simp
        with 2 ab show False by (auto dest!: dvd_imp_le)
      qed
    qed
  qed
  have sub: "(\<lambda>i. i mod n) ` {k ..< k + n} \<subseteq> {0 ..< n}" using assms by auto
  have "card ((\<lambda>i. i mod n) ` {k ..< k + n}) = n" by (simp add: card_image inj)
  then have "(\<lambda>i. i mod n) ` {k ..< k + n} = {0 ..< n}"
    by (intro card_subset_eq) (use sub in auto)
  then have "mset (map (\<lambda>i. i mod n) [k ..< k + n]) = mset [0 ..< n]"
    by (intro set_eq_iff_mset_eq_distinct [THEN iffD1])
       (auto simp: distinct_map inj)
  then show ?thesis by simp
qed

section \<open>Properties\<close>

text \<open>C39: A pool never panics and never poisons its lock: after any sequence of \<open>acquire\<close> and \<open>add\<close>
  on a pool that was constructed, even past the wrap-around of the index, \<open>acquire\<close> returns one of
  the pool's clients.\<close>
theorem pool_never_panics:
  assumes "client_pool_new cs rotation = Inr pool"
  shows "\<exists>client \<in> set (clients (fold run_op ops pool)).
           fst (acquire seed (fold run_op ops pool)) = Inr client"
proof -
  have "pool_ok (fold run_op ops pool)" using new_ok [OF assms] run_ops_ok by blast
  from acquire_ok(1) [OF this, of seed] show ?thesis by auto
qed

theorem pool_never_panics_witness:
  "\<exists>client \<in> set (clients (fold run_op [Acquire 0, Add 9] \<lparr>clients = [5, 6], index = 0,
       strategy = RoundRobin, poisoned_lock = False\<rparr>)).
     fst (acquire 3 (fold run_op [Acquire 0, Add 9] \<lparr>clients = [5, 6], index = 0,
       strategy = RoundRobin, poisoned_lock = False\<rparr>)) = Inr client"
  by (rule pool_never_panics [of "[5, 6]" "''round_robin''"]) (simp add: client_pool_new_def)

text \<open>Round robin is fair: starting anywhere short of the wrap-around, as many acquisitions as
  there are clients return every client once, and the acquisitions of a new pool go through the
  clients in order, again and again.\<close>
lemma round_robin_fair:
  assumes "pool_ok pool" and "strategy pool = RoundRobin"
    and "unat (index pool) + length (clients pool) \<le> 2 ^ 64"
  shows "mset (acquire_n (length (clients pool)) pool) = image_mset Inr (mset (clients pool)) \<and>
    (index pool = 0 \<longrightarrow> (\<forall>n \<le> 2 ^ 64. \<forall>i < n.
       acquire_n n pool ! i = Inr (clients pool ! (i mod length (clients pool)))))"
proof (intro conjI impI allI)
  let ?n = "length (clients pool)"
  have pos: "0 < ?n" using assms(1) by (simp add: pool_ok_def)
  have "mset (acquire_n ?n pool) =
      image_mset (\<lambda>j. Inr (clients pool ! j)) (image_mset (\<lambda>i. i mod ?n)
        (mset [unat (index pool) ..< unat (index pool) + ?n]))"
    by (simp add: acquire_n_spec [OF assms] image_mset.compositionality comp_def del: mset_upt)
  also have "\<dots> = image_mset (\<lambda>j. Inr (clients pool ! j)) (mset [0 ..< ?n])"
    by (simp only: mset_rotation [OF pos])
  also have "\<dots> = image_mset Inr (mset (map ((!) (clients pool)) [0 ..< ?n]))"
    by (simp add: image_mset.compositionality comp_def del: map_nth mset_upt)
  finally show "mset (acquire_n ?n pool) = image_mset Inr (mset (clients pool))"
    by (simp add: map_nth del: mset_upt)
next
  fix n i :: nat assume "index pool = 0" "n \<le> 2 ^ 64" "i < n"
  then show "acquire_n n pool ! i = Inr (clients pool ! (i mod length (clients pool)))"
    using acquire_n_spec [OF assms(1,2), of n] by simp
qed

end
