(* ===== verification/SessionPool.thy ===== *)
theory SessionPool imports Verbs Proxy ClientPool begin

text \<open>
  \<open>src/src/session_pool.rs\<close>: session pools and the guards that lease their sessions. The pool is
  upstream's: what the code does to it is a log of calls, the \<open>n\<close>th lease it grants is the lease \<open>n\<close>, and
  \<open>leased n\<close> is the upstream session it is for.
\<close>

section \<open>Pools\<close>

datatype pool_builder_call =
    SpbClient handle | SpbProxies "nat list" | SpbMaxSessions usize | SpbIdleTimeout duration
  | SpbRotation rotation_strategy

definition session_pool_new ::
  "proxy_api \<Rightarrow> handle \<Rightarrow> proxy_obj iterable_obj \<Rightarrow> usize option \<Rightarrow> f64 option \<Rightarrow> string option \<Rightarrow>
   pool_builder_call list result" where
  "session_pool_new api client proxies max_sess idle_timeout rotation =
     ok_then (resolve_proxy_list api proxies) (\<lambda>configs.
     let builder = log_some SpbMaxSessions max_sess [SpbClient client, SpbProxies configs] in
     ok_then (transpose_map validated_duration idle_timeout) (\<lambda>t.
     let builder = log_some SpbIdleTimeout t builder in
     case rotation of
       None \<Rightarrow> Inr builder
     | Some strat \<Rightarrow>
         if strat = ''round_robin'' then Inr (builder @ [SpbRotation RoundRobin])
         else if strat = ''random'' then Inr (builder @ [SpbRotation Random])
         else raise_with ValueError ''Unknown rotation strategy: '' [AStr strat]))"

definition blocking_session_pool_new ::
  "proxy_api \<Rightarrow> handle \<Rightarrow> proxy_obj iterable_obj \<Rightarrow> usize option \<Rightarrow> f64 option \<Rightarrow> string option \<Rightarrow>
   pool_builder_call list result" where
  "blocking_session_pool_new api client proxies max_sess idle_timeout rotation =
     ok_then (resolve_proxy_list api proxies) (\<lambda>configs.
     let builder = log_some SpbMaxSessions max_sess [SpbClient client, SpbProxies configs] in
     ok_then (transpose_map validated_duration idle_timeout) (\<lambda>t.
     let builder = log_some SpbIdleTimeout t builder in
     case rotation of
       None \<Rightarrow> Inr builder
     | Some strat \<Rightarrow>
         if strat = ''round_robin'' then Inr (builder @ [SpbRotation RoundRobin])
         else if strat = ''random'' then Inr (builder @ [SpbRotation Random])
         else raise_with ValueError ''Unknown rotation strategy: '' [AStr strat]))"

section \<open>Leases\<close>

text \<open>
  Upstream's guard is its lease, granted by \<open>acquire\<close> and given back when the guard is dropped. A guard
  object of the bindings holds one or, once released, none.
\<close>

datatype lease_call = Granted nat | MarkedBad nat | GivenBack nat

record lease_log =
  granted :: nat
  calls :: "lease_call list"

definition upstream_acquire :: "lease_log \<Rightarrow> nat \<times> lease_log" where
  "upstream_acquire l = (granted l, l\<lparr>granted := granted l + 1, calls := calls l @ [Granted (granted l)]\<rparr>)"

fun upstream_mark_bad :: "nat option \<Rightarrow> lease_log \<Rightarrow> lease_log" where
  "upstream_mark_bad None l = l"
| "upstream_mark_bad (Some g) l = l\<lparr>calls := calls l @ [MarkedBad g]\<rparr>"

text \<open>\<open>*lock = None\<close> and the end of a guard object: what was held is dropped.\<close>

fun give_back :: "nat option \<Rightarrow> lease_log \<Rightarrow> lease_log" where
  "give_back None l = l"
| "give_back (Some g) l = l\<lparr>calls := calls l @ [GivenBack g]\<rparr>"

definition pool_acquire :: "lease_log \<Rightarrow> nat option \<times> lease_log" where
  "pool_acquire l = (let (g, l) = upstream_acquire l in (Some g, l))"

text \<open>The new guard, and what is left in the old one.\<close>

definition pool_acquire_fresh :: "nat option \<Rightarrow> lease_log \<Rightarrow> nat option \<times> nat option \<times> lease_log" where
  "pool_acquire_fresh old_guard l =
     (let l = upstream_mark_bad old_guard l;
          l = give_back old_guard l;
          (g, l) = upstream_acquire l
      in (Some g, None, l))"

definition pool_mark_bad :: "nat option \<Rightarrow> lease_log \<Rightarrow> lease_log" where
  "pool_mark_bad session_guard l = upstream_mark_bad session_guard l"

definition blocking_pool_acquire :: "lease_log \<Rightarrow> nat option \<times> lease_log" where
  "blocking_pool_acquire l = (let (g, l) = upstream_acquire l in (Some g, l))"

definition blocking_pool_acquire_fresh :: "nat option \<Rightarrow> lease_log \<Rightarrow> nat option \<times> nat option \<times> lease_log" where
  "blocking_pool_acquire_fresh bad_guard l =
     (let l = upstream_mark_bad bad_guard l;
          l = give_back bad_guard l;
          (g, l) = upstream_acquire l
      in (Some g, None, l))"

definition blocking_pool_mark_bad :: "nat option \<Rightarrow> lease_log \<Rightarrow> lease_log" where
  "blocking_pool_mark_bad session_guard l = upstream_mark_bad session_guard l"

definition pool_stats_of :: "session_pool_stats \<Rightarrow> py_session_pool_stats result" where
  "pool_stats_of stats = Inr (py_session_pool_stats_from stats)"

definition blocking_pool_stats_of :: "session_pool_stats \<Rightarrow> py_session_pool_stats result" where
  "blocking_pool_stats_of stats = Inr (py_session_pool_stats_from stats)"

section \<open>Guards\<close>

abbreviation guard_released :: exc where
  "guard_released \<equiv> PyExc RuntimeError ''SessionGuard already released'' []"

text \<open>Every call makes a session object of its own for the leased upstream session.\<close>

definition guard_session :: "(nat \<Rightarrow> handle) \<Rightarrow> nat option \<Rightarrow> heap \<Rightarrow> py_session result \<times> heap" where
  "guard_session leased guard h =
     (case guard of
        None \<Rightarrow> (Inl guard_released, h)
      | Some g \<Rightarrow>
          let (st, h) = session_state_default h
          in (Inr \<lparr>inner = leased g, state = st, base_url = None\<rparr>, h))"

definition guard_aenter :: "(nat \<Rightarrow> handle) \<Rightarrow> nat option \<Rightarrow> heap \<Rightarrow> py_session result \<times> heap" where
  "guard_aenter leased guard h =
     (case guard of
        None \<Rightarrow> (Inl guard_released, h)
      | Some g \<Rightarrow>
          let (st, h) = session_state_default h
          in (Inr \<lparr>inner = leased g, state = st, base_url = None\<rparr>, h))"

definition guard_aexit :: "nat option \<Rightarrow> lease_log \<Rightarrow> bool \<times> nat option \<times> lease_log" where
  "guard_aexit guard l = (False, None, give_back guard l)"

definition blocking_guard_session :: "(nat \<Rightarrow> handle) \<Rightarrow> nat option \<Rightarrow> heap \<Rightarrow> py_session result \<times> heap" where
  "blocking_guard_session leased guard h =
     (case guard of
        None \<Rightarrow> (Inl guard_released, h)
      | Some g \<Rightarrow>
          let (st, h) = session_state_default h
          in (Inr \<lparr>inner = leased g, state = st, base_url = None\<rparr>, h))"

definition blocking_guard_enter :: "(nat \<Rightarrow> handle) \<Rightarrow> nat option \<Rightarrow> heap \<Rightarrow> py_session result \<times> heap" where
  "blocking_guard_enter leased guard h =
     (case guard of
        None \<Rightarrow> (Inl guard_released, h)
      | Some g \<Rightarrow>
          let (st, h) = session_state_default h
          in (Inr \<lparr>inner = leased g, state = st, base_url = None\<rparr>, h))"

definition blocking_guard_exit :: "nat option \<Rightarrow> lease_log \<Rightarrow> bool \<times> nat option \<times> lease_log" where
  "blocking_guard_exit guard l = (False, None, give_back guard l)"

section \<open>A pool in use\<close>

text \<open>
  The pool with every guard object made so far, by position, and the operations on them: those of the
  pool, those of the guards, and the collection of a guard object.
\<close>

record pool_world =
  lease_log :: lease_log
  guards :: "nat option list"
  pw_heap :: heap

datatype pool_op =
  PoAcquire | PoAcquireFresh nat | PoMarkBad nat | PoSession nat | PoEnter nat | PoExit nat | PoCollect nat

definition guard_at :: "nat \<Rightarrow> pool_world \<Rightarrow> nat option" where
  "guard_at i w = (if i < length (guards w) then guards w ! i else None)"

fun pool_step :: "(nat \<Rightarrow> handle) \<Rightarrow> pool_op \<Rightarrow> pool_world \<Rightarrow> pool_world" where
  "pool_step leased PoAcquire w =
     (let (g, l) = pool_acquire (lease_log w) in w\<lparr>lease_log := l, guards := guards w @ [g]\<rparr>)"
| "pool_step leased (PoAcquireFresh i) w =
     (let (g, old, l) = pool_acquire_fresh (guard_at i w) (lease_log w)
      in w\<lparr>lease_log := l, guards := (guards w)[i := old] @ [g]\<rparr>)"
| "pool_step leased (PoMarkBad i) w = w\<lparr>lease_log := pool_mark_bad (guard_at i w) (lease_log w)\<rparr>"
| "pool_step leased (PoSession i) w = w\<lparr>pw_heap := snd (guard_session leased (guard_at i w) (pw_heap w))\<rparr>"
| "pool_step leased (PoEnter i) w = w\<lparr>pw_heap := snd (guard_aenter leased (guard_at i w) (pw_heap w))\<rparr>"
| "pool_step leased (PoExit i) w =
     (let (_, g, l) = guard_aexit (guard_at i w) (lease_log w)
      in w\<lparr>lease_log := l, guards := (guards w)[i := g]\<rparr>)"
| "pool_step leased (PoCollect i) w =
     w\<lparr>lease_log := give_back (guard_at i w) (lease_log w), guards := (guards w)[i := None]\<rparr>"

definition pool_init :: "heap \<Rightarrow> pool_world" where
  "pool_init h = \<lparr>lease_log = \<lparr>granted = 0, calls = []\<rparr>, guards = [], pw_heap = h\<rparr>"

section \<open>Leases are conserved\<close>

text \<open>
  The discipline upstream expects of its guards: a lease granted is new, one given back or marked bad is
  out, and one given back is out no more. \<open>leases_out\<close> replays a log of calls; \<open>None\<close> is a violation.
\<close>

fun lease_spec :: "lease_call \<Rightarrow> nat list \<Rightarrow> nat list option" where
  "lease_spec (Granted g) out = (if List.member out g then None else Some (out @ [g]))"
| "lease_spec (MarkedBad g) out = (if List.member out g then Some out else None)"
| "lease_spec (GivenBack g) out = (if List.member out g then Some (removeAll g out) else None)"

fun leases_out :: "lease_call list \<Rightarrow> nat list \<Rightarrow> nat list option" where
  "leases_out [] out = Some out"
| "leases_out (c # cs) out = Option.bind (lease_spec c out) (leases_out cs)"

lemma leases_out_append:
  "leases_out (cs @ ds) out = Option.bind (leases_out cs out) (leases_out ds)"
  by (induction cs arbitrary: out) (auto split: option.split bind_splits)

text \<open>The leases the guard objects hold.\<close>

fun held_leases :: "nat option list \<Rightarrow> nat list" where
  "held_leases [] = []"
| "held_leases (None # gs) = held_leases gs"
| "held_leases (Some g # gs) = g # held_leases gs"

lemma held_append: "held_leases (gs @ hs) = held_leases gs @ held_leases hs"
  by (induction gs rule: held_leases.induct) simp_all

lemma held_nth: "i < length gs \<Longrightarrow> gs ! i = Some g \<Longrightarrow> g \<in> set (held_leases gs)"
proof (induction gs arbitrary: i rule: held_leases.induct)
  case (3 x gs)
  then show ?case by (cases i) auto
qed (auto simp: nth_Cons split: nat.splits)

lemma held_cleared:
  "i < length gs \<Longrightarrow> gs ! i = Some g \<Longrightarrow> distinct (held_leases gs) \<Longrightarrow>
     set (held_leases (gs[i := None])) = set (held_leases gs) - {g} \<and> distinct (held_leases (gs[i := None]))"
proof (induction gs arbitrary: i rule: held_leases.induct)
  case (2 gs)
  then show ?case by (cases i) auto
next
  case (3 x gs)
  then show ?case
  proof (cases i)
    case (Suc j)
    with 3 have "gs ! j = Some g" "j < length gs" by auto
    then have "g \<in> set (held_leases gs)" by (intro held_nth)
    then show ?thesis using 3 Suc by auto
  qed auto
qed simp

text \<open>The invariant: the calls made so far obey the discipline, and the leases out are those held.\<close>

definition pool_inv :: "pool_world \<Rightarrow> bool" where
  "pool_inv w \<longleftrightarrow>
     (\<exists>out. leases_out (calls (lease_log w)) [] = Some out \<and> set out = set (held_leases (guards w))) \<and>
     distinct (held_leases (guards w)) \<and>
     (\<forall>g \<in> set (held_leases (guards w)). g < granted (lease_log w))"

lemma inv_call:
  assumes "pool_inv w" and "guard_at i w = Some g"
  shows "pool_inv (w\<lparr>lease_log := upstream_mark_bad (Some g) (lease_log w)\<rparr>)"
    and "pool_inv (w\<lparr>lease_log := give_back (Some g) (lease_log w), guards := (guards w)[i := None]\<rparr>)"
proof -
  have i: "i < length (guards w)" "guards w ! i = Some g"
    using assms(2) by (auto simp: guard_at_def split: if_splits)
  obtain out where out: "leases_out (calls (lease_log w)) [] = Some out"
      "set out = set (held_leases (guards w))" and d: "distinct (held_leases (guards w))"
    using assms(1) by (auto simp: pool_inv_def)
  have g: "List.member out g" using held_nth [OF i] out(2) by (simp add: List.member_iff)
  show "pool_inv (w\<lparr>lease_log := upstream_mark_bad (Some g) (lease_log w)\<rparr>)"
    using assms(1) out g by (simp add: pool_inv_def leases_out_append)
  show "pool_inv (w\<lparr>lease_log := give_back (Some g) (lease_log w), guards := (guards w)[i := None]\<rparr>)"
    using assms(1) out g held_cleared [OF i d] by (simp add: pool_inv_def leases_out_append)
qed

lemma inv_mark_bad: "pool_inv w \<Longrightarrow> pool_inv (w\<lparr>lease_log := upstream_mark_bad (guard_at i w) (lease_log w)\<rparr>)"
  using inv_call(1) by (cases "guard_at i w") simp_all

lemma inv_give_back:
  assumes "pool_inv w"
  shows "pool_inv (w\<lparr>lease_log := give_back (guard_at i w) (lease_log w), guards := (guards w)[i := None]\<rparr>)"
proof (cases "guard_at i w")
  case None
  then have "(guards w)[i := None] = guards w"
    by (cases "i < length (guards w)") (auto simp: guard_at_def list_update_same_conv list_update_beyond)
  then show ?thesis using None assms by simp
qed (use assms inv_call(2) in auto)

lemma inv_acquire:
  assumes "pool_inv w" and "upstream_acquire (lease_log w) = (g, l)"
  shows "pool_inv (w\<lparr>lease_log := l, guards := guards w @ [Some g]\<rparr>)"
proof -
  have "\<not> List.member out (granted (lease_log w))" if "set out = set (held_leases (guards w))" for out
    using assms(1) that by (auto simp: pool_inv_def List.member_iff)
  then show ?thesis
    using assms by (fastforce simp: pool_inv_def upstream_acquire_def leases_out_append held_append)
qed

lemma pool_inv_step: "pool_inv w \<Longrightarrow> pool_inv (pool_step leased op w)"
proof (cases op)
  case (PoAcquireFresh i)
  assume inv: "pool_inv w"
  let ?w = "w\<lparr>lease_log := upstream_mark_bad (guard_at i w) (lease_log w)\<rparr>"
  have "pool_inv ?w" by (rule inv_mark_bad [OF inv])
  then have "pool_inv (?w\<lparr>lease_log := give_back (guard_at i ?w) (lease_log ?w), guards := (guards ?w)[i := None]\<rparr>)"
    by (rule inv_give_back)
  from inv_acquire [OF this] show ?thesis
    by (simp add: PoAcquireFresh pool_acquire_fresh_def guard_at_def Let_def split: prod.split)
next
  case PoAcquire
  assume "pool_inv w"
  from inv_acquire [OF this] show ?thesis
    by (simp add: PoAcquire pool_acquire_def split: prod.split)
qed (auto simp: pool_mark_bad_def guard_aexit_def intro: inv_mark_bad inv_give_back, auto simp: pool_inv_def)

interpretation pool_leases: absorbing "\<lambda>s t. \<exists>op. t = pool_step leased op s" pool_inv for leased
  by unfold_locales (auto intro: pool_inv_step)

lemma pool_run_reachable: "(\<lambda>s t. \<exists>op. t = pool_step leased op s)\<^sup>*\<^sup>* w (fold (pool_step leased) ops w)"
proof (induction ops arbitrary: w)
  case (Cons op ops)
  have "(\<lambda>s t. \<exists>op. t = pool_step leased op s) w (pool_step leased op w)" by blast
  then show ?case using Cons.IH by (simp add: converse_rtranclp_into_rtranclp)
qed simp

section \<open>Released guards\<close>

datatype guard_op = GSession | GEnter | GExit

datatype guard_answer = SessionIs "py_session result" | ExitIs bool

type_synonym guard_world = "nat option \<times> heap \<times> lease_log"

fun guard_step :: "(nat \<Rightarrow> handle) \<Rightarrow> guard_world \<Rightarrow> guard_op \<Rightarrow> guard_answer \<times> guard_world" where
  "guard_step leased (g, h, l) GSession = (let (r, h) = guard_session leased g h in (SessionIs r, g, h, l))"
| "guard_step leased (g, h, l) GEnter = (let (r, h) = guard_aenter leased g h in (SessionIs r, g, h, l))"
| "guard_step leased (g, h, l) GExit = (let (r, g, l) = guard_aexit g l in (ExitIs r, g, h, l))"

fun blocking_guard_step :: "(nat \<Rightarrow> handle) \<Rightarrow> guard_world \<Rightarrow> guard_op \<Rightarrow> guard_answer \<times> guard_world" where
  "blocking_guard_step leased (g, h, l) GSession =
     (let (r, h) = blocking_guard_session leased g h in (SessionIs r, g, h, l))"
| "blocking_guard_step leased (g, h, l) GEnter =
     (let (r, h) = blocking_guard_enter leased g h in (SessionIs r, g, h, l))"
| "blocking_guard_step leased (g, h, l) GExit = (let (r, g, l) = blocking_guard_exit g l in (ExitIs r, g, h, l))"

fun released_guard_answer :: "guard_op \<Rightarrow> guard_answer" where
  "released_guard_answer GExit = ExitIs False"
| "released_guard_answer _ = SessionIs (Inl guard_released)"

lemma blocking_guard_step: "blocking_guard_step = guard_step"
proof (intro ext)
  fix leased w op
  show "blocking_guard_step leased w op = guard_step leased w op"
    by (cases w; cases op) (simp_all add: guard_session_def guard_aenter_def guard_aexit_def
        blocking_guard_session_def blocking_guard_enter_def blocking_guard_exit_def)
qed

interpretation pool_guard: fused "guard_step leased" "\<lambda>(g, h, l). g = None" released_guard_answer
    "\<lambda>op out. op = GExit" for leased
proof (unfold_locales, goal_cases)
  case (1 s op)
  then show ?case
    by (cases op) (auto simp: guard_session_def guard_aenter_def guard_aexit_def)
next
  case (2 s op out t)
  then show ?case by (cases s) (auto simp: guard_aexit_def)
qed

lemma fresh_state:
  assumes "session_state_default h = (st, h')"
  shows "hooks st = \<lparr>request_hooks = next_ref h, response_hooks = Suc (next_ref h)\<rparr>"
    and "closed_ref st = next_ref h + 2" and "middleware st = []"
    and "next_ref h' = next_ref h + 3"
    and "py_lists h' = (py_lists h)(next_ref h := [], Suc (next_ref h) := [])"
    and "watches h' = (watches h)(next_ref h + 2 := False)" and "slot_cells h' = slot_cells h"
  using assms
  by (auto simp: session_state_default_def event_hooks_default_def new_list_def Let_def)

section \<open>Properties\<close>

text \<open>C14: Leases are conserved: under any sequence of operations on a pool and its guards, the calls the
  bindings make obey upstream's discipline (a lease is given back at most once, and marked bad only while
  it is out), and the leases that are out are exactly those the guard objects hold, each held by one of
  them; \<open>acquire_fresh\<close> marks and gives back what the old guard holds before it asks for another.\<close>
theorem pool_leases_conserved:
  "(let w = fold (pool_step leased) ops (pool_init h) in
     distinct (held_leases (guards w)) \<and>
     (\<exists>out. leases_out (calls (lease_log w)) [] = Some out \<and> set out = set (held_leases (guards w)))) \<and>
   calls (snd (snd (pool_acquire_fresh old l))) =
     calls l @ (case old of None \<Rightarrow> [] | Some g \<Rightarrow> [MarkedBad g, GivenBack g]) @ [Granted (granted l)] \<and>
   fst (snd (pool_acquire_fresh old l)) = None"
proof -
  have "pool_inv (pool_init h)" by (simp add: pool_inv_def pool_init_def)
  with pool_run_reachable have "pool_inv (fold (pool_step leased) ops (pool_init h))"
    by (rule pool_leases.forever)
  then show ?thesis
    by (cases old) (simp_all add: pool_inv_def pool_acquire_fresh_def upstream_acquire_def Let_def)
qed

text \<open>C31: A guard makes a session object of its own on every request for one: open, without hooks, middleware
  or base URL, and closing one leaves the others of the same lease open. Once the guard has been exited,
  in both classes, it refuses, and the sessions it handed out stay as they are.\<close>
theorem guard_sessions_independent:
  "\<exists>s1 s2 h1 h2.
     guard_session leased (Some g) h = (Inr s1, h1) \<and> guard_aenter leased (Some g) h1 = (Inr s2, h2) \<and>
     inner s1 = leased g \<and> inner s2 = leased g \<and> base_url s1 = None \<and> middleware (state s1) = [] \<and>
     snapshot (request_hooks (hooks (state s1))) h1 = [] \<and>
     snapshot (response_hooks (hooks (state s1))) h1 = [] \<and>
     \<not> is_closed (state s1) h2 \<and> \<not> is_closed (state s2) (close (state s1) h2) \<and>
     is_closed (state s1) (close (state s1) h2) \<and>
     run_polls (guard_step leased) (Some g, h2, l) (GExit # ops) =
       ExitIs False # map released_guard_answer ops \<and>
     run_polls (blocking_guard_step leased) (Some g, h2, l) (GExit # ops) =
       ExitIs False # map released_guard_answer ops \<and>
     fst (snd (snd (guard_step leased (Some g, h2, l) GExit))) = h2"
proof -
  obtain st1 h1 where d1: "session_state_default h = (st1, h1)" by (cases "session_state_default h")
  obtain st2 h2 where d2: "session_state_default h1 = (st2, h2)" by (cases "session_state_default h1")
  note f = fresh_state [OF d1] fresh_state [OF d2]
  have run: "run_polls (guard_step leased) (Some g, h2, l) (GExit # ops) =
      ExitIs False # map released_guard_answer ops"
    using pool_guard.over_forever [of "(None, h2, give_back (Some g) l)" leased ops]
    by (simp add: guard_aexit_def)
  show ?thesis
    using d1 d2 f run
    by (simp add: guard_session_def guard_aenter_def guard_aexit_def snapshot_def is_closed_def
        close_watches blocking_guard_step)
qed

text \<open>Exactly which pool options are accepted, for both classes: the proxies must resolve, an idle timeout
  must be a duration, and the rotation one of two words; what was given reaches the upstream builder once.\<close>
lemma session_pool_accepts:
  "(session_pool_new api client proxies max_sess idle_timeout rotation = Inr b \<longleftrightarrow>
     (\<exists>configs t strat.
        resolve_proxy_list api proxies = Inr configs \<and>
        transpose_map validated_duration idle_timeout = Inr t \<and>
        (rotation, strat) \<in> {(None, None), (Some ''round_robin'', Some RoundRobin), (Some ''random'', Some Random)} \<and>
        b = log_some SpbRotation strat (log_some SpbIdleTimeout t
              (log_some SpbMaxSessions max_sess [SpbClient client, SpbProxies configs])))) \<and>
   blocking_session_pool_new api client proxies max_sess idle_timeout rotation =
     session_pool_new api client proxies max_sess idle_timeout rotation"
proof (intro conjI)
  show "(session_pool_new api client proxies max_sess idle_timeout rotation = Inr b) =
     (\<exists>configs t strat.
        resolve_proxy_list api proxies = Inr configs \<and>
        transpose_map validated_duration idle_timeout = Inr t \<and>
        (rotation, strat) \<in> {(None, None), (Some ''round_robin'', Some RoundRobin), (Some ''random'', Some Random)} \<and>
        b = log_some SpbRotation strat (log_some SpbIdleTimeout t
              (log_some SpbMaxSessions max_sess [SpbClient client, SpbProxies configs])))"
    by (cases "resolve_proxy_list api proxies"; cases "transpose_map validated_duration idle_timeout";
        cases rotation) (auto simp: session_pool_new_def Let_def split: if_splits)
qed (simp add: session_pool_new_def blocking_session_pool_new_def)

end
