(* ===== verification/Dns.thy ===== *)
theory Dns imports Prelude "HOL-Library.Multiset" begin

text \<open>
  \<open>src/src/dns.rs\<close>: the \<open>ip_family\<close> and \<open>connect_to\<close> arguments of a client, with the parts of Rust's
  standard library they rest on: the parsers of \<open>u16\<close> and \<open>SocketAddr\<close>. \<open>url::Host::parse\<close> is a
  parameter, the normalised host it yields as a string.
\<close>

section \<open>Number parsers\<close>

text \<open>\<open>str::parse::<u16>\<close>: decimal digits, an optional \<open>+\<close> before them, and no overflow.\<close>

definition parse_u16 :: "string \<Rightarrow> u16 option" where
  "parse_u16 s =
     (case parse_digits (case strip_prefix ''+'' s of Some t \<Rightarrow> t | None \<Rightarrow> s) of
        Some n \<Rightarrow> if n < 2 ^ 16 then Some (word_of_nat n) else None
      | None \<Rightarrow> None)"

definition hex_val :: "char \<Rightarrow> nat option" where
  "hex_val c =
     (let n = (of_char c :: nat) in
      if 48 \<le> n \<and> n \<le> 57 then Some (n - 48)
      else if 97 \<le> n \<and> n \<le> 102 then Some (n - 87)
      else if 65 \<le> n \<and> n \<le> 70 then Some (n - 55) else None)"

definition to_digit :: "nat \<Rightarrow> char \<Rightarrow> nat option" where
  "to_digit radix c = (case hex_val c of Some d \<Rightarrow> if d < radix then Some d else None | None \<Rightarrow> None)"

text \<open>
  \<open>Parser::read_number\<close> of \<open>core::net\<close>: the longest run of digits, refused when it overflows
  \<open>limit\<close>, has more than \<open>max_digits\<close>, or starts with a zero that is not allowed to.
\<close>

fun take_digits :: "nat \<Rightarrow> nat \<Rightarrow> nat \<Rightarrow> nat option \<Rightarrow> nat \<Rightarrow> string \<Rightarrow> (nat \<times> nat \<times> string) option" where
  "take_digits radix limit digits max_digits acc [] = Some (digits, acc, [])"
| "take_digits radix limit digits max_digits acc (c # cs) =
     (case to_digit radix c of
        None \<Rightarrow> Some (digits, acc, c # cs)
      | Some d \<Rightarrow>
          if acc * radix + d \<ge> limit then None
          else if (case max_digits of Some m \<Rightarrow> m < digits + 1 | None \<Rightarrow> False) then None
          else take_digits radix limit (digits + 1) max_digits (acc * radix + d) cs)"

definition read_number :: "nat \<Rightarrow> nat \<Rightarrow> nat option \<Rightarrow> bool \<Rightarrow> string \<Rightarrow> (nat \<times> string) option" where
  "read_number radix limit max_digits allow_zero_prefix s =
     (case take_digits radix limit 0 max_digits 0 s of
        None \<Rightarrow> None
      | Some (digits, n, rest) \<Rightarrow>
          if digits = 0 then None
          else if \<not> allow_zero_prefix \<and> hd s = CHR ''0'' \<and> digits > 1 then None
          else Some (n, rest))"

definition read_char :: "char \<Rightarrow> string \<Rightarrow> string option" where
  "read_char c s = (case s of [] \<Rightarrow> None | x # xs \<Rightarrow> if x = c then Some xs else None)"

section \<open>Addresses\<close>

definition read_octet :: "string \<Rightarrow> (nat \<times> string) option" where
  "read_octet = read_number 10 256 (Some 3) False"

definition sep_then :: "char \<Rightarrow> (string \<Rightarrow> 'a option) \<Rightarrow> string \<Rightarrow> 'a option" where
  "sep_then c p s = Option.bind (read_char c s) p"

definition read_ipv4 :: "string \<Rightarrow> (32 word \<times> string) option" where
  "read_ipv4 s =
     Option.bind (read_octet s) (\<lambda>(a, s).
     Option.bind (sep_then CHR ''.'' read_octet s) (\<lambda>(b, s).
     Option.bind (sep_then CHR ''.'' read_octet s) (\<lambda>(c, s).
     Option.bind (sep_then CHR ''.'' read_octet s) (\<lambda>(d, s).
       Some (word_of_nat (((a * 256 + b) * 256 + c) * 256 + d), s)))))"

definition read_hextet :: "string \<Rightarrow> (nat \<times> string) option" where
  "read_hextet = read_number 16 65536 (Some 4) True"

text \<open>
  \<open>read_groups\<close>: up to \<open>limit\<close> groups of four hex digits separated by colons; the last two may be
  a dotted IPv4 address, which ends the groups. Returned are the groups, whether they ended in an
  IPv4 address, and the rest.
\<close>

fun read_groups :: "nat \<Rightarrow> nat \<Rightarrow> string \<Rightarrow> nat list \<times> bool \<times> string" where
  "read_groups 0 i s = ([], False, s)"
| "read_groups (Suc limit) i s =
     (let start = (if i = 0 then Some s else read_char CHR '':'' s) in
      case (if 0 < limit then Option.bind start read_ipv4 else None) of
        Some (w, rest) \<Rightarrow> ([unat w div 65536, unat w mod 65536], True, rest)
      | None \<Rightarrow>
          (case Option.bind start read_hextet of
             None \<Rightarrow> ([], False, s)
           | Some (g, rest) \<Rightarrow>
               (let (gs, v4, rest) = read_groups limit (i + 1) rest in (g # gs, v4, rest))))"

definition groups_to_v6 :: "nat list \<Rightarrow> 128 word" where
  "groups_to_v6 gs = word_of_nat (foldl (\<lambda>a g. a * 65536 + g) 0 gs)"

definition read_ipv6 :: "string \<Rightarrow> (128 word \<times> string) option" where
  "read_ipv6 s =
     (let (head, head_v4, rest) = read_groups 8 0 s in
      if length head = 8 then Some (groups_to_v6 head, rest)
      else if head_v4 then None
      else Option.bind (Option.bind (read_char CHR '':'' rest) (read_char CHR '':'')) (\<lambda>rest.
        let (tail, _, rest) = read_groups (7 - length head) 0 rest in
        Some (groups_to_v6 (head @ replicate (8 - length head - length tail) 0 @ tail), rest)))"

definition read_port :: "string \<Rightarrow> (u16 \<times> string) option" where
  "read_port s = Option.bind (sep_then CHR '':'' (read_number 10 65536 None True) s)
     (\<lambda>(n, s). Some (word_of_nat n, s))"

definition read_scope_id :: "string \<Rightarrow> string option" where
  "read_scope_id s =
     map_option snd (sep_then CHR ''%'' (read_number 10 (2 ^ 32) None True) s)"

definition read_socket_addr :: "string \<Rightarrow> (socket_addr \<times> string) option" where
  "read_socket_addr s =
     (case Option.bind (read_ipv4 s) (\<lambda>(a, s). Option.bind (read_port s) (\<lambda>(p, s).
             Some (SocketAddr (V4 a) p, s))) of
        Some r \<Rightarrow> Some r
      | None \<Rightarrow>
          Option.bind (sep_then CHR ''['' read_ipv6 s) (\<lambda>(a, s).
          Option.bind (read_char CHR '']'' (case read_scope_id s of Some s' \<Rightarrow> s' | None \<Rightarrow> s)) (\<lambda>s.
          Option.bind (read_port s) (\<lambda>(p, s). Some (SocketAddr (V6 a) p, s)))))"

definition parse_socket_addr :: "string \<Rightarrow> socket_addr option" where
  "parse_socket_addr s = (case read_socket_addr s of Some (a, []) \<Rightarrow> Some a | _ \<Rightarrow> None)"

section \<open>Families\<close>

datatype ip_family = Any | Ipv4 | Ipv6

definition parse_ip_family :: "string \<Rightarrow> ip_family result" where
  "parse_ip_family name =
     (if name = ''any'' then Inr Any
      else if name = ''ipv4'' then Inr Ipv4
      else if name = ''ipv6'' then Inr Ipv6
      else raise_with ValueError ''Unknown ip_family: '' [AStr name])"

fun family_label :: "ip_family \<Rightarrow> string" where
  "family_label Any = ''any''"
| "family_label Ipv4 = ''ipv4''"
| "family_label Ipv6 = ''ipv6''"

text \<open>\<open>to_ipv4_mapped\<close>: the addresses \<open>::ffff:a.b.c.d\<close>.\<close>

definition is_ipv4_mapped :: "128 word \<Rightarrow> bool" where
  "is_ipv4_mapped w = (unat w div 2 ^ 32 = 65535)"

fun family_allows :: "ip_family \<Rightarrow> ip_addr \<Rightarrow> bool" where
  "family_allows Any a = True"
| "family_allows Ipv4 a = (case a of V4 _ \<Rightarrow> True | V6 _ \<Rightarrow> False)"
| "family_allows Ipv6 a = (case a of V4 _ \<Rightarrow> False | V6 w \<Rightarrow> \<not> is_ipv4_mapped w)"

section \<open>Dial overrides\<close>

record dial_override =
  o_host :: string
  o_port :: u16
  o_address :: socket_addr

definition parse_port :: "string \<Rightarrow> u16 option" where
  "parse_port text = (case parse_u16 text of Some p \<Rightarrow> if p \<noteq> 0 then Some p else None | None \<Rightarrow> None)"

text \<open>\<open>find("]:")\<close>: the split at the first occurrence, the bracket with the host.\<close>

fun split_bracket :: "string \<Rightarrow> (string \<times> string) option" where
  "split_bracket (a # b # cs) =
     (if a = CHR '']'' \<and> b = CHR '':'' then Some ([a], cs)
      else map_option (\<lambda>(h, p). (a # h, p)) (split_bracket (b # cs)))"
| "split_bracket _ = None"

definition invalid_key :: "string \<Rightarrow> string \<Rightarrow> exc" where
  "invalid_key key why = PyExc ValueError ''connect_to key '' [AStr key, AStr why]"

definition parse_origin :: "(string \<Rightarrow> string option) \<Rightarrow> string \<Rightarrow> (string \<times> u16) result" where
  "parse_origin host_parse key =
     ok_then
       (if key \<noteq> [] \<and> hd key = CHR ''['' then ok_or (invalid_key key ''has no port'') (split_bracket key)
        else ok_then (ok_or (invalid_key key ''has no port'') (rsplit_once CHR '':'' key))
          (\<lambda>(host, port). if CHR '':'' \<in> set host then Inl (invalid_key key ''has an unbracketed IPv6 host'')
             else Inr (host, port)))
       (\<lambda>(host, port).
     ok_then (ok_or (invalid_key key ''has an invalid port'') (parse_port port)) (\<lambda>port.
     ok_then (ok_or (invalid_key key ''has an invalid host'') (host_parse host)) (\<lambda>host.
       Inr (host, port))))"

definition parse_address :: "string \<Rightarrow> string \<Rightarrow> socket_addr result" where
  "parse_address key v =
     (case parse_socket_addr v of
        Some a \<Rightarrow> if port a \<noteq> 0 then Inr a
                  else raise_with ValueError ''connect_to value '' [AStr v, AStr key]
      | None \<Rightarrow> raise_with ValueError ''connect_to value '' [AStr v, AStr key])"

text \<open>The loop over the entries of the \<open>HashMap\<close>, in its iteration order.\<close>

fun connect_to_loop ::
  "(string \<Rightarrow> string option) \<Rightarrow> ip_family \<Rightarrow> (string \<times> string) list \<Rightarrow> dial_override list \<Rightarrow>
   dial_override list result" where
  "connect_to_loop host_parse family [] overrides = Inr overrides"
| "connect_to_loop host_parse family ((key, v) # entries) overrides =
     ok_then (parse_origin host_parse key) (\<lambda>(host, p).
     if list_ex (\<lambda>o1. o_host o1 = host \<and> o_port o1 = p) overrides
     then raise_with ValueError ''connect_to lists an origin more than once: '' [AStr host, ANat (unat p)]
     else ok_then (parse_address key v) (\<lambda>address.
     if \<not> family_allows family (ip address)
     then raise_with ValueError ''connect_to maps to an excluded address: ''
            [AStr key, AAddr address, AStr (family_label family)]
     else connect_to_loop host_parse family entries
            (overrides @ [\<lparr>o_host = host, o_port = p, o_address = address\<rparr>])))"

definition parse_connect_to ::
  "(string \<Rightarrow> string option) \<Rightarrow> (string \<times> string) list \<Rightarrow> ip_family \<Rightarrow> dial_override list result" where
  "parse_connect_to host_parse entries family = connect_to_loop host_parse family entries []"

section \<open>Lemmas\<close>

definition origin :: "dial_override \<Rightarrow> string \<times> u16" where
  "origin o1 = (o_host o1, o_port o1)"

text \<open>What one entry of the argument means, on its own.\<close>

definition entry_means ::
  "(string \<Rightarrow> string option) \<Rightarrow> ip_family \<Rightarrow> string \<times> string \<Rightarrow> dial_override \<Rightarrow> bool" where
  "entry_means host_parse family e o1 \<longleftrightarrow>
     parse_origin host_parse (fst e) = Inr (origin o1) \<and>
     parse_address (fst e) (snd e) = Inr (o_address o1) \<and> family_allows family (ip (o_address o1))"

lemma parse_port_nonzero: "parse_port s = Some p \<Longrightarrow> p \<noteq> 0"
  by (auto simp: parse_port_def split: option.splits if_splits)

lemma parse_origin_port: "parse_origin hp key = Inr (h, p) \<Longrightarrow> p \<noteq> 0"
  by (auto simp: parse_origin_def res_simps dest: parse_port_nonzero)

lemma parse_origin_host: "parse_origin hp key = Inr (h, p) \<Longrightarrow> \<exists>host. hp host = Some h"
  by (auto simp: parse_origin_def res_simps)

lemma parse_address_port: "parse_address key v = Inr a \<Longrightarrow> port a \<noteq> 0"
  by (auto simp: parse_address_def split: option.splits if_splits)

lemma list_ex_origin:
  "list_ex (\<lambda>o1. o_host o1 = h \<and> o_port o1 = p) os \<longleftrightarrow> (h, p) \<in> origin ` set os"
  by (auto simp: list_ex_iff origin_def image_iff)

lemma connect_to_loop_Inr:
  "connect_to_loop hp family es acc = Inr os \<longleftrightarrow>
     (\<exists>new. os = acc @ new \<and> list_all2 (entry_means hp family) es new \<and>
        distinct (map origin new) \<and> origin ` set acc \<inter> origin ` set new = {})"
proof (induction es arbitrary: acc)
  case Nil
  show ?case by auto
next
  case (Cons e es)
  obtain key v where e: "e = (key, v)" by (cases e)
  show ?case
  proof
    assume "connect_to_loop hp family (e # es) acc = Inr os"
    then obtain h p a where 1: "parse_origin hp key = Inr (h, p)" "(h, p) \<notin> origin ` set acc"
        "parse_address key v = Inr a" "family_allows family (ip a)"
      and 2: "connect_to_loop hp family es (acc @ [\<lparr>o_host = h, o_port = p, o_address = a\<rparr>]) = Inr os"
      by (auto simp: e res_simps list_ex_origin split: if_splits)
    let ?o = "\<lparr>o_host = h, o_port = p, o_address = a\<rparr>"
    from 2 obtain new where "os = (acc @ [?o]) @ new" "list_all2 (entry_means hp family) es new"
        "distinct (map origin new)" "origin ` set (acc @ [?o]) \<inter> origin ` set new = {}"
      unfolding Cons.IH by blast
    then show "\<exists>new. os = acc @ new \<and> list_all2 (entry_means hp family) (e # es) new \<and>
        distinct (map origin new) \<and> origin ` set acc \<inter> origin ` set new = {}"
      using 1 by (intro exI [of _ "?o # new"]) (auto simp: e entry_means_def origin_def)
  next
    assume "\<exists>new. os = acc @ new \<and> list_all2 (entry_means hp family) (e # es) new \<and>
        distinct (map origin new) \<and> origin ` set acc \<inter> origin ` set new = {}"
    then obtain o1 new where os: "os = acc @ o1 # new" and m: "entry_means hp family e o1"
        "list_all2 (entry_means hp family) es new"
      and d: "distinct (map origin (o1 # new))" "origin ` set acc \<inter> origin ` set (o1 # new) = {}"
      by (auto simp: list_all2_Cons1)
    have rest: "connect_to_loop hp family es (acc @ [o1]) = Inr os"
      unfolding Cons.IH using os m(2) d by (intro exI [of _ new]) auto
    have eta: "\<lparr>o_host = o_host o1, o_port = o_port o1, o_address = o_address o1\<rparr> = o1" by simp
    have new: "(o_host o1, o_port o1) \<notin> origin ` set acc"
      using d(2) by (auto simp: origin_def)
    show "connect_to_loop hp family (e # es) acc = Inr os"
      using m(1) new rest unfolding e entry_means_def origin_def [of o1] fst_conv snd_conv
      by (simp only: connect_to_loop.simps ok_then.simps prod.case list_ex_origin eta if_False not_not
          simp_thms)
  qed
qed

lemma parse_connect_to_Inr:
  "parse_connect_to hp es family = Inr os \<longleftrightarrow>
     list_all2 (entry_means hp family) es os \<and> distinct (map origin os)"
  by (simp add: parse_connect_to_def connect_to_loop_Inr)

lemma parse_connect_to_safe:
  assumes "parse_connect_to hp es family = Inr os" and "o1 \<in> set os"
  shows "o_port o1 \<noteq> 0" and "port (o_address o1) \<noteq> 0" and "family_allows family (ip (o_address o1))"
    and "\<exists>host. hp host = Some (o_host o1)"
proof -
  obtain e where "entry_means hp family e o1"
    using assms unfolding parse_connect_to_Inr list_all2_conv_all_nth in_set_conv_nth by metis
  then show "o_port o1 \<noteq> 0" and "port (o_address o1) \<noteq> 0" and "family_allows family (ip (o_address o1))"
    and "\<exists>host. hp host = Some (o_host o1)"
    by (auto simp: entry_means_def origin_def dest: parse_origin_port parse_address_port parse_origin_host)
qed

section \<open>Properties\<close>

text \<open>C17: What \<open>connect_to\<close> accepts is safe to hand to upstream: one override per entry, no origin
  twice, no zero port on either side, and every address in the family the client is restricted
  to; \<open>ipv6\<close> lets no IPv4 traffic through in mapped form.\<close>
theorem connect_to_safe:
  assumes "parse_connect_to hp es family = Inr os"
  shows "length os = length es \<and> distinct (map origin os) \<and>
    (\<forall>o1 \<in> set os. o_port o1 \<noteq> 0 \<and> port (o_address o1) \<noteq> 0 \<and>
       (case ip (o_address o1) of
          V4 _ \<Rightarrow> family \<noteq> Ipv6
        | V6 w \<Rightarrow> family \<noteq> Ipv4 \<and> (family = Ipv6 \<longrightarrow> \<not> is_ipv4_mapped w)))"
proof -
  have "length os = length es" and "distinct (map origin os)"
    using assms by (auto simp: parse_connect_to_Inr dest: list_all2_lengthD)
  moreover have "case a of V4 _ \<Rightarrow> family \<noteq> Ipv6
        | V6 w \<Rightarrow> family \<noteq> Ipv4 \<and> (family = Ipv6 \<longrightarrow> \<not> is_ipv4_mapped w)"
    if "family_allows family a" for a
    using that by (cases family) (auto split: ip_addr.splits)
  ultimately show ?thesis using parse_connect_to_safe [OF assms] by blast
qed

lemma sample_connect_to:
  "parse_connect_to Some [(''h:443'', ''1.2.3.4:80''), (''[::1]:1'', ''9.9.9.9:2'')] Ipv4 =
     Inr [\<lparr>o_host = ''h'', o_port = 443, o_address = SocketAddr (V4 16909060) 80\<rparr>,
          \<lparr>o_host = ''[::1]'', o_port = 1, o_address = SocketAddr (V4 151587081) 2\<rparr>]"
  by (simp add: parse_connect_to_def parse_origin_def parse_address_def parse_port_def parse_u16_def
      parse_digits_def digit_val_def parse_socket_addr_def read_socket_addr_def read_ipv4_def
      read_octet_def read_number_def to_digit_def hex_val_def sep_then_def read_char_def read_port_def
      Let_def)

theorem connect_to_safe_witness:
  "\<exists>os. parse_connect_to Some [(''h:443'', ''1.2.3.4:80''), (''[::1]:1'', ''9.9.9.9:2'')] Ipv4 = Inr os \<and>
     length os = 2 \<and> distinct (map origin os) \<and> (\<forall>o1 \<in> set os. o_port o1 \<noteq> 0 \<and> port (o_address o1) \<noteq> 0)"
  using connect_to_safe [OF sample_connect_to] sample_connect_to by auto

text \<open>The unspecified iteration order of the \<open>HashMap\<close> does not matter: if the entries are
  accepted in one order they are accepted in every order, with the same overrides.\<close>
lemma connect_to_order_free:
  assumes "parse_connect_to hp es family = Inr os" and "mset es' = mset es"
  shows "\<exists>os'. parse_connect_to hp es' family = Inr os' \<and> mset os' = mset os"
proof -
  obtain os' where os': "list_all2 (entry_means hp family) es' os'" "mset os' = mset os"
    using assms list_all2_reorder_left_invariance [of "entry_means hp family" es os es']
    by (auto simp: parse_connect_to_Inr)
  have "distinct (map origin os')"
    using assms(1) os'(2) by (metis distinct_map mset_eq_setD mset_eq_imp_distinct_iff parse_connect_to_Inr)
  with os' show ?thesis by (auto simp: parse_connect_to_Inr)
qed

end
