(* ===== verification/Retry.thy ===== *)
theory Retry imports Types Middleware begin

text \<open>
  \<open>src/src/retry.rs\<close> and \<open>src/src/hsts.rs\<close>: the retry policies, among them a Python callable, and
  the HSTS policies a session is built with.
\<close>

section \<open>Policies\<close>

datatype retry_policy =
    ExponentialBackoff u32 duration duration bool | FixedInterval u32 duration | CallableRetry pyobj

definition exponential_backoff_new :: "u32 \<Rightarrow> f64 \<Rightarrow> f64 \<Rightarrow> bool \<Rightarrow> retry_policy result" where
  "exponential_backoff_new max_retries base_delay max_delay jitter =
     ok_then (validated_duration base_delay) (\<lambda>base.
     ok_then (validated_duration max_delay) (\<lambda>mx.
       Inr (ExponentialBackoff max_retries base mx jitter)))"

definition fixed_interval_new :: "u32 \<Rightarrow> f64 \<Rightarrow> retry_policy result" where
  "fixed_interval_new max_retries interval =
     ok_then (validated_duration interval) (\<lambda>i. Inr (FixedInterval max_retries i))"

text \<open>What the callable returned, as far as the code looks at it.\<close>

datatype retry_answer = AnswerNone | AnswerFloat f64 | AnswerOther

type_synonym retry_callable =
  "u32 \<Rightarrow> string option \<Rightarrow> u16 option \<Rightarrow> retry_answer result"

definition should_retry ::
  "(lk_error \<Rightarrow> string) \<Rightarrow> retry_callable \<Rightarrow> u32 \<Rightarrow> lk_error option \<Rightarrow> u16 option \<Rightarrow>
   duration option result" where
  "should_retry to_string callable attempt error status =
     (case callable attempt (map_option to_string error) status of
        Inl _ \<Rightarrow> Inr None
      | Inr AnswerNone \<Rightarrow> Inr None
      | Inr AnswerOther \<Rightarrow> Inr None
      | Inr (AnswerFloat delay_secs) \<Rightarrow>
          if \<not> is_finite delay_secs \<or> f64_lt delay_secs 0 then Inr None
          else map_ok Some
                 (ok_or (PyExc PanicException ''can not convert float seconds to Duration'' [])
                    (from_secs_f64 delay_secs)))"

section \<open>HSTS\<close>

datatype hsts_kind = HstsNone | HstsStatic "string list" bool | HstsDynamic "string list"

definition hsts_dynamic :: "string list option \<Rightarrow> hsts_kind" where
  "hsts_dynamic seed = HstsDynamic (case seed of Some s \<Rightarrow> s | None \<Rightarrow> [])"

text \<open>The upstream policy a kind becomes.\<close>

datatype hsts_policy =
    NoHsts | StaticHsts "string list" | WithPreloadedTlds hsts_policy
  | DynamicHstsNew | DynamicHstsWithSeed "string list"

fun hsts_apply :: "hsts_kind \<Rightarrow> hsts_policy" where
  "hsts_apply HstsNone = NoHsts"
| "hsts_apply (HstsStatic hosts preloaded_tlds) =
     (let policy = StaticHsts hosts in if preloaded_tlds then WithPreloadedTlds policy else policy)"
| "hsts_apply (HstsDynamic seed) = (if seed = [] then DynamicHstsNew else DynamicHstsWithSeed seed)"

section \<open>Properties\<close>

text \<open>The finite values of an \<open>f64\<close>: 53 significant bits and a power of two.\<close>

definition f64_value :: "rat \<Rightarrow> bool" where
  "f64_value q \<longleftrightarrow> (\<exists>(m :: int) (k :: nat). \<bar>m\<bar> < 2 ^ 53 \<and> (q = of_int m * 2 ^ k \<or> q = of_int m / 2 ^ k))"

text \<open>Between the last second and \<open>2 ^ 64\<close> there is no such value that rounds up to it.\<close>

lemma f64_value_below:
  assumes "f64_value q" and "0 \<le> q" and "q < 2 ^ 64"
  shows "q \<le> of_int (2 ^ 64 - 1)"
proof -
  obtain m :: int and k where m: "\<bar>m\<bar> < 2 ^ 53" and q: "q = of_int m * 2 ^ k \<or> q = of_int m / 2 ^ k"
    using assms(1) by (auto simp: f64_value_def)
  from q show ?thesis
  proof
    assume "q = of_int m * 2 ^ k"
    then have q: "q = of_int (m * 2 ^ k)" by simp
    have "(of_int (m * 2 ^ k) :: rat) < of_int (2 ^ 64)" using assms(3) unfolding q by simp
    then have "m * 2 ^ k < 2 ^ 64" by (simp only: of_int_less_iff)
    then have "m * 2 ^ k \<le> 2 ^ 64 - 1" by simp
    then show ?thesis unfolding q by (simp only: of_int_le_iff)
  next
    assume q: "q = of_int m / 2 ^ k"
    have "(of_int m :: rat) = q * 2 ^ k" unfolding q by simp
    then have "0 \<le> m" using assms(2) by (metis mult_nonneg_nonneg of_int_0_le_iff zero_le_numeral zero_le_power)
    then have le: "q \<le> of_int m" unfolding q
      using mult_left_mono [of 1 "2 ^ k" "of_int m :: rat"] by (simp add: divide_le_eq)
    have "m \<le> 2 ^ 64 - 1" using m by simp
    then have "(of_int m :: rat) \<le> of_int (2 ^ 64 - 1)" by (simp only: of_int_le_iff)
    with le show ?thesis by (rule order_trans)
  qed
qed

lemma from_secs_f64_range:
  assumes "f64_value q" and "0 \<le> q"
  shows "from_secs_f64 (F64_Fin q) =
    (if q < 2 ^ 64 then Some (nat (round_half_even (q * 10 ^ 9))) else None)"
proof (cases "q < 2 ^ 64")
  case True
  have "q * 10 ^ 9 \<le> of_int ((2 ^ 64 - 1) * 10 ^ 9)" using f64_value_below [OF assms True] by simp
  then have "round_half_even (q * 10 ^ 9) \<le> (2 ^ 64 - 1) * 10 ^ 9" by (rule round_half_even_less)
  then have "nat (round_half_even (q * 10 ^ 9)) < duration_limit" by (simp add: duration_limit_def)
  then show ?thesis using True assms(2) by (simp add: Let_def)
next
  case False
  then show ?thesis using from_secs_f64_too_large [of q] by simp
qed

fun is_f64 :: "f64 \<Rightarrow> bool" where
  "is_f64 (F64_Fin q) = f64_value q"
| "is_f64 _ = True"

text \<open>C40: Durations from Python floats. Exactly the values from zero up to, and without, \<open>2 ^ 64\<close> seconds are
  accepted; a NaN, an infinity and a negative value raise \<open>ValueError\<close>, and every finite value that is too
  large panics instead. What is accepted is a \<open>Duration\<close> of \<open>u64\<close> seconds and the nearest number of
  nanoseconds, the even one of two; and a longer timeout is never turned into a shorter \<open>Duration\<close>.\<close>
theorem validated_duration_cases:
  assumes "is_f64 s" and "is_f64 s'"
  shows "((\<exists>d. validated_duration s = Inr d) \<longleftrightarrow> (\<exists>q. s = F64_Fin q \<and> 0 \<le> q \<and> q < 2 ^ 64)) \<and>
   ((\<exists>e. validated_duration s = Inl e \<and> kind e = ValueError) \<longleftrightarrow> (\<forall>q. s = F64_Fin q \<longrightarrow> q < 0)) \<and>
   ((\<exists>e. validated_duration s = Inl e \<and> kind e = PanicException) \<longleftrightarrow> (\<exists>q. s = F64_Fin q \<and> 2 ^ 64 \<le> q)) \<and>
   (\<forall>q d. s = F64_Fin q \<and> validated_duration s = Inr d \<longrightarrow>
      d div 10 ^ 9 < 2 ^ 64 \<and> \<bar>of_nat d - q * 10 ^ 9\<bar> \<le> 1 / 2 \<and>
      (\<bar>of_nat d - q * 10 ^ 9\<bar> = 1 / 2 \<longrightarrow> even d)) \<and>
   (\<forall>q q' d d'. s = F64_Fin q \<and> s' = F64_Fin q' \<and> q \<le> q' \<and>
      validated_duration s = Inr d \<and> validated_duration s' = Inr d' \<longrightarrow> d \<le> d')"
proof -
  have cases: "validated_duration (F64_Fin q) =
      (if q < 0 then raise_with ValueError ''Duration must be a finite non-negative number, got '' [AF64 (F64_Fin q)]
       else if q < 2 ^ 64 then Inr (nat (round_half_even (q * 10 ^ 9)))
       else raise PanicException ''can not convert float seconds to Duration'')" if "f64_value q" for q
    using from_secs_f64_range [OF that] by (simp add: validated_duration_def del: from_secs_f64.simps)
  have big: "\<not> q < 0" if "(2 :: rat) ^ 64 \<le> q" for q
    using that by (auto simp: not_less intro: order_trans [rotated])
  have nearest: "d div 10 ^ 9 < 2 ^ 64 \<and> \<bar>of_nat d - q * 10 ^ 9\<bar> \<le> 1 / 2 \<and>
      (\<bar>of_nat d - q * 10 ^ 9\<bar> = 1 / 2 \<longrightarrow> even d)"
    if "validated_duration (F64_Fin q) = Inr d" for q d
  proof -
    from that have d: "d = nat (round_half_even (q * 10 ^ 9))" "0 \<le> q" "d < duration_limit"
      by (auto simp: validated_duration_Inr)
    then have "0 \<le> round_half_even (q * 10 ^ 9)" by (intro round_half_even_nonneg) simp
    then have r: "(of_nat d :: rat) = of_int (round_half_even (q * 10 ^ 9))" "int d = round_half_even (q * 10 ^ 9)"
      using d(1) by simp_all
    have "even d" if "\<bar>of_nat d - q * 10 ^ 9\<bar> = 1 / 2"
      using round_half_even_tie [of "q * 10 ^ 9"] that r by (metis even_of_nat)
    moreover have "d div 10 ^ 9 < 2 ^ 64" using d(3) by (simp add: duration_limit_def div_less_iff_less_mult)
    ultimately show ?thesis using round_half_even_close [of "q * 10 ^ 9"] r(1) by simp
  qed
  have mono: "d \<le> d'" if "q \<le> q'" "validated_duration (F64_Fin q) = Inr d" "validated_duration (F64_Fin q') = Inr d'"
    for q q' d d'
    using that round_half_even_mono [of "q * 10 ^ 9" "q' * 10 ^ 9"] by (auto simp: validated_duration_Inr intro: nat_mono)
  show ?thesis
  proof (cases s)
    case (F64_Fin q)
    then have v: "f64_value q" using assms(1) by simp
    show ?thesis
    proof (intro conjI)
      show "(\<exists>d. validated_duration s = Inr d) \<longleftrightarrow> (\<exists>q. s = F64_Fin q \<and> 0 \<le> q \<and> q < 2 ^ 64)"
        "(\<exists>e. validated_duration s = Inl e \<and> kind e = ValueError) \<longleftrightarrow> (\<forall>q. s = F64_Fin q \<longrightarrow> q < 0)"
        "(\<exists>e. validated_duration s = Inl e \<and> kind e = PanicException) \<longleftrightarrow> (\<exists>q. s = F64_Fin q \<and> 2 ^ 64 \<le> q)"
        using big [of q] by (auto simp: F64_Fin cases [OF v])
    qed (use nearest mono in blast)+
  qed (simp_all add: validated_duration_def)
qed

theorem validated_duration_cases_witness:
  "\<exists>d d'. validated_duration (F64_Fin (3 / 2)) = Inr d \<and> validated_duration (F64_Fin 2) = Inr d' \<and>
     \<bar>of_nat d - 3 / 2 * 10 ^ 9\<bar> \<le> (1 / 2 :: rat) \<and> d \<le> d'"
proof -
  have "f64_value (3 / 2)" unfolding f64_value_def by (rule exI [of _ 3], rule exI [of _ 1]) simp
  moreover have "f64_value 2" unfolding f64_value_def by (rule exI [of _ 2], rule exI [of _ 0]) simp
  ultimately have f: "is_f64 (F64_Fin (3 / 2))" "is_f64 (F64_Fin 2)" by simp_all
  have "\<exists>q. F64_Fin (3 / 2) = F64_Fin q \<and> 0 \<le> q \<and> q < 2 ^ 64"
    and "\<exists>q. F64_Fin 2 = F64_Fin q \<and> 0 \<le> q \<and> q < 2 ^ 64"
    by (rule exI, rule conjI, rule refl, simp)+
  then obtain d d' where "validated_duration (F64_Fin (3 / 2)) = Inr d" "validated_duration (F64_Fin 2) = Inr d'"
    using conjunct1 [OF validated_duration_cases [OF f]] conjunct1 [OF validated_duration_cases [OF f(2,1)]] by blast
  moreover from this have "\<bar>of_nat d - 3 / 2 * 10 ^ 9\<bar> \<le> (1 / 2 :: rat)"
    using validated_duration_cases [OF f] by blast
  moreover from calculation have "d \<le> d'"
    using validated_duration_cases [OF f, THEN conjunct2, THEN conjunct2, THEN conjunct2, THEN conjunct2, rule_format,
        of "3 / 2" 2 d d'] by simp
  ultimately show ?thesis by blast
qed

text \<open>A retry callable that raises, or answers with anything but a finite non-negative number,
  means no retry; a number in range is the delay; the policy itself raises only the panic of a
  number beyond the range of a \<open>Duration\<close>.\<close>
lemma should_retry_answers:
  "should_retry to_string callable attempt error status = Inr (Some d) \<longleftrightarrow>
     (\<exists>q \<ge> 0. callable attempt (map_option to_string error) status = Inr (AnswerFloat (F64_Fin q)) \<and>
        from_secs_f64 (F64_Fin q) = Some d)"
  "should_retry to_string callable attempt error status = Inl e \<longleftrightarrow>
     kind e = PanicException \<and> e = PyExc PanicException ''can not convert float seconds to Duration'' [] \<and>
     (\<exists>q \<ge> 0. callable attempt (map_option to_string error) status = Inr (AnswerFloat (F64_Fin q)) \<and>
        from_secs_f64 (F64_Fin q) = None)"
proof -
  let ?c = "callable attempt (map_option to_string error) status"
  show "should_retry to_string callable attempt error status = Inr (Some d) \<longleftrightarrow>
     (\<exists>q \<ge> 0. ?c = Inr (AnswerFloat (F64_Fin q)) \<and> from_secs_f64 (F64_Fin q) = Some d)"
    by (cases ?c rule: sum.exhaust; simp add: should_retry_def del: from_secs_f64.simps)
       (auto simp: res_simps not_less simp del: from_secs_f64.simps
         split: retry_answer.splits if_splits elim!: is_finite.elims)
  show "should_retry to_string callable attempt error status = Inl e \<longleftrightarrow>
     kind e = PanicException \<and> e = PyExc PanicException ''can not convert float seconds to Duration'' [] \<and>
     (\<exists>q \<ge> 0. ?c = Inr (AnswerFloat (F64_Fin q)) \<and> from_secs_f64 (F64_Fin q) = None)"
    by (cases ?c rule: sum.exhaust; simp add: should_retry_def del: from_secs_f64.simps)
       (auto simp: res_simps not_less simp del: from_secs_f64.simps
         split: retry_answer.splits if_splits elim!: is_finite.elims)
qed

end
