(* ===== verification/Client.thy ===== *)
theory Client imports Verbs Dns Retry Proxy begin

text \<open>
  \<open>src/src/client.rs\<close>: from the arguments of \<open>Client\<close> and \<open>BlockingClient\<close> to the calls on the upstream
  client builder, the browser presets, and the sessions a client makes. The build features are a
  parameter; so is what touches the file system.
\<close>

section \<open>Resolving arguments\<close>

text \<open>A Python argument that may be a string, an object of the expected class, or anything else.\<close>

datatype 'p str_or = StrArg string | ObjArg 'p | OtherArg

text \<open>A profile is an upstream preset, by the function that builds it, or an object's own.\<close>

datatype profile = Preset string | Custom handle | Randomized profile bool

definition resolve_tls_from_any :: "profile str_or \<Rightarrow> profile result" where
  "resolve_tls_from_any obj =
     (case obj of
        StrArg s \<Rightarrow> map_ok Preset (resolve_tls_profile s)
      | ObjArg p \<Rightarrow> Inr p
      | OtherArg \<Rightarrow> raise TypeError ''tls_profile must be str (preset name) or TlsProfile object'')"

definition resolve_h2_from_any :: "profile str_or \<Rightarrow> profile result" where
  "resolve_h2_from_any obj =
     (case obj of
        StrArg s \<Rightarrow> map_ok Preset (resolve_h2_profile s)
      | ObjArg p \<Rightarrow> Inr p
      | OtherArg \<Rightarrow> raise TypeError ''h2_profile must be str (preset name) or H2Profile object'')"

definition quic_profiles :: "(string \<times> string) list" where
  "quic_profiles =
    [(''chrome'', ''chrome_quic''), (''chrome_146'', ''chrome_146_quic''),
     (''chrome_150'', ''chrome_150_quic''), (''chrome_151'', ''chrome_151_quic''),
     (''chrome_152'', ''chrome_152_quic''), (''chrome_153'', ''chrome_153_quic''),
     (''chrome_154'', ''chrome_154_quic''), (''chrome_155'', ''chrome_155_quic'')]"

definition resolve_quic_from_any :: "features \<Rightarrow> profile str_or \<Rightarrow> profile result" where
  "resolve_quic_from_any ft obj =
     (if feature_quic_h3 ft then
        (case obj of
           StrArg s \<Rightarrow>
             (case map_of quic_profiles s of
                Some p \<Rightarrow> Inr (Preset p)
              | None \<Rightarrow> raise_with ValueError ''Unknown QUIC profile: '' [AStr s])
         | ObjArg p \<Rightarrow> Inr p
         | OtherArg \<Rightarrow> raise TypeError ''quic_profile must be str (preset name) or QuicProfile object'')
      else raise RuntimeError ''quic_profile requires building lkrequest-py with the 'quic-h3' feature'')"

definition resolve_tcp_from_any ::
  "(string \<Rightarrow> string + tcp_fingerprint) \<Rightarrow> tcp_fingerprint str_or \<Rightarrow> tcp_fingerprint result" where
  "resolve_tcp_from_any from_ja4t obj =
     (case obj of
        StrArg s \<Rightarrow> resolve_tcp_fingerprint from_ja4t s
      | ObjArg p \<Rightarrow> Inr p
      | OtherArg \<Rightarrow> raise TypeError
          ''tcp_fingerprint must be str (preset name or JA4T) or TcpFingerprint object'')"

datatype dns_config = System | Google | Cloudflare | Quad9 | GoogleHttps | CloudflareHttps | Quad9Https

definition resolve_dns_config :: "features \<Rightarrow> string \<Rightarrow> dns_config result" where
  "resolve_dns_config ft name =
     (if name = ''system'' then Inr System
      else if name = ''google'' then Inr Google
      else if name = ''cloudflare'' then Inr Cloudflare
      else if name = ''quad9'' then Inr Quad9
      else if name \<in> {''google_https'', ''cloudflare_https'', ''quad9_https''} then
        (if \<not> feature_doh ft
         then raise_with RuntimeError ''DNS config requires building lkrequest-py with the 'doh' feature'' [AStr name]
         else if name = ''google_https'' then Inr GoogleHttps
         else if name = ''cloudflare_https'' then Inr CloudflareHttps
         else Inr Quad9Https)
      else raise_with ValueError ''Unknown DNS config: '' [AStr name])"

section \<open>The client builder\<close>

text \<open>The fields assigned in the \<open>TimeoutConfig\<close> and \<open>ResourceLimits\<close> seeded from the defaults.\<close>

datatype timeout_field =
    TcDns duration | TcTcpConnect duration | TcTlsHandshake duration | TcTtfb duration
  | TcTotal duration | TcQuicConnect duration

datatype limit_field =
    RlMaxResponseBodySize usize | RlMaxConnectionsPerSession usize | RlMaxHeaderCount usize
  | RlMaxHeaderSize usize | RlMaxHeadersTotalSize usize | RlMinTransferRate usize
  | RlTransferRateWindow duration

datatype cb_call =
    CbPreset string | CbFingerprint profile | CbH2Profile profile | CbTcpFingerprint tcp_fingerprint
  | CbDefaultHeader string string | CbHeaderOrder "string list" | CbH3HeaderOrder "string list"
  | CbCookieOrder "string list" | CbTimeoutConfig "timeout_field list"
  | CbResourceLimits "limit_field list" | CbMaxPendingH2Requests usize | CbH2DispatchBatchSize usize
  | CbH2FallbackH1 bool | CbProxyFallbackDirect bool | CbRetryOnConnectionClose bool
  | CbMiddleware py_middleware | CbAddCaCertsPem bytes | CbAddCaCertDer bytes | CbVerify bool
  | CbUseNativeCerts | CbEchConfig bytes | CbSystemDnsCache duration "usize option" | CbDns dns_config
  | CbIpFamily ip_family | CbConnectTo string u16 socket_addr | CbKeylog handle
  | CbProtocolPolicy protocol_policy | CbSessionResumption handle | CbQuicFingerprint profile
  | CbQuicProfile profile | CbDisableHttp3 | CbRandomize handle
  | CbH2DataFramePolicy h2_data_frame_policy | CbRequireCloseNotify bool
  | CbTlsSessionResumptionPolicy handle | CbTlsSessionCachePartitionPolicy handle
  | CbMasque masque_config

text \<open>The options the constructors pass on as they are, then the ones they resolve.\<close>

record client_options =
  c_default_headers :: "pairs option"
  c_header_order :: "string list option"
  c_h3_header_order :: "string list option"
  c_cookie_order :: "string list option"
  c_dns_timeout :: "f64 option"
  c_tcp_connect_timeout :: "f64 option"
  c_tls_handshake_timeout :: "f64 option"
  c_ttfb_timeout :: "f64 option"
  c_total_timeout :: "f64 option"
  c_max_response_body_size :: "usize option"
  c_max_connections_per_session :: "usize option"
  c_max_pending_h2_requests :: "usize option"
  c_h2_dispatch_batch_size :: "usize option"
  c_quic_connect_timeout :: "f64 option"
  c_max_header_count :: "usize option"
  c_max_header_size :: "usize option"
  c_max_headers_total_size :: "usize option"
  c_min_transfer_rate :: "usize option"
  c_min_transfer_rate_window :: "f64 option"
  c_h2_fallback_h1 :: "bool option"
  c_proxy_fallback_direct :: "bool option"
  c_retry_on_connection_close :: "bool option"
  c_middleware :: "py_middleware list option"
  c_ca_cert :: "string option"
  c_ca_cert_pem :: "bytes option"
  c_ca_cert_der :: "bytes option"
  c_verify :: "bool option"
  c_use_native_certs :: bool
  c_ech_config :: "bytes option"
  c_dns :: "string option"
  c_ip_family :: "string option"
  c_connect_to :: "pairs option"
  c_system_dns_cache_ttl :: "f64 option"
  c_system_dns_cache_max_entries :: "usize option"
  c_keylog :: "string option"
  c_protocol_policy :: "protocol_policy option"
  c_session_resumption :: "handle option"
  c_disable_http3 :: bool
  c_randomize :: "handle option"
  c_h2_data_frame_policy :: "h2_data_frame_policy option"
  c_require_close_notify :: "bool option"
  c_tls_session_resumption_policy :: "handle option"
  c_tls_session_cache_partition_policy :: "handle option"

record client_config = client_options +
  c_tls_profile :: "profile option"
  c_h2_profile :: "profile option"
  c_tcp_fingerprint :: "tcp_fingerprint option"
  c_quic_fingerprint :: "profile option"
  c_quic_profile :: "profile option"
  c_masque :: "masque_config option"

record client_args = client_options +
  a_tls_profile :: "profile str_or option"
  a_h2_profile :: "profile str_or option"
  a_tcp_fingerprint :: "tcp_fingerprint str_or option"
  a_quic_fingerprint :: "profile str_or option"
  a_quic_profile :: "profile str_or option"
  a_masque :: "masque_obj option"

text \<open>
  The surroundings of a constructor: the features, \<open>std::fs::read\<close>, upstream's \<open>keylog_to_file\<close> and
  JA4T parser, and \<open>url::Host::parse\<close>.
\<close>

record client_env =
  env_features :: features
  env_read_file :: "string \<Rightarrow> string + bytes"
  env_keylog :: "string \<Rightarrow> string + handle"
  env_ja4t :: "string \<Rightarrow> string + tcp_fingerprint"
  env_host_parse :: "string \<Rightarrow> string option"

definition build_identity :: "('a) client_config_scheme \<Rightarrow> cb_call list \<Rightarrow> cb_call list" where
  "build_identity cfg b =
     (let b = log_some CbFingerprint (c_tls_profile cfg) b;
          b = log_some CbH2Profile (c_h2_profile cfg) b;
          b = log_some CbTcpFingerprint (c_tcp_fingerprint cfg) b;
          b = log_all (\<lambda>(k, v). CbDefaultHeader k v) (opt_list (c_default_headers cfg)) b;
          b = log_some CbHeaderOrder (c_header_order cfg) b;
          b = log_some CbH3HeaderOrder (c_h3_header_order cfg) b
      in log_some CbCookieOrder (c_cookie_order cfg) b)"

definition build_timeouts :: "('a) client_config_scheme \<Rightarrow> cb_call list \<Rightarrow> cb_call list result" where
  "build_timeouts cfg b =
     (if c_dns_timeout cfg \<noteq> None \<or> c_tcp_connect_timeout cfg \<noteq> None \<or>
         c_tls_handshake_timeout cfg \<noteq> None \<or> c_ttfb_timeout cfg \<noteq> None \<or>
         c_total_timeout cfg \<noteq> None \<or> c_quic_connect_timeout cfg \<noteq> None
      then
        ok_then (transpose_map validated_duration (c_dns_timeout cfg)) (\<lambda>dns.
        ok_then (transpose_map validated_duration (c_tcp_connect_timeout cfg)) (\<lambda>tcp.
        ok_then (transpose_map validated_duration (c_tls_handshake_timeout cfg)) (\<lambda>tls.
        ok_then (transpose_map validated_duration (c_ttfb_timeout cfg)) (\<lambda>ttfb.
        ok_then (transpose_map validated_duration (c_total_timeout cfg)) (\<lambda>tot.
        ok_then (transpose_map validated_duration (c_quic_connect_timeout cfg)) (\<lambda>quic.
          Inr (b @ [CbTimeoutConfig
            (log_some TcQuicConnect quic (log_some TcTotal tot (log_some TcTtfb ttfb
            (log_some TcTlsHandshake tls (log_some TcTcpConnect tcp (log_some TcDns dns []))))))])))))))
      else Inr b)"

definition build_limits :: "('a) client_config_scheme \<Rightarrow> cb_call list \<Rightarrow> cb_call list result" where
  "build_limits cfg b =
     (if c_max_response_body_size cfg \<noteq> None \<or> c_max_connections_per_session cfg \<noteq> None \<or>
         c_max_header_count cfg \<noteq> None \<or> c_max_header_size cfg \<noteq> None \<or>
         c_max_headers_total_size cfg \<noteq> None \<or> c_min_transfer_rate cfg \<noteq> None
      then
        let rl = log_some RlMaxHeadersTotalSize (c_max_headers_total_size cfg)
                (log_some RlMaxHeaderSize (c_max_header_size cfg)
                (log_some RlMaxHeaderCount (c_max_header_count cfg)
                (log_some RlMaxConnectionsPerSession (c_max_connections_per_session cfg)
                (log_some RlMaxResponseBodySize (c_max_response_body_size cfg) [])))) in
        ok_then
          (case c_min_transfer_rate cfg of
             None \<Rightarrow> Inr rl
           | Some rate \<Rightarrow>
               ok_then (transpose_map validated_duration (c_min_transfer_rate_window cfg)) (\<lambda>w.
                 Inr (log_some RlTransferRateWindow w (rl @ [RlMinTransferRate rate]))))
          (\<lambda>rl. Inr (b @ [CbResourceLimits rl]))
      else Inr b)"

definition build_h2 :: "('a) client_config_scheme \<Rightarrow> cb_call list \<Rightarrow> cb_call list result" where
  "build_h2 cfg b =
     (if c_max_pending_h2_requests cfg = Some 0
      then raise ValueError ''max_pending_h2_requests must be greater than 0 (omit it for unbounded)''
      else
        let b = log_some CbMaxPendingH2Requests (c_max_pending_h2_requests cfg) b in
        if c_h2_dispatch_batch_size cfg = Some 0
        then raise ValueError ''h2_dispatch_batch_size must be greater than 0 (omit it for the default of 1)''
        else Inr (log_some CbH2DispatchBatchSize (c_h2_dispatch_batch_size cfg) b))"

definition build_flags :: "('a) client_config_scheme \<Rightarrow> cb_call list \<Rightarrow> cb_call list" where
  "build_flags cfg b =
     (let b = log_some CbH2FallbackH1 (c_h2_fallback_h1 cfg) b;
          b = log_some CbProxyFallbackDirect (c_proxy_fallback_direct cfg) b;
          b = log_some CbRetryOnConnectionClose (c_retry_on_connection_close cfg) b
      in log_all CbMiddleware (opt_list (c_middleware cfg)) b)"

definition build_certs ::
  "client_env \<Rightarrow> ('a) client_config_scheme \<Rightarrow> cb_call list \<Rightarrow> cb_call list result" where
  "build_certs env cfg b =
     ok_then (transpose_map (\<lambda>path. case env_read_file env path of
           Inl e \<Rightarrow> raise_with IOError ''Failed to read CA cert'' [AStr path, AStr e]
         | Inr pem \<Rightarrow> Inr pem) (c_ca_cert cfg)) (\<lambda>pem_data.
     let b = log_some CbAddCaCertsPem pem_data b;
         b = log_some CbAddCaCertsPem (c_ca_cert_pem cfg) b;
         b = log_some CbAddCaCertDer (c_ca_cert_der cfg) b;
         b = log_some CbVerify (c_verify cfg) b;
         b = log_if (c_use_native_certs cfg) CbUseNativeCerts b
     in Inr (log_some CbEchConfig (c_ech_config cfg) b))"

definition build_dns ::
  "client_env \<Rightarrow> ('a) client_config_scheme \<Rightarrow> cb_call list \<Rightarrow> cb_call list result" where
  "build_dns env cfg b =
     (if c_system_dns_cache_ttl cfg \<noteq> None \<and> c_dns cfg \<noteq> None
      then raise ValueError ''system_dns_cache_ttl cannot be combined with dns''
      else if c_system_dns_cache_max_entries cfg \<noteq> None \<and> c_system_dns_cache_ttl cfg = None
      then raise ValueError ''system_dns_cache_max_entries requires system_dns_cache_ttl''
      else
        ok_then
          (case c_system_dns_cache_ttl cfg of
             Some ttl \<Rightarrow> ok_then (validated_duration ttl) (\<lambda>d.
               Inr (b @ [CbSystemDnsCache d (c_system_dns_cache_max_entries cfg)]))
           | None \<Rightarrow> ok_then (transpose_map (resolve_dns_config (env_features env)) (c_dns cfg)) (\<lambda>d.
               Inr (log_some CbDns d b))) (\<lambda>b.
        ok_then (transpose_map parse_ip_family (c_ip_family cfg)) (\<lambda>family.
        let family = (case family of Some f \<Rightarrow> f | None \<Rightarrow> Any);
            b = b @ [CbIpFamily family] in
        case c_connect_to cfg of
          None \<Rightarrow> Inr b
        | Some entries \<Rightarrow>
            ok_then (parse_connect_to (env_host_parse env) entries family) (\<lambda>os.
              Inr (log_all (\<lambda>o1. CbConnectTo (o_host o1) (o_port o1) (o_address o1)) os b)))))"

definition build_tail ::
  "client_env \<Rightarrow> ('a) client_config_scheme \<Rightarrow> cb_call list \<Rightarrow> cb_call list result" where
  "build_tail env cfg b =
     ok_then (transpose_map (\<lambda>path. case env_keylog env path of
           Inl e \<Rightarrow> raise_with IOError ''Failed to open keylog file'' [AStr path, AStr e]
         | Inr cb \<Rightarrow> Inr cb) (c_keylog cfg)) (\<lambda>keylog.
     let b = log_some CbKeylog keylog b;
         b = log_some CbProtocolPolicy (c_protocol_policy cfg) b;
         b = log_some CbSessionResumption (c_session_resumption cfg) b;
         b = log_some CbQuicFingerprint (c_quic_fingerprint cfg) b;
         b = log_some CbQuicProfile (c_quic_profile cfg) b;
         b = log_if (c_disable_http3 cfg) CbDisableHttp3 b;
         b = log_some CbRandomize (c_randomize cfg) b;
         b = log_some CbH2DataFramePolicy (c_h2_data_frame_policy cfg) b;
         b = log_some CbRequireCloseNotify (c_require_close_notify cfg) b;
         b = log_some CbTlsSessionResumptionPolicy (c_tls_session_resumption_policy cfg) b;
         b = log_some CbTlsSessionCachePartitionPolicy (c_tls_session_cache_partition_policy cfg) b
     in Inr (log_some CbMasque (c_masque cfg) b))"

definition build_client :: "client_env \<Rightarrow> client_config \<Rightarrow> cb_call list result" where
  "build_client env cfg =
     ok_then (build_timeouts cfg (build_identity cfg [])) (\<lambda>b.
     ok_then (build_limits cfg b) (\<lambda>b.
     ok_then (build_h2 cfg b) (\<lambda>b.
     ok_then (build_certs env cfg (build_flags cfg b)) (\<lambda>b.
     ok_then (build_dns env cfg b) (build_tail env cfg)))))"

section \<open>Constructors\<close>

definition client_new :: "client_env \<Rightarrow> client_args \<Rightarrow> cb_call list result" where
  "client_new env a =
     ok_then (masque_resolve (env_features env) (a_masque a)) (\<lambda>masque.
     ok_then (transpose_map resolve_tls_from_any (a_tls_profile a)) (\<lambda>tls.
     ok_then (transpose_map resolve_h2_from_any (a_h2_profile a)) (\<lambda>h2.
     ok_then (transpose_map (resolve_tcp_from_any (env_ja4t env)) (a_tcp_fingerprint a)) (\<lambda>tcp.
     ok_then (transpose_map resolve_tls_from_any (a_quic_fingerprint a)) (\<lambda>quic_fp.
     ok_then (transpose_map (resolve_quic_from_any (env_features env)) (a_quic_profile a)) (\<lambda>quic.
       build_client env (client_options.extend (client_options.truncate a)
         (client_config.fields tls h2 tcp quic_fp quic masque))))))))"

definition blocking_client_new :: "client_env \<Rightarrow> client_args \<Rightarrow> cb_call list result" where
  "blocking_client_new env a =
     ok_then (masque_resolve (env_features env) (a_masque a)) (\<lambda>masque.
     ok_then (transpose_map resolve_tls_from_any (a_tls_profile a)) (\<lambda>tls.
     ok_then (transpose_map resolve_h2_from_any (a_h2_profile a)) (\<lambda>h2.
     ok_then (transpose_map (resolve_tcp_from_any (env_ja4t env)) (a_tcp_fingerprint a)) (\<lambda>tcp.
     ok_then (transpose_map resolve_tls_from_any (a_quic_fingerprint a)) (\<lambda>quic_fp.
     ok_then (transpose_map (resolve_quic_from_any (env_features env)) (a_quic_profile a)) (\<lambda>quic.
       build_client env (client_options.extend (client_options.truncate a)
         (client_config.fields tls h2 tcp quic_fp quic masque))))))))"

section \<open>Browser presets\<close>

definition build_preset_client :: "string \<Rightarrow> tcp_fingerprint \<Rightarrow> cb_call list" where
  "build_preset_client preset tcp = [CbPreset preset, CbTcpFingerprint tcp]"

text \<open>Static method, upstream preset function, TCP preset.\<close>

definition client_chrome_presets :: "(string \<times> string \<times> string) list" where
  "client_chrome_presets =
    [(''chrome_131'', ''chrome_131'', ''chrome''),
     (''chrome_144'', ''chrome_144'', ''chrome''),
     (''chrome_145'', ''chrome_145'', ''chrome''),
     (''chrome_146'', ''chrome_146'', ''chrome''),
     (''chrome_147'', ''chrome_147'', ''chrome''),
     (''chrome_148'', ''chrome_148'', ''chrome''),
     (''chrome_149'', ''chrome_149'', ''chrome''),
     (''chrome_150'', ''chrome_150'', ''chrome''),
     (''chrome_151'', ''chrome_151'', ''chrome''),
     (''chrome_152'', ''chrome_152'', ''chrome''),
     (''chrome_153'', ''chrome_153'', ''chrome''),
     (''chrome_154'', ''chrome_154'', ''chrome''),
     (''chrome_155'', ''chrome_155'', ''chrome'')]"

definition client_firefox_presets :: "(string \<times> string \<times> string) list" where
  "client_firefox_presets =
    [(''firefox_133'', ''firefox_133'', ''firefox''),
     (''firefox_147'', ''firefox_147'', ''firefox''),
     (''firefox_156'', ''firefox_156'', ''firefox'')]"

definition client_safari_presets :: "(string \<times> string \<times> string) list" where
  "client_safari_presets =
    [(''safari_18'', ''safari_18'', ''safari''),
     (''safari_26'', ''safari_26'', ''safari'')]"

definition blocking_chrome_presets :: "(string \<times> string \<times> string) list" where
  "blocking_chrome_presets =
    [(''chrome_131'', ''chrome_131'', ''chrome''),
     (''chrome_144'', ''chrome_144'', ''chrome''),
     (''chrome_145'', ''chrome_145'', ''chrome''),
     (''chrome_146'', ''chrome_146'', ''chrome''),
     (''chrome_147'', ''chrome_147'', ''chrome''),
     (''chrome_148'', ''chrome_148'', ''chrome''),
     (''chrome_149'', ''chrome_149'', ''chrome''),
     (''chrome_150'', ''chrome_150'', ''chrome''),
     (''chrome_151'', ''chrome_151'', ''chrome''),
     (''chrome_152'', ''chrome_152'', ''chrome''),
     (''chrome_153'', ''chrome_153'', ''chrome''),
     (''chrome_154'', ''chrome_154'', ''chrome''),
     (''chrome_155'', ''chrome_155'', ''chrome'')]"

definition blocking_firefox_presets :: "(string \<times> string \<times> string) list" where
  "blocking_firefox_presets =
    [(''firefox_133'', ''firefox_133'', ''firefox''),
     (''firefox_147'', ''firefox_147'', ''firefox''),
     (''firefox_156'', ''firefox_156'', ''firefox'')]"

definition blocking_safari_presets :: "(string \<times> string \<times> string) list" where
  "blocking_safari_presets =
    [(''safari_18'', ''safari_18'', ''safari''),
     (''safari_26'', ''safari_26'', ''safari'')]"

definition client_presets :: "(string \<times> string \<times> string) list" where
  "client_presets = client_chrome_presets @ client_firefox_presets @ client_safari_presets"

definition blocking_presets :: "(string \<times> string \<times> string) list" where
  "blocking_presets = blocking_chrome_presets @ blocking_firefox_presets @ blocking_safari_presets"

definition preset_client :: "(string \<times> string \<times> string) list \<Rightarrow> string \<Rightarrow> cb_call list option" where
  "preset_client table name =
     map_option (\<lambda>(preset, tcp). build_preset_client preset (TcpPreset tcp)) (map_of table name)"

text \<open>
  \<open>randomize_fingerprint\<close>: the layers read back from the client, and the builder calls for the new
  one.
\<close>

record fingerprint_layers =
  layer_tls :: profile
  layer_h2 :: profile
  layer_tcp :: "tcp_fingerprint option"
  layer_quic_tls :: "profile option"

definition randomize_fingerprint :: "fingerprint_layers \<Rightarrow> bool \<Rightarrow> cb_call list" where
  "randomize_fingerprint cl shuffle_extensions =
     (let b = [CbFingerprint (Randomized (layer_tls cl) shuffle_extensions), CbH2Profile (layer_h2 cl)];
          b = log_some CbTcpFingerprint (layer_tcp cl) b
      in log_some CbQuicFingerprint (layer_quic_tls cl) b)"

section \<open>Sessions\<close>

datatype sb_call =
    SbProxy string | SbProxyConfig nat | SbRedirectPolicyNone | SbMaxRedirects u32
  | SbHttp1Only | SbHttp2Only | SbHttp3Only | SbHttp3WithFallback
  | SbRetryPolicy retry_policy | SbMiddleware string ref | SbDefaultAcceptEncoding handle
  | SbEchConfig bytes | SbMaxConnections usize | SbIdleTimeout duration
  | SbProtocolPolicy protocol_policy | SbHttpIntent http_intent
  | SbBrokenQuicPolicy broken_quic_policy | SbH3RetryMode h3_retry_mode
  | SbHeaderOrder "string list" | SbCookieOrder "string list" | SbH3HeaderOrder "string list"
  | SbHttpsOnly bool | SbHstsPolicy hsts_policy | SbNetworkPartitionContext handle

definition apply_session_proxy :: "sb_call list \<Rightarrow> proxy_obj \<Rightarrow> sb_call list result" where
  "apply_session_proxy b p =
     (case p of
        ProxyStr u \<Rightarrow> Inr (b @ [SbProxy u])
      | ProxyConfigObj c \<Rightarrow> Inr (b @ [SbProxyConfig c])
      | ProxyOther \<Rightarrow> raise TypeError ''proxy must be str or ProxyConfig'')"

text \<open>The retry argument: one of the two policy classes, any other callable, anything else.\<close>

datatype retry_obj = RetryPolicyObj retry_policy | RetryCallable pyobj | RetryOther

definition apply_retry_policy :: "sb_call list \<Rightarrow> retry_obj \<Rightarrow> sb_call list result" where
  "apply_retry_policy b r =
     (case r of
        RetryPolicyObj p \<Rightarrow> Inr (b @ [SbRetryPolicy p])
      | RetryCallable f \<Rightarrow> Inr (b @ [SbRetryPolicy (CallableRetry f)])
      | RetryOther \<Rightarrow> raise TypeError ''retry must be ExponentialBackoff, FixedInterval, or a callable'')"

fun apply_middlewares_to_session ::
  "sb_call list \<Rightarrow> py_middleware list \<Rightarrow> heap \<Rightarrow> sb_call list \<times> ref list \<times> heap" where
  "apply_middlewares_to_session b [] h = (b, [], h)"
| "apply_middlewares_to_session b (mw # mws) h =
     (let (r, h) = new_slots mw h;
          (b, rs, h) = apply_middlewares_to_session (b @ [SbMiddleware (mw_name mw) r]) mws h
      in (b, r # rs, h))"

definition apply_h3_retry_mode :: "features \<Rightarrow> sb_call list \<Rightarrow> py_h3_retry_mode \<Rightarrow> sb_call list result" where
  "apply_h3_retry_mode ft b mode =
     (if feature_quic_h3 ft then Inr (b @ [SbH3RetryMode (into_h3_retry mode)])
      else case mode of
          PySafe \<Rightarrow> Inr b
        | PyChrome155ProtocolErrors \<Rightarrow> raise RuntimeError
            ''h3_retry_mode=H3RetryMode.Chrome155ProtocolErrors requires the 'quic-h3' feature'')"

text \<open>\<open>if let Some(x) = o { b = f(b, x)?; }\<close>.\<close>

fun apply_some :: "('b \<Rightarrow> 'a \<Rightarrow> 'b result) \<Rightarrow> 'b \<Rightarrow> 'a option \<Rightarrow> 'b result" where
  "apply_some f b None = Inr b"
| "apply_some f b (Some x) = f b x"

record session_args =
  s_proxy :: "proxy_obj option"
  s_max_redirects :: "u32 option"
  s_allow_redirects :: bool
  s_http1_only :: bool
  s_http2_only :: bool
  s_http3_only :: bool
  s_http3_with_fallback :: bool
  s_retry :: "retry_obj option"
  s_middleware :: "py_middleware list option"
  s_accept_encoding :: "handle option"
  s_ech_config :: "bytes option"
  s_max_connections :: "usize option"
  s_idle_timeout :: "f64 option"
  s_on_request :: "pyobj option"
  s_on_response :: "pyobj option"
  s_protocol_policy :: "protocol_policy option"
  s_http_intent :: "py_http_intent option"
  s_broken_quic_policy :: "py_broken_quic_policy option"
  s_h3_retry_mode :: "py_h3_retry_mode option"
  s_header_order :: "string list option"
  s_h3_header_order :: "string list option"
  s_cookie_order :: "string list option"
  s_https_only :: bool
  s_hsts :: "hsts_kind option"
  s_base_url :: "string option"
  s_network_partition_context :: "handle option"

definition redirect_calls :: "session_args \<Rightarrow> sb_call list \<Rightarrow> sb_call list" where
  "redirect_calls a b =
     (if \<not> s_allow_redirects a then b @ [SbRedirectPolicyNone]
      else log_some SbMaxRedirects (s_max_redirects a) b)"

definition client_session ::
  "features \<Rightarrow> (sb_call list \<Rightarrow> handle) \<Rightarrow> session_args \<Rightarrow> heap \<Rightarrow>
   (py_session \<times> sb_call list \<times> heap) result" where
  "client_session ft build a h =
     ok_then (apply_some apply_session_proxy [] (s_proxy a)) (\<lambda>b.
     let b = redirect_calls a b;
         b = log_if (s_http1_only a) SbHttp1Only b;
         b = log_if (s_http2_only a) SbHttp2Only b;
         b = log_if (s_http3_only a) SbHttp3Only b;
         b = log_if (s_http3_with_fallback a) SbHttp3WithFallback b in
     ok_then (apply_some apply_retry_policy b (s_retry a)) (\<lambda>b.
     let (b, middleware_slots, h) = apply_middlewares_to_session b (opt_list (s_middleware a)) h;
         b = log_some SbDefaultAcceptEncoding (s_accept_encoding a) b;
         b = log_some SbEchConfig (s_ech_config a) b;
         b = log_some SbMaxConnections (s_max_connections a) b in
     ok_then (transpose_map validated_duration (s_idle_timeout a)) (\<lambda>idle.
     let b = log_some SbIdleTimeout idle b;
         b = log_some SbProtocolPolicy (s_protocol_policy a) b;
         b = log_some SbHttpIntent (map_option into_intent (s_http_intent a)) b;
         b = log_some SbBrokenQuicPolicy (map_option into_broken_quic (s_broken_quic_policy a)) b in
     ok_then (apply_some (apply_h3_retry_mode ft) b (s_h3_retry_mode a)) (\<lambda>b.
     let b = log_some SbHeaderOrder (s_header_order a) b;
         b = log_some SbCookieOrder (s_cookie_order a) b;
         b = log_some SbH3HeaderOrder (s_h3_header_order a) b;
         b = log_if (s_https_only a) (SbHttpsOnly True) b;
         b = log_some (\<lambda>k. SbHstsPolicy (hsts_apply k)) (s_hsts a) b;
         b = log_some SbNetworkPartitionContext (s_network_partition_context a) b;
         (st, h) = session_state_default h;
         st = with_middleware middleware_slots st;
         h = (case s_on_request a of Some f \<Rightarrow> push_request (hooks st) f h | None \<Rightarrow> h);
         h = (case s_on_response a of Some f \<Rightarrow> push_response (hooks st) f h | None \<Rightarrow> h)
     in Inr (\<lparr>inner = build b, state = st, base_url = s_base_url a\<rparr>, b, h)))))"

definition blocking_client_session ::
  "features \<Rightarrow> (sb_call list \<Rightarrow> handle) \<Rightarrow> session_args \<Rightarrow> heap \<Rightarrow>
   (py_session \<times> sb_call list \<times> heap) result" where
  "blocking_client_session ft build a h =
     ok_then (apply_some apply_session_proxy [] (s_proxy a)) (\<lambda>b.
     let b = redirect_calls a b;
         b = log_if (s_http1_only a) SbHttp1Only b;
         b = log_if (s_http2_only a) SbHttp2Only b;
         b = log_if (s_http3_only a) SbHttp3Only b;
         b = log_if (s_http3_with_fallback a) SbHttp3WithFallback b in
     ok_then (apply_some apply_retry_policy b (s_retry a)) (\<lambda>b.
     let (b, middleware_slots, h) = apply_middlewares_to_session b (opt_list (s_middleware a)) h;
         b = log_some SbDefaultAcceptEncoding (s_accept_encoding a) b;
         b = log_some SbEchConfig (s_ech_config a) b;
         b = log_some SbMaxConnections (s_max_connections a) b in
     ok_then (transpose_map validated_duration (s_idle_timeout a)) (\<lambda>idle.
     let b = log_some SbIdleTimeout idle b;
         b = log_some SbProtocolPolicy (s_protocol_policy a) b;
         b = log_some SbHttpIntent (map_option into_intent (s_http_intent a)) b;
         b = log_some SbBrokenQuicPolicy (map_option into_broken_quic (s_broken_quic_policy a)) b in
     ok_then (apply_some (apply_h3_retry_mode ft) b (s_h3_retry_mode a)) (\<lambda>b.
     let b = log_some SbHeaderOrder (s_header_order a) b;
         b = log_some SbCookieOrder (s_cookie_order a) b;
         b = log_some SbH3HeaderOrder (s_h3_header_order a) b;
         b = log_if (s_https_only a) (SbHttpsOnly True) b;
         b = log_some (\<lambda>k. SbHstsPolicy (hsts_apply k)) (s_hsts a) b;
         b = log_some SbNetworkPartitionContext (s_network_partition_context a) b;
         (st, h) = session_state_default h;
         st = with_middleware middleware_slots st;
         h = (case s_on_request a of Some f \<Rightarrow> push_request (hooks st) f h | None \<Rightarrow> h);
         h = (case s_on_response a of Some f \<Rightarrow> push_response (hooks st) f h | None \<Rightarrow> h)
     in Inr (\<lparr>inner = build b, state = st, base_url = s_base_url a\<rparr>, b, h)))))"

section \<open>Defaults\<close>

text \<open>\<open>ClientConfig::default()\<close>, and the defaults of the two \<open>pyo3\<close> signatures.\<close>

definition client_config_default :: client_config where
  "client_config_default =
    \<lparr>c_default_headers = None, c_header_order = None, c_h3_header_order = None,
     c_cookie_order = None, c_dns_timeout = None, c_tcp_connect_timeout = None,
     c_tls_handshake_timeout = None, c_ttfb_timeout = None, c_total_timeout = None,
     c_max_response_body_size = None, c_max_connections_per_session = None,
     c_max_pending_h2_requests = None, c_h2_dispatch_batch_size = None,
     c_quic_connect_timeout = None, c_max_header_count = None, c_max_header_size = None,
     c_max_headers_total_size = None, c_min_transfer_rate = None,
     c_min_transfer_rate_window = None, c_h2_fallback_h1 = None, c_proxy_fallback_direct = None,
     c_retry_on_connection_close = None, c_middleware = None, c_ca_cert = None,
     c_ca_cert_pem = None, c_ca_cert_der = None, c_verify = None, c_use_native_certs = False,
     c_ech_config = None, c_dns = None, c_ip_family = None, c_connect_to = None,
     c_system_dns_cache_ttl = None, c_system_dns_cache_max_entries = None, c_keylog = None,
     c_protocol_policy = None, c_session_resumption = None, c_disable_http3 = False,
     c_randomize = None, c_h2_data_frame_policy = None, c_require_close_notify = None,
     c_tls_session_resumption_policy = None, c_tls_session_cache_partition_policy = None,
     c_tls_profile = None, c_h2_profile = None, c_tcp_fingerprint = None,
     c_quic_fingerprint = None, c_quic_profile = None, c_masque = None\<rparr>"

definition client_args_default :: client_args where
  "client_args_default =
    \<lparr>c_default_headers = None, c_header_order = None, c_h3_header_order = None,
     c_cookie_order = None, c_dns_timeout = None, c_tcp_connect_timeout = None,
     c_tls_handshake_timeout = None, c_ttfb_timeout = None, c_total_timeout = None,
     c_max_response_body_size = None, c_max_connections_per_session = None,
     c_max_pending_h2_requests = None, c_h2_dispatch_batch_size = None,
     c_quic_connect_timeout = None, c_max_header_count = None, c_max_header_size = None,
     c_max_headers_total_size = None, c_min_transfer_rate = None,
     c_min_transfer_rate_window = None, c_h2_fallback_h1 = None, c_proxy_fallback_direct = None,
     c_retry_on_connection_close = None, c_middleware = None, c_ca_cert = None,
     c_ca_cert_pem = None, c_ca_cert_der = None, c_verify = None, c_use_native_certs = False,
     c_ech_config = None, c_dns = None, c_ip_family = None, c_connect_to = None,
     c_system_dns_cache_ttl = None, c_system_dns_cache_max_entries = None, c_keylog = None,
     c_protocol_policy = None, c_session_resumption = None, c_disable_http3 = False,
     c_randomize = None, c_h2_data_frame_policy = None, c_require_close_notify = None,
     c_tls_session_resumption_policy = None, c_tls_session_cache_partition_policy = None,
     a_tls_profile = None, a_h2_profile = None, a_tcp_fingerprint = None,
     a_quic_fingerprint = None, a_quic_profile = None, a_masque = None\<rparr>"

definition blocking_client_args_default :: client_args where
  "blocking_client_args_default =
    \<lparr>c_default_headers = None, c_header_order = None, c_h3_header_order = None,
     c_cookie_order = None, c_dns_timeout = None, c_tcp_connect_timeout = None,
     c_tls_handshake_timeout = None, c_ttfb_timeout = None, c_total_timeout = None,
     c_max_response_body_size = None, c_max_connections_per_session = None,
     c_max_pending_h2_requests = None, c_h2_dispatch_batch_size = None,
     c_quic_connect_timeout = None, c_max_header_count = None, c_max_header_size = None,
     c_max_headers_total_size = None, c_min_transfer_rate = None,
     c_min_transfer_rate_window = None, c_h2_fallback_h1 = None, c_proxy_fallback_direct = None,
     c_retry_on_connection_close = None, c_middleware = None, c_ca_cert = None,
     c_ca_cert_pem = None, c_ca_cert_der = None, c_verify = None, c_use_native_certs = False,
     c_ech_config = None, c_dns = None, c_ip_family = None, c_connect_to = None,
     c_system_dns_cache_ttl = None, c_system_dns_cache_max_entries = None, c_keylog = None,
     c_protocol_policy = None, c_session_resumption = None, c_disable_http3 = False,
     c_randomize = None, c_h2_data_frame_policy = None, c_require_close_notify = None,
     c_tls_session_resumption_policy = None, c_tls_session_cache_partition_policy = None,
     a_tls_profile = None, a_h2_profile = None, a_tcp_fingerprint = None,
     a_quic_fingerprint = None, a_quic_profile = None, a_masque = None\<rparr>"

definition session_args_default :: session_args where
  "session_args_default =
    \<lparr>s_proxy = None, s_max_redirects = None, s_allow_redirects = True,
     s_http1_only = False, s_http2_only = False, s_http3_only = False,
     s_http3_with_fallback = False, s_retry = None, s_middleware = None,
     s_accept_encoding = None, s_ech_config = None, s_max_connections = None,
     s_idle_timeout = None, s_on_request = None, s_on_response = None, s_protocol_policy = None,
     s_http_intent = None, s_broken_quic_policy = None, s_h3_retry_mode = None,
     s_header_order = None, s_h3_header_order = None, s_cookie_order = None,
     s_https_only = False, s_hsts = None, s_base_url = None,
     s_network_partition_context = None\<rparr>"

section \<open>Lemmas\<close>

fun resolver_call :: "cb_call \<Rightarrow> bool" where
  "resolver_call (CbDns d) = True"
| "resolver_call (CbSystemDnsCache d n) = True"
| "resolver_call c = False"

fun family_call :: "cb_call \<Rightarrow> bool" where
  "family_call (CbIpFamily f) = True"
| "family_call c = False"

fun connect_call :: "cb_call \<Rightarrow> bool" where
  "connect_call (CbConnectTo h p a) = True"
| "connect_call c = False"

fun zero_h2_call :: "cb_call \<Rightarrow> bool" where
  "zero_h2_call (CbMaxPendingH2Requests n) = (n = 0)"
| "zero_h2_call (CbH2DispatchBatchSize n) = (n = 0)"
| "zero_h2_call c = False"

lemma opt_list_simps [simp]: "opt_list None = []" "opt_list (Some xs) = xs"
  by (simp_all add: opt_list_def)

lemma filter_default_headers [log_simps]:
  "(\<And>k v. \<not> P (CbDefaultHeader k v)) \<Longrightarrow>
     filter P (map (\<lambda>(k, v). CbDefaultHeader k v) ps) = []"
  by (induction ps) auto

text \<open>Which stage of \<open>build_client\<close> makes which calls: what it appends, seen through a filter.\<close>

lemma filter_identity:
  "filter resolver_call (build_identity cfg b) = filter resolver_call b"
  "filter family_call (build_identity cfg b) = filter family_call b"
  "filter connect_call (build_identity cfg b) = filter connect_call b"
  "filter zero_h2_call (build_identity cfg b) = filter zero_h2_call b"
  by (simp_all add: build_identity_def log_simps Let_def)

lemma filter_timeouts:
  assumes "build_timeouts cfg b = Inr b'"
  shows "filter resolver_call b' = filter resolver_call b"
    and "filter family_call b' = filter family_call b"
    and "filter connect_call b' = filter connect_call b"
    and "filter zero_h2_call b' = filter zero_h2_call b"
  using assms by (auto simp: build_timeouts_def res_simps split: if_splits)

lemma filter_limits:
  assumes "build_limits cfg b = Inr b'"
  shows "filter resolver_call b' = filter resolver_call b"
    and "filter family_call b' = filter family_call b"
    and "filter connect_call b' = filter connect_call b"
    and "filter zero_h2_call b' = filter zero_h2_call b"
  using assms by (auto simp: build_limits_def Let_def res_simps split: if_splits)

lemma filter_h2:
  assumes "build_h2 cfg b = Inr b'"
  shows "filter resolver_call b' = filter resolver_call b"
    and "filter family_call b' = filter family_call b"
    and "filter connect_call b' = filter connect_call b"
    and "filter zero_h2_call b' = filter zero_h2_call b"
  using assms
  by (cases "c_max_pending_h2_requests cfg"; cases "c_h2_dispatch_batch_size cfg";
      auto simp: build_h2_def Let_def split: if_splits)+

lemma filter_flags:
  "filter resolver_call (build_flags cfg b) = filter resolver_call b"
  "filter family_call (build_flags cfg b) = filter family_call b"
  "filter connect_call (build_flags cfg b) = filter connect_call b"
  "filter zero_h2_call (build_flags cfg b) = filter zero_h2_call b"
  by (simp_all add: build_flags_def log_simps Let_def)

lemma filter_certs:
  assumes "build_certs env cfg b = Inr b'"
  shows "filter resolver_call b' = filter resolver_call b"
    and "filter family_call b' = filter family_call b"
    and "filter connect_call b' = filter connect_call b"
    and "filter zero_h2_call b' = filter zero_h2_call b"
  using assms by (auto simp: build_certs_def res_simps Let_def log_simps)

lemma filter_tail:
  assumes "build_tail env cfg b = Inr b'"
  shows "filter resolver_call b' = filter resolver_call b"
    and "filter family_call b' = filter family_call b"
    and "filter connect_call b' = filter connect_call b"
    and "filter zero_h2_call b' = filter zero_h2_call b"
  using assms by (auto simp: build_tail_def res_simps Let_def log_simps)

lemma filter_dns:
  assumes "build_dns env cfg b = Inr b'" and "filter resolver_call b = []"
    and "filter family_call b = []" and "filter connect_call b = []"
  shows "length (filter resolver_call b') \<le> 1"
    and "\<exists>family os. transpose_map parse_ip_family (c_ip_family cfg) =
           Inr (if c_ip_family cfg = None then None else Some family) \<and>
         (c_ip_family cfg = None \<longrightarrow> family = Any) \<and>
         filter family_call b' = [CbIpFamily family] \<and>
         filter connect_call b' = map (\<lambda>o1. CbConnectTo (o_host o1) (o_port o1) (o_address o1)) os \<and>
         parse_connect_to (env_host_parse env) (opt_list (c_connect_to cfg)) family = Inr os"
    and "filter zero_h2_call b' = filter zero_h2_call b"
  using assms
  by (auto simp: build_dns_def res_simps Let_def log_simps log_all_def parse_connect_to_def
      split: if_splits option.splits intro: exI [of _ "[]"])

section \<open>Properties\<close>

text \<open>C13: What a constructor hands to the upstream builder is none of what the source says it panics on, and never
  leaves a choice to the order of its setters: no zero HTTP/2 limit, at most one resolver, exactly one
  address family, every dial override with a host that \<open>url::Host::parse\<close> yielded, non-zero ports and an
  address of that family, and no origin overridden twice.\<close>
theorem build_client_safe:
  assumes "build_client env cfg = Inr b"
  shows "CbMaxPendingH2Requests 0 \<notin> set b \<and> CbH2DispatchBatchSize 0 \<notin> set b \<and>
    length (filter resolver_call b) \<le> 1 \<and>
    (\<exists>family. filter family_call b = [CbIpFamily family] \<and>
      (\<forall>h p a. CbConnectTo h p a \<in> set b \<longrightarrow>
        (\<exists>host. env_host_parse env host = Some h) \<and> p \<noteq> 0 \<and> port a \<noteq> 0 \<and> family_allows family (ip a)) \<and>
      distinct (filter connect_call b) \<and>
      (\<forall>h p a a'. CbConnectTo h p a \<in> set b \<and> CbConnectTo h p a' \<in> set b \<longrightarrow> a = a'))"
proof -
  obtain b1 b2 b3 b4 b5 where
    t: "build_timeouts cfg (build_identity cfg []) = Inr b1" and l: "build_limits cfg b1 = Inr b2"
    and h: "build_h2 cfg b2 = Inr b3" and c: "build_certs env cfg (build_flags cfg b3) = Inr b4"
    and d: "build_dns env cfg b4 = Inr b5" and e: "build_tail env cfg b5 = Inr b"
    using assms by (auto simp: build_client_def res_simps)
  note fs = filter_identity filter_timeouts [OF t] filter_limits [OF l] filter_h2 [OF h] filter_flags
    filter_certs [OF c] filter_tail [OF e]
  have none: "filter resolver_call b4 = []" "filter family_call b4 = []" "filter connect_call b4 = []"
    by (simp_all add: fs)
  obtain family os where f: "filter family_call b = [CbIpFamily family]" and
    os: "filter connect_call b = map (\<lambda>o1. CbConnectTo (o_host o1) (o_port o1) (o_address o1)) os" and
    p: "parse_connect_to (env_host_parse env) (opt_list (c_connect_to cfg)) family = Inr os"
    using filter_dns(2) [OF d none] by (auto simp: fs)
  have "filter zero_h2_call b = []"
    by (simp add: fs filter_dns(3) [OF d none])
  then have zero: "CbMaxPendingH2Requests 0 \<notin> set b \<and> CbH2DispatchBatchSize 0 \<notin> set b"
    by (auto simp: filter_empty_conv)
  have calls: "CbConnectTo h p' a \<in> set b \<longleftrightarrow>
      (\<exists>o1 \<in> set os. h = o_host o1 \<and> p' = o_port o1 \<and> a = o_address o1)" for h p' a
  proof -
    have "CbConnectTo h p' a \<in> set b \<longleftrightarrow> CbConnectTo h p' a \<in> set (filter connect_call b)" by simp
    then show ?thesis unfolding os by auto
  qed
  have "(\<exists>host. env_host_parse env host = Some h) \<and> p' \<noteq> 0 \<and> port a \<noteq> 0 \<and> family_allows family (ip a)"
    if "CbConnectTo h p' a \<in> set b" for h p' a
    using that parse_connect_to_safe [OF p] by (auto simp: calls)
  moreover have "distinct (filter connect_call b)"
    using p unfolding os parse_connect_to_Inr distinct_map inj_on_def by (auto simp: origin_def)
  moreover have "a = a'" if "CbConnectTo h p' a \<in> set b" and "CbConnectTo h p' a' \<in> set b" for h p' a a'
    using that p unfolding calls parse_connect_to_Inr distinct_map inj_on_def origin_def by metis
  ultimately show ?thesis
    using zero f filter_dns(1) [OF d none] by (auto simp: fs)
qed

section \<open>Sessions of a client\<close>

lemma apply_middlewares_spec:
  assumes "apply_middlewares_to_session b mws h = (b', rs, h')"
  shows "b' = b @ map2 (\<lambda>mw r. SbMiddleware (mw_name mw) r) mws rs" (is ?calls)
    and "rs = [next_ref h ..< next_ref h + length mws]" (is ?refs)
    and "next_ref h' = next_ref h + length mws" (is ?next)
    and "\<forall>r < next_ref h. slot_cells h' r = slot_cells h r" (is ?old)
    and "\<forall>i < length mws. slot_cells h' (next_ref h + i) = slots_from_py (mws ! i)" (is ?new)
    and "py_lists h' = py_lists h" and "watches h' = watches h"
proof -
  have "?calls \<and> ?refs \<and> ?next \<and> ?old \<and> ?new \<and> py_lists h' = py_lists h \<and> watches h' = watches h"
    using assms
  proof (induction mws arbitrary: b h b' rs h')
    case (Cons mw mws)
    obtain h1 where h1: "new_slots mw h = (next_ref h, h1)" by (simp add: new_slots_def)
    obtain rs1 where run: "apply_middlewares_to_session (b @ [SbMiddleware (mw_name mw) (next_ref h)]) mws h1
        = (b', rs1, h')" and rs: "rs = next_ref h # rs1"
      using Cons.prems h1 by (auto simp: Let_def split: prod.splits)
    have n1: "next_ref h1 = Suc (next_ref h)" using h1 by (auto simp: new_slots_def)
    note IH = Cons.IH [OF run, unfolded n1]
    have "slot_cells h' (next_ref h + i) = slots_from_py ((mw # mws) ! i)" if "i < length (mw # mws)" for i
      using IH h1 that by (cases i) (auto simp: new_slots_def)
    moreover have "[next_ref h..<next_ref h + length (mw # mws)] =
        next_ref h # [Suc (next_ref h)..<Suc (next_ref h) + length mws]"
      using upt_conv_Cons [of "next_ref h" "Suc (next_ref h) + length mws"] by simp
    moreover have "slot_cells h' r = slot_cells h r" if "r < next_ref h" for r
      using IH h1 that by (auto simp: new_slots_def)
    moreover have "py_lists h1 = py_lists h" and "watches h1 = watches h"
      using h1 by (auto simp: new_slots_def)
    ultimately show ?case using IH rs by simp
  qed simp
  then show ?calls and ?refs and ?next and ?old and ?new and "py_lists h' = py_lists h"
    and "watches h' = watches h" by blast+
qed

lemma apply_some_Inr [res_simps]:
  "apply_some f b x = Inr y \<longleftrightarrow> (case x of None \<Rightarrow> y = b | Some v \<Rightarrow> f b v = Inr y)"
  by (cases x) auto

fun middleware_call :: "sb_call \<Rightarrow> ref option" where
  "middleware_call (SbMiddleware n r) = Some r"
| "middleware_call c = None"

definition slots_of :: "sb_call list \<Rightarrow> ref list" where
  "slots_of b = List.map_filter middleware_call b"

lemma slots_of_Nil [simp]: "slots_of [] = []"
  by (simp add: slots_of_def)

lemma slots_of_snoc [simp]: "slots_of (b @ b') = slots_of b @ slots_of b'"
  by (simp add: slots_of_def map_filter_def)

lemma slots_of_single [simp]: "slots_of [c] = (case middleware_call c of None \<Rightarrow> [] | Some r \<Rightarrow> [r])"
  by (simp add: slots_of_def map_filter_def split: option.splits)

lemma slots_of_log [log_simps]:
  "(\<And>v. middleware_call (c v) = None) \<Longrightarrow> slots_of (log_some c x b) = slots_of b"
  "middleware_call d = None \<Longrightarrow> slots_of (log_if p d b) = slots_of b"
  by (cases x; simp add: log_if_def)+

lemma slots_of_redirect [log_simps]: "slots_of (redirect_calls a b) = slots_of b"
  by (simp add: redirect_calls_def log_simps)

lemma slots_of_middlewares:
  "length mws = length rs \<Longrightarrow>
     slots_of (map2 (\<lambda>mw r. SbMiddleware (mw_name mw) r) mws rs) = rs"
  by (induction mws rs rule: list_induct2) (simp_all add: slots_of_def map_filter_simps)

lemma slots_of_proxy: "apply_session_proxy b p = Inr b' \<Longrightarrow> slots_of b' = slots_of b"
  by (auto simp: apply_session_proxy_def split: proxy_obj.splits)

lemma slots_of_retry: "apply_retry_policy b p = Inr b' \<Longrightarrow> slots_of b' = slots_of b"
  by (auto simp: apply_retry_policy_def split: retry_obj.splits)

lemma slots_of_h3: "apply_h3_retry_mode ft b m = Inr b' \<Longrightarrow> slots_of b' = slots_of b"
  by (auto simp: apply_h3_retry_mode_def split: if_splits py_h3_retry_mode.splits)

lemma slots_of_h3_some:
  "apply_some (apply_h3_retry_mode ft) b x = Inr b' \<Longrightarrow> slots_of b' = slots_of b"
  by (cases x) (auto dest: slots_of_h3)

lemma session_shape:
  assumes "client_session ft build a h = Inr (s, b, h')"
  obtains b1 b2 b3 rs h1 st h2 where
    "apply_middlewares_to_session b1 (opt_list (s_middleware a)) h = (b2, rs, h1)"
    and "slots_of b1 = []" and "slots_of b = slots_of b2"
    and "session_state_default h1 = (st, h2)"
    and "state s = with_middleware rs st" and "base_url s = s_base_url a" and "inner s = build b"
    and "h' = (case s_on_response a of Some f \<Rightarrow> push_response (hooks st) f | None \<Rightarrow> id)
               ((case s_on_request a of Some f \<Rightarrow> push_request (hooks st) f | None \<Rightarrow> id) h2)"
proof -
  obtain b0 b1 where p: "apply_some apply_session_proxy [] (s_proxy a) = Inr b0"
    and r: "apply_some apply_retry_policy (log_if (s_http3_with_fallback a) SbHttp3WithFallback
      (log_if (s_http3_only a) SbHttp3Only (log_if (s_http2_only a) SbHttp2Only
      (log_if (s_http1_only a) SbHttp1Only (redirect_calls a b0))))) (s_retry a) = Inr b1"
    using assms by (auto simp: client_session_def res_simps Let_def)
  obtain b2 rs h1 where m: "apply_middlewares_to_session b1 (opt_list (s_middleware a)) h = (b2, rs, h1)"
    by (cases "apply_middlewares_to_session b1 (opt_list (s_middleware a)) h")
  obtain st h2 where d: "session_state_default h1 = (st, h2)" by (cases "session_state_default h1")
  have b0: "slots_of b0 = []" using p by (auto simp: res_simps dest: slots_of_proxy split: option.splits)
  have b1: "slots_of b1 = []"
    using r b0 by (auto simp: res_simps log_simps dest: slots_of_retry split: option.splits)
  note run = assms [unfolded client_session_def p r m d Let_def ok_then.simps prod.case]
  obtain idle b3 where h3: "apply_some (apply_h3_retry_mode ft)
      (log_some SbBrokenQuicPolicy (map_option into_broken_quic (s_broken_quic_policy a))
      (log_some SbHttpIntent (map_option into_intent (s_http_intent a))
      (log_some SbProtocolPolicy (s_protocol_policy a) (log_some SbIdleTimeout idle
      (log_some SbMaxConnections (s_max_connections a) (log_some SbEchConfig (s_ech_config a)
      (log_some SbDefaultAcceptEncoding (s_accept_encoding a) b2))))))) (s_h3_retry_mode a) = Inr b3"
    and b: "slots_of b = slots_of b3"
    using run by (auto simp: ok_then_Inr log_simps)
  have "slots_of b = slots_of b2"
    using slots_of_h3_some [OF h3] b by (simp add: log_simps)
  then show ?thesis
  proof (rule that [OF m b1 _ d])
  qed (use assms in \<open>auto simp: client_session_def p r m d Let_def res_simps with_middleware_def
        split: option.splits\<close>)
qed


text \<open>The cells a session is made of are new, so it shares none with what was there before.\<close>

lemma session_state_default_spec:
  "session_state_default h =
     (\<lparr>hooks = \<lparr>request_hooks = next_ref h, response_hooks = Suc (next_ref h)\<rparr>,
       closed_ref = next_ref h + 2, middleware = []\<rparr>,
      h\<lparr>py_lists := (py_lists h)(next_ref h := [], Suc (next_ref h) := []),
        watches := (watches h)(next_ref h + 2 := False), next_ref := next_ref h + 3\<rparr>)"
  by (simp add: session_state_default_def event_hooks_default_def new_list_def Let_def)

lemma session_slots:
  assumes "client_session ft build a h = Inr (s, b, h')"
  shows "slots_of b = middleware (state s)"
proof -
  obtain b1 b2 rs h1 st where
    m: "apply_middlewares_to_session b1 (opt_list (s_middleware a)) h = (b2, rs, h1)"
    and sl: "slots_of b1 = []" "slots_of b = slots_of b2" and s: "state s = with_middleware rs st"
    using session_shape [OF assms] by metis
  show ?thesis
    using sl apply_middlewares_spec(1,2) [OF m] by (simp add: s with_middleware_def slots_of_middlewares)
qed

lemma session_slots_given:
  assumes "client_session ft build a h = Inr (s, b, h')"
  shows "length (middleware (state s)) = length (opt_list (s_middleware a))"
proof -
  obtain b1 b2 rs h1 st where
    m: "apply_middlewares_to_session b1 (opt_list (s_middleware a)) h = (b2, rs, h1)"
    and s: "state s = with_middleware rs st"
    using session_shape [OF assms] by metis
  show ?thesis using apply_middlewares_spec(2) [OF m] by (simp add: s with_middleware_def)
qed

text \<open>C15: A session starts open, with the hooks it was given and a slot for every middleware, in the order
  given and holding its callbacks; nothing that existed before changes; the upstream session gets
  exactly those slots, so closing the session takes the callbacks out of all of them.\<close>
theorem session_starts_open:
  assumes "client_session ft build a h = Inr (s, b, h')"
  shows "\<not> is_closed (state s) h' \<and> inner s = build b \<and>
    snapshot (request_hooks (hooks (state s))) h' = (case s_on_request a of None \<Rightarrow> [] | Some f \<Rightarrow> [f]) \<and>
    snapshot (response_hooks (hooks (state s))) h' = (case s_on_response a of None \<Rightarrow> [] | Some f \<Rightarrow> [f]) \<and>
    map (slot_cells h') (middleware (state s)) = map slots_from_py (opt_list (s_middleware a)) \<and>
    slots_of b = middleware (state s) \<and>
    (\<forall>r < next_ref h. py_lists h' r = py_lists h r \<and> watches h' r = watches h r \<and>
       slot_cells h' r = slot_cells h r) \<and>
    (\<forall>r \<in> set (slots_of b). slots_released (slot_cells (close (state s) h') r))"
proof -
  obtain b1 b2 b3 rs h1 st h2 where
    m: "apply_middlewares_to_session b1 (opt_list (s_middleware a)) h = (b2, rs, h1)"
    and sl: "slots_of b1 = []" "slots_of b = slots_of b2"
    and d: "session_state_default h1 = (st, h2)"
    and s: "state s = with_middleware rs st" "inner s = build b"
    and h': "h' = (case s_on_response a of Some f \<Rightarrow> push_response (hooks st) f | None \<Rightarrow> id)
               ((case s_on_request a of Some f \<Rightarrow> push_request (hooks st) f | None \<Rightarrow> id) h2)"
    using session_shape [OF assms] by metis
  note mw = apply_middlewares_spec [OF m]
  have slots: "slots_of b = middleware (state s)" by (rule session_slots [OF assms])
  have cells: "slot_cells h' = slot_cells h1"
    using d unfolding h' session_state_default_spec
    by (auto simp: push_request_def push_response_def append_to_def split: option.splits)
  have "map (slot_cells h') (middleware (state s)) = map slots_from_py (opt_list (s_middleware a))"
    using mw(2,5) by (auto simp: s cells with_middleware_def intro: nth_equalityI)
  moreover have "\<not> is_closed (state s) h' \<and>
    snapshot (request_hooks (hooks (state s))) h' = (case s_on_request a of None \<Rightarrow> [] | Some f \<Rightarrow> [f]) \<and>
    snapshot (response_hooks (hooks (state s))) h' = (case s_on_response a of None \<Rightarrow> [] | Some f \<Rightarrow> [f])"
    using d unfolding h' session_state_default_spec
    by (auto simp: s with_middleware_def is_closed_def snapshot_def push_request_def push_response_def
        append_to_def split: option.splits)
  moreover have "\<forall>r < next_ref h. py_lists h' r = py_lists h r \<and> watches h' r = watches h r"
    using d mw(3,6,7) unfolding h' session_state_default_spec
    by (auto simp: push_request_def push_response_def append_to_def split: option.splits)
  moreover have "\<forall>r < next_ref h. slot_cells h' r = slot_cells h r" using mw(4) by (simp add: cells)
  moreover have "\<forall>r \<in> set (middleware (state s)). slots_released (slot_cells (close (state s) h') r)"
    using let_go_achieved [of "state s" "close (state s) h'"]
    by (auto simp: let_go_def close_def fold_perform_achieves)
  ultimately show ?thesis using s(2) slots by simp
qed


lemma set_redirect_calls:
  "set (redirect_calls a b) = set b \<union>
     (if s_allow_redirects a then SbMaxRedirects ` set_option (s_max_redirects a) else {SbRedirectPolicyNone})"
  by (simp add: redirect_calls_def log_simps)

lemma set_apply_proxy:
  "apply_some apply_session_proxy b p = Inr b' \<Longrightarrow>
     set b' = set b \<union> {c. \<exists>u. p = Some (ProxyStr u) \<and> c = SbProxy u} \<union>
       {c. \<exists>k. p = Some (ProxyConfigObj k) \<and> c = SbProxyConfig k}"
  by (auto simp: res_simps apply_session_proxy_def split: option.splits proxy_obj.splits)

lemma set_apply_retry:
  "apply_some apply_retry_policy b p = Inr b' \<Longrightarrow>
     set b' = set b \<union> {c. \<exists>r. (p = Some (RetryPolicyObj r) \<or>
       (\<exists>f. p = Some (RetryCallable f) \<and> r = CallableRetry f)) \<and> c = SbRetryPolicy r}"
  by (auto simp: res_simps apply_retry_policy_def split: option.splits retry_obj.splits)

lemma set_apply_h3:
  "apply_some (apply_h3_retry_mode ft) b m = Inr b' \<Longrightarrow>
     set b' = set b \<union> (if feature_quic_h3 ft then (\<lambda>m. SbH3RetryMode (into_h3_retry m)) ` set_option m else {})"
  by (cases m) (auto simp: apply_h3_retry_mode_def split: if_splits py_h3_retry_mode.splits)

lemma set_apply_middlewares:
  "apply_middlewares_to_session b mws h = (b', rs, h') \<Longrightarrow>
     \<exists>ps. set b' = set b \<union> (\<lambda>(n, r). SbMiddleware n r) ` ps"
  by (drule apply_middlewares_spec(1), rule exI [of _ "(\<lambda>(mw, r). (mw_name mw, r)) ` set (zip mws rs)"])
    (simp add: image_image case_prod_unfold)

text \<open>The calls a session makes on its upstream builder, as a set.\<close>

lemma session_call_set:
  assumes "client_session ft build a h = Inr (s, b, h')"
  obtains ps idle where
    "set b = {c. \<exists>u. s_proxy a = Some (ProxyStr u) \<and> c = SbProxy u} \<union>
       {c. \<exists>k. s_proxy a = Some (ProxyConfigObj k) \<and> c = SbProxyConfig k} \<union>
       (if s_allow_redirects a then SbMaxRedirects ` set_option (s_max_redirects a)
        else {SbRedirectPolicyNone}) \<union>
       (if s_http1_only a then {SbHttp1Only} else {}) \<union> (if s_http2_only a then {SbHttp2Only} else {}) \<union>
       (if s_http3_only a then {SbHttp3Only} else {}) \<union>
       (if s_http3_with_fallback a then {SbHttp3WithFallback} else {}) \<union>
       {c. \<exists>r. (s_retry a = Some (RetryPolicyObj r) \<or>
         (\<exists>f. s_retry a = Some (RetryCallable f) \<and> r = CallableRetry f)) \<and> c = SbRetryPolicy r} \<union>
       (\<lambda>(n, r). SbMiddleware n r) ` ps \<union>
       SbDefaultAcceptEncoding ` set_option (s_accept_encoding a) \<union>
       SbEchConfig ` set_option (s_ech_config a) \<union> SbMaxConnections ` set_option (s_max_connections a) \<union>
       SbIdleTimeout ` set_option idle \<union> SbProtocolPolicy ` set_option (s_protocol_policy a) \<union>
       SbHttpIntent ` set_option (map_option into_intent (s_http_intent a)) \<union>
       SbBrokenQuicPolicy ` set_option (map_option into_broken_quic (s_broken_quic_policy a)) \<union>
       (if feature_quic_h3 ft then (\<lambda>m. SbH3RetryMode (into_h3_retry m)) ` set_option (s_h3_retry_mode a) else {}) \<union>
       SbHeaderOrder ` set_option (s_header_order a) \<union> SbCookieOrder ` set_option (s_cookie_order a) \<union>
       SbH3HeaderOrder ` set_option (s_h3_header_order a) \<union>
       (if s_https_only a then {SbHttpsOnly True} else {}) \<union>
       (\<lambda>k. SbHstsPolicy (hsts_apply k)) ` set_option (s_hsts a) \<union>
       SbNetworkPartitionContext ` set_option (s_network_partition_context a)"
    and "transpose_map validated_duration (s_idle_timeout a) = Inr idle"
proof -
  obtain b0 b1 where p: "apply_some apply_session_proxy [] (s_proxy a) = Inr b0"
    and r: "apply_some apply_retry_policy (log_if (s_http3_with_fallback a) SbHttp3WithFallback
      (log_if (s_http3_only a) SbHttp3Only (log_if (s_http2_only a) SbHttp2Only
      (log_if (s_http1_only a) SbHttp1Only (redirect_calls a b0))))) (s_retry a) = Inr b1"
    using assms by (auto simp: client_session_def res_simps Let_def)
  obtain b2 rs h1 where m: "apply_middlewares_to_session b1 (opt_list (s_middleware a)) h = (b2, rs, h1)"
    by (cases "apply_middlewares_to_session b1 (opt_list (s_middleware a)) h")
  obtain st h2 where d: "session_state_default h1 = (st, h2)" by (cases "session_state_default h1")
  note run = assms [unfolded client_session_def p r m d Let_def ok_then.simps prod.case]
  obtain idle b3 where idle: "transpose_map validated_duration (s_idle_timeout a) = Inr idle"
    and h3: "apply_some (apply_h3_retry_mode ft)
      (log_some SbBrokenQuicPolicy (map_option into_broken_quic (s_broken_quic_policy a))
      (log_some SbHttpIntent (map_option into_intent (s_http_intent a))
      (log_some SbProtocolPolicy (s_protocol_policy a) (log_some SbIdleTimeout idle
      (log_some SbMaxConnections (s_max_connections a) (log_some SbEchConfig (s_ech_config a)
      (log_some SbDefaultAcceptEncoding (s_accept_encoding a) b2))))))) (s_h3_retry_mode a) = Inr b3"
    and b: "set b = set b3 \<union> SbHeaderOrder ` set_option (s_header_order a) \<union>
      SbCookieOrder ` set_option (s_cookie_order a) \<union> SbH3HeaderOrder ` set_option (s_h3_header_order a) \<union>
      (if s_https_only a then {SbHttpsOnly True} else {}) \<union>
      (\<lambda>k. SbHstsPolicy (hsts_apply k)) ` set_option (s_hsts a) \<union>
      SbNetworkPartitionContext ` set_option (s_network_partition_context a)"
    using run by (auto simp: ok_then_Inr set_log_some set_log_if)
  obtain ps where "set b2 = set b1 \<union> (\<lambda>(n, r). SbMiddleware n r) ` ps"
    using set_apply_middlewares [OF m] by blast
  note sets = b set_apply_h3 [OF h3] set_log_some this set_apply_retry [OF r] set_log_if
    set_redirect_calls set_apply_proxy [OF p]
  show ?thesis
    by (rule that [OF _ idle, of ps], unfold sets) (simp add: Un_ac)
qed

text \<open>What a session is asked for is what the upstream session is built with. \<open>allow_redirects=False\<close>
  wins over \<open>max_redirects\<close>, and with redirects allowed nothing stops them; a callable is wrapped as
  the retry policy; the idle timeout is the validated one; every other option arrives as given, and
  only if given.\<close>
lemma session_options_reach:
  assumes "client_session ft build a h = Inr (s, b, h')"
  shows "(SbRedirectPolicyNone \<in> set b) = (\<not> s_allow_redirects a) \<and>
    (SbMaxRedirects n \<in> set b) = (s_allow_redirects a \<and> s_max_redirects a = Some n) \<and>
    (SbProxy u \<in> set b) = (s_proxy a = Some (ProxyStr u)) \<and>
    (SbProxyConfig k \<in> set b) = (s_proxy a = Some (ProxyConfigObj k)) \<and>
    (SbRetryPolicy r \<in> set b) = (s_retry a = Some (RetryPolicyObj r) \<or>
       (\<exists>f. s_retry a = Some (RetryCallable f) \<and> r = CallableRetry f)) \<and>
    (SbIdleTimeout t \<in> set b) = (\<exists>w. s_idle_timeout a = Some w \<and> validated_duration w = Inr t) \<and>
    (SbMaxConnections m \<in> set b) = (s_max_connections a = Some m) \<and>
    (SbHttpsOnly v \<in> set b) = (s_https_only a \<and> v) \<and>
    (SbH3RetryMode y \<in> set b) =
      (feature_quic_h3 ft \<and> y \<in> into_h3_retry ` set_option (s_h3_retry_mode a)) \<and>
    (SbHstsPolicy p \<in> set b) = (p \<in> hsts_apply ` set_option (s_hsts a)) \<and>
    (SbHeaderOrder xs \<in> set b) = (s_header_order a = Some xs) \<and>
    (SbHttp1Only \<in> set b) = s_http1_only a \<and> (SbHttp2Only \<in> set b) = s_http2_only a \<and>
    (SbHttp3Only \<in> set b) = s_http3_only a"
  by (rule session_call_set [OF assms], intro conjI)
    (simp_all add: res_simps image_iff split: option.splits, auto)

section \<open>Acceptance\<close>

definition secs_ok :: "f64 option \<Rightarrow> bool" where
  "secs_ok t = is_ok (transpose_map validated_duration t)"

lemma is_ok_then_const: "(\<And>x. is_ok (f x) = q) \<Longrightarrow> is_ok (ok_then r f) = (is_ok r \<and> q)"
  by (cases r) simp_all

lemma is_ok_map_ok [simp]: "is_ok (map_ok f r) = is_ok r"
  by (cases r) simp_all

lemma is_ok_transpose: "is_ok (transpose_map f x) = (case x of None \<Rightarrow> True | Some y \<Rightarrow> is_ok (f y))"
  by (cases x) simp_all

lemma timeouts_accepts: "is_ok (build_timeouts cfg b) \<longleftrightarrow>
    list_all secs_ok [c_dns_timeout cfg, c_tcp_connect_timeout cfg, c_tls_handshake_timeout cfg,
      c_ttfb_timeout cfg, c_total_timeout cfg, c_quic_connect_timeout cfg]"
  by (simp add: build_timeouts_def secs_ok_def is_ok_then_const [where q = True] cong: conj_cong)
    (auto simp: is_ok_then_const)

lemma limits_accepts: "is_ok (build_limits cfg b) \<longleftrightarrow>
    (case c_min_transfer_rate cfg of None \<Rightarrow> True | Some _ \<Rightarrow> secs_ok (c_min_transfer_rate_window cfg))"
  by (cases "c_min_transfer_rate cfg")
    (auto simp: build_limits_def secs_ok_def Let_def is_ok_then_const)

lemma h2_accepts: "is_ok (build_h2 cfg b) \<longleftrightarrow>
    c_max_pending_h2_requests cfg \<noteq> Some 0 \<and> c_h2_dispatch_batch_size cfg \<noteq> Some 0"
  by (simp add: build_h2_def Let_def)

lemma certs_accepts: "is_ok (build_certs env cfg b) \<longleftrightarrow>
    (case c_ca_cert cfg of None \<Rightarrow> True | Some path \<Rightarrow> is_ok (env_read_file env path))"
  by (simp add: build_certs_def Let_def is_ok_then_const is_ok_transpose split: option.splits sum.splits)

lemma tail_accepts: "is_ok (build_tail env cfg b) \<longleftrightarrow>
    (case c_keylog cfg of None \<Rightarrow> True | Some path \<Rightarrow> is_ok (env_keylog env path))"
  by (simp add: build_tail_def Let_def is_ok_then_const is_ok_transpose split: option.splits sum.splits)

definition client_family :: "('a) client_config_scheme \<Rightarrow> ip_family result" where
  "client_family cfg =
     map_ok (\<lambda>f. case f of None \<Rightarrow> Any | Some f \<Rightarrow> f) (transpose_map parse_ip_family (c_ip_family cfg))"

lemma dns_accepts: "is_ok (build_dns env cfg b) \<longleftrightarrow>
    \<not> (c_system_dns_cache_ttl cfg \<noteq> None \<and> c_dns cfg \<noteq> None) \<and>
    \<not> (c_system_dns_cache_max_entries cfg \<noteq> None \<and> c_system_dns_cache_ttl cfg = None) \<and>
    secs_ok (c_system_dns_cache_ttl cfg) \<and>
    is_ok (transpose_map (resolve_dns_config (env_features env)) (c_dns cfg)) \<and>
    is_ok (ok_then (client_family cfg)
      (parse_connect_to (env_host_parse env) (opt_list (c_connect_to cfg))))"
proof -
  have "is_ok (ok_then (transpose_map parse_ip_family (c_ip_family cfg)) (\<lambda>family.
        let family = (case family of Some f \<Rightarrow> f | None \<Rightarrow> Any); b = b @ [CbIpFamily family] in
        case c_connect_to cfg of None \<Rightarrow> Inr b
        | Some entries \<Rightarrow> ok_then (parse_connect_to (env_host_parse env) entries family) (\<lambda>os.
              Inr (log_all (\<lambda>o1. CbConnectTo (o_host o1) (o_port o1) (o_address o1)) os b)))) \<longleftrightarrow>
      is_ok (ok_then (client_family cfg)
        (parse_connect_to (env_host_parse env) (opt_list (c_connect_to cfg))))" for b
    by (cases "c_connect_to cfg"; cases "transpose_map parse_ip_family (c_ip_family cfg)")
      (auto simp: client_family_def is_ok_then_const parse_connect_to_def Let_def split: option.splits)
  then show ?thesis
    by (simp add: build_dns_def is_ok_then_const secs_ok_def is_ok_transpose split: option.splits)
qed

text \<open>C25: Exactly which options a client is built from: every timeout a valid duration, the window of the
  transfer rate only if there is a rate, no zero HTTP/2 limit, the CA file readable, not both a
  resolver and a DNS cache, no cache size without a cache, a known resolver of this build, a known
  family, dial overrides that parse and respect it, and a key log that can be opened.\<close>
theorem build_client_accepts:
  "is_ok (build_client env cfg) \<longleftrightarrow>
     list_all secs_ok [c_dns_timeout cfg, c_tcp_connect_timeout cfg, c_tls_handshake_timeout cfg,
       c_ttfb_timeout cfg, c_total_timeout cfg, c_quic_connect_timeout cfg] \<and>
     (case c_min_transfer_rate cfg of None \<Rightarrow> True | Some _ \<Rightarrow> secs_ok (c_min_transfer_rate_window cfg)) \<and>
     c_max_pending_h2_requests cfg \<noteq> Some 0 \<and> c_h2_dispatch_batch_size cfg \<noteq> Some 0 \<and>
     (case c_ca_cert cfg of None \<Rightarrow> True | Some path \<Rightarrow> is_ok (env_read_file env path)) \<and>
     \<not> (c_system_dns_cache_ttl cfg \<noteq> None \<and> c_dns cfg \<noteq> None) \<and>
     \<not> (c_system_dns_cache_max_entries cfg \<noteq> None \<and> c_system_dns_cache_ttl cfg = None) \<and>
     secs_ok (c_system_dns_cache_ttl cfg) \<and>
     is_ok (transpose_map (resolve_dns_config (env_features env)) (c_dns cfg)) \<and>
     is_ok (ok_then (client_family cfg)
       (parse_connect_to (env_host_parse env) (opt_list (c_connect_to cfg)))) \<and>
     (case c_keylog cfg of None \<Rightarrow> True | Some path \<Rightarrow> is_ok (env_keylog env path))"
  by (simp add: build_client_def is_ok_then_const timeouts_accepts limits_accepts h2_accepts
      certs_accepts dns_accepts tail_accepts)

text \<open>A transfer-rate window given to a client without a rate is dropped unseen, whatever it is (even
  NaN): the builder gets the same calls. The \<open>ResourceLimits\<close> object refuses the same combination.\<close>
lemma window_needs_rate:
  assumes "c_min_transfer_rate cfg = None"
  shows "build_client env (cfg\<lparr>c_min_transfer_rate_window := w\<rparr>) = build_client env cfg \<and>
    resource_limits_new body conns None (Some w') =
      raise ValueError ''transfer_rate_window has no effect without min_transfer_rate''"
proof
  let ?cfg = "cfg\<lparr>c_min_transfer_rate_window := w\<rparr>"
  have "build_identity ?cfg b = build_identity cfg b" and "build_timeouts ?cfg b = build_timeouts cfg b"
    and "build_limits ?cfg b = build_limits cfg b" and "build_h2 ?cfg b = build_h2 cfg b"
    and "build_flags ?cfg b = build_flags cfg b" and "build_certs env ?cfg b = build_certs env cfg b"
    and "build_dns env ?cfg b = build_dns env cfg b" and "build_tail env ?cfg b = build_tail env cfg b" for b
    using assms by (simp_all add: build_identity_def build_timeouts_def build_limits_def build_h2_def
        build_flags_def build_certs_def build_dns_def build_tail_def
        cong: option.case_cong)
  then show "build_client env ?cfg = build_client env cfg"
    unfolding build_client_def by presburger
  show "resource_limits_new body conns None (Some w') =
      raise ValueError ''transfer_rate_window has no effect without min_transfer_rate''"
    by (simp add: resource_limits_new_def)
qed

section \<open>The two classes and the presets\<close>

text \<open>\<open>Client\<close> and \<open>BlockingClient\<close> are the same: the constructors refuse with the same exception or
  make the same builder calls, sessions too, and they have the same presets.\<close>
lemma clients_agree:
  "client_args_default = blocking_client_args_default \<and> client_new env a = blocking_client_new env a \<and>
   client_session ft build sa h = blocking_client_session ft build sa h \<and>
   client_presets = blocking_presets"
proof (intro conjI)
  show "client_args_default = blocking_client_args_default"
    by (simp only: client_args_default_def blocking_client_args_default_def)
  show "client_new env a = blocking_client_new env a"
    by (simp only: client_new_def blocking_client_new_def)
  show "client_session ft build sa h = blocking_client_session ft build sa h"
    by (simp only: client_session_def blocking_client_session_def)
  show "client_presets = blocking_presets" by code_simp
qed

text \<open>The presets are coherent: the static methods, the TLS profile names and the HTTP/2 profile
  names are the same list without repetitions; each method hands on the upstream preset of its own
  name with the TCP fingerprint of its browser, and the three resolvers know it.\<close>
lemma presets_coherent:
  "map fst client_presets = map fst tls_profiles \<and> map fst tls_profiles = map fst h2_profiles \<and>
   distinct (map fst client_presets) \<and>
   list_all (\<lambda>(name, preset, tcp).
     resolve_tls_profile name = Inr preset \<and> resolve_h2_profile name = Inr (preset @ ''_h2'') \<and>
     resolve_tcp_fingerprint ja4t tcp = Inr (TcpPreset tcp) \<and>
     preset = name \<and> take (length tcp) name = tcp \<and>
     preset_client client_presets name = Some [CbPreset name, CbTcpFingerprint (TcpPreset tcp)])
     client_presets"
proof -
  have "map fst client_presets = map fst tls_profiles" by code_simp
  moreover have "map fst tls_profiles = map fst h2_profiles" by code_simp
  moreover have "distinct (map fst client_presets)" by code_simp
  moreover have "list_all (\<lambda>(name, preset, tcp). map_of tls_profiles name = Some preset \<and>
      map_of h2_profiles name = Some (preset @ ''_h2'') \<and> List.member tcp_presets tcp \<and>
      preset = name \<and> take (length tcp) name = tcp \<and>
      map_of client_presets name = Some (preset, tcp)) client_presets" by code_simp
  ultimately show ?thesis
    by (auto simp: list_all_iff resolve_tls_profile_def resolve_h2_profile_def
        resolve_tcp_fingerprint_def preset_client_def build_preset_client_def)
qed

section \<open>Witnesses\<close>

definition sample_env :: client_env where
  "sample_env = \<lparr>env_features = \<lparr>feature_quic_h3 = True, feature_doh = True, feature_masque = True\<rparr>,
     env_read_file = Inl, env_keylog = Inl, env_ja4t = Inl, env_host_parse = Some\<rparr>"

definition sample_config :: client_config where
  "sample_config = client_config_default\<lparr>c_max_pending_h2_requests := Some 5, c_ip_family := Some ''ipv4'',
     c_connect_to := Some [(''h:443'', ''1.2.3.4:80''), (''[::1]:1'', ''9.9.9.9:2'')]\<rparr>"

lemma sample_build_client:
  "build_client sample_env sample_config =
     Inr [CbMaxPendingH2Requests 5, CbIpFamily Ipv4, CbConnectTo ''h'' 443 (SocketAddr (V4 16909060) 80),
          CbConnectTo ''[::1]'' 1 (SocketAddr (V4 151587081) 2)]"
  by (simp add: build_client_def build_identity_def build_timeouts_def build_limits_def build_h2_def
      build_flags_def build_certs_def build_dns_def build_tail_def sample_config_def
      client_config_default_def sample_env_def sample_connect_to parse_ip_family_def log_all_def
      log_if_def)

theorem build_client_safe_witness:
  "\<exists>b. build_client sample_env sample_config = Inr b \<and> length (filter resolver_call b) \<le> 1 \<and>
     filter family_call b = [CbIpFamily Ipv4] \<and> CbH2DispatchBatchSize 0 \<notin> set b"
  using build_client_safe [OF sample_build_client] sample_build_client by auto

definition sample_session_args :: session_args where
  "sample_session_args = session_args_default\<lparr>s_max_redirects := Some 3, s_allow_redirects := False,
     s_middleware := Some [\<lparr>mw_name = ''m'', on_request_fn = Some 8, on_response_fn = None\<rparr>],
     s_on_request := Some 9\<rparr>"

lemma sample_session:
  "\<exists>s b h'. client_session (env_features sample_env) length sample_session_args sample_heap = Inr (s, b, h')"
  by (simp add: client_session_def sample_session_args_def session_args_default_def Let_def split_beta)

theorem session_starts_open_witness:
  "\<exists>s b h'. client_session (env_features sample_env) length sample_session_args sample_heap =
       Inr (s, b, h') \<and> \<not> is_closed (state s) h' \<and> snapshot (request_hooks (hooks (state s))) h' = [9] \<and>
     map (slot_cells h') (slots_of b) = [\<lparr>slot_on_request = Some 8, slot_on_response = None\<rparr>]"
proof -
  obtain s b h' where s: "client_session (env_features sample_env) length sample_session_args sample_heap =
      Inr (s, b, h')" using sample_session by blast
  show ?thesis
    using session_starts_open [OF s] s
    by (auto simp: sample_session_args_def session_args_default_def slots_from_py_def)
qed

end
