(* ===== verification/Fingerprint.thy ===== *)
theory Fingerprint imports Client begin

text \<open>
  \<open>src/src/fingerprint.rs\<close>, \<open>src/src/quic.rs\<close>, \<open>src/src/randomize.rs\<close> and
  \<open>src/src/network_partition.rs\<close>: the value classes fingerprints are built from, their constructors,
  their labels, and the loading and saving of profiles. Upstream's defaults, parsers and printers are
  parameters; a class's static presets are tables of the upstream functions they call.
\<close>

unbundle bit_operations_syntax

section \<open>Labels\<close>

datatype tls_version = Tls10 | Tls11 | Tls12 | Tls13

text \<open>Versions in the order of the protocol.\<close>

fun tls_version_rank :: "tls_version \<Rightarrow> nat" where
  "tls_version_rank Tls10 = 0"
| "tls_version_rank Tls11 = 1"
| "tls_version_rank Tls12 = 2"
| "tls_version_rank Tls13 = 3"

instantiation tls_version :: linorder
begin

definition less_eq_tls_version :: "tls_version \<Rightarrow> tls_version \<Rightarrow> bool" where
  "less_eq_tls_version a b \<longleftrightarrow> tls_version_rank a \<le> tls_version_rank b"

definition less_tls_version :: "tls_version \<Rightarrow> tls_version \<Rightarrow> bool" where
  "less_tls_version a b \<longleftrightarrow> tls_version_rank a < tls_version_rank b"

instance
proof
  fix a b :: tls_version
  show "a \<le> b \<Longrightarrow> b \<le> a \<Longrightarrow> a = b"
    by (cases a; cases b) (simp_all add: less_eq_tls_version_def)
qed (auto simp: less_eq_tls_version_def less_tls_version_def)

end

definition str_to_tls_version :: "string \<Rightarrow> tls_version result" where
  "str_to_tls_version s =
     (if s = ''tls10'' then Inr Tls10 else if s = ''tls11'' then Inr Tls11
      else if s = ''tls12'' then Inr Tls12 else if s = ''tls13'' then Inr Tls13
      else raise_with ValueError ''Unknown TLS version: '' [AStr s])"

datatype h2_setting_id =
    HeaderTableSize | EnablePush | MaxConcurrentStreams | InitialWindowSize | MaxFrameSize
  | MaxHeaderListSize | EnableConnectProtocol | NoRfc7540Priorities | SettingUnknown u16

definition h2_setting_names :: "(string \<times> h2_setting_id) list" where
  "h2_setting_names =
     [(''header_table_size'', HeaderTableSize), (''enable_push'', EnablePush),
      (''max_concurrent_streams'', MaxConcurrentStreams),
      (''initial_window_size'', InitialWindowSize), (''max_frame_size'', MaxFrameSize),
      (''max_header_list_size'', MaxHeaderListSize),
      (''enable_connect_protocol'', EnableConnectProtocol),
      (''no_rfc7540_priorities'', NoRfc7540Priorities)]"

definition str_to_h2_setting_id :: "string \<Rightarrow> h2_setting_id result" where
  "str_to_h2_setting_id s =
     ok_or (PyExc ValueError ''Unknown H2 setting: '' [AStr s]) (map_of h2_setting_names s)"

datatype pseudo_header_id = PhMethod | PhAuthority | PhScheme | PhPath

definition pseudo_header_names :: "(string \<times> pseudo_header_id) list" where
  "pseudo_header_names =
     [(''method'', PhMethod), (''authority'', PhAuthority), (''scheme'', PhScheme), (''path'', PhPath)]"

definition str_to_pseudo_header_id :: "string \<Rightarrow> pseudo_header_id result" where
  "str_to_pseudo_header_id s =
     ok_or (PyExc ValueError ''Unknown pseudo header: '' [AStr s]) (map_of pseudo_header_names s)"

section \<open>Extensions\<close>

datatype extension_source =
    SrcAuto | SrcGrease | SrcRawBytes string | SrcTrustAnchorIds "string list" bool

record extension_spec =
  extension_type :: u16
  ext_source :: extension_source

definition extension_spec_new ::
  "u16 \<Rightarrow> string \<Rightarrow> string option \<Rightarrow> string list option \<Rightarrow> bool \<Rightarrow> extension_spec result" where
  "extension_spec_new ty source raw_data trust_anchor_ids shuffle =
     ok_then
       (if source = ''auto'' then Inr SrcAuto
        else if source = ''grease'' then Inr SrcGrease
        else if source = ''raw_bytes'' then
          map_ok SrcRawBytes (ok_or (PyExc ValueError
            ''raw_data (hex string) is required'' []) raw_data)
        else if source = ''trust_anchor_ids'' then
          map_ok (\<lambda>ids. SrcTrustAnchorIds ids shuffle) (ok_or (PyExc ValueError
            ''trust_anchor_ids (list of hex strings) is required'' [])
            trust_anchor_ids)
        else raise_with ValueError ''Unknown source: '' [AStr source])
       (\<lambda>src. Inr \<lparr>extension_type = ty, ext_source = src\<rparr>)"

definition extension_source_label :: "extension_spec \<Rightarrow> string" where
  "extension_source_label e =
     (case ext_source e of
        SrcAuto \<Rightarrow> ''auto''
      | SrcGrease \<Rightarrow> ''grease''
      | SrcRawBytes _ \<Rightarrow> ''raw_bytes''
      | SrcTrustAnchorIds _ _ \<Rightarrow> ''trust_anchor_ids'')"

definition extension_trust_anchor_ids :: "extension_spec \<Rightarrow> string list option" where
  "extension_trust_anchor_ids e =
     (case ext_source e of SrcTrustAnchorIds ids _ \<Rightarrow> Some ids | _ \<Rightarrow> None)"

definition extension_shuffle :: "extension_spec \<Rightarrow> bool option" where
  "extension_shuffle e =
     (case ext_source e of SrcTrustAnchorIds _ shuffle \<Rightarrow> Some shuffle | _ \<Rightarrow> None)"

section \<open>TLS profiles\<close>

record grease_config =
  gr_cipher_suite :: bool
  gr_extensions :: bool
  gr_supported_groups :: bool
  gr_supported_versions :: bool
  gr_signature_algorithms :: bool
  gr_key_share :: bool

definition grease_config_new :: "bool \<Rightarrow> bool \<Rightarrow> bool \<Rightarrow> bool \<Rightarrow> bool \<Rightarrow> bool \<Rightarrow> grease_config" where
  "grease_config_new suite exts groups versions algorithms share =
     \<lparr>gr_cipher_suite = suite, gr_extensions = exts, gr_supported_groups = groups,
      gr_supported_versions = versions, gr_signature_algorithms = algorithms, gr_key_share = share\<rparr>"

datatype padding_strategy = BlockAlign u16 u16 | FixedTarget u16 | NoPadding

definition padding_block_align :: "u16 \<Rightarrow> u16 \<Rightarrow> padding_strategy" where
  "padding_block_align min_length block_size = BlockAlign min_length block_size"

definition padding_fixed_target :: "u16 \<Rightarrow> padding_strategy" where
  "padding_fixed_target target_length = FixedTarget target_length"

definition padding_no_padding :: padding_strategy where
  "padding_no_padding = NoPadding"

record randomization_config =
  shuffle_extensions :: bool

definition randomization_config_new :: "bool \<Rightarrow> randomization_config" where
  "randomization_config_new shuffle = \<lparr>shuffle_extensions = shuffle\<rparr>"

text \<open>
  A profile. Of \<open>delegated_credentials\<close> the signature algorithms are kept; \<open>'s\<close> is upstream's style of
  ClientHello, and the two ECH fields are always none.
\<close>

record 's tls_profile =
  tp_name :: string
  tp_min_version :: tls_version
  tp_max_version :: tls_version
  tp_cipher_suites :: "u16 list"
  tp_extensions :: "extension_spec list"
  tp_supported_groups :: "u16 list"
  tp_signature_algorithms :: "u16 list"
  tp_ec_point_formats :: bytes
  tp_compression_methods :: bytes
  tp_grease :: grease_config
  tp_padding :: padding_strategy
  tp_alps_protocols :: "string list option"
  tp_compress_cert_algorithms :: "u16 list option"
  tp_key_share_curves :: "u16 list"
  tp_record_size_limit :: "u16 option"
  tp_delegated_credentials :: "u16 list option"
  tp_session_id_length :: u8
  tp_alpn_protocols :: "string list"
  tp_randomization :: "randomization_config option"
  tp_session_resumption :: resumption_config
  tp_client_hello_style :: 's

text \<open>Upstream's \<open>Default\<close> values, and the arguments of the constructor with their defaults.\<close>

record 's tls_defaults =
  dflt_grease :: grease_config
  dflt_padding :: padding_strategy
  dflt_resumption :: resumption_config
  dflt_style :: 's

record tls_args =
  ta_cipher_suites :: "u16 list option"
  ta_extensions :: "extension_spec list option"
  ta_supported_groups :: "u16 list option"
  ta_signature_algorithms :: "u16 list option"
  ta_key_share_curves :: "u16 list option"
  ta_alpn_protocols :: "string list option"
  ta_min_version :: "string option"
  ta_max_version :: "string option"
  ta_ec_point_formats :: "bytes option"
  ta_compression_methods :: "bytes option"
  ta_grease :: "grease_config option"
  ta_padding :: "padding_strategy option"
  ta_alps_protocols :: "string list option"
  ta_compress_cert_algorithms :: "u16 list option"
  ta_record_size_limit :: "u16 option"
  ta_delegated_credentials_sig_algs :: "u16 list option"
  ta_session_id_length :: u8
  ta_randomization :: "randomization_config option"

definition tls_args_default :: tls_args where
  "tls_args_default =
     \<lparr>ta_cipher_suites = None, ta_extensions = None, ta_supported_groups = None,
      ta_signature_algorithms = None, ta_key_share_curves = None, ta_alpn_protocols = None,
      ta_min_version = None, ta_max_version = None, ta_ec_point_formats = None,
      ta_compression_methods = None, ta_grease = None, ta_padding = None, ta_alps_protocols = None,
      ta_compress_cert_algorithms = None, ta_record_size_limit = None,
      ta_delegated_credentials_sig_algs = None, ta_session_id_length = 32, ta_randomization = None\<rparr>"

definition unwrap_or :: "'a \<Rightarrow> 'a option \<Rightarrow> 'a" where
  "unwrap_or d x = (case x of None \<Rightarrow> d | Some v \<Rightarrow> v)"

definition tls_profile_new :: "'s tls_defaults \<Rightarrow> string \<Rightarrow> tls_args \<Rightarrow> 's tls_profile result" where
  "tls_profile_new d name a =
     ok_then (case ta_min_version a of Some s \<Rightarrow> str_to_tls_version s | None \<Rightarrow> Inr Tls12) (\<lambda>min_ver.
     ok_then (case ta_max_version a of Some s \<Rightarrow> str_to_tls_version s | None \<Rightarrow> Inr Tls13) (\<lambda>max_ver.
     Inr \<lparr>tp_name = name, tp_min_version = min_ver, tp_max_version = max_ver,
       tp_cipher_suites = unwrap_or [] (ta_cipher_suites a),
       tp_extensions = unwrap_or [] (ta_extensions a),
       tp_supported_groups = unwrap_or [] (ta_supported_groups a),
       tp_signature_algorithms = unwrap_or [] (ta_signature_algorithms a),
       tp_ec_point_formats = unwrap_or [0] (ta_ec_point_formats a),
       tp_compression_methods = unwrap_or [0] (ta_compression_methods a),
       tp_grease = unwrap_or (dflt_grease d) (ta_grease a),
       tp_padding = unwrap_or (dflt_padding d) (ta_padding a),
       tp_alps_protocols = ta_alps_protocols a,
       tp_compress_cert_algorithms = ta_compress_cert_algorithms a,
       tp_key_share_curves = unwrap_or [] (ta_key_share_curves a),
       tp_record_size_limit = ta_record_size_limit a,
       tp_delegated_credentials = ta_delegated_credentials_sig_algs a,
       tp_session_id_length = ta_session_id_length a,
       tp_alpn_protocols = unwrap_or [''h2'', ''http/1.1''] (ta_alpn_protocols a),
       tp_randomization = ta_randomization a,
       tp_session_resumption = dflt_resumption d,
       tp_client_hello_style = dflt_style d\<rparr>))"

section \<open>HTTP/2 profiles\<close>

record h2_setting =
  hs_id :: h2_setting_id
  hs_value :: u32

text \<open>The \<open>id\<close> argument: a \<open>str\<close>, an \<open>int\<close> that fits 16 bits, or anything else.\<close>

datatype setting_arg = SettingStr string | SettingInt u16 | SettingOther

definition h2_setting_new :: "setting_arg \<Rightarrow> u32 \<Rightarrow> h2_setting result" where
  "h2_setting_new sid val =
     ok_then
       (case sid of
          SettingStr s \<Rightarrow> str_to_h2_setting_id s
        | SettingInt n \<Rightarrow> Inr (SettingUnknown n)
        | SettingOther \<Rightarrow> raise TypeError ''id must be str (e.g. 'header_table_size') or int'')
       (\<lambda>i. Inr \<lparr>hs_id = i, hs_value = val\<rparr>)"

record headers_priority =
  hp_stream_dependency :: u32
  hp_weight :: u8
  hp_exclusive :: bool

definition headers_priority_new :: "u32 \<Rightarrow> u8 \<Rightarrow> bool \<Rightarrow> headers_priority" where
  "headers_priority_new dep weight excl =
     \<lparr>hp_stream_dependency = dep, hp_weight = weight, hp_exclusive = excl\<rparr>"

record priority_frame =
  pf_stream_id :: u32
  pf_dependency :: u32
  pf_weight :: u8
  pf_exclusive :: bool

definition priority_frame_new :: "u32 \<Rightarrow> u32 \<Rightarrow> u8 \<Rightarrow> bool \<Rightarrow> priority_frame" where
  "priority_frame_new sid dep weight excl =
     \<lparr>pf_stream_id = sid, pf_dependency = dep, pf_weight = weight, pf_exclusive = excl\<rparr>"

datatype stream_dep_policy = Flat | Chain | PriorityChain

definition str_to_stream_dep_policy :: "string \<Rightarrow> stream_dep_policy result" where
  "str_to_stream_dep_policy s =
     (if s = ''flat'' then Inr Flat else if s = ''chain'' then Inr Chain
      else if s = ''priority_chain'' then Inr PriorityChain
      else raise_with ValueError ''Unknown stream_dep_policy: '' [AStr s])"

fun stream_dep_policy_to_str :: "stream_dep_policy \<Rightarrow> string" where
  "stream_dep_policy_to_str Flat = ''flat''"
| "stream_dep_policy_to_str Chain = ''chain''"
| "stream_dep_policy_to_str PriorityChain = ''priority_chain''"

record priority_config =
  pc_urgency_weights :: "bytes option"
  pc_exclusive :: bool
  pc_stream_dep_policy :: stream_dep_policy
  pc_auto_priority_header :: bool
  pc_default_urgency :: u8
  pc_default_incremental :: bool

text \<open>\<open>[u8; 8]::try_from\<close> of the weights.\<close>

definition eight_weights :: "bytes \<Rightarrow> bytes result" where
  "eight_weights w =
     (if length w = 8 then Inr w
      else raise_with ValueError ''urgency_weights must have exactly 8 elements, got '' [ANat (length w)])"

text \<open>The three bytes of the dash in the message.\<close>

definition en_dash :: string where
  "en_dash = map char_of [226, 128, 147 :: nat]"

definition priority_config_new ::
  "bytes option \<Rightarrow> bool \<Rightarrow> string \<Rightarrow> bool \<Rightarrow> u8 \<Rightarrow> bool \<Rightarrow> priority_config result" where
  "priority_config_new urgency_weights excl policy auto_header urgency incremental =
     ok_then (transpose_map eight_weights urgency_weights) (\<lambda>weights.
     if urgency > 7 then raise ValueError (''default_urgency must be in the range 0'' @ en_dash @ ''7'')
     else ok_then (str_to_stream_dep_policy policy) (\<lambda>p.
       Inr \<lparr>pc_urgency_weights = weights, pc_exclusive = excl, pc_stream_dep_policy = p,
         pc_auto_priority_header = auto_header, pc_default_urgency = urgency,
         pc_default_incremental = incremental\<rparr>))"

text \<open>The getters that convert: weights as 16-bit integers, the policy as its label.\<close>

definition urgency_weights_getter :: "priority_config \<Rightarrow> u16 list option" where
  "urgency_weights_getter c = map_option (map (\<lambda>b. ucast b)) (pc_urgency_weights c)"

definition stream_dep_policy_getter :: "priority_config \<Rightarrow> string" where
  "stream_dep_policy_getter c = stream_dep_policy_to_str (pc_stream_dep_policy c)"

record h2_profile =
  h2_initial_stream_id :: u32
  h2_settings :: "h2_setting list"
  h2_window_update :: u32
  h2_pseudo_header_order :: "pseudo_header_id list"
  h2_headers_priority :: "headers_priority option"
  h2_priority_frames :: "priority_frame list"
  h2_priority_config :: priority_config

definition MAX_CLIENT_STREAM_ID :: u32 where
  "MAX_CLIENT_STREAM_ID = 0x7fffffff"

definition validated_initial_stream_id :: "u32 \<Rightarrow> u32 result" where
  "validated_initial_stream_id i =
     (if i = 0 \<or> i > MAX_CLIENT_STREAM_ID \<or> i AND 1 = 0
      then raise ValueError ''initial_stream_id must be a nonzero odd 31-bit client stream ID''
      else Inr i)"

definition h2_profile_new ::
  "priority_config \<Rightarrow> h2_setting list \<Rightarrow> u32 \<Rightarrow> string list \<Rightarrow> headers_priority option \<Rightarrow>
   priority_frame list option \<Rightarrow> priority_config option \<Rightarrow> u32 \<Rightarrow> h2_profile result" where
  "h2_profile_new default_config settings win order hp frames config sid =
     ok_then (collect_map str_to_pseudo_header_id order) (\<lambda>pho.
     ok_then (validated_initial_stream_id sid) (\<lambda>i.
     Inr \<lparr>h2_initial_stream_id = i, h2_settings = settings, h2_window_update = win,
       h2_pseudo_header_order = pho, h2_headers_priority = hp,
       h2_priority_frames = unwrap_or [] frames,
       h2_priority_config = unwrap_or default_config config\<rparr>))"

section \<open>TCP fingerprints\<close>

datatype tcp_call =
    TcWindowSize u32 | TcMss u32 | TcWindowScale u8 | TcTtl u32 | TcNodelay bool
  | TcRecvBufSize u32 | TcSendBufSize u32

definition tcp_fingerprint_new ::
  "u32 option \<Rightarrow> u32 option \<Rightarrow> u8 option \<Rightarrow> u32 option \<Rightarrow> bool option \<Rightarrow> u32 option \<Rightarrow> u32 option \<Rightarrow>
   tcp_call list" where
  "tcp_fingerprint_new window_size mss window_scale ttl nodelay recv_buf send_buf =
     log_some TcSendBufSize send_buf
    (log_some TcRecvBufSize recv_buf
    (log_some TcNodelay nodelay
    (log_some TcTtl ttl
    (log_some TcWindowScale window_scale
    (log_some TcMss mss
    (log_some TcWindowSize window_size []))))))"

definition tcp_from_ja4t :: "(string \<Rightarrow> string + tcp_fingerprint) \<Rightarrow> string \<Rightarrow> tcp_fingerprint result" where
  "tcp_from_ja4t parse ja4t =
     (case parse ja4t of
        Inl e \<Rightarrow> raise_with ValueError ''Invalid JA4T string: '' [AStr e]
      | Inr fp \<Rightarrow> Inr fp)"

section \<open>Preset constructors\<close>

text \<open>The static methods of the four classes, each with the upstream function it calls.\<close>

definition tls_chrome_presets :: "(string \<times> string) list" where
  "tls_chrome_presets =
    [(''chrome_131'', ''chrome_131''), (''chrome_144'', ''chrome_144''),
     (''chrome_145'', ''chrome_145''), (''chrome_146'', ''chrome_146''),
     (''chrome_147'', ''chrome_147''), (''chrome_148'', ''chrome_148''),
     (''chrome_149'', ''chrome_149''), (''chrome_150'', ''chrome_150''),
     (''chrome_151'', ''chrome_151''), (''chrome_152'', ''chrome_152''),
     (''chrome_153'', ''chrome_153''), (''chrome_154'', ''chrome_154''),
     (''chrome_155'', ''chrome_155''), (''chrome_146_quic'', ''chrome_146_quic''),
     (''chrome_150_quic'', ''chrome_150_quic''),
     (''chrome_151_quic'', ''chrome_151_quic''),
     (''chrome_152_quic'', ''chrome_152_quic''),
     (''chrome_153_quic'', ''chrome_153_quic''),
     (''chrome_154_quic'', ''chrome_154_quic''),
     (''chrome_155_quic'', ''chrome_155_quic'')]"

definition tls_static_presets :: "(string \<times> string) list" where
  "tls_static_presets = tls_chrome_presets @
    [(''firefox_133'', ''firefox_133''), (''firefox_147'', ''firefox_147''),
     (''firefox_156'', ''firefox_156''), (''safari_18'', ''safari_18''),
     (''safari_26'', ''safari_26'')]"

definition h2_static_presets :: "(string \<times> string) list" where
  "h2_static_presets =
    [(''chrome_131'', ''chrome_131_h2''), (''chrome_144'', ''chrome_144_h2''),
     (''chrome_145'', ''chrome_145_h2''), (''chrome_146'', ''chrome_146_h2''),
     (''chrome_147'', ''chrome_147_h2''), (''chrome_148'', ''chrome_148_h2''),
     (''chrome_149'', ''chrome_149_h2''), (''chrome_150'', ''chrome_150_h2''),
     (''chrome_151'', ''chrome_151_h2''), (''chrome_152'', ''chrome_152_h2''),
     (''chrome_153'', ''chrome_153_h2''), (''chrome_154'', ''chrome_154_h2''),
     (''chrome_155'', ''chrome_155_h2''), (''firefox_133'', ''firefox_133_h2''),
     (''firefox_147'', ''firefox_147_h2''), (''firefox_156'', ''firefox_156_h2''),
     (''safari_18'', ''safari_18_h2''), (''safari_26'', ''safari_26_h2'')]"

definition tcp_static_presets :: "(string \<times> string) list" where
  "tcp_static_presets =
    [(''chrome'', ''chrome''), (''chrome_win'', ''chrome_win''),
     (''chrome_linux'', ''chrome_linux''), (''chrome_macos'', ''chrome_macos''),
     (''firefox'', ''firefox''), (''firefox_win'', ''firefox_win''),
     (''firefox_linux'', ''firefox_linux''), (''firefox_macos'', ''firefox_macos''),
     (''safari'', ''safari'')]"

definition quic_static_presets :: "(string \<times> string) list" where
  "quic_static_presets =
    [(''chrome'', ''chrome_quic''), (''chrome_146'', ''chrome_146_quic''),
     (''chrome_150'', ''chrome_150_quic''), (''chrome_151'', ''chrome_151_quic''),
     (''chrome_152'', ''chrome_152_quic''), (''chrome_153'', ''chrome_153_quic''),
     (''chrome_154'', ''chrome_154_quic''), (''chrome_155'', ''chrome_155_quic'')]"

section \<open>Loading and saving\<close>

text \<open>
  Upstream's parsers and printers of a class of profiles \<open>'p\<close>, with the text of their errors; \<open>'c\<close> is a
  parsed ClientHello or frame capture, \<open>'j\<close> a JSON value, and \<open>py_loads\<close> is \<open>json.loads\<close> in Python, which
  may give something else than a dict.
\<close>

record ('p, 'c, 'j) profile_api =
  json_parse :: "string \<Rightarrow> string + 'p"
  json_print :: "'p \<Rightarrow> string + string"
  load_file :: "string \<Rightarrow> string + 'p"
  read_text :: "string \<Rightarrow> string + string"
  parse_capture :: "bytes \<Rightarrow> string + 'c"
  build_profile :: "string \<Rightarrow> 'c \<Rightarrow> 'p"
  capture_to_value :: "'c \<Rightarrow> string + 'j"
  profile_of_value :: "'j \<Rightarrow> string + 'p"
  py_loads :: "string \<Rightarrow> (string + 'j) result"

fun map_err_to :: "exc_kind \<Rightarrow> string \<Rightarrow> string + 'a \<Rightarrow> 'a result" where
  "map_err_to k m (Inl e) = raise_with k m [AStr e]"
| "map_err_to k m (Inr x) = Inr x"

definition tls_from_json :: "('p, 'c, 'j) profile_api \<Rightarrow> string \<Rightarrow> 'p result" where
  "tls_from_json api json_str =
     map_err_to ValueError ''Failed to parse TLS profile JSON: '' (json_parse api json_str)"

definition tls_from_client_hello :: "('p, 'c, 'j) profile_api \<Rightarrow> bytes \<Rightarrow> string \<Rightarrow> 'p result" where
  "tls_from_client_hello api data name =
     map_ok (build_profile api name)
       (map_err_to ValueError ''Failed to parse ClientHello: '' (parse_capture api data))"

definition tls_from_json_file :: "('p, 'c, 'j) profile_api \<Rightarrow> string \<Rightarrow> 'p result" where
  "tls_from_json_file api path =
     (case load_file api path of
        Inl e \<Rightarrow> raise_with ValueError ''Failed to load TLS profile from'' [AStr path, AStr e]
      | Inr p \<Rightarrow> Inr p)"

definition tls_to_json :: "('p, 'c, 'j) profile_api \<Rightarrow> 'p \<Rightarrow> string result" where
  "tls_to_json api p = map_err_to RuntimeError ''JSON serialization failed: '' (json_print api p)"

definition tls_to_dict :: "('p, 'c, 'j) profile_api \<Rightarrow> 'p \<Rightarrow> 'j result" where
  "tls_to_dict api p =
     ok_then (tls_to_json api p) (\<lambda>json_str.
     ok_then (py_loads api json_str) (\<lambda>obj.
       map_err_to RuntimeError ''Unexpected conversion error: '' obj))"

definition h2_from_json :: "('p, 'c, 'j) profile_api \<Rightarrow> string \<Rightarrow> 'p result" where
  "h2_from_json api json_str =
     map_err_to ValueError ''Failed to parse H2 profile JSON: '' (json_parse api json_str)"

definition h2_from_frames :: "('p, 'c, 'j) profile_api \<Rightarrow> bytes \<Rightarrow> 'p result" where
  "h2_from_frames api data =
     ok_then (map_err_to ValueError ''Failed to parse H2 frames: '' (parse_capture api data)) (\<lambda>h2fp.
     ok_then (map_err_to RuntimeError ''H2 profile conversion failed: '' (capture_to_value api h2fp)) (\<lambda>json_val.
       map_err_to RuntimeError ''H2 profile deserialization failed: '' (profile_of_value api json_val)))"

definition h2_from_json_file :: "('p, 'c, 'j) profile_api \<Rightarrow> string \<Rightarrow> 'p result" where
  "h2_from_json_file api path =
     (case read_text api path of
        Inl e \<Rightarrow> raise_with IOError ''Failed to read H2 profile from'' [AStr path, AStr e]
      | Inr data \<Rightarrow> h2_from_json api data)"

definition h2_to_json :: "('p, 'c, 'j) profile_api \<Rightarrow> 'p \<Rightarrow> string result" where
  "h2_to_json api p = map_err_to RuntimeError ''JSON serialization failed: '' (json_print api p)"

definition h2_to_dict :: "('p, 'c, 'j) profile_api \<Rightarrow> 'p \<Rightarrow> 'j result" where
  "h2_to_dict api p =
     ok_then (h2_to_json api p) (\<lambda>json_str.
     ok_then (py_loads api json_str) (\<lambda>obj.
       map_err_to RuntimeError ''Unexpected conversion error: '' obj))"

definition quic_from_json :: "('p, 'c, 'j) profile_api \<Rightarrow> string \<Rightarrow> 'p result" where
  "quic_from_json api json_str =
     map_err_to ValueError ''Failed to parse QuicProfile JSON: '' (json_parse api json_str)"

definition quic_to_json :: "('p, 'c, 'j) profile_api \<Rightarrow> 'p \<Rightarrow> string result" where
  "quic_to_json api p = map_err_to ValueError ''Failed to serialize QuicProfile: '' (json_print api p)"

text \<open>\<open>validate\<close> is upstream's check; its message is the exception's.\<close>

definition quic_validate :: "('p \<Rightarrow> string + unit) \<Rightarrow> 'p \<Rightarrow> unit result" where
  "quic_validate validate p = map_err_to ValueError [] (validate p)"

section \<open>Randomization policies\<close>

text \<open>
  Upstream's policies by their constructors; a layer mask is a set of the three layers. The label of a policy is what its \<open>__repr__\<close> shows; \<open>show_layers\<close> and \<open>show_algs\<close> are
  Rust's \<open>Debug\<close>.
\<close>

datatype layer = LayerTls | LayerH2 | LayerQuic

datatype negotiability_floor = FloorUniversal | FloorPresetFamily | FloorCustom "u16 list"

datatype randomize_policy =
    RandOff | RandExtensionOrder | RandRecombine | RandRecombineLayers "layer set" | RandFull
  | RandFullLayers "layer set" | RandNegotiability randomize_policy negotiability_floor

record randomize =
  rz_inner :: randomize_policy
  rz_label :: string

definition randomize_off :: randomize where
  "randomize_off = \<lparr>rz_inner = RandOff, rz_label = ''off''\<rparr>"

definition randomize_extension_order :: randomize where
  "randomize_extension_order = \<lparr>rz_inner = RandExtensionOrder, rz_label = ''extension_order''\<rparr>"

definition randomize_recombine :: randomize where
  "randomize_recombine = \<lparr>rz_inner = RandRecombine, rz_label = ''recombine''\<rparr>"

definition randomize_recombine_layers :: "(layer set \<Rightarrow> string) \<Rightarrow> layer set \<Rightarrow> randomize" where
  "randomize_recombine_layers show_layers layers =
     \<lparr>rz_inner = RandRecombineLayers layers, rz_label = ''recombine_layers('' @ show_layers layers @ '')''\<rparr>"

definition randomize_full :: randomize where
  "randomize_full = \<lparr>rz_inner = RandFull, rz_label = ''full''\<rparr>"

definition randomize_full_layers :: "(layer set \<Rightarrow> string) \<Rightarrow> layer set \<Rightarrow> randomize" where
  "randomize_full_layers show_layers layers =
     \<lparr>rz_inner = RandFullLayers layers, rz_label = ''full_layers('' @ show_layers layers @ '')''\<rparr>"

fun floor_repr :: "(u16 list \<Rightarrow> string) \<Rightarrow> negotiability_floor \<Rightarrow> string" where
  "floor_repr show_algs FloorUniversal = ''NegotiabilityFloor.UNIVERSAL''"
| "floor_repr show_algs FloorPresetFamily = ''NegotiabilityFloor.PRESET_FAMILY''"
| "floor_repr show_algs (FloorCustom algs) = ''NegotiabilityFloor.custom('' @ show_algs algs @ '')''"

definition randomize_negotiability ::
  "(u16 list \<Rightarrow> string) \<Rightarrow> randomize \<Rightarrow> negotiability_floor \<Rightarrow> randomize" where
  "randomize_negotiability show_algs self fl =
     \<lparr>rz_inner = RandNegotiability (rz_inner self) fl,
      rz_label = rz_label self @ ''.negotiability('' @ floor_repr show_algs fl @ '')''\<rparr>"

definition randomize_repr :: "randomize \<Rightarrow> string" where
  "randomize_repr self = ''Randomize.'' @ rz_label self"

definition layers_or :: "layer set \<Rightarrow> layer set \<Rightarrow> layer set" where
  "layers_or a b = a \<union> b"

section \<open>Network partitions\<close>

datatype tls_resumption_policy = ResumptionBrowserDefault | ResumptionDisabled | ResumptionEnabled usize

definition resumption_enabled :: "usize \<Rightarrow> tls_resumption_policy result" where
  "resumption_enabled max_tickets_per_server =
     (if max_tickets_per_server = 0 then raise ValueError ''max_tickets_per_server must be greater than zero''
      else Inr (ResumptionEnabled max_tickets_per_server))"

text \<open>Upstream's \<open>assert!\<close>.\<close>

fun resumption_policy_ok :: "tls_resumption_policy \<Rightarrow> bool" where
  "resumption_policy_ok (ResumptionEnabled n) = (0 < n)"
| "resumption_policy_ok _ = True"

datatype cache_partition_policy =
  Unpartitioned | TopLevelSite | TopLevelAndFrameSite | PartitionChromium | PartitionFirefox

fun cache_partition_name :: "cache_partition_policy \<Rightarrow> string" where
  "cache_partition_name Unpartitioned = ''UNPARTITIONED''"
| "cache_partition_name TopLevelSite = ''TOP_LEVEL_SITE''"
| "cache_partition_name TopLevelAndFrameSite = ''TOP_LEVEL_AND_FRAME_SITE''"
| "cache_partition_name PartitionChromium = ''CHROMIUM''"
| "cache_partition_name PartitionFirefox = ''FIREFOX''"

text \<open>The class attributes, by name.\<close>

definition cache_partition_attrs :: "(string \<times> cache_partition_policy) list" where
  "cache_partition_attrs =
     [(''UNPARTITIONED'', Unpartitioned), (''TOP_LEVEL_SITE'', TopLevelSite),
      (''TOP_LEVEL_AND_FRAME_SITE'', TopLevelAndFrameSite), (''CHROMIUM'', PartitionChromium),
      (''FIREFOX'', PartitionFirefox)]"

text \<open>A context is the calls made on upstream's; a method returns a new object.\<close>

datatype partition_call = PcNew string string | PcNonce string | PcBrowserContext string

definition partition_context_new :: "string \<Rightarrow> string \<Rightarrow> partition_call list" where
  "partition_context_new top_level_site frame_site = [PcNew top_level_site frame_site]"

definition partition_nonce :: "string \<Rightarrow> partition_call list \<Rightarrow> partition_call list" where
  "partition_nonce n self = self @ [PcNonce n]"

definition partition_browser_context :: "string \<Rightarrow> partition_call list \<Rightarrow> partition_call list" where
  "partition_browser_context ctx self = self @ [PcBrowserContext ctx]"

section \<open>Lemmas\<close>

lemma odd_and_one: "(i AND 1 = 0) = even (unat (i :: u32))"
proof -
  have "bit (unat i) 0 = bit i 0" by (simp only: bit_unsigned_iff) simp
  then show ?thesis by (simp add: and_one_eq mod_2_eq_odd bit_0)
qed

lemma validated_initial_stream_id_ok:
  "validated_initial_stream_id i = Inr j \<longleftrightarrow> j = i \<and> odd (unat i) \<and> unat i < 2 ^ 31"
proof -
  have "i > MAX_CLIENT_STREAM_ID \<longleftrightarrow> \<not> unat i < 2 ^ 31"
    by (simp add: MAX_CLIENT_STREAM_ID_def word_less_nat_alt not_less) arith
  moreover have "i = 0 \<Longrightarrow> even (unat i)" by simp
  ultimately show ?thesis by (auto simp: validated_initial_stream_id_def odd_and_one)
qed

lemma str_to_stream_dep_policy_ok: "str_to_stream_dep_policy s = Inr p \<longleftrightarrow> s = stream_dep_policy_to_str p"
  by (cases p) (auto simp: str_to_stream_dep_policy_def)

lemma eight_weights_ok: "eight_weights w = Inr v \<longleftrightarrow> v = w \<and> length w = 8"
  by (auto simp: eight_weights_def)

lemma pseudo_header_names_ok: "is_ok (str_to_pseudo_header_id s) \<longleftrightarrow> s \<in> fst ` set pseudo_header_names"
  by (auto simp: str_to_pseudo_header_id_def is_ok_iff res_simps map_of_eq_None_iff
      dest: map_of_SomeD simp flip: not_None_eq intro: rev_image_eqI)

lemma tls_version_labels:
  "is_ok (str_to_tls_version s) \<longleftrightarrow> s \<in> {''tls10'', ''tls11'', ''tls12'', ''tls13''}"
  by (auto simp: str_to_tls_version_def)

text \<open>What the rest of the stack relies on.\<close>

definition priority_config_ok :: "priority_config \<Rightarrow> bool" where
  "priority_config_ok c \<longleftrightarrow>
     (case pc_urgency_weights c of None \<Rightarrow> True | Some w \<Rightarrow> length w = 8) \<and> pc_default_urgency c \<le> 7"

definition h2_profile_ok :: "h2_profile \<Rightarrow> bool" where
  "h2_profile_ok p \<longleftrightarrow>
     odd (unat (h2_initial_stream_id p)) \<and> unat (h2_initial_stream_id p) < 2 ^ 31 \<and>
     priority_config_ok (h2_priority_config p)"

lemma priority_config_new_ok:
  "priority_config_new w ex policy auto_header urgency inc = Inr c \<Longrightarrow>
     priority_config_ok c \<and> pc_urgency_weights c = w \<and> pc_exclusive c = ex \<and>
     stream_dep_policy_getter c = policy \<and> pc_auto_priority_header c = auto_header \<and>
     pc_default_urgency c = urgency \<and> pc_default_incremental c = inc"
  by (auto simp: priority_config_new_def priority_config_ok_def res_simps eight_weights_ok
      str_to_stream_dep_policy_ok stream_dep_policy_getter_def split: if_splits option.splits)

section \<open>Properties\<close>

text \<open>C20: Every HTTP/2 profile the constructors let through is well formed: its first stream is one a client
  may open (odd, at most 31 bits), and its priority strategy, given or default, has eight weights or none
  and an urgency of at most 7.\<close>
theorem h2_profiles_typed:
  assumes "priority_config_new w ex policy auto_header urgency inc = Inr c"
    and "config \<in> {None, Some c}" and "priority_config_ok dflt"
    and "h2_profile_new dflt settings win order hp frames config sid = Inr p"
  shows "h2_profile_ok p \<and> length (h2_pseudo_header_order p) = length order \<and>
    h2_settings p = settings \<and> h2_initial_stream_id p = sid"
proof -
  have "priority_config_ok c" using priority_config_new_ok [OF assms(1)] by simp
  then show ?thesis
    using assms(2-4)
    by (auto simp: h2_profile_new_def h2_profile_ok_def res_simps validated_initial_stream_id_ok
        unwrap_or_def dest: list_all2_lengthD)
qed

text \<open>C29: Exactly which hand-built profiles are refused. An HTTP/2 profile needs known pseudo-headers and a valid
  first stream, a priority strategy eight weights, an urgency in range and a known policy, a TLS profile
  known version names; that the minimum version exceeds the maximum is not noticed, and no pseudo-header
  need be there or be there once.\<close>
theorem profiles_refused:
  "(is_ok (h2_profile_new dflt settings win order hp frames config sid) \<longleftrightarrow>
     set order \<subseteq> {''method'', ''authority'', ''scheme'', ''path''} \<and> odd (unat sid) \<and> unat sid < 2 ^ 31) \<and>
   (is_ok (priority_config_new w ex policy auto_header urgency inc) \<longleftrightarrow>
     (case w of None \<Rightarrow> True | Some ws \<Rightarrow> length ws = 8) \<and> urgency \<le> 7 \<and>
     policy \<in> {''flat'', ''chain'', ''priority_chain''}) \<and>
   (is_ok (tls_profile_new d name a) \<longleftrightarrow>
     set_option (ta_min_version a) \<union> set_option (ta_max_version a) \<subseteq> {''tls10'', ''tls11'', ''tls12'', ''tls13''}) \<and>
   (\<exists>p. tls_profile_new d name (tls_args_default\<lparr>ta_min_version := Some ''tls13'', ta_max_version := Some ''tls10''\<rparr>) =
       Inr p \<and> tp_max_version p < tp_min_version p)"
proof (intro conjI)
  have "is_ok (collect_map str_to_pseudo_header_id order) \<longleftrightarrow>
      set order \<subseteq> {''method'', ''authority'', ''scheme'', ''path''}"
    by (auto simp: collect_map_is_ok pseudo_header_names_ok) (auto simp: pseudo_header_names_def)
  then show "is_ok (h2_profile_new dflt settings win order hp frames config sid) \<longleftrightarrow>
     set order \<subseteq> {''method'', ''authority'', ''scheme'', ''path''} \<and> odd (unat sid) \<and> unat sid < 2 ^ 31"
    by (auto simp: h2_profile_new_def is_ok_iff res_simps validated_initial_stream_id_ok)
  have "stream_dep_policy_to_str p \<in> {''flat'', ''chain'', ''priority_chain''}" for p by (cases p) simp_all
  then have "policy \<in> {''flat'', ''chain'', ''priority_chain''} \<longleftrightarrow> (\<exists>p. policy = stream_dep_policy_to_str p)"
    by (auto intro: exI [of _ Flat] exI [of _ Chain] exI [of _ PriorityChain])
  then show "is_ok (priority_config_new w ex policy auto_header urgency inc) \<longleftrightarrow>
     (case w of None \<Rightarrow> True | Some ws \<Rightarrow> length ws = 8) \<and> urgency \<le> 7 \<and>
     policy \<in> {''flat'', ''chain'', ''priority_chain''}"
    by (cases w) (auto simp: priority_config_new_def is_ok_iff res_simps eight_weights_ok
        str_to_stream_dep_policy_ok not_less)
  have ver: "is_ok (case o1 of Some s \<Rightarrow> str_to_tls_version s | None \<Rightarrow> Inr v) \<longleftrightarrow>
      set_option o1 \<subseteq> {''tls10'', ''tls11'', ''tls12'', ''tls13''}" for o1 v
    using tls_version_labels by (cases o1) auto
  have both: "is_ok (ok_then r1 (\<lambda>x. ok_then r2 (\<lambda>y. Inr (f x y)))) \<longleftrightarrow> is_ok r1 \<and> is_ok r2"
    for r1 :: "tls_version result" and r2 :: "tls_version result" and f
    by (cases r1; cases r2) auto
  show "is_ok (tls_profile_new d name a) \<longleftrightarrow>
     set_option (ta_min_version a) \<union> set_option (ta_max_version a) \<subseteq> {''tls10'', ''tls11'', ''tls12'', ''tls13''}"
    unfolding tls_profile_new_def both ver by blast
qed (simp add: tls_profile_new_def tls_args_default_def str_to_tls_version_def less_tls_version_def)

text \<open>C33: What the getters of a fingerprint object show is enough to build it again: a priority strategy, and
  an extension of any source but raw bytes, rebuilt from its getters is the same; the bytes of a raw
  extension cannot be read back.\<close>
theorem fingerprint_round_trips:
  assumes "priority_config_new w ex policy auto_header urgency inc = Inr c"
    and "extension_spec_new ty source raw ids shuffle = Inr e" and "source \<noteq> ''raw_bytes''"
  shows "priority_config_new (map_option (map (\<lambda>x. ucast x)) (urgency_weights_getter c)) (pc_exclusive c)
      (stream_dep_policy_getter c) (pc_auto_priority_header c) (pc_default_urgency c)
      (pc_default_incremental c) = Inr c \<and>
    extension_spec_new (extension_type e) (extension_source_label e) None (extension_trust_anchor_ids e)
      (unwrap_or False (extension_shuffle e)) = Inr e \<and>
    extension_source_label e = source \<and>
    (\<exists>e1 e2. extension_spec_new ty ''raw_bytes'' (Some ''00'') None False = Inr e1 \<and>
       extension_spec_new ty ''raw_bytes'' (Some ''01'') None False = Inr e2 \<and> e1 \<noteq> e2 \<and>
       (extension_type e1, extension_source_label e1, extension_trust_anchor_ids e1, extension_shuffle e1) =
       (extension_type e2, extension_source_label e2, extension_trust_anchor_ids e2, extension_shuffle e2))"
proof -
  note c = priority_config_new_ok [OF assms(1)]
  have "map_option (map (\<lambda>x. ucast x)) (urgency_weights_getter c) = w"
    using c by (cases w) (simp_all add: urgency_weights_getter_def comp_def ucast_up_ucast is_up)
  then have strategy: "priority_config_new (map_option (map (\<lambda>x. ucast x)) (urgency_weights_getter c)) (pc_exclusive c)
      (stream_dep_policy_getter c) (pc_auto_priority_header c) (pc_default_urgency c)
      (pc_default_incremental c) = Inr c" using c assms(1) by simp
  have spec: "extension_spec_new (extension_type e) (extension_source_label e) None
      (extension_trust_anchor_ids e) (unwrap_or False (extension_shuffle e)) = Inr e"
    and label: "extension_source_label e = source"
    using assms(2,3)
    by (auto simp: extension_spec_new_def extension_source_label_def extension_trust_anchor_ids_def
        extension_shuffle_def unwrap_or_def res_simps split: if_splits)
  have "\<exists>e1 e2. extension_spec_new ty ''raw_bytes'' (Some ''00'') None False = Inr e1 \<and>
       extension_spec_new ty ''raw_bytes'' (Some ''01'') None False = Inr e2 \<and> e1 \<noteq> e2 \<and>
       (extension_type e1, extension_source_label e1, extension_trust_anchor_ids e1, extension_shuffle e1) =
       (extension_type e2, extension_source_label e2, extension_trust_anchor_ids e2, extension_shuffle e2)"
    by (simp add: extension_spec_new_def extension_source_label_def extension_trust_anchor_ids_def
        extension_shuffle_def)
  with strategy spec label show ?thesis by (intro conjI)
qed

text \<open>A preset is the same by name and by static method: for every TLS, HTTP/2, QUIC and TCP preset the string
  argument and the object select the same upstream function. The exceptions are the seven QUIC variants of
  the TLS presets, which no string names: \<open>quic_fingerprint='chrome_151'\<close> selects the TCP ClientHello.\<close>
lemma presets_by_name:
  "filter (\<lambda>(name, p). map_of tls_profiles name \<noteq> None) tls_static_presets = tls_profiles \<and>
   map fst (filter (\<lambda>(name, p). map_of tls_profiles name = None) tls_static_presets) =
     [''chrome_146_quic'', ''chrome_150_quic'', ''chrome_151_quic'', ''chrome_152_quic'', ''chrome_153_quic'',
      ''chrome_154_quic'', ''chrome_155_quic''] \<and>
   h2_static_presets = h2_profiles \<and> quic_static_presets = quic_profiles \<and>
   tcp_static_presets = map (\<lambda>s. (s, s)) tcp_presets \<and>
   (resolve_tls_from_any (StrArg name) = Inr (Preset p) \<longleftrightarrow> (name, p) \<in> set tls_profiles) \<and>
   resolve_tls_from_any (StrArg ''chrome_151'') = Inr (Preset ''chrome_151'')"
proof (intro conjI)
  have "distinct (map fst tls_profiles)" by code_simp
  from map_of_eq_Some_iff [OF this, of name p]
  show "resolve_tls_from_any (StrArg name) = Inr (Preset p) \<longleftrightarrow> (name, p) \<in> set tls_profiles"
    by (cases "map_of tls_profiles name") (auto simp: resolve_tls_from_any_def resolve_tls_profile_def)
qed (simp_all add: tls_static_presets_def tls_chrome_presets_def tls_profiles_def h2_static_presets_def h2_profiles_def
    quic_static_presets_def quic_profiles_def tcp_static_presets_def tcp_presets_def
    resolve_tls_from_any_def resolve_tls_profile_def)

section \<open>Witnesses\<close>

definition chrome_like :: priority_config where
  "chrome_like = \<lparr>pc_urgency_weights = Some [255, 219, 182, 146, 109, 73, 36, 0], pc_exclusive = True,
     pc_stream_dep_policy = PriorityChain, pc_auto_priority_header = True, pc_default_urgency = 3,
     pc_default_incremental = False\<rparr>"

lemma chrome_like_new:
  "priority_config_new (Some [255, 219, 182, 146, 109, 73, 36, 0]) True ''priority_chain'' True 3 False =
     Inr chrome_like"
  by (simp add: priority_config_new_def eight_weights_def str_to_stream_dep_policy_def chrome_like_def)

theorem h2_profiles_typed_witness:
  "\<exists>p. h2_profile_new chrome_like [] 15663105 [''method'', ''path''] None None (Some chrome_like) 3 = Inr p \<and>
     h2_profile_ok p"
proof -
  obtain p where p: "h2_profile_new chrome_like [] 15663105 [''method'', ''path''] None None (Some chrome_like) 3 = Inr p"
    by (simp add: h2_profile_new_def str_to_pseudo_header_id_def pseudo_header_names_def
        validated_initial_stream_id_def MAX_CLIENT_STREAM_ID_def)
  have "priority_config_ok chrome_like" using priority_config_new_ok [OF chrome_like_new] by simp
  with h2_profiles_typed [OF chrome_like_new _ _ p] p show ?thesis by simp
qed

theorem fingerprint_round_trips_witness:
  "extension_spec_new 51764 ''trust_anchor_ids'' None (Some [''0a'']) True =
     Inr \<lparr>extension_type = 51764, ext_source = SrcTrustAnchorIds [''0a''] True\<rparr> \<and>
   stream_dep_policy_getter chrome_like = ''priority_chain''"
proof -
  have e: "extension_spec_new 51764 ''trust_anchor_ids'' None (Some [''0a'']) True =
      Inr \<lparr>extension_type = 51764, ext_source = SrcTrustAnchorIds [''0a''] True\<rparr>"
    by (simp add: extension_spec_new_def)
  from fingerprint_round_trips [OF chrome_like_new e] show ?thesis
    using e by (simp add: stream_dep_policy_getter_def chrome_like_def)
qed

end
