(* ===== verification/ClientInfo.thy ===== *)
theory ClientInfo imports Fingerprint begin

text \<open>
  What the two client classes of \<open>src/src/client.rs\<close> show of the upstream client they hold, and the
  randomized copy the blocking class makes. The upstream client is what can be read back from it.
\<close>

record 's client_view =
  cv_tls :: "'s tls_profile"
  cv_h2 :: h2_profile
  cv_tcp :: "tcp_fingerprint option"
  cv_require_close_notify :: bool
  cv_h2_dispatch_batch_size :: usize
  cv_tls_session_resumption_policy :: tls_resumption_policy

datatype info_value = InfoStr string | InfoLen nat | InfoU32 u32 | InfoOptStr "string option"

definition fingerprint_info ::
  "(tcp_fingerprint \<Rightarrow> string option) \<Rightarrow> 's client_view \<Rightarrow> (string \<times> info_value) list" where
  "fingerprint_info to_ja4t c =
     [(''tls_profile'', InfoStr (tp_name (cv_tls c))),
      (''h2_settings_count'', InfoLen (length (h2_settings (cv_h2 c)))),
      (''h2_window_update'', InfoU32 (h2_window_update (cv_h2 c))),
      (''tcp_ja4t'', InfoOptStr (Option.bind (cv_tcp c) to_ja4t))]"

definition client_require_close_notify :: "'s client_view \<Rightarrow> bool" where
  "client_require_close_notify c = cv_require_close_notify c"

definition client_h2_dispatch_batch_size :: "'s client_view \<Rightarrow> usize" where
  "client_h2_dispatch_batch_size c = cv_h2_dispatch_batch_size c"

definition client_resumption_policy :: "'s client_view \<Rightarrow> tls_resumption_policy" where
  "client_resumption_policy c = cv_tls_session_resumption_policy c"

definition blocking_client_getters :: "'s client_view \<Rightarrow> bool \<times> usize \<times> tls_resumption_policy" where
  "blocking_client_getters c =
     (cv_require_close_notify c, cv_h2_dispatch_batch_size c, cv_tls_session_resumption_policy c)"

definition blocking_fingerprint_info ::
  "(tcp_fingerprint \<Rightarrow> string option) \<Rightarrow> 's client_view \<Rightarrow> (string \<times> info_value) list" where
  "blocking_fingerprint_info to_ja4t c =
     [(''tls_profile'', InfoStr (tp_name (cv_tls c))),
      (''h2_settings_count'', InfoLen (length (h2_settings (cv_h2 c)))),
      (''h2_window_update'', InfoU32 (h2_window_update (cv_h2 c))),
      (''tcp_ja4t'', InfoOptStr (Option.bind (cv_tcp c) to_ja4t))]"

definition blocking_randomize_fingerprint :: "fingerprint_layers \<Rightarrow> bool \<Rightarrow> cb_call list" where
  "blocking_randomize_fingerprint cl shuffle =
     (let b = [CbFingerprint (Randomized (layer_tls cl) shuffle), CbH2Profile (layer_h2 cl)];
          b = log_some CbTcpFingerprint (layer_tcp cl) b
      in log_some CbQuicFingerprint (layer_quic_tls cl) b)"

text \<open>The copy carries the four layers and nothing else, the same for both classes.\<close>

lemma randomized_copy:
  "set (randomize_fingerprint cl shuffle) =
     {CbFingerprint (Randomized (layer_tls cl) shuffle), CbH2Profile (layer_h2 cl)} \<union>
     CbTcpFingerprint ` set_option (layer_tcp cl) \<union> CbQuicFingerprint ` set_option (layer_quic_tls cl)"
  "blocking_randomize_fingerprint = randomize_fingerprint"
  by (auto simp: randomize_fingerprint_def blocking_randomize_fingerprint_def log_simps Let_def fun_eq_iff)

lemma fingerprint_info_agree:
  "blocking_fingerprint_info = fingerprint_info"
  "blocking_client_getters c =
     (client_require_close_notify c, client_h2_dispatch_batch_size c, client_resumption_policy c)"
  by (simp_all add: fun_eq_iff blocking_fingerprint_info_def fingerprint_info_def blocking_client_getters_def
      client_require_close_notify_def client_h2_dispatch_batch_size_def client_resumption_policy_def)

end
