(* ===== verification/Bridge.thy ===== *)
theory Bridge imports SessionState begin

text \<open>
  \<open>src/src/bridge.rs\<close>: futures bridged to asyncio, the count of those in flight, and \<open>drain\<close>. The
  bridge is a transition system whose steps are the atomic actions of the runtime workers, of the
  event loop and of a draining task.
\<close>

section \<open>The guarded event loop\<close>

fun starts_with :: "string \<Rightarrow> string \<Rightarrow> bool" where
  "starts_with [] s = True"
| "starts_with (p # ps) [] = False"
| "starts_with (p # ps) (c # cs) = (p = c \<and> starts_with ps cs)"

fun contains :: "string \<Rightarrow> string \<Rightarrow> bool" where
  "contains p [] = (p = [])"
| "contains p (c # cs) = (starts_with p (c # cs) \<or> contains p cs)"

definition is_loop_closed_error :: "exc \<Rightarrow> bool" where
  "is_loop_closed_error e \<longleftrightarrow> kind e = RuntimeError \<and> contains ''Event loop is closed'' (message e)"

text \<open>
  \<open>call_soon_threadsafe\<close> of the proxy. \<open>closed\<close> is what \<open>is_closed()\<close> of the real loop says,
  \<open>forward\<close> what its \<open>call_soon_threadsafe\<close> answers. The result says whether the callback was
  enqueued; the guard taken up front is dropped on every path.
\<close>

definition call_soon_threadsafe :: "bool result \<Rightarrow> unit result \<Rightarrow> unit result \<times> bool" where
  "call_soon_threadsafe loop_closed forward =
     (case loop_closed of
        Inl e \<Rightarrow> (Inl e, False)
      | Inr True \<Rightarrow> (Inr (), False)
      | Inr False \<Rightarrow>
          (case forward of
             Inr _ \<Rightarrow> (Inr (), True)
           | Inl e \<Rightarrow> if is_loop_closed_error e then (Inr (), False) else (Inl e, False)))"

section \<open>The transition system\<close>

text \<open>
  Where the guard of a bridged future is. \<open>Wrapped\<close>: captured by the wrapper future. \<open>Parked\<close>: the
  wrapper completed and left it in the proxy. \<open>Delivering\<close>: taken by \<open>call_soon_threadsafe\<close>.
  \<open>Enqueued\<close>: the callback is in the loop's queue, the guard still held. \<open>Delivered\<close> and
  \<open>NoDelivery\<close>: the guard is gone, with the result in the queue or never to be delivered.
\<close>

datatype fut = Wrapped | Parked | Delivering | Enqueued | Delivered | NoDelivery

datatype queue_item = Callback nat | WakeUp

text \<open>\<open>Registered n\<close> and \<open>Waiting n\<close>: the task holds a \<open>notified()\<close> future that has (\<open>n\<close>) or has not fired.\<close>

datatype drainer = Idle | Registered bool | Waiting bool | Drained

record bridge =
  count :: nat
  futs :: "fut list"
  queue :: "queue_item list"
  notifying :: nat
  drainer :: drainer

definition bridge_init :: bridge where
  "bridge_init = \<lparr>count = 0, futs = [], queue = [], notifying = 0, drainer = Idle\<rparr>"

definition holds_guard :: "fut \<Rightarrow> bool" where
  "holds_guard f \<longleftrightarrow> f \<in> {Wrapped, Parked, Delivering, Enqueued}"

text \<open>\<open>Drop for InFlightGuard\<close>: \<open>fetch_sub\<close>, and a \<open>notify_waiters\<close> still to run if it was the last.\<close>

definition drop_guard :: "bridge \<Rightarrow> bridge" where
  "drop_guard b = b\<lparr>count := count b - 1,
     notifying := (if count b = 1 then notifying b + 1 else notifying b)\<rparr>"

definition register_guard :: "bridge \<Rightarrow> bridge" where
  "register_guard b = b\<lparr>count := count b + 1, futs := futs b @ [Wrapped]\<rparr>"

definition set_fut :: "nat \<Rightarrow> fut \<Rightarrow> bridge \<Rightarrow> bridge" where
  "set_fut i f b = b\<lparr>futs := (futs b)[i := f]\<rparr>"

fun notify_drainer :: "drainer \<Rightarrow> drainer" where
  "notify_drainer (Registered n) = Registered True"
| "notify_drainer (Waiting n) = Waiting True"
| "notify_drainer d = d"

inductive bridge_step :: "bridge \<Rightarrow> bridge \<Rightarrow> bool" where
  submit: "bridge_step b (register_guard b)"
| wrapper_dropped: "i < length (futs b) \<Longrightarrow> futs b ! i = Wrapped \<Longrightarrow>
    bridge_step b (drop_guard (set_fut i NoDelivery b))"
| wrapper_completes: "i < length (futs b) \<Longrightarrow> futs b ! i = Wrapped \<Longrightarrow>
    bridge_step b (set_fut i Parked b)"
| take_guard: "i < length (futs b) \<Longrightarrow> futs b ! i = Parked \<Longrightarrow>
    bridge_step b (set_fut i Delivering b)"
| enqueue: "i < length (futs b) \<Longrightarrow> futs b ! i = Delivering \<Longrightarrow>
    call_soon_threadsafe loop_closed forward = (r, True) \<Longrightarrow>
    bridge_step b (set_fut i Enqueued b\<lparr>queue := queue b @ [Callback i]\<rparr>)"
| release_delivered: "i < length (futs b) \<Longrightarrow> futs b ! i = Enqueued \<Longrightarrow>
    bridge_step b (drop_guard (set_fut i Delivered b))"
| release_undeliverable: "i < length (futs b) \<Longrightarrow> futs b ! i = Delivering \<Longrightarrow>
    call_soon_threadsafe loop_closed forward = (r, False) \<Longrightarrow>
    bridge_step b (drop_guard (set_fut i NoDelivery b))"
| proxy_dropped: "i < length (futs b) \<Longrightarrow> futs b ! i = Parked \<Longrightarrow>
    bridge_step b (drop_guard (set_fut i NoDelivery b))"
| notify_waiters: "0 < notifying b \<Longrightarrow>
    bridge_step b (b\<lparr>notifying := notifying b - 1, drainer := notify_drainer (drainer b)\<rparr>)"
| drain_register: "drainer b = Idle \<Longrightarrow> bridge_step b (b\<lparr>drainer := Registered False\<rparr>)"
| drain_zero: "drainer b = Registered n \<Longrightarrow> count b = 0 \<Longrightarrow>
    bridge_step b (b\<lparr>drainer := Drained\<rparr>)"
| drain_busy: "drainer b = Registered n \<Longrightarrow> count b \<noteq> 0 \<Longrightarrow>
    bridge_step b (b\<lparr>drainer := Waiting n\<rparr>)"
| drain_woken: "drainer b = Waiting True \<Longrightarrow> bridge_step b (b\<lparr>drainer := Idle\<rparr>)"
| drain_tick: "drainer b = Waiting n \<Longrightarrow> bridge_step b (b\<lparr>drainer := Idle\<rparr>)"
| drain_wake_up: "drainer b = Drained \<Longrightarrow>
    bridge_step b (b\<lparr>drainer := Idle, queue := queue b @ [WakeUp]\<rparr>)"

section \<open>Conservation of guards\<close>

definition held :: "fut list \<Rightarrow> nat" where
  "held fs = length (filter holds_guard fs)"

text \<open>
  The invariant: the count is the number of guards in existence; a future's callback is in the
  queue exactly from the moment it is enqueued; and a drainer parked without a notification while
  the count is zero has a notification on its way.
\<close>

definition bridge_inv :: "bridge \<Rightarrow> bool" where
  "bridge_inv b \<longleftrightarrow>
     count b = held (futs b) \<and>
     (\<forall>i < length (futs b). Callback i \<in> set (queue b) \<longleftrightarrow> futs b ! i \<in> {Enqueued, Delivered}) \<and>
     (\<forall>i. Callback i \<in> set (queue b) \<longrightarrow> i < length (futs b)) \<and>
     (drainer b = Waiting False \<and> count b = 0 \<longrightarrow> 0 < notifying b)"

lemma held_update:
  assumes "i < length fs"
  shows "held (fs[i := f]) + of_bool (holds_guard (fs ! i)) = held fs + of_bool (holds_guard f)"
  using assms
proof (induction fs arbitrary: i)
  case (Cons x fs)
  show ?case
  proof (cases i)
    case 0
    then show ?thesis by (simp add: held_def)
  next
    case (Suc j)
    then show ?thesis using Cons.IH [of j] Cons.prems by (simp add: held_def)
  qed
qed simp

lemma held_pos: "i < length fs \<Longrightarrow> holds_guard (fs ! i) \<Longrightarrow> 0 < held fs"
  by (auto simp: held_def filter_empty_conv)

lemma bridge_inv_init: "bridge_inv bridge_init"
  by (simp add: bridge_inv_def bridge_init_def held_def)

lemma guard_states [simp]:
  "holds_guard Wrapped" "holds_guard Parked" "holds_guard Delivering" "holds_guard Enqueued"
  "\<not> holds_guard Delivered" "\<not> holds_guard NoDelivery"
  by (simp_all add: holds_guard_def)

lemma inv_move:
  assumes "bridge_inv b" and "i < length (futs b)" and "holds_guard (futs b ! i)" and "holds_guard f"
    and "(f \<in> {Enqueued, Delivered}) = (futs b ! i \<in> {Enqueued, Delivered})"
  shows "bridge_inv (set_fut i f b)"
  using assms held_update [OF assms(2), of f]
  by (auto simp: bridge_inv_def set_fut_def nth_list_update)

lemma inv_drop:
  assumes "bridge_inv b" and "i < length (futs b)" and "holds_guard (futs b ! i)" and "\<not> holds_guard f"
    and "(f \<in> {Enqueued, Delivered}) = (futs b ! i \<in> {Enqueued, Delivered})"
  shows "bridge_inv (drop_guard (set_fut i f b))"
  using assms held_update [OF assms(2), of f] held_pos [OF assms(2,3)]
  by (auto simp: bridge_inv_def set_fut_def drop_guard_def nth_list_update)

lemma bridge_inv_step: "bridge_step b c \<Longrightarrow> bridge_inv b \<Longrightarrow> bridge_inv c"
proof (induction rule: bridge_step.induct)
  case (submit b)
  then show ?case
    by (auto simp: bridge_inv_def register_guard_def held_def nth_append less_Suc_eq)
next
  case (enqueue i b loop_closed forward r)
  then show ?case
    using held_update [OF enqueue.hyps(1), of Enqueued]
    by (auto simp: bridge_inv_def set_fut_def nth_list_update)
next
  case (notify_waiters b)
  then show ?case by (cases "drainer b") (auto simp: bridge_inv_def)
qed (auto intro: inv_move inv_drop, auto simp: bridge_inv_def)

interpretation bridge_conservation: absorbing bridge_step bridge_inv
  by unfold_locales (rule bridge_inv_step)

section \<open>Submitting and draining\<close>

text \<open>
  \<open>future_into_py\<close>: the guard is registered before anything fallible. \<open>enter\<close> is the rest, which
  may fail (no running loop); the wrapper is then dropped unpolled.
\<close>

definition future_into_py :: "(nat \<Rightarrow> 'f result) \<Rightarrow> bridge \<Rightarrow> 'f result \<times> bridge" where
  "future_into_py enter b =
     (let i = length (futs b); b = register_guard b in
      case enter i of
        Inl e \<Rightarrow> (Inl e, drop_guard (set_fut i NoDelivery b))
      | Inr f \<Rightarrow> (Inr f, b))"

text \<open>
  \<open>bridged_into_py\<close>: what PyO3 has of the running loop, the proxy built over it with the slot guards are
  handed over in (the future's own, or one nobody fills), and the call that enters the bridge with the proxy.
  \<open>future_into_py_untracked\<close> registers no guard.
\<close>

record ('l, 'p, 'f) asyncio_api =
  get_current_locals :: "'l result"
  new_guarded_loop :: "'l \<Rightarrow> nat option \<Rightarrow> 'p result"
  future_into_py_with_locals :: "'l \<Rightarrow> 'p \<Rightarrow> 'f result"

definition bridged_into_py :: "('l, 'p, 'f) asyncio_api \<Rightarrow> nat option \<Rightarrow> 'f result" where
  "bridged_into_py api handoff =
     ok_then (get_current_locals api) (\<lambda>locals.
     ok_then (new_guarded_loop api locals handoff) (\<lambda>guarded.
       future_into_py_with_locals api locals guarded))"

definition future_into_py_untracked :: "('l, 'p, 'f) asyncio_api \<Rightarrow> bridge \<Rightarrow> 'f result \<times> bridge" where
  "future_into_py_untracked api b = (bridged_into_py api None, b)"

definition pending_count :: "bridge \<Rightarrow> nat" where
  "pending_count b = count b"

text \<open>
  \<open>drain\<close> with the counts it reads, in order. The timeout leaves room for \<open>k\<close> reads beyond the first,
  which \<open>tokio::time::timeout\<close> always makes; \<open>None\<close> is a wait that is not over after the counts given.
\<close>

fun drain_loop :: "nat list \<Rightarrow> unit option" where
  "drain_loop [] = None"
| "drain_loop (c # cs) = (if c = 0 then Some () else drain_loop cs)"

definition drain :: "nat option \<Rightarrow> nat list \<Rightarrow> bool option" where
  "drain more_reads counts =
     (case more_reads of
        None \<Rightarrow> map_option (\<lambda>_. True) (drain_loop counts)
      | Some k \<Rightarrow>
          (case drain_loop (take (Suc k) counts) of
             Some _ \<Rightarrow> Some True
           | None \<Rightarrow> if k < length counts then Some False else None))"

lemma drain_loop_Some: "drain_loop cs = Some u \<longleftrightarrow> 0 \<in> set cs"
  by (induction cs) auto

lemma drain_answers:
  "drain more_reads counts = Some True \<longleftrightarrow>
     0 \<in> set (case more_reads of None \<Rightarrow> counts | Some k \<Rightarrow> take (Suc k) counts)"
  "drain more_reads counts = Some False \<longleftrightarrow>
     (\<exists>k. more_reads = Some k \<and> k < length counts \<and> 0 \<notin> set (take (Suc k) counts))"
  by (auto simp: drain_def drain_loop_Some split: option.splits)
     (metis drain_loop_Some not_None_eq option.distinct(1))+

lemma future_into_py_steps: "bridge_step\<^sup>*\<^sup>* b (snd (future_into_py enter b))"
proof (cases "enter (length (futs b))")
  case (Inl e)
  have "bridge_step b (register_guard b)" by (rule submit)
  moreover have "bridge_step (register_guard b)
      (drop_guard (set_fut (length (futs b)) NoDelivery (register_guard b)))"
    by (rule wrapper_dropped) (simp_all add: register_guard_def)
  ultimately show ?thesis using Inl by (simp add: future_into_py_def)
next
  case (Inr f)
  then show ?thesis using submit [of b] by (simp add: future_into_py_def)
qed

text \<open>Without a running loop both entries are refused, and neither leaves anything counted.\<close>

lemma no_running_loop:
  assumes "bridge_inv b" "get_current_locals api = Inl e"
  shows "fst (future_into_py (\<lambda>i. bridged_into_py api (Some i)) b) = Inl e \<and>
    pending_count (snd (future_into_py (\<lambda>i. bridged_into_py api (Some i)) b)) = pending_count b \<and>
    future_into_py_untracked api b = (Inl e, b)"
  using assms by (simp add: future_into_py_def future_into_py_untracked_def bridged_into_py_def res_simps
      Let_def pending_count_def register_guard_def drop_guard_def set_fut_def)

lemma queue_grows: "bridge_step b c \<Longrightarrow> take (length (queue b)) (queue c) = queue b"
  by (induction rule: bridge_step.induct)
     (simp_all add: register_guard_def drop_guard_def set_fut_def)

lemma queue_length: "bridge_step b c \<Longrightarrow> length (queue b) \<le> length (queue c)"
  by (induction rule: bridge_step.induct)
     (simp_all add: register_guard_def drop_guard_def set_fut_def)

interpretation queue_prefix: absorbing bridge_step
    "\<lambda>c. length q \<le> length (queue c) \<and> take (length q) (queue c) = q" for q
proof unfold_locales
  fix b c assume st: "bridge_step b c"
    and h: "length q \<le> length (queue b) \<and> take (length q) (queue b) = q"
  have "take (length q) (queue c) = take (length q) (take (length (queue b)) (queue c))"
    using h by (simp add: min_def)
  then show "length q \<le> length (queue c) \<and> take (length q) (queue c) = q"
    using queue_grows [OF st] queue_length [OF st] h by simp
qed

lemma zero_settled:
  assumes "bridge_inv b" and "count b = 0" and "i < length (futs b)"
  shows "futs b ! i = Delivered \<and> Callback i \<in> set (queue b) \<or> futs b ! i = NoDelivery"
proof -
  have "\<not> holds_guard (futs b ! i)" using assms held_pos [OF assms(3)] by (auto simp: bridge_inv_def)
  then show ?thesis using assms by (cases "futs b ! i") (auto simp: bridge_inv_def)
qed

section \<open>Properties\<close>

text \<open>C3: A drain that sees the count at zero is a delivery guarantee: every future bridged so far has
  its result in the loop's queue, or will never have one, and whatever happens next, anything put
  in the queue from then on, the drain's own wake-up too, comes behind those results.\<close>
theorem drain_guarantees_delivery:
  assumes "bridge_step\<^sup>*\<^sup>* bridge_init b" and "count b = 0" and "bridge_step\<^sup>*\<^sup>* b c"
  shows "(\<forall>i < length (futs b).
      futs b ! i = Delivered \<and> Callback i \<in> set (queue b) \<or> futs b ! i = NoDelivery) \<and>
    take (length (queue b)) (queue c) = queue b"
proof -
  have "bridge_inv b" by (rule bridge_conservation.forever [OF assms(1) bridge_inv_init])
  then show ?thesis
    using zero_settled assms(2) queue_prefix.forever [OF assms(3), of "queue b"] by simp
qed

text \<open>The in-flight count is the number of guards in existence in every reachable state, and a
  submission that fails leaves it as it was.\<close>
lemma count_is_guards:
  assumes "bridge_step\<^sup>*\<^sup>* bridge_init b"
  shows "pending_count b = held (futs b) \<and>
    pending_count (snd (future_into_py enter b)) =
      pending_count b + (case enter (length (futs b)) of Inl _ \<Rightarrow> 0 | Inr _ \<Rightarrow> 1)"
proof -
  have inv: "bridge_inv b" by (rule bridge_conservation.forever [OF assms bridge_inv_init])
  then show ?thesis
    by (auto simp: bridge_inv_def pending_count_def future_into_py_def register_guard_def
        drop_guard_def set_fut_def Let_def split: sum.split)
qed

text \<open>C27: No wake-up is lost: a draining task that waits although the count has reached zero was
  notified, or a notification is under way that will reach it.\<close>
theorem no_lost_wakeup:
  assumes "bridge_step\<^sup>*\<^sup>* bridge_init b" and "drainer b = Waiting n" and "count b = 0"
  shows "n \<or> (\<exists>c. bridge_step b c \<and> drainer c = Waiting True)"
proof (cases n)
  case False
  have "bridge_inv b" by (rule bridge_conservation.forever [OF assms(1) bridge_inv_init])
  with assms False have "0 < notifying b" by (simp add: bridge_inv_def)
  from notify_waiters [OF this] show ?thesis using assms(2) by force
qed simp

text \<open>Delivery to a loop that has closed, before the check or between the check and the call, is
  silent; a callback is reported enqueued exactly when the open loop took it.\<close>
lemma late_delivery_is_silent:
  "snd (call_soon_threadsafe (Inr shut) forward) = (\<not> shut \<and> is_ok forward) \<and>
   (fst (call_soon_threadsafe (Inr shut) forward) = Inl e \<longleftrightarrow>
      \<not> shut \<and> forward = Inl e \<and> \<not> is_loop_closed_error e)"
  by (cases shut; cases forward) (auto simp: call_soon_threadsafe_def)

section \<open>Witnesses\<close>

definition after_one :: bridge where
  "after_one = \<lparr>count = 0, futs = [Delivered], queue = [Callback 0], notifying = 1, drainer = Waiting False\<rparr>"

lemma after_one_reachable: "bridge_step\<^sup>*\<^sup>* bridge_init after_one"
proof -
  let ?s = "\<lambda>n f q d. \<lparr>count = n, futs = f, queue = q, notifying = 0, drainer = d\<rparr>"
  have "bridge_step\<^sup>*\<^sup>* bridge_init (?s 1 [Wrapped] [] Idle)"
    using submit [of bridge_init] by (auto intro!: r_into_rtranclp simp: register_guard_def bridge_init_def)
  also have "bridge_step\<^sup>*\<^sup>* (?s 1 [Wrapped] [] Idle) (?s 1 [Wrapped] [] (Registered False))"
    using drain_register [of "?s 1 [Wrapped] [] Idle"] by (auto intro!: r_into_rtranclp)
  also have "bridge_step\<^sup>*\<^sup>* (?s 1 [Wrapped] [] (Registered False)) (?s 1 [Wrapped] [] (Waiting False))"
    using drain_busy [of "?s 1 [Wrapped] [] (Registered False)"] by (auto intro!: r_into_rtranclp)
  also have "bridge_step\<^sup>*\<^sup>* (?s 1 [Wrapped] [] (Waiting False)) (?s 1 [Parked] [] (Waiting False))"
    using wrapper_completes [of 0 "?s 1 [Wrapped] [] (Waiting False)"] by (auto intro!: r_into_rtranclp simp: set_fut_def)
  also have "bridge_step\<^sup>*\<^sup>* (?s 1 [Parked] [] (Waiting False)) (?s 1 [Delivering] [] (Waiting False))"
    using take_guard [of 0 "?s 1 [Parked] [] (Waiting False)"] by (auto intro!: r_into_rtranclp simp: set_fut_def)
  also have "bridge_step\<^sup>*\<^sup>* (?s 1 [Delivering] [] (Waiting False)) (?s 1 [Enqueued] [Callback 0] (Waiting False))"
    using enqueue [of 0 "?s 1 [Delivering] [] (Waiting False)" "Inr False" "Inr ()" "Inr ()"]
    by (auto intro!: r_into_rtranclp simp: set_fut_def call_soon_threadsafe_def)
  also have "bridge_step\<^sup>*\<^sup>* (?s 1 [Enqueued] [Callback 0] (Waiting False)) after_one"
    using release_delivered [of 0 "?s 1 [Enqueued] [Callback 0] (Waiting False)"]
    by (auto intro!: r_into_rtranclp simp: set_fut_def drop_guard_def after_one_def)
  finally show ?thesis .
qed

theorem drain_guarantees_delivery_witness:
  "futs after_one ! 0 = Delivered \<and> Callback 0 \<in> set (queue after_one) \<or> futs after_one ! 0 = NoDelivery"
  using drain_guarantees_delivery [OF after_one_reachable _ rtranclp.rtrancl_refl]
  by (simp add: after_one_def)

theorem no_lost_wakeup_witness: "\<exists>c. bridge_step after_one c \<and> drainer c = Waiting True"
  using no_lost_wakeup [OF after_one_reachable, of False] by (simp add: after_one_def)

end
