(* ===== verification/Module.thy ===== *)
theory Module imports Bridge Fingerprint begin

text \<open>
  \<open>src/src/lib.rs\<close>: the functions of the module: draining, the consistency check of fingerprints, the log
  level, and the counters. Upstream's filter parser, presets and counters are parameters.
\<close>

section \<open>The module\<close>

text \<open>
  The classes the module registers, by their Python names and in order. \<open>synthetic\<close> is the
  \<open>synthetic-fp\<close> feature.
\<close>

definition module_classes :: "features \<Rightarrow> bool \<Rightarrow> string list" where
  "module_classes ft synthetic =
     [''Client'', ''Session'', ''Response'', ''StreamingResponse'', ''HeaderMap'',
      ''RedirectRecord'', ''Cookie'', ''BlockingClient'', ''BlockingSession'',
      ''BlockingStreamingResponse'', ''TimeoutConfig'', ''ResourceLimits'', ''HttpVersion'',
      ''AcceptEncoding'', ''PoolStats'', ''SessionPoolStats'', ''SessionResumptionConfig'',
      ''H2DataFramePolicy'', ''TlsSessionResumptionPolicy'',
      ''TlsSessionCachePartitionPolicy'', ''NetworkPartitionContext'', ''Multipart'',
      ''Part'', ''ProxyConfig'', ''ProxyPool'', ''BadProxyConfig'', ''HealthCheckConfig'',
      ''SessionPool'', ''SessionGuard'', ''BlockingSessionPool'', ''BlockingSessionGuard'',
      ''ExponentialBackoff'', ''FixedInterval'', ''RequestPriority'', ''ProtocolPolicy'',
      ''HttpIntent'', ''PreferredHttpVersion'', ''Idempotency'', ''BrokenQuicPolicy'',
      ''H3RetryMode'', ''Hsts''] @
     (if feature_quic_h3 ft then [''QuicProfile''] else []) @
     (if feature_masque ft then [''MasqueConfig''] else []) @
     [''Randomize''] @
     (if synthetic then [''Layers''] else []) @
     (if synthetic then [''NegotiabilityFloor''] else []) @
     [''Middleware'', ''WsMessage'', ''WsConnection'', ''BlockingWsConnection'',
      ''MetricsCollector'', ''ExtType'', ''ExtensionSpec'', ''GreaseConfig'',
      ''PaddingStrategy'', ''RandomizationConfig'', ''TlsProfile'', ''H2Setting'',
      ''HeadersPriority'', ''PriorityFrame'', ''PriorityConfig'', ''H2Profile'',
      ''TcpFingerprint'', ''ClientPool'']"

definition module_functions :: "string list" where
  "module_functions =
     [''set_log_level'', ''enable_metrics'', ''validate_fingerprint_consistency'', ''metrics_snapshot'',
      ''pending_requests'', ''drain_pending'', ''blocking_drain_pending'']"

text \<open>The exceptions, with the class each name is bound to.\<close>

definition registered_exceptions :: "(string \<times> exc_kind) list" where
  "registered_exceptions =
     [(''RequestError'', RequestError), (''TlsError'', TlsError), (''ProxyError'', ProxyError),
      (''HttpStatusError'', HttpStatusError), (''ConnectionError'', LkConnectionError),
      (''TimeoutError'', LkTimeoutError), (''TooManyRedirectsError'', TooManyRedirectsError),
      (''ResourceLimitError'', ResourceLimitError), (''JsonDecodeError'', JsonDecodeError)]"

text \<open>No name is registered twice, and every class an upstream error is mapped to has one or is Python's.\<close>

lemma module_names_distinct:
  "distinct (module_classes ft synthetic @ module_functions @ map fst registered_exceptions)"
  by (cases "feature_quic_h3 ft"; cases "feature_masque ft"; cases synthetic)
     (simp_all add: module_classes_def module_functions_def registered_exceptions_def)

lemma raised_classes_registered: "exc_class e = ValueError \<or> exc_class e \<in> snd ` set registered_exceptions"
  by (cases e) (simp_all add: registered_exceptions_def)

section \<open>Draining\<close>

definition pending_requests :: "bridge \<Rightarrow> nat" where
  "pending_requests b = pending_count b"

text \<open>
  \<open>more_reads t\<close> is how often a drain reads the count again within \<open>t\<close> (see \<open>drain\<close>). The asynchronous one
  enters the bridge untracked; its value is the Python future with what that future will hold.
\<close>

definition drain_pending ::
  "('l, 'p, 'f) asyncio_api \<Rightarrow> (duration \<Rightarrow> nat) \<Rightarrow> f64 option \<Rightarrow> nat list \<Rightarrow> bridge \<Rightarrow>
   ('f \<times> bool option) result \<times> bridge" where
  "drain_pending api more_reads secs counts b =
     (case transpose_map validated_duration secs of
        Inl e \<Rightarrow> (Inl e, b)
      | Inr t \<Rightarrow>
          (let (r, b) = future_into_py_untracked api b
           in (map_ok (\<lambda>f. (f, drain (map_option more_reads t) counts)) r, b)))"

definition blocking_drain_pending :: "(duration \<Rightarrow> nat) \<Rightarrow> f64 option \<Rightarrow> nat list \<Rightarrow> bool option result" where
  "blocking_drain_pending more_reads secs counts =
     ok_then (transpose_map validated_duration secs) (\<lambda>t. Inr (drain (map_option more_reads t) counts))"

section \<open>Consistency of fingerprints\<close>

definition browser_family :: "string \<Rightarrow> string option" where
  "browser_family name =
     (if contains ''chrome'' name then Some ''chrome''
      else if contains ''firefox'' name then Some ''firefox''
      else if contains ''safari'' name then Some ''safari''
      else None)"

datatype fp_warning = FamilyH2 string string | FamilyTcp string string | NoH2Profile

record consistency =
  valid :: bool
  warnings :: "fp_warning list"

text \<open>\<open>alpn\<close> is the ALPN list of an upstream preset.\<close>

definition validate_fingerprint_consistency ::
  "(string \<Rightarrow> string list) \<Rightarrow> string option \<Rightarrow> string option \<Rightarrow> string option \<Rightarrow> consistency" where
  "validate_fingerprint_consistency alpn tls_profile h2_profile tcp_fingerprint =
     (let tls_family = Option.bind tls_profile browser_family;
          h2_family = Option.bind h2_profile browser_family;
          tcp_family = Option.bind tcp_fingerprint browser_family;
          ws = (case (tls_family, h2_family) of
                  (Some tf, Some hf) \<Rightarrow> if tf \<noteq> hf then [FamilyH2 tf hf] else []
                | _ \<Rightarrow> []);
          ws = ws @ (case (tls_family, tcp_family) of
                  (Some tf, Some tcf) \<Rightarrow> if tf \<noteq> tcf then [FamilyTcp tf tcf] else []
                | _ \<Rightarrow> []);
          ws = ws @ (case tls_profile of
                  None \<Rightarrow> []
                | Some tls_name \<Rightarrow>
                    (case resolve_tls_profile tls_name of
                       Inl _ \<Rightarrow> []
                     | Inr profile \<Rightarrow>
                         let has_h2_alpn = list_ex (\<lambda>p. p = ''h2'') (alpn profile) in
                         if has_h2_alpn \<and> h2_profile = None then [NoH2Profile] else []))
      in \<lparr>valid = (ws = []), warnings = ws\<rparr>)"

section \<open>The log level\<close>

text \<open>
  The state is whether a subscriber is installed in the process, by anyone; \<open>parse\<close> is
  \<open>EnvFilter::try_new\<close>.
\<close>

definition try_init :: "bool \<Rightarrow> bool \<times> bool" where
  "try_init installed = (\<not> installed, True)"

definition set_log_level :: "(string \<Rightarrow> string option) \<Rightarrow> string \<Rightarrow> string \<Rightarrow> bool \<Rightarrow> bool result \<times> bool" where
  "set_log_level parse level fmt installed =
     (case parse level of
        Some e \<Rightarrow> (raise_with ValueError ''Invalid log level'' [AStr level, AStr e], installed)
      | None \<Rightarrow>
          if fmt = ''compact'' \<or> fmt = ''full'' \<or> fmt = ''json''
          then (let (done1, installed) = try_init installed in (Inr done1, installed))
          else (raise_with ValueError ''Unknown log format'' [AStr fmt], installed))"

section \<open>Counters\<close>

record telemetry =
  tm_bytes_in :: u64
  tm_bytes_out :: u64
  tm_requests_total :: u64
  tm_requests_failed :: u64
  tm_active_connections :: u64
  tm_total_connections :: u64

text \<open>The dict, as its items in insertion order; without the \<open>telemetry\<close> feature every counter is 0.\<close>

definition telemetry_snapshot :: "telemetry option \<Rightarrow> (string \<times> u64) list" where
  "telemetry_snapshot feature =
     (case feature of
        Some s \<Rightarrow>
          [(''bytes_in'', tm_bytes_in s), (''bytes_out'', tm_bytes_out s),
           (''requests_total'', tm_requests_total s), (''requests_failed'', tm_requests_failed s),
           (''active_connections'', tm_active_connections s), (''total_connections'', tm_total_connections s)]
      | None \<Rightarrow>
          map (\<lambda>key. (key, 0))
            [''bytes_in'', ''bytes_out'', ''requests_total'', ''requests_failed'', ''active_connections'',
             ''total_connections''])"

section \<open>Lemmas\<close>

definition log_call_ok :: "(string \<Rightarrow> string option) \<Rightarrow> string \<times> string \<Rightarrow> bool" where
  "log_call_ok parse c \<longleftrightarrow> parse (fst c) = None \<and> snd c \<in> {''compact'', ''full'', ''json''}"

lemma accepted_call: "log_call_ok parse c \<Longrightarrow> set_log_level parse (fst c) (snd c) i = (Inr (\<not> i), True)"
  by (auto simp: set_log_level_def log_call_ok_def try_init_def)

lemma refused_call: "\<not> log_call_ok parse c \<Longrightarrow> \<exists>e. set_log_level parse (fst c) (snd c) i = (Inl e, i)"
  by (auto simp: set_log_level_def log_call_ok_def split: option.split)

interpretation log_subscriber: exhaustible "\<lambda>i c. set_log_level parse (fst c) (snd c) i" "\<lambda>i. i"
    "\<lambda>c. fst (set_log_level parse (fst c) (snd c) True)" for parse
  by unfold_locales (auto simp: set_log_level_def try_init_def split: option.split)

lemma families_of_presets:
  "list_all (\<lambda>(name, preset, tcp). browser_family name \<noteq> None \<and> browser_family name = browser_family tcp)
     client_presets"
  by (simp add: client_presets_def client_chrome_presets_def client_firefox_presets_def
      client_safari_presets_def browser_family_def)

lemma installed_never_true:
  "count_list (map (\<lambda>c. fst (set_log_level parse (fst c) (snd c) True)) calls) (Inr True) = 0"
  by (induction calls) (auto simp: set_log_level_def try_init_def split: option.splits if_splits)

lemma tls_preset_names: "resolve_tls_profile n = Inr p \<longleftrightarrow> (n, p) \<in> set tls_profiles"
proof -
  have "distinct (map fst tls_profiles)" by code_simp
  from map_of_eq_Some_iff [OF this, of n p] show ?thesis
    by (cases "map_of tls_profiles n") (auto simp: resolve_tls_profile_def)
qed

text \<open>Two families that do not contradict each other.\<close>

definition families_agree :: "string option \<Rightarrow> string option \<Rightarrow> bool" where
  "families_agree a b \<longleftrightarrow> a = None \<or> b = None \<or> a = b"

section \<open>Properties\<close>

text \<open>C37: What the consistency check finds: a TLS family that contradicts the HTTP/2 or the TCP one, and a known TLS
  preset with h2 in its ALPN and no HTTP/2 profile. Every preset of the clients passes. Without a TLS
  profile nothing is compared, so an HTTP/2 and a TCP fingerprint of different browsers pass as consistent.\<close>
theorem consistency_check:
  "(valid (validate_fingerprint_consistency alpn tls h2 tcp) \<longleftrightarrow>
     families_agree (Option.bind tls browser_family) (Option.bind h2 browser_family) \<and>
     families_agree (Option.bind tls browser_family) (Option.bind tcp browser_family) \<and>
     \<not> (h2 = None \<and> (\<exists>n p. tls = Some n \<and> (n, p) \<in> set tls_profiles \<and> ''h2'' \<in> set (alpn p)))) \<and>
   list_all (\<lambda>(name, preset, tcp_name).
     valid (validate_fingerprint_consistency alpn (Some name) (Some name) (Some tcp_name))) client_presets \<and>
   valid (validate_fingerprint_consistency alpn None (Some ''chrome_131'') (Some ''firefox''))"
proof -
  have iff: "valid (validate_fingerprint_consistency alpn tls h2 tcp) \<longleftrightarrow>
     families_agree (Option.bind tls browser_family) (Option.bind h2 browser_family) \<and>
     families_agree (Option.bind tls browser_family) (Option.bind tcp browser_family) \<and>
     \<not> (h2 = None \<and> (\<exists>n p. tls = Some n \<and> (n, p) \<in> set tls_profiles \<and> ''h2'' \<in> set (alpn p)))"
    for tls h2 tcp
    by (auto simp: validate_fingerprint_consistency_def families_agree_def list_ex_iff Let_def
        simp flip: tls_preset_names split: option.splits sum.splits)
  have "list_all (\<lambda>(name, preset, tcp_name).
     valid (validate_fingerprint_consistency alpn (Some name) (Some name) (Some tcp_name))) client_presets"
    using families_of_presets by (auto simp: iff families_agree_def list_all_iff)
  then show ?thesis using iff by (simp add: families_agree_def)
qed

lemma blocking_drain_answer:
  "blocking_drain_pending more_reads secs counts = Inr (Some True) \<longleftrightarrow>
     (\<exists>t. transpose_map validated_duration secs = Inr t \<and>
        0 \<in> set (case t of None \<Rightarrow> counts | Some d \<Rightarrow> take (Suc (more_reads d)) counts))"
  by (cases "transpose_map validated_duration secs")
     (auto simp: blocking_drain_pending_def drain_answers split: option.splits)

lemma blocking_drain_timed:
  assumes "validated_duration s = Inr d" "more_reads d < length counts"
  shows "blocking_drain_pending more_reads (Some s) counts =
    Inr (Some (0 \<in> set (take (Suc (more_reads d)) counts)))"
  using assms by (cases "0 \<in> set (take (Suc (more_reads d)) counts)")
    (auto simp: blocking_drain_pending_def drain_answers)

text \<open>C28: Draining: the blocking function refuses a timeout that is no duration, and answers True exactly if one of
  the counts read in time is zero; without a timeout it returns as soon as the work is done; with one it returns,
  by the time that the reads that fit into it are over at the latest. The asynchronous one checks the
  timeout first, then needs a running loop, and its future then answers as the blocking function; it is not
  counted itself, whereas a bridged request is, so a drain does not wait for itself.\<close>
theorem drain_pending_returns:
  "(blocking_drain_pending more_reads secs counts = Inl e \<longleftrightarrow> transpose_map validated_duration secs = Inl e) \<and>
   (blocking_drain_pending more_reads secs counts = Inr (Some True) \<longleftrightarrow>
     (\<exists>t. transpose_map validated_duration secs = Inr t \<and>
        0 \<in> set (case t of None \<Rightarrow> counts | Some d \<Rightarrow> take (Suc (more_reads d)) counts))) \<and>
   blocking_drain_pending more_reads None (counts @ 0 # later) = Inr (Some True) \<and>
   (validated_duration s = Inr d \<and> more_reads d < length counts \<longrightarrow>
     blocking_drain_pending more_reads (Some s) counts = Inr (Some (0 \<in> set (take (Suc (more_reads d)) counts)))) \<and>
   fst (drain_pending api more_reads secs counts b) =
     ok_then (blocking_drain_pending more_reads secs counts) (\<lambda>r. map_ok (\<lambda>f. (f, r)) (bridged_into_py api None)) \<and>
   pending_count (snd (drain_pending api more_reads secs counts b)) = pending_count b \<and>
   (fst (future_into_py enter b) = Inr f \<longrightarrow> pending_count (snd (future_into_py enter b)) = pending_count b + 1)"
proof (intro conjI impI)
  show "fst (drain_pending api more_reads secs counts b) =
     ok_then (blocking_drain_pending more_reads secs counts) (\<lambda>r. map_ok (\<lambda>f. (f, r)) (bridged_into_py api None))"
    by (cases "transpose_map validated_duration secs")
       (simp_all add: drain_pending_def blocking_drain_pending_def future_into_py_untracked_def)
  show "pending_count (snd (drain_pending api more_reads secs counts b)) = pending_count b"
    by (cases "transpose_map validated_duration secs")
       (simp_all add: drain_pending_def future_into_py_untracked_def)
  assume "fst (future_into_py enter b) = Inr f"
  then show "pending_count (snd (future_into_py enter b)) = pending_count b + 1"
    by (auto simp: future_into_py_def Let_def pending_count_def register_guard_def split: sum.splits)
next
  show "blocking_drain_pending more_reads None (counts @ 0 # later) = Inr (Some True)"
    by (simp add: blocking_drain_answer)
next
  show "blocking_drain_pending more_reads secs counts = Inl e \<longleftrightarrow> transpose_map validated_duration secs = Inl e"
    by (auto simp: blocking_drain_pending_def res_simps)
qed (rule blocking_drain_answer, elim conjE, rule blocking_drain_timed)

text \<open>The log level is set once per process: over any sequence of calls exactly one returns True, the first
  that names a valid level and format, if there is one; a refused call does not use the chance up.\<close>
lemma log_level_set_once:
  "count_list (run_polls (\<lambda>i c. set_log_level parse (fst c) (snd c) i) False calls) (Inr True) =
     of_bool (list_ex (log_call_ok parse) calls)"
proof (induction calls)
  case (Cons c calls)
  show ?case
  proof (cases "log_call_ok parse c")
    case True
    then show ?thesis
      using log_subscriber.over_forever [of True parse calls] installed_never_true [of parse calls]
      by (simp add: accepted_call)
  next
    case False
    then obtain e where "set_log_level parse (fst c) (snd c) False = (Inl e, False)"
      using refused_call by blast
    then show ?thesis using Cons.IH False by simp
  qed
qed simp

section \<open>Witnesses\<close>

definition running_loop :: "(unit, unit, nat) asyncio_api" where
  "running_loop = \<lparr>get_current_locals = Inr (), new_guarded_loop = (\<lambda>_ _. Inr ()),
     future_into_py_with_locals = (\<lambda>_ _. Inr 7)\<rparr>"

theorem drain_pending_returns_witness:
  "blocking_drain_pending (\<lambda>_. 1) (Some (F64_Fin 1)) [2, 1] = Inr (Some False) \<and>
   fst (drain_pending running_loop (\<lambda>_. 1) (Some (F64_Fin 1)) [2, 1] bridge_init) = Inr (7, Some False) \<and>
   pending_count (snd (future_into_py (\<lambda>_. Inr ()) bridge_init)) = 1"
proof -
  have "validated_duration (F64_Fin 1) = Inr (10 ^ 9)"
    using from_secs_f64_whole [of 1] by (simp add: validated_duration_def del: from_secs_f64.simps)
  moreover have "take (Suc 1) [2, 1 :: nat] = [2, 1]" by simp
  moreover have "fst (future_into_py (\<lambda>_. Inr ()) bridge_init) = Inr ()" by (simp add: future_into_py_def)
  moreover have "pending_count bridge_init = 0" by (simp add: pending_count_def bridge_init_def)
  moreover have "bridged_into_py running_loop None = Inr 7" by (simp add: bridged_into_py_def running_loop_def)
  ultimately show ?thesis
    using drain_pending_returns [where more_reads = "\<lambda>_. 1" and secs = "Some (F64_Fin 1)" and counts = "[2, 1]"
        and s = "F64_Fin 1" and d = "10 ^ 9" and api = running_loop and b = bridge_init
        and enter = "\<lambda>_. Inr ()" and f = "()" and e = "PyExc ValueError [] []"]
    by simp
qed

end
