(* ===== verification/Shutdown.thy ===== *)
theory Shutdown imports Client Bridge begin

text \<open>
  How a session is shut down while its requests are in flight: the composition of the session's cells and
  closers (\<open>SessionState\<close>), of \<open>Closing::guard\<close> around the work of a request (\<open>make_request\<close> in
  \<open>src/src/session.rs\<close>), and of the bridge that counts its future and delivers its result (\<open>Bridge\<close>).
\<close>

section \<open>The composed system\<close>

text \<open>
  \<open>entering\<close> is how many calls have found the session open and have yet to enter the bridge; \<open>in_flight\<close> are
  the futures of the session's guarded calls, among all that cross the bridge; \<open>outcome\<close> is what the
  wrapper of one of them completed with.
\<close>

record 'r shutdown =
  session_part :: system
  bridge_part :: bridge
  entering :: nat
  in_flight :: "nat set"
  outcome :: "nat \<rightharpoonup> 'r result"

definition shutdown_init :: "heap \<Rightarrow> 'r shutdown" where
  "shutdown_init h = \<lparr>session_part = \<lparr>sheap = h, closers = []\<rparr>, bridge_part = bridge_init,
     entering = 0, in_flight = {}, outcome = Map.empty\<rparr>"

text \<open>
  A call looks at the closed flag first and enters the bridge later: \<open>send_streaming\<close> runs Python in between
  (\<open>json.dumps\<close>, the inspection of the body), which lets other threads in and may raise, and then the call
  never enters. Its future completes only when a poll of its guard is ready. Everything else of the two
  systems happens as it does there: closing, registrations, other futures, cancellation, delivery, draining. The
  label tells a step that brings a call of the session forward that has found it open.
\<close>

inductive shutdown_step :: "session_state \<Rightarrow> 'r shutdown \<Rightarrow> bool \<Rightarrow> 'r shutdown \<Rightarrow> bool" for st where
  session_moves: "step st (session_part s) t \<Longrightarrow>
    shutdown_step st s False (s\<lparr>session_part := t\<rparr>)"
| call_checked: "ensure_open st (sheap (session_part s)) = Inr () \<Longrightarrow>
    shutdown_step st s False (s\<lparr>entering := entering s + 1\<rparr>)"
| call_raises: "0 < entering s \<Longrightarrow> shutdown_step st s True (s\<lparr>entering := entering s - 1\<rparr>)"
| call_submitted: "0 < entering s \<Longrightarrow>
    shutdown_step st s True
      (s\<lparr>entering := entering s - 1, bridge_part := register_guard (bridge_part s),
         in_flight := insert (length (futs (bridge_part s))) (in_flight s)\<rparr>)"
| call_pending: "i \<in> in_flight s \<Longrightarrow> futs (bridge_part s) ! i = Wrapped \<Longrightarrow>
    guard_poll (is_closed st (sheap (session_part s))) (work :: 'r result poll) Pending \<Longrightarrow>
    shutdown_step st s False s"
| call_ready: "i \<in> in_flight s \<Longrightarrow> futs (bridge_part s) ! i = Wrapped \<Longrightarrow>
    guard_poll (is_closed st (sheap (session_part s))) work (Ready r) \<Longrightarrow>
    shutdown_step st s True
      (s\<lparr>bridge_part := set_fut i Parked (bridge_part s), outcome := (outcome s)(i \<mapsto> r)\<rparr>)"
| bridge_moves: "bridge_step (bridge_part s) c \<Longrightarrow>
    (\<forall>i \<in> in_flight s. futs (bridge_part s) ! i = Wrapped \<longrightarrow> futs c ! i \<noteq> Parked) \<Longrightarrow>
    shutdown_step st s (\<exists>i \<in> in_flight s. futs c ! i \<noteq> futs (bridge_part s) ! i) (s\<lparr>bridge_part := c\<rparr>)"

inductive shutdown_run :: "session_state \<Rightarrow> 'r shutdown \<Rightarrow> bool list \<Rightarrow> 'r shutdown \<Rightarrow> bool" for st where
  run_nil: "shutdown_run st s [] s"
| run_snoc: "shutdown_run st s ls t \<Longrightarrow> shutdown_step st t l u \<Longrightarrow> shutdown_run st s (ls @ [l]) u"

section \<open>Futures only go forward\<close>

fun stage :: "fut \<Rightarrow> nat" where
  "stage Wrapped = 4"
| "stage Parked = 3"
| "stage Delivering = 2"
| "stage Enqueued = 1"
| "stage Delivered = 0"
| "stage NoDelivery = 0"

lemma stage_0 [simp]: "stage f = 0 \<longleftrightarrow> f \<in> {Delivered, NoDelivery}"
  by (cases f) simp_all

lemma drop_guard_futs [simp]: "futs (drop_guard b) = futs b" "queue (drop_guard b) = queue b"
  by (simp_all add: drop_guard_def)

lemma set_fut_futs [simp]: "futs (set_fut i f b) = (futs b)[i := f]" "queue (set_fut i f b) = queue b"
  by (simp_all add: set_fut_def)

fun may_move :: "fut \<Rightarrow> fut \<Rightarrow> bool" where
  "may_move Wrapped g \<longleftrightarrow> g \<in> {Parked, NoDelivery}"
| "may_move Parked g \<longleftrightarrow> g \<in> {Delivering, NoDelivery}"
| "may_move Delivering g \<longleftrightarrow> g \<in> {Enqueued, NoDelivery}"
| "may_move Enqueued g \<longleftrightarrow> g = Delivered"
| "may_move _ g \<longleftrightarrow> False"

lemma may_move_stage: "may_move f g \<Longrightarrow> stage g < stage f"
  by (cases f) auto

lemma may_move_not_back: "may_move f g \<Longrightarrow> g \<noteq> Wrapped \<and> f \<noteq> NoDelivery"
  by (cases f) auto

lemma bridge_step_futs:
  assumes "bridge_step b c"
  shows "length (futs b) \<le> length (futs c)"
    and "i < length (futs b) \<Longrightarrow> futs c ! i = futs b ! i \<or> may_move (futs b ! i) (futs c ! i)"
  using assms
  by (induction rule: bridge_step.induct)
     (auto simp: register_guard_def nth_append nth_list_update split: if_splits)

text \<open>What the session's futures still have before them, and with them the calls that are yet to enter.\<close>

definition pending_stages :: "'r shutdown \<Rightarrow> nat" where
  "pending_stages s = (\<Sum>i \<in> in_flight s. stage (futs (bridge_part s) ! i))"

definition remaining :: "'r shutdown \<Rightarrow> nat" where
  "remaining s = 5 * entering s + pending_stages s"

text \<open>The futures of the calls that entered between two states.\<close>

definition entered :: "'r shutdown \<Rightarrow> 'r shutdown \<Rightarrow> nat set" where
  "entered s t = in_flight t - in_flight s"

definition shutdown_inv :: "session_state \<Rightarrow> 'r shutdown \<Rightarrow> bool" where
  "shutdown_inv st s \<longleftrightarrow>
     closing_inv st (session_part s) \<and> bridge_inv (bridge_part s) \<and> finite (in_flight s) \<and>
     (\<forall>i \<in> in_flight s. i < length (futs (bridge_part s)) \<and>
       (futs (bridge_part s) ! i \<in> {Wrapped, NoDelivery} \<or> outcome s i \<noteq> None))"

lemma shutdown_inv_init: "shutdown_inv st (shutdown_init h)"
  by (simp add: shutdown_inv_def shutdown_init_def closing_inv_def bridge_inv_init)

lemma shutdown_step_inv:
  assumes "shutdown_step st s l t" and "shutdown_inv st s"
  shows "shutdown_inv st t"
  using assms
proof (induction rule: shutdown_step.induct)
  case (session_moves s t)
  then show ?case by (auto simp: shutdown_inv_def intro: closing_inv_step)
next
  case (call_submitted s)
  then show ?case using bridge_inv_step [OF submit, of "bridge_part s"]
    by (auto simp: shutdown_inv_def register_guard_def nth_append less_Suc_eq)
next
  case (call_ready i s work r)
  then show ?case
    using bridge_inv_step [OF wrapper_completes [of i "bridge_part s"]]
    by (auto simp: shutdown_inv_def nth_list_update)
next
  case (bridge_moves s c)
  have "i < length (futs c) \<and> (futs c ! i \<in> {Wrapped, NoDelivery} \<or> outcome s i \<noteq> None)"
    if i: "i \<in> in_flight s" for i
  proof -
    from bridge_moves.prems i have old: "i < length (futs (bridge_part s))"
      "futs (bridge_part s) ! i \<in> {Wrapped, NoDelivery} \<or> outcome s i \<noteq> None"
      by (auto simp: shutdown_inv_def)
    moreover have "futs (bridge_part s) ! i = Wrapped \<longrightarrow> futs c ! i \<noteq> Parked"
      using bridge_moves.hyps(2) i by blast
    moreover have "futs c ! i = futs (bridge_part s) ! i \<or> may_move (futs (bridge_part s) ! i) (futs c ! i)"
      "length (futs (bridge_part s)) \<le> length (futs c)"
      using bridge_step_futs [OF bridge_moves.hyps(1)] old(1) by auto
    ultimately show ?thesis
      by (cases "futs (bridge_part s) ! i") auto
  qed
  then show ?case using bridge_moves bridge_inv_step by (auto simp: shutdown_inv_def)
qed (simp_all add: shutdown_inv_def)

lemma shutdown_run_inv:
  "shutdown_run st s ls t \<Longrightarrow> shutdown_inv st s \<Longrightarrow> shutdown_inv st t"
  by (induction rule: shutdown_run.induct) (auto intro: shutdown_step_inv)

section \<open>After the close\<close>

lemma shutdown_step_closed:
  "shutdown_step st s l t \<Longrightarrow> let_go st (sheap (session_part s)) \<Longrightarrow>
     let_go st (sheap (session_part t)) \<and> in_flight s \<subseteq> in_flight t \<and>
     card (entered s t) + entering t \<le> entering s"
proof (induction rule: shutdown_step.induct)
  case (session_moves s t)
  then show ?case using let_go_step by (auto simp: entered_def)
next
  case (call_checked s)
  then show ?case by (simp add: let_go_def)
next
  case (call_submitted s)
  then show ?case
    by (cases "length (futs (bridge_part s)) \<in> in_flight s") (auto simp: entered_def insert_Diff_if)
qed (auto simp: entered_def)

lemma shutdown_step_finite: "shutdown_step st s l t \<Longrightarrow> finite (in_flight s) \<Longrightarrow> finite (in_flight t)"
  by (induction rule: shutdown_step.induct) simp_all

text \<open>A step that is told to bring a future forward does, and no step takes one back.\<close>

lemma pending_stages_less:
  assumes "finite (in_flight s)" and "in_flight t = in_flight s"
    and "\<And>i. i \<in> in_flight s \<Longrightarrow> stage (futs (bridge_part t) ! i) \<le> stage (futs (bridge_part s) ! i)"
    and "l \<Longrightarrow> \<exists>i \<in> in_flight s. stage (futs (bridge_part t) ! i) < stage (futs (bridge_part s) ! i)"
  shows "pending_stages t + of_bool l \<le> pending_stages s"
proof (cases l)
  case True
  then have "pending_stages t < pending_stages s"
    unfolding pending_stages_def assms(2) using assms(1,3,4) by (intro sum_strict_mono_ex1) auto
  then show ?thesis using True by simp
next
  case False
  then show ?thesis unfolding pending_stages_def assms(2) using assms(3) by (simp add: sum_mono)
qed

lemma pending_stages_submitted:
  assumes "shutdown_inv st s"
  shows "pending_stages (s\<lparr>entering := n, bridge_part := register_guard (bridge_part s),
     in_flight := insert (length (futs (bridge_part s))) (in_flight s)\<rparr>) = pending_stages s + 4"
proof -
  let ?n = "length (futs (bridge_part s))"
  have "finite (in_flight s)" and old: "i < ?n" if "i \<in> in_flight s" for i
    using assms that by (auto simp: shutdown_inv_def)
  then have "?n \<notin> in_flight s" and fin: "finite (in_flight s)"
    using assms by (auto simp: shutdown_inv_def)
  moreover have "(\<Sum>i \<in> in_flight s. stage ((futs (bridge_part s) @ [Wrapped]) ! i)) = pending_stages s"
    unfolding pending_stages_def by (intro sum.cong refl) (simp add: nth_append old)
  ultimately show ?thesis by (simp add: pending_stages_def register_guard_def)
qed

lemma shutdown_step_remaining:
  assumes "shutdown_step st s l t" and "shutdown_inv st s" and "is_closed st (sheap (session_part s))"
  shows "remaining t + of_bool l \<le> remaining s"
  using assms
proof (induction rule: shutdown_step.induct)
  case (call_submitted s)
  then show ?case using pending_stages_submitted [OF call_submitted.prems(1), of "entering s - 1"]
    by (simp add: remaining_def)
next
  case (call_ready i s work r)
  let ?t = "s\<lparr>bridge_part := set_fut i Parked (bridge_part s), outcome := (outcome s)(i \<mapsto> r)\<rparr>"
  have "pending_stages ?t + of_bool True \<le> pending_stages s"
    using call_ready
    by (intro pending_stages_less) (auto simp: shutdown_inv_def nth_list_update intro!: bexI [of _ i])
  then show ?case by (simp add: remaining_def)
next
  case (bridge_moves s c)
  have "futs c ! i = futs (bridge_part s) ! i \<or> may_move (futs (bridge_part s) ! i) (futs c ! i)"
    if "i \<in> in_flight s" for i
    using that bridge_moves.prems bridge_step_futs(2) [OF bridge_moves.hyps(1), of i]
    by (auto simp: shutdown_inv_def)
  then have "stage (futs c ! i) < stage (futs (bridge_part s) ! i) \<or> futs c ! i = futs (bridge_part s) ! i"
    if "i \<in> in_flight s" for i
    using that may_move_stage by blast
  then have "pending_stages (s\<lparr>bridge_part := c\<rparr>) +
      of_bool (\<exists>i \<in> in_flight s. futs c ! i \<noteq> futs (bridge_part s) ! i) \<le> pending_stages s"
    using bridge_moves.prems by (intro pending_stages_less) (fastforce simp: shutdown_inv_def)+
  then show ?case by (simp add: remaining_def)
qed (simp_all add: remaining_def pending_stages_def)

lemma shutdown_run_remaining:
  assumes "shutdown_run st s ls t" and "shutdown_inv st s" and "let_go st (sheap (session_part s))"
  shows "let_go st (sheap (session_part t)) \<and> in_flight s \<subseteq> in_flight t \<and>
    card (entered s t) + entering t \<le> entering s \<and> count_list ls True + remaining t \<le> remaining s"
  using assms
proof (induction rule: shutdown_run.induct)
  case (run_snoc s ls t l u)
  from run_snoc have IH: "let_go st (sheap (session_part t))" "in_flight s \<subseteq> in_flight t"
    "card (entered s t) + entering t \<le> entering s" "count_list ls True + remaining t \<le> remaining s" by simp_all
  have inv: "shutdown_inv st t" using shutdown_run_inv [OF run_snoc.hyps(1)] run_snoc.prems by simp
  note u = shutdown_step_closed [OF run_snoc.hyps(2) IH(1)]
  have "remaining u + of_bool l \<le> remaining t"
    using shutdown_step_remaining [OF run_snoc.hyps(2) inv] IH(1) by (simp add: let_go_def)
  moreover have "entered s u \<subseteq> entered s t \<union> entered t u" by (auto simp: entered_def)
  then have "card (entered s u) \<le> card (entered s t) + card (entered t u)"
    using shutdown_step_finite [OF run_snoc.hyps(2)] inv
    by (intro order_trans [OF card_mono card_Un_le]) (auto simp: shutdown_inv_def entered_def)
  ultimately show ?case using IH u by (cases l) auto
qed (simp add: entered_def)

lemma remaining_bound:
  assumes "finite (in_flight s)"
  shows "remaining s \<le> 5 * entering s + 4 * card {i \<in> in_flight s. holds_guard (futs (bridge_part s) ! i)}"
proof -
  have "stage f \<le> (if holds_guard f then 4 else 0)" for f by (cases f) simp_all
  then have "pending_stages s \<le> (\<Sum>i \<in> in_flight s. if holds_guard (futs (bridge_part s) ! i) then 4 else 0)"
    unfolding pending_stages_def by (intro sum_mono) blast
  also have "\<dots> = 4 * card {i \<in> in_flight s. holds_guard (futs (bridge_part s) ! i)}"
    using assms by (simp add: sum.If_cases Int_def)
  finally show ?thesis by (simp add: remaining_def)
qed

section \<open>When nothing is left to do\<close>

text \<open>A future of the session that still holds its guard can be brought forward, once the session is closed.\<close>

lemma bridge_can_move:
  assumes "i \<in> in_flight s" and "bridge_step (bridge_part s) c"
    and "\<And>j. j \<noteq> i \<Longrightarrow> futs c ! j = futs (bridge_part s) ! j"
    and "futs c ! i \<noteq> futs (bridge_part s) ! i" and "futs c ! i \<noteq> Parked"
  shows "\<exists>u. shutdown_step st s True u"
proof -
  have "\<forall>j \<in> in_flight s. futs (bridge_part s) ! j = Wrapped \<longrightarrow> futs c ! j \<noteq> Parked"
    using assms(3,5) by (metis fut.distinct(1))
  moreover have "\<exists>j \<in> in_flight s. futs c ! j \<noteq> futs (bridge_part s) ! j" using assms(1,4) by blast
  ultimately show ?thesis using shutdown_step.bridge_moves [OF assms(2), of st] by auto
qed

lemma guard_holder_moves:
  assumes "shutdown_inv st s" and "is_closed st (sheap (session_part s))"
    and "i \<in> in_flight s" and "holds_guard (futs (bridge_part s) ! i)"
  shows "\<exists>u. shutdown_step st s True u"
proof -
  have i: "i < length (futs (bridge_part s))" using assms(1,3) by (simp add: shutdown_inv_def)
  show ?thesis
  proof (cases "futs (bridge_part s) ! i")
    case Wrapped
    have "guard_poll (is_closed st (sheap (session_part s))) Pending (Ready abandoned)"
      using assms(2) closed_first by simp
    then show ?thesis using call_ready [OF assms(3) Wrapped] by blast
  next
    case Parked
    show ?thesis by (rule bridge_can_move [OF assms(3) take_guard [OF i Parked]])
      (use i Parked in \<open>auto simp: nth_list_update\<close>)
  next
    case Delivering
    have c: "call_soon_threadsafe (Inr True) (Inr ()) = (Inr (), False)" by (simp add: call_soon_threadsafe_def)
    show ?thesis by (rule bridge_can_move [OF assms(3) release_undeliverable [OF i Delivering c]])
      (use i Delivering in \<open>auto simp: nth_list_update\<close>)
  next
    case Enqueued
    show ?thesis by (rule bridge_can_move [OF assms(3) release_delivered [OF i Enqueued]])
      (use i Enqueued in \<open>auto simp: nth_list_update\<close>)
  qed (use assms(4) in simp_all)
qed

lemma settled_when_stuck:
  assumes "shutdown_inv st s" and "is_closed st (sheap (session_part s))"
    and "\<not> (\<exists>u. shutdown_step st s True u)" and "i \<in> in_flight s"
  shows "futs (bridge_part s) ! i = Delivered \<and> Callback i \<in> set (queue (bridge_part s)) \<and> outcome s i \<noteq> None \<or>
    futs (bridge_part s) ! i = NoDelivery"
proof -
  have "\<not> holds_guard (futs (bridge_part s) ! i)"
    using guard_holder_moves [OF assms(1,2,4)] assms(3) by blast
  moreover have "i < length (futs (bridge_part s))" "bridge_inv (bridge_part s)"
    "futs (bridge_part s) ! i \<in> {Wrapped, NoDelivery} \<or> outcome s i \<noteq> None"
    using assms(1,4) by (auto simp: shutdown_inv_def)
  ultimately show ?thesis by (cases "futs (bridge_part s) ! i") (auto simp: bridge_inv_def)
qed

lemma count_when_all_settled:
  assumes "bridge_inv b" and "\<And>i. i < length (futs b) \<Longrightarrow> \<not> holds_guard (futs b ! i)"
  shows "count b = 0"
proof -
  have "filter holds_guard (futs b) = []" using assms(2) by (auto simp: filter_empty_conv in_set_conv_nth)
  then show ?thesis using assms(1) by (simp add: bridge_inv_def held_def)
qed

section \<open>Python after the close\<close>




section \<open>Properties\<close>

text \<open>C1: Shutting down ends. Take any interleaving of a session's calls with registrations, closes and the
  collector, and with everything else that crosses the bridge. Once one \<open>close\<close> has returned, only calls that
  had already found the session open can still enter the bridge, each once; a future of the session that
  still waits completes at its next poll, whatever its work does; a future in flight takes at most
  four steps, a call yet to enter five; and when none can take another, no call is left to enter, each future
  is delivered with the result it completed with, or dropped, and a drain that waits for nothing else
  answers True at once.\<close>
theorem shutdown_terminates:
  assumes reach: "shutdown_run st (shutdown_init h :: 'r shutdown) before s"
    and fin: "[] \<in> set (closers (session_part s))" and later: "shutdown_run st s ls t"
  shows "in_flight s \<subseteq> in_flight t \<and> card (in_flight t - in_flight s) + entering t \<le> entering s \<and>
    count_list ls True \<le>
      5 * entering s + 4 * card {i \<in> in_flight s. holds_guard (futs (bridge_part s) ! i)} \<and>
    (\<forall>(work :: 'r result poll) out. guard_poll (is_closed st (sheap (session_part t))) work out \<longrightarrow> out \<noteq> Pending) \<and>
    ((\<exists>u. shutdown_step st t True u) \<or>
      entering t = 0 \<and>
      (\<forall>i \<in> in_flight t.
        futs (bridge_part t) ! i = Delivered \<and> Callback i \<in> set (queue (bridge_part t)) \<and> outcome t i \<noteq> None \<or>
        futs (bridge_part t) ! i = NoDelivery) \<and>
      (in_flight t = {..<length (futs (bridge_part t))} \<longrightarrow>
        drain more_reads (pending_count (bridge_part t) # counts) = Some True))"
proof -
  have inv: "shutdown_inv st s" by (rule shutdown_run_inv [OF reach shutdown_inv_init])
  then have "let_go st (sheap (session_part s))" using fin closer_finished by (auto simp: shutdown_inv_def)
  from shutdown_run_remaining [OF later inv this]
  have go: "let_go st (sheap (session_part t))" and calls: "in_flight s \<subseteq> in_flight t"
      "card (in_flight t - in_flight s) + entering t \<le> entering s"
    and steps: "count_list ls True + remaining t \<le> remaining s" by (simp_all add: entered_def)
  have inv': "shutdown_inv st t" by (rule shutdown_run_inv [OF later inv])
  have closed: "is_closed st (sheap (session_part t))" using go by (simp add: let_go_def)
  have bound: "count_list ls True \<le>
      5 * entering s + 4 * card {i \<in> in_flight s. holds_guard (futs (bridge_part s) ! i)}"
    using steps remaining_bound [of s] inv by (simp add: shutdown_inv_def)
  have polled: "out \<noteq> Pending"
    if "guard_poll (is_closed st (sheap (session_part t))) work out" for work out :: "'r result poll"
    using that closed by (auto simp: guard_poll_closed)
  have entered: "entering t = 0" if stuck: "\<not> (\<exists>u. shutdown_step st t True u)"
    using stuck call_raises [of t st] by blast
  have drained: "drain more_reads (pending_count (bridge_part t) # counts) = Some True"
    if stuck: "\<not> (\<exists>u. shutdown_step st t True u)" and all: "in_flight t = {..<length (futs (bridge_part t))}"
  proof -
    have "\<not> holds_guard (futs (bridge_part t) ! i)" if "i < length (futs (bridge_part t))" for i
      using settled_when_stuck [OF inv' closed stuck, of i] that all by force
    then have "count (bridge_part t) = 0"
      using inv' by (intro count_when_all_settled) (simp_all add: shutdown_inv_def)
    then show ?thesis by (simp add: drain_answers pending_count_def split: option.split)
  qed
  show ?thesis
    using calls bound polled entered drained settled_when_stuck [OF inv' closed] by blast
qed


section \<open>Witnesses\<close>

text \<open>
  A session that two calls found open is closed. One of them enters only then; it is abandoned and its result
  delivered; the other raises before it enters.
\<close>

definition one_call :: "heap \<Rightarrow> fut list \<Rightarrow> queue_item list \<Rightarrow> nat \<Rightarrow> nat result option \<Rightarrow> nat \<Rightarrow> action list list \<Rightarrow> nat shutdown" where
  "one_call h fs q n out k cs = \<lparr>session_part = \<lparr>sheap = h, closers = cs\<rparr>,
     bridge_part = \<lparr>count = n, futs = fs, queue = q, notifying = length fs - n, drainer = Idle\<rparr>,
     entering = k, in_flight = {..<length fs}, outcome = (\<lambda>i. if i = 0 then out else None)\<rparr>"

definition closed_sample :: heap where
  "closed_sample = close sample_state sample_heap"

lemma session_moves_run:
  assumes "(step st)\<^sup>*\<^sup>* a b" and "shutdown_run st s0 ls s" and "session_part s = a"
  shows "\<exists>ls'. shutdown_run st s0 ls' (s\<lparr>session_part := b\<rparr>)"
  using assms
proof (induction rule: rtranclp_induct)
  case base
  then show ?case by (metis shutdown.surjective shutdown.update_convs(1))
next
  case (step b c)
  then obtain ls' where "shutdown_run st s0 ls' (s\<lparr>session_part := b\<rparr>)" by blast
  from run_snoc [OF this session_moves] step.hyps(2) show ?case by fastforce
qed

lemma sample_checked:
  "\<exists>ls. shutdown_run sample_state (shutdown_init sample_heap) ls (one_call closed_sample [] [] 0 None 2 [[]])"
proof -
  have init: "shutdown_init sample_heap = one_call sample_heap [] [] 0 None 0 []"
    by (simp add: shutdown_init_def one_call_def bridge_init_def)
  have check: "shutdown_step sample_state (one_call sample_heap [] [] 0 None k []) False
      (one_call sample_heap [] [] 0 None (k + 1) [])" for k
    using call_checked [of sample_state "one_call sample_heap [] [] 0 None k []"]
    by (simp add: one_call_def is_closed_def sample_heap_def sample_state_def)
  have "shutdown_run sample_state (shutdown_init sample_heap) [False, False] (one_call sample_heap [] [] 0 None 2 [])"
    using run_snoc [OF run_snoc [OF run_nil check] check, of 0] by (simp add: init numeral_2_eq_2)
  from session_moves_run [OF close_runs this] show ?thesis by (simp add: one_call_def closed_sample_def)
qed

lemma sample_delivered:
  "shutdown_run sample_state (one_call closed_sample [] [] 0 None 2 [[]]) [True, True, True, True, True, True]
     (one_call closed_sample [Delivered] [Callback 0] 0 (Some abandoned) 0 [[]])"
proof -
  let ?s = "\<lambda>fs q n out k. one_call closed_sample fs q n out k [[]]"
  have "is_closed sample_state closed_sample"
    by (simp add: closed_sample_def is_closed_def close_watches)
  then have 1: "shutdown_step sample_state (?s [Wrapped] [] 1 None 1) True (?s [Parked] [] 1 (Some abandoned) 1)"
    using call_ready [of 0 "?s [Wrapped] [] 1 None 1" sample_state Pending abandoned] closed_first [of Pending]
    by (simp add: one_call_def set_fut_def fun_upd_def)
  have 0: "shutdown_step sample_state (?s [] [] 0 None 2) True (?s [Wrapped] [] 1 None 1)"
    using call_submitted [of "?s [] [] 0 None 2" sample_state]
    by (simp add: one_call_def register_guard_def lessThan_Suc)
  have 2: "shutdown_step sample_state (?s [Parked] [] 1 x 1) True (?s [Delivering] [] 1 x 1)" for x
    using shutdown_step.bridge_moves [OF take_guard [of 0 "bridge_part (?s [Parked] [] 1 x 1)"], of sample_state]
    by (simp add: one_call_def set_fut_def lessThan_Suc)
  have 3: "shutdown_step sample_state (?s [Delivering] [] 1 x 1) True (?s [Enqueued] [Callback 0] 1 x 1)" for x
    using shutdown_step.bridge_moves [OF enqueue [of 0 "bridge_part (?s [Delivering] [] 1 x 1)" "Inr False" "Inr ()" "Inr ()"],
        of sample_state]
    by (simp add: one_call_def set_fut_def call_soon_threadsafe_def lessThan_Suc)
  have 4: "shutdown_step sample_state (?s [Enqueued] [Callback 0] 1 x 1) True (?s [Delivered] [Callback 0] 0 x 1)" for x
    using shutdown_step.bridge_moves [OF release_delivered [of 0 "bridge_part (?s [Enqueued] [Callback 0] 1 x 1)"],
        of sample_state]
    by (simp add: one_call_def set_fut_def drop_guard_def lessThan_Suc)
  have 5: "shutdown_step sample_state (?s [Delivered] [Callback 0] 0 x 1) True (?s [Delivered] [Callback 0] 0 x 0)" for x
    using call_raises [of "?s [Delivered] [Callback 0] 0 x 1" sample_state] by (simp add: one_call_def)
  from run_snoc [OF run_snoc [OF run_snoc [OF run_snoc [OF run_snoc [OF run_snoc [OF run_nil 0] 1] 2] 3] 4] 5]
  show ?thesis by simp
qed

theorem shutdown_terminates_witness:
  "drain None [pending_count (bridge_part (one_call closed_sample [Delivered] [Callback 0] 0 (Some abandoned) 0 [[]]))] =
     Some True"
proof -
  let ?t = "one_call closed_sample [Delivered] [Callback 0] 0 (Some abandoned) 0 [[]]"
  obtain ls where "shutdown_run sample_state (shutdown_init sample_heap) ls (one_call closed_sample [] [] 0 None 2 [[]])"
    using sample_checked by blast
  note t = shutdown_terminates [OF this _ sample_delivered, of None "[]"]
  have "\<not> (\<exists>u. shutdown_step sample_state ?t True u)"
    by (auto simp: one_call_def elim!: shutdown_step.cases) (use bridge_step_futs(2) [of _ _ 0] in fastforce)
  moreover have "in_flight ?t = {..<length (futs (bridge_part ?t))}" by (simp add: one_call_def)
  moreover have "[] \<in> set (closers (session_part (one_call closed_sample [] [] 0 None 2 [[]])))"
    by (simp add: one_call_def)
  ultimately show ?thesis using t by blast
qed




end
