(* ===== verification/Exchange.thy ===== *)
theory Exchange imports Verbs Streaming begin

text \<open>
  One exchange from end to end: what a method of \<open>src/src/session.rs\<close> is given, the stream of
  \<open>src/src/upload.rs\<close> that the transport drives, and the answer as the caller's \<open>Response\<close>
  (\<open>src/src/response.rs\<close>), the metrics (\<open>src/src/metrics.rs\<close>) and the hooks see it.
\<close>

section \<open>From the arguments to the builder\<close>







lemma truncate_body [simp]:
  "kw_body_stream (body_args.truncate a) = kw_body_stream a"
  "kw_content_length (body_args.truncate a) = kw_content_length a"
  "kw_json (body_args.truncate a) = kw_json a"
  by (simp_all add: body_args.defs)


section \<open>From the answer to those who see it\<close>

text \<open>
  \<open>execute_request\<close> reads the URL, the status and the body length of upstream's response before
  \<open>PyResponse::from_response\<close> consumes it. \<open>whole\<close> is that response, of which \<open>upstream_response\<close> keeps
  what \<open>execute_request\<close> reads itself.
\<close>

definition one_response :: "(upstream_response \<Rightarrow> ('v, 'd) upstream_resp) \<Rightarrow> bool" where
  "one_response whole \<longleftrightarrow>
     (\<forall>up. u_status (whole up) = up_status up \<and> u_url (whole up) = up_url up \<and> u_bytes (whole up) = up_body up)"

definition answering ::
  "http_api \<Rightarrow> ('v0 \<Rightarrow> 'v) \<Rightarrow> (upstream_response \<Rightarrow> ('v0, 'd) upstream_resp) \<Rightarrow> 'd \<Rightarrow>
   (rb_call list \<Rightarrow> lk_error + upstream_response) \<Rightarrow> (rb_call list \<Rightarrow> world \<Rightarrow> world) \<Rightarrow> f64 \<Rightarrow>
   ('v, 'd) py_response network" where
  "answering http vf whole diag snd_fn others secs =
     \<lparr>send = snd_fn, meanwhile = others, elapsed_secs = secs,
      to_response = (\<lambda>up elapsed. Inr (from_response http vf (whole up) elapsed diag))\<rparr>"

lemma from_response_fields [simp]:
  "r_status_code (from_response http vf u elapsed diag) = u_status u"
  "r_url (from_response http vf u elapsed diag) = u_url u"
  "r_body (from_response http vf u elapsed diag) = u_bytes u"
  "r_elapsed (from_response http vf u elapsed diag) = elapsed"
  by (simp_all add: from_response_def Let_def)

lemma error_iff_not_ok:
  "(up_status up \<ge> 400) = (\<not> response_ok (from_response http vf u elapsed diag))" if "u_status u = up_status up"
  using that by (auto simp: response_ok_def)

section \<open>Properties\<close>


text \<open>C10: One answer, seen alike. When a request returns a response, whatever everybody else did while it waited,
  what is recorded in the metrics and told to the response hooks registered by then is what the caller reads off that response: its URL, its elapsed time and its length, its status to
  the response hooks, and as an error exactly a response that is not \<open>ok\<close>, is false, and for which
  \<open>error_for_status\<close> raises, with that status and URL.\<close>
theorem answer_seen_alike:
  assumes whole: "one_response whole"
    and run: "execute_request lib (answering http vf whole diag snd_fn others secs) req hk w = (Inr r, w')"
    and hooks: "fire_request (python_code lib) hk (req_method req) (url req) (headers req) (w_heap w) = (calls, h)"
  shows "(\<exists>rb v. apply_request_options req = Inr rb \<and>
      v = others rb (w\<lparr>w_heap := h, w_calls := w_calls w @ calls\<rparr>) \<and>
      w_metrics w' = record_global_metrics (url_lib lib) (f64_add lib) (r_url r) (r_elapsed r)
        (word_of_nat (response_len r)) (\<not> response_ok r) (w_metrics v) \<and>
      w_calls w' = w_calls v @
        map (\<lambda>f. ResponseHook f (r_status_code r) (r_url r) (r_elapsed r))
          (snapshot (response_hooks hk) (w_heap v))) \<and>
    response_bool r = response_ok r \<and>
    error_for_status r = (if response_ok r then Inr ()
      else raise_with HttpStatusError '' for url: '' [ANat (unat (r_status_code r)), AStr (r_url r)])"
proof -
  let ?v = "\<lambda>rb. others rb (w\<lparr>w_heap := h, w_calls := w_calls w @ calls\<rparr>)"
  obtain rb where rb: "apply_request_options req = Inr rb"
    using run by (cases "apply_request_options req") (simp_all add: execute_request_def begin_request_sent)
  with run hooks have "finish_request lib (answering http vf whole diag snd_fn others secs) hk (snd_fn rb) (?v rb) =
      (Inr r, w')"
    by (simp add: execute_request_def begin_request_sent world_sent_def answering_def)
  from finish_request_Inr [OF this] obtain up where r: "r = from_response http vf (whole up) secs diag"
    and m: "w_metrics w' = record_global_metrics (url_lib lib) (f64_add lib) (up_url up) secs
      (word_of_nat (length (up_body up))) (up_status up \<ge> 400) (w_metrics (?v rb))"
    and c: "w_calls w' = w_calls (?v rb) @
      map (\<lambda>f. ResponseHook f (up_status up) (up_url up) secs) (snapshot (response_hooks hk) (w_heap (?v rb)))"
    by (auto simp: answering_def)
  have same: "u_status (whole up) = up_status up" "u_url (whole up) = up_url up" "u_bytes (whole up) = up_body up"
    using whole by (simp_all add: one_response_def)
  have "(up_status up \<ge> 400) = (\<not> response_ok r)" unfolding r by (rule error_iff_not_ok) (rule same)
  then show ?thesis
    using rb m c same unfolding r by (simp add: response_len_def response_bool_def error_for_status_def response_ok_def)
qed

section \<open>Witnesses\<close>





definition whole_response :: "upstream_response \<Rightarrow> (unit, unit) upstream_resp" where
  "whole_response up = sample_response\<lparr>u_status := up_status up, u_url := up_url up, u_bytes := up_body up\<rparr>"

theorem answer_seen_alike_witness:
  "\<exists>r w'. execute_request sample_libs
      (answering plain_http id whole_response () (send sample_network) (\<lambda>rb w. w) (F64_Fin 1))
      sample_request \<lparr>request_hooks = 0, response_hooks = 1\<rparr> sample_world = (Inr r, w') \<and>
     error_for_status r = raise_with HttpStatusError '' for url: '' [ANat 404, AStr ''h2''] \<and>
     w_calls w' = [RequestHook 7 ''POST'' ''https://h/p'' [(''b'', ''1''), (''a'', ''2'')],
       ResponseHook 7 404 ''h2'' (F64_Fin 1)]"
proof -
  let ?net = "answering plain_http id whole_response () (send sample_network) (\<lambda>rb w. w) (F64_Fin 1)"
  let ?hk = "\<lparr>request_hooks = 0, response_hooks = 1\<rparr>"
  obtain r w' where e: "execute_request sample_libs ?net sample_request ?hk sample_world = (r, w')"
    by (cases "execute_request sample_libs ?net sample_request ?hk sample_world")
  have r: "r = Inr (from_response plain_http id
      (whole_response \<lparr>up_url = ''h2'', up_status = 404, up_body = [1, 2]\<rparr>) (F64_Fin 1) ())"
    using e by (auto simp: execute_request_def begin_request_def finish_request_def sample_request_applies
        sample_network_def answering_def Let_def)
  have hooks: "fire_request (python_code sample_libs) ?hk (req_method sample_request) (url sample_request)
      (headers sample_request) (w_heap sample_world) =
      ([RequestHook 7 ''POST'' ''https://h/p'' [(''b'', ''1''), (''a'', ''2'')]], sample_heap)"
    by (auto simp: fire_request_def snapshot_def sample_world_def sample_heap_def sample_libs_def
        sample_request_def collect_hash_map_def Let_def)
  have whole: "one_response whole_response" by (simp add: one_response_def whole_response_def)
  from answer_seen_alike [OF whole e [unfolded r] hooks] e r show ?thesis
    by (auto simp: response_ok_def whole_response_def sample_world_def snapshot_def sample_heap_def)
qed

end
