(* ===== verification/Representations.thy ===== *)
theory Representations imports Readers SessionPool ClientInfo SessionExtras begin

text \<open>
  What the objects print: the \<open>__repr__\<close> methods of \<open>src/src/*.rs\<close> with the formatting of Rust's standard
  library they use, and the getters and class constants beside them. What upstream prints of its
  own values (\<open>Display\<close>, derived \<open>Debug\<close>) is a parameter. The representations of responses, cookies and
  randomization policies stand with those objects.
\<close>

section \<open>Formatting\<close>

definition show_word :: "'a::len word \<Rightarrow> string" where
  "show_word w = show_nat (unat w)"

text \<open>\<open>{}\<close> of a \<open>bool\<close>, Python's spelling of it, \<open>{:?}\<close> of an \<open>Option\<close> and of a slice of integers.\<close>

fun show_bool :: "bool \<Rightarrow> string" where
  "show_bool True = ''true''"
| "show_bool False = ''false''"

fun py_bool :: "bool \<Rightarrow> string" where
  "py_bool True = ''True''"
| "py_bool False = ''False''"

fun debug_option :: "('a \<Rightarrow> string) \<Rightarrow> 'a option \<Rightarrow> string" where
  "debug_option f None = ''None''"
| "debug_option f (Some x) = ''Some('' @ f x @ '')''"

definition debug_list :: "('a \<Rightarrow> string) \<Rightarrow> 'a list \<Rightarrow> string" where
  "debug_list f xs = ''['' @ join_with '', '' (map f xs) @ '']''"

text \<open>\<open>{:04x}\<close>.\<close>

definition hex_char :: "nat \<Rightarrow> char" where
  "hex_char n = char_of (if n < 10 then 48 + n else 87 + n)"

definition show_hex4 :: "u16 \<Rightarrow> string" where
  "show_hex4 w = map (\<lambda>k. hex_char (unat w div 16 ^ k mod 16)) [3, 2, 1, 0]"

text \<open>
  \<open>{:?}\<close> of a \<open>Duration\<close>, as \<open>core::time\<close> prints it without a precision: the largest unit that is not
  empty, and the digits of the fraction up to the last that is not zero. \<open>frac_digits\<close> is its loop, over
  the at most nine places of its buffer. The micro sign is two bytes.
\<close>

fun frac_digits :: "nat \<Rightarrow> nat \<Rightarrow> nat \<Rightarrow> string" where
  "frac_digits 0 f divisor = []"
| "frac_digits (Suc places) f divisor =
     (if f = 0 then []
      else digit_char (f div divisor) # frac_digits places (f mod divisor) (divisor div 10))"

definition fmt_decimal :: "nat \<Rightarrow> nat \<Rightarrow> nat \<Rightarrow> string \<Rightarrow> string" where
  "fmt_decimal integer fraction divisor suffix =
     show_nat integer @
     (let digits = frac_digits 9 fraction divisor in if digits = [] then [] else CHR ''.'' # digits) @ suffix"

definition debug_duration :: "duration \<Rightarrow> string" where
  "debug_duration d =
     (let secs = d div 10 ^ 9; nanos = d mod 10 ^ 9 in
      if secs > 0 then fmt_decimal secs nanos 100000000 ''s''
      else if nanos \<ge> 1000000 then fmt_decimal (nanos div 1000000) (nanos mod 1000000) 100000 ''ms''
      else if nanos \<ge> 1000 then
        fmt_decimal (nanos div 1000) (nanos mod 1000) 100 [char_of (194 :: nat), char_of (181 :: nat), CHR ''s'']
      else fmt_decimal nanos 0 1 ''ns'')"

section \<open>Value types\<close>

text \<open>The configuration classes print the fields they read of the upstream value.\<close>

definition timeout_config_repr ::
  "duration option \<Rightarrow> duration option \<Rightarrow> duration option \<Rightarrow> duration option \<Rightarrow> duration option \<Rightarrow> string" where
  "timeout_config_repr dns_timeout tcp_connect_timeout tls_handshake_timeout ttfb_timeout total_timeout =
     ''TimeoutConfig(dns='' @ debug_option debug_duration dns_timeout @
     '', tcp_connect='' @ debug_option debug_duration tcp_connect_timeout @
     '', tls_handshake='' @ debug_option debug_duration tls_handshake_timeout @
     '', ttfb='' @ debug_option debug_duration ttfb_timeout @
     '', total='' @ debug_option debug_duration total_timeout @ '')''"

text \<open>The type of \<open>min_transfer_rate\<close> is upstream's, and so is how it prints.\<close>

definition resource_limits_repr :: "('a \<Rightarrow> string) \<Rightarrow> usize \<Rightarrow> usize \<Rightarrow> 'a \<Rightarrow> string" where
  "resource_limits_repr debug_rate max_body max_conn min_rate =
     ''ResourceLimits(max_body='' @ show_word max_body @ '', max_conn='' @ show_word max_conn @
     '', min_rate='' @ debug_rate min_rate @ '')''"

definition resumption_config_repr :: "resumption_config \<Rightarrow> string" where
  "resumption_config_repr c =
     ''SessionResumptionConfig(tls13_psk='' @ show_bool (tls13_psk c) @
     '', tls12_session_ticket='' @ show_bool (tls12_session_ticket c) @
     '', store_tickets='' @ show_bool (store_tickets c) @
     '', max_tickets_per_host='' @ debug_option show_word (max_tickets_per_host c) @ '')''"

text \<open>The static methods, each with the upstream function it calls.\<close>

definition resumption_presets :: "(string \<times> string) list" where
  "resumption_presets = [(''disabled'', ''disabled''), (''chrome'', ''chrome''), (''firefox'', ''firefox'')]"

text \<open>
  \<open>AcceptEncoding\<close>: upstream's flags, their union, and how they print as a header.
\<close>

record 'f encoding_flags =
  flag_named :: "string \<Rightarrow> 'f"
  flag_union :: "'f \<Rightarrow> 'f \<Rightarrow> 'f"
  flag_header :: "'f \<Rightarrow> string"

definition accept_encoding_attrs :: "'f encoding_flags \<Rightarrow> (string \<times> 'f) list" where
  "accept_encoding_attrs fl =
     [(''GZIP'', flag_named fl ''GZIP''), (''BR'', flag_named fl ''BR''), (''DEFLATE'', flag_named fl ''DEFLATE''),
      (''ZSTD'', flag_named fl ''ZSTD''), (''ALL'', flag_named fl ''ALL'')]"

definition accept_encoding_or :: "'f encoding_flags \<Rightarrow> 'f \<Rightarrow> 'f \<Rightarrow> 'f" where
  "accept_encoding_or fl a b = flag_union fl a b"

definition accept_encoding_repr :: "'f encoding_flags \<Rightarrow> 'f \<Rightarrow> string" where
  "accept_encoding_repr fl a = ''AcceptEncoding('' @ flag_header fl a @ '')''"

definition pool_stats_repr :: "py_pool_stats \<Rightarrow> string" where
  "pool_stats_repr s =
     ''PoolStats(h2='' @ show_word (py_h2_connections s) @ '', h1='' @ show_word (py_h1_connections s) @
     '', total='' @ show_word (py_total s) @ '', max='' @ show_word (py_max_total s) @
     '', at_capacity='' @ show_bool (py_at_capacity s) @ '')''"

definition session_pool_stats_repr :: "py_session_pool_stats \<Rightarrow> string" where
  "session_pool_stats_repr s =
     ''SessionPoolStats(idle='' @ show_word (py_idle_sessions s) @ '', max='' @ show_word (py_max_sessions s) @ '')''"

definition data_frame_policy_attrs :: "(string \<times> h2_data_frame_policy) list" where
  "data_frame_policy_attrs = [(''BROWSER_DEFAULT'', BrowserDefault), (''PEER_MAX_FRAME_SIZE'', PeerMaxFrameSize)]"

fun data_frame_policy_repr :: "h2_data_frame_policy \<Rightarrow> string" where
  "data_frame_policy_repr BrowserDefault = ''H2DataFramePolicy.BROWSER_DEFAULT''"
| "data_frame_policy_repr PeerMaxFrameSize = ''H2DataFramePolicy.PEER_MAX_FRAME_SIZE''"
| "data_frame_policy_repr (FixedPayload n) = ''H2DataFramePolicy.fixed_payload('' @ show_word n @ '')''"
| "data_frame_policy_repr (SocketWriteAligned n) = ''H2DataFramePolicy.socket_write_aligned('' @ show_word n @ '')''"

definition exponential_backoff_repr :: "u32 \<Rightarrow> bool \<Rightarrow> string" where
  "exponential_backoff_repr max_retries jitter =
     ''ExponentialBackoff(max_retries='' @ show_word max_retries @ '', jitter='' @ show_bool jitter @ '')''"

definition fixed_interval_repr :: "u32 \<Rightarrow> duration \<Rightarrow> string" where
  "fixed_interval_repr max_retries interval =
     ''FixedInterval(max_retries='' @ show_word max_retries @ '', interval='' @ debug_duration interval @ '')''"

definition hsts_none :: hsts_kind where
  "hsts_none = HstsNone"

definition hsts_static :: "string list \<Rightarrow> bool \<Rightarrow> hsts_kind" where
  "hsts_static hs preloaded_tlds = HstsStatic hs preloaded_tlds"

section \<open>Proxies\<close>

definition proxy_str :: "(nat \<Rightarrow> string) \<Rightarrow> nat \<Rightarrow> string" where
  "proxy_str display self = display self"

definition proxy_repr :: "(nat \<Rightarrow> string) \<Rightarrow> proxy_views \<Rightarrow> nat \<Rightarrow> string" where
  "proxy_repr display v self =
     ''<ProxyConfig path='' @ [CHR 0x27] @ display self @ [CHR 0x27] @ '' hops='' @ show_word (hops_of v self) @ ''>''"

definition bad_proxy_config_repr :: "bad_proxy_config \<Rightarrow> string" where
  "bad_proxy_config_repr c =
     ''BadProxyConfig(failure_threshold='' @ show_word (failure_threshold c) @
     '', cooldown='' @ debug_duration (cooldown_duration c) @ '')''"

definition health_check_repr :: "health_check \<Rightarrow> string" where
  "health_check_repr c =
     ''HealthCheckConfig(interval='' @ debug_duration (hc_interval c) @ '', target='' @ hc_target_host c @
     '':'' @ show_word (hc_target_port c) @ '')''"

definition masque_repr :: "masque_config \<Rightarrow> string" where
  "masque_repr m =
     ''MasqueConfig(server_name='' @
     (case mq_server_name m of Some name \<Rightarrow> CHR 0x27 # name @ [CHR 0x27] | None \<Rightarrow> ''None'') @
     '', verify='' @ py_bool (mq_verify m) @
     '', ca_cert_count='' @ show_nat (length (mq_extra_roots m)) @
     '', use_native_certs='' @ py_bool (mq_use_native_certs m) @ '')''"

definition masque_server_name :: "masque_config \<Rightarrow> string option" where
  "masque_server_name m = mq_server_name m"

definition masque_verify :: "masque_config \<Rightarrow> bool" where
  "masque_verify m = mq_verify m"

definition masque_use_native_certs :: "masque_config \<Rightarrow> bool" where
  "masque_use_native_certs m = mq_use_native_certs m"

definition masque_max_idle_tunnels :: "masque_config \<Rightarrow> usize" where
  "masque_max_idle_tunnels m = mq_max_idle_tunnels m"

section \<open>Fingerprints\<close>

definition extension_type_getter :: "extension_spec \<Rightarrow> u16" where
  "extension_type_getter e = extension_type e"

definition extension_repr :: "extension_spec \<Rightarrow> string" where
  "extension_repr e =
     ''ExtensionSpec(0x'' @ show_hex4 (extension_type e) @ '', source='' @
     CHR 0x27 # extension_source_label e @ [CHR 0x27] @ '')''"

definition grease_repr :: "grease_config \<Rightarrow> string" where
  "grease_repr g =
     ''GreaseConfig(cipher_suite='' @ show_bool (gr_cipher_suite g) @
     '', extensions='' @ show_bool (gr_extensions g) @
     '', supported_groups='' @ show_bool (gr_supported_groups g) @
     '', supported_versions='' @ show_bool (gr_supported_versions g) @
     '', signature_algorithms='' @ show_bool (gr_signature_algorithms g) @
     '', key_share='' @ show_bool (gr_key_share g) @ '')''"

fun padding_repr :: "padding_strategy \<Rightarrow> string" where
  "padding_repr (BlockAlign min_length block_size) =
     ''PaddingStrategy.block_align('' @ show_word min_length @ '', '' @ show_word block_size @ '')''"
| "padding_repr (FixedTarget target_length) = ''PaddingStrategy.fixed_target('' @ show_word target_length @ '')''"
| "padding_repr NoPadding = ''PaddingStrategy.no_padding()''"

definition randomization_repr :: "randomization_config \<Rightarrow> string" where
  "randomization_repr c = ''RandomizationConfig(shuffle_extensions='' @ show_bool (shuffle_extensions c) @ '')''"

definition tls_profile_getters ::
  "'s tls_profile \<Rightarrow> string \<times> u16 list \<times> u16 list \<times> u16 list \<times> string list" where
  "tls_profile_getters p =
     (tp_name p, tp_cipher_suites p, tp_supported_groups p, tp_signature_algorithms p, tp_alpn_protocols p)"

definition tls_profile_repr :: "'s tls_profile \<Rightarrow> string" where
  "tls_profile_repr p =
     ''TlsProfile('' @ CHR 0x27 # tp_name p @ [CHR 0x27] @
     '', ciphers='' @ show_nat (length (tp_cipher_suites p)) @
     '', extensions='' @ show_nat (length (tp_extensions p)) @
     '', groups='' @ show_nat (length (tp_supported_groups p)) @ '')''"

definition h2_setting_value :: "h2_setting \<Rightarrow> u32" where
  "h2_setting_value x = hs_value x"

text \<open>\<open>{:?}\<close> of an upstream setting id is upstream's.\<close>

definition h2_setting_repr :: "(h2_setting_id \<Rightarrow> string) \<Rightarrow> h2_setting \<Rightarrow> string" where
  "h2_setting_repr debug_id x = ''H2Setting('' @ debug_id (hs_id x) @ '', '' @ show_word (hs_value x) @ '')''"

definition headers_priority_repr :: "headers_priority \<Rightarrow> string" where
  "headers_priority_repr p =
     ''HeadersPriority(dep='' @ show_word (hp_stream_dependency p) @ '', weight='' @ show_word (hp_weight p) @
     '', exclusive='' @ show_bool (hp_exclusive p) @ '')''"

definition priority_frame_repr :: "priority_frame \<Rightarrow> string" where
  "priority_frame_repr p =
     ''PriorityFrame(stream='' @ show_word (pf_stream_id p) @ '', dep='' @ show_word (pf_dependency p) @
     '', weight='' @ show_word (pf_weight p) @ '', exclusive='' @ show_bool (pf_exclusive p) @ '')''"

text \<open>The getters that only read, and the presets of a priority configuration.\<close>

definition priority_config_getters :: "priority_config \<Rightarrow> bool \<times> bool \<times> u8 \<times> bool" where
  "priority_config_getters c =
     (pc_exclusive c, pc_auto_priority_header c, pc_default_urgency c, pc_default_incremental c)"

definition priority_config_presets :: "(string \<times> string) list" where
  "priority_config_presets =
     [(''default_config'', ''default''), (''chrome'', ''chrome''), (''firefox'', ''firefox''),
      (''safari18'', ''safari18''), (''safari26'', ''safari26'')]"

definition priority_config_repr :: "priority_config \<Rightarrow> string" where
  "priority_config_repr c =
     ''PriorityConfig(urgency_weights='' @ debug_option (debug_list show_word) (pc_urgency_weights c) @
     '', exclusive='' @ show_bool (pc_exclusive c) @
     '', stream_dep_policy='' @ CHR 0x22 # stream_dep_policy_to_str (pc_stream_dep_policy c) @ [CHR 0x22] @
     '', auto_priority_header='' @ show_bool (pc_auto_priority_header c) @
     '', default_urgency='' @ show_word (pc_default_urgency c) @
     '', default_incremental='' @ show_bool (pc_default_incremental c) @ '')''"

definition h2_profile_repr :: "h2_profile \<Rightarrow> string" where
  "h2_profile_repr p =
     ''H2Profile(settings='' @ show_nat (length (h2_settings p)) @
     '', window_update='' @ show_word (h2_window_update p) @ '')''"

definition tcp_to_ja4t :: "('t \<Rightarrow> string option) \<Rightarrow> 't \<Rightarrow> string option" where
  "tcp_to_ja4t to_ja4t self = to_ja4t self"

definition tcp_repr :: "('t \<Rightarrow> string option) \<Rightarrow> 't \<Rightarrow> string" where
  "tcp_repr to_ja4t self =
     (case to_ja4t self of
        Some ja4t \<Rightarrow> ''TcpFingerprint(ja4t='' @ CHR 0x27 # ja4t @ [CHR 0x27] @ '')''
      | None \<Rightarrow> ''TcpFingerprint()'')"

definition quic_repr :: "usize \<Rightarrow> string" where
  "quic_repr connection_id_length = ''QuicProfile(connection_id_length='' @ show_word connection_id_length @ '')''"

fun resumption_policy_repr :: "tls_resumption_policy \<Rightarrow> string" where
  "resumption_policy_repr ResumptionBrowserDefault = ''TlsSessionResumptionPolicy.BROWSER_DEFAULT''"
| "resumption_policy_repr ResumptionDisabled = ''TlsSessionResumptionPolicy.DISABLED''"
| "resumption_policy_repr (ResumptionEnabled n) = ''TlsSessionResumptionPolicy.enabled('' @ show_word n @ '')''"

text \<open>The attributes of \<open>ExtType\<close>; each is upstream's constant of that name. The attributes of \<open>Layers\<close>.\<close>

definition ext_type_attrs :: "(string \<Rightarrow> u16) \<Rightarrow> (string \<times> u16) list" where
  "ext_type_attrs ext_type = map (\<lambda>n. (n, ext_type n))
     [''SNI'', ''EC_POINT_FORMATS'', ''SUPPORTED_GROUPS'', ''SESSION_TICKET'', ''ENCRYPT_THEN_MAC'',
      ''EXTENDED_MASTER_SECRET'', ''SIGNATURE_ALGORITHMS'', ''SUPPORTED_VERSIONS'', ''PSK_KEY_EXCHANGE_MODES'',
      ''KEY_SHARE'', ''ALPN'', ''STATUS_REQUEST'', ''SIGNED_CERTIFICATE_TIMESTAMP'', ''COMPRESS_CERTIFICATE'',
      ''APPLICATION_SETTINGS'', ''APPLICATION_SETTINGS_NEW'', ''RENEGOTIATION_INFO'', ''DELEGATED_CREDENTIALS'',
      ''RECORD_SIZE_LIMIT'', ''PADDING'', ''COOKIE'', ''PRE_SHARED_KEY'', ''ENCRYPTED_CLIENT_HELLO'',
      ''TRUST_ANCHOR_IDS'']"

definition layer_attrs :: "(string \<times> layer set) list" where
  "layer_attrs = [(''TLS'', {LayerTls}), (''H2'', {LayerH2}), (''QUIC'', {LayerQuic})]"

definition layers_all :: "layer set" where
  "layers_all = {LayerTls, LayerH2, LayerQuic}"

definition h2_profile_getters :: "h2_profile \<Rightarrow> priority_config \<times> u32" where
  "h2_profile_getters p = (h2_priority_config p, h2_initial_stream_id p)"

section \<open>Sessions, pools and what they use\<close>

text \<open>A request priority is what upstream says of it: its urgency, whether it is incremental, its header.\<close>

record priority_view =
  pv_urgency :: "request_priority \<Rightarrow> u8"
  pv_incremental :: "request_priority \<Rightarrow> bool"
  pv_header :: "request_priority \<Rightarrow> string"

definition priority_getters :: "priority_view \<Rightarrow> request_priority \<Rightarrow> u8 \<times> bool \<times> string" where
  "priority_getters v p = (pv_urgency v p, pv_incremental v p, pv_header v p)"

definition priority_repr :: "priority_view \<Rightarrow> request_priority \<Rightarrow> string" where
  "priority_repr v p =
     ''RequestPriority(urgency='' @ show_word (pv_urgency v p) @ '', incremental='' @ show_bool (pv_incremental v p) @ '')''"

definition protocol_policy_repr :: "string \<Rightarrow> string \<Rightarrow> string \<Rightarrow> string" where
  "protocol_policy_repr intent upgrade fallback =
     ''ProtocolPolicy(intent='' @ intent @ '', upgrade='' @ upgrade @ '', fallback='' @ fallback @ '')''"

definition metrics_repr :: "metrics \<Rightarrow> string" where
  "metrics_repr m =
     ''<MetricsCollector requests='' @ show_word (global_requests m) @
     '' errors='' @ show_word (global_errors m) @ ''>''"

fun rotation_name :: "rotation_strategy \<Rightarrow> string" where
  "rotation_name RoundRobin = ''round_robin''"
| "rotation_name Random = ''random''"

definition client_pool_repr :: "client_pool \<Rightarrow> string" where
  "client_pool_repr pool =
     (if poisoned_lock pool then ''<ClientPool (lock poisoned)>''
      else ''ClientPool(clients='' @ show_nat (length (clients pool)) @
        '', rotation='' @ CHR 0x27 # rotation_name (strategy pool) @ [CHR 0x27] @ '')'')"

definition client_repr :: "'s client_view \<Rightarrow> string" where
  "client_repr c = ''<Client tls='' @ CHR 0x27 # tp_name (cv_tls c) @ [CHR 0x27] @ ''>''"

definition blocking_client_repr :: "'s client_view \<Rightarrow> string" where
  "blocking_client_repr c = ''<BlockingClient tls='' @ CHR 0x27 # tp_name (cv_tls c) @ [CHR 0x27] @ ''>''"

definition middleware_new :: "string \<Rightarrow> pyobj option \<Rightarrow> pyobj option \<Rightarrow> py_middleware" where
  "middleware_new name on_request on_response =
     \<lparr>mw_name = name, on_request_fn = on_request, on_response_fn = on_response\<rparr>"

definition middleware_repr :: "py_middleware \<Rightarrow> string" where
  "middleware_repr mw = ''<Middleware '' @ CHR 0x27 # mw_name mw @ [CHR 0x27] @ ''>''"

text \<open>\<open>{:?}\<close> of a string escapes it by Rust's Unicode tables, which are a parameter.\<close>

fun ws_message_repr :: "(string \<Rightarrow> string) \<Rightarrow> py_ws_message \<Rightarrow> string" where
  "ws_message_repr debug_str (WsText s) = ''WsMessage.Text('' @ debug_str s @ '')''"
| "ws_message_repr debug_str (WsBinary b) = ''WsMessage.Binary('' @ show_nat (length b) @ '' bytes)''"
| "ws_message_repr debug_str (WsPing b) = ''WsMessage.Ping('' @ show_nat (length b) @ '' bytes)''"
| "ws_message_repr debug_str (WsPong b) = ''WsMessage.Pong('' @ show_nat (length b) @ '' bytes)''"
| "ws_message_repr debug_str (WsClose code reason) =
     ''WsMessage.Close(code='' @ debug_option show_word code @ '', reason='' @ debug_str reason @ '')''"

definition streaming_repr :: "'s streaming_response \<Rightarrow> string" where
  "streaming_repr self = ''<StreamingResponse ['' @ show_word (sr_status_code self) @ '']>''"

definition blocking_streaming_repr :: "'s streaming_response \<Rightarrow> string" where
  "blocking_streaming_repr self = ''<BlockingStreamingResponse ['' @ show_word (sr_status_code self) @ '']>''"

text \<open>The objects that print their class only.\<close>

definition session_repr :: string where
  "session_repr = ''<Session>''"

definition blocking_session_repr :: string where
  "blocking_session_repr = ''<BlockingSession>''"

definition session_pool_repr :: string where
  "session_pool_repr = ''<SessionPool>''"

definition session_guard_repr :: string where
  "session_guard_repr = ''<SessionGuard>''"

definition blocking_session_pool_repr :: string where
  "blocking_session_pool_repr = ''<BlockingSessionPool>''"

definition blocking_session_guard_repr :: string where
  "blocking_session_guard_repr = ''<BlockingSessionGuard>''"

definition ws_connection_repr :: string where
  "ws_connection_repr = ''<WsConnection>''"

definition blocking_ws_connection_repr :: string where
  "blocking_ws_connection_repr = ''<BlockingWsConnection>''"

definition multipart_form_repr :: string where
  "multipart_form_repr = ''<Multipart>''"

definition proxy_pool_repr :: string where
  "proxy_pool_repr = ''<ProxyPool>''"

text \<open>The policy objects that print what upstream's derived \<open>Debug\<close> makes of their value.\<close>

definition partition_context_repr :: "('c \<Rightarrow> string) \<Rightarrow> 'c \<Rightarrow> string" where
  "partition_context_repr debug_context c = debug_context c"

definition layers_repr :: "(layer set \<Rightarrow> string) \<Rightarrow> layer set \<Rightarrow> string" where
  "layers_repr debug_layers ls = debug_layers ls"

section \<open>Garbage collection of sessions\<close>

definition session_traverse :: "py_session \<Rightarrow> (ref \<Rightarrow> bool) \<Rightarrow> ref list" where
  "session_traverse self visit = traverse (state self) visit"

definition session_clear :: "py_session \<Rightarrow> heap \<Rightarrow> heap" where
  "session_clear self h = clear_for_gc (state self) h"

definition blocking_traverse :: "py_session \<Rightarrow> (ref \<Rightarrow> bool) \<Rightarrow> ref list" where
  "blocking_traverse self visit = traverse (state self) visit"

definition blocking_clear :: "py_session \<Rightarrow> heap \<Rightarrow> heap" where
  "blocking_clear self h = clear_for_gc (state self) h"

definition blocking_closed :: "py_session \<Rightarrow> heap \<Rightarrow> bool" where
  "blocking_closed self h = is_closed (state self) h"

section \<open>What is printed tells the value\<close>

lemma show_word_inj [simp]: "show_word v = show_word w \<longleftrightarrow> v = w"
proof
  assume "show_word v = show_word w"
  then have "parse_digits (show_nat (unat v)) = parse_digits (show_nat (unat w))" by (simp add: show_word_def)
  then show "v = w" by (simp add: word_unat_eq_iff)
qed simp

lemma digit_not_comma: "d < 10 \<Longrightarrow> digit_char d \<noteq> CHR '',''"
  by (auto simp: digit_char_def dest!: arg_cong [where f = "of_char :: char \<Rightarrow> nat"])

lemma show_word_no_comma: "CHR '','' \<notin> set (show_word w)"
  using show_nat_digits digit_not_comma unfolding show_word_def by metis

text \<open>Numbers up to a comma.\<close>

lemma show_word_prefix:
  assumes "show_word v @ CHR '','' # s = show_word w @ CHR '','' # t"
  shows "v = w \<and> s = t"
proof -
  have "takeWhile (\<lambda>c. c \<noteq> CHR '','') (show_word v @ CHR '','' # s) = show_word v" for v :: "'a word" and s
    using show_word_no_comma [of v] by (subst takeWhile_append2) auto
  with assms have "show_word v = show_word w" by metis
  with assms show ?thesis by simp
qed

text \<open>A policy or strategy that prints as the expression that makes it is told by what it prints.\<close>

lemma data_frame_policy_repr_inj: "data_frame_policy_repr a = data_frame_policy_repr b \<longleftrightarrow> a = b"
  by (cases a; cases b) simp_all

lemma resumption_policy_repr_inj: "resumption_policy_repr p = resumption_policy_repr q \<longleftrightarrow> p = q"
  by (cases p; cases q) simp_all

lemma padding_repr_inj: "padding_repr x = padding_repr y \<longleftrightarrow> x = y"
  by (cases x; cases y) (auto dest: show_word_prefix)

end
