(* ===== verification/Spec2Isabelle.thy ===== *)
theory Spec2Isabelle imports Readers SessionExtras SessionPool ClientInfo Module Shutdown Exchange Representations begin

text \<open>
  A verification library for \<open>lkrequest-py\<close>, the Python bindings (Rust, PyO3) of the \<open>lkrequest\<close>
  HTTP client. What is modelled is the logic of the bindings themselves, in \<open>src/src/*.rs\<close>: how
  Python arguments become calls on the upstream builders, what a session shares with its
  handles and how it is closed, how a request runs and what is recorded of it, how bodies are pulled
  out of Python objects, and how results get back to an asyncio loop. The \<open>lk*\<close> crates, \<open>tokio\<close>,
  \<open>url\<close>, \<open>http\<close>, PyO3 and the Python interpreter are not part of the repository and are parameters
  of the definitions that use them.

  How the parts interact. A \<open>Client\<close> (client.rs) is built from its options, among them
  profiles, proxies, DNS overrides and middleware, and makes sessions. A session (session.rs) is
  the upstream session, a \<open>SessionState\<close> (session_state.rs) that all its handles share, and a base
  URL. Its HTTP methods prepare a request and hand it to a task; the task runs the request hooks,
  sends, records metrics (metrics.rs) and runs the response hooks, guarded against the closing of
  the session, and its result crosses the bridge (bridge.rs) to the event loop. Bodies are
  multipart forms (multipart.rs) or streams (upload.rs); responses (response.rs) are buffered, with
  caches, or streamed; a session also opens WebSockets (websocket.rs). Session pools (session_pool.rs)
  lease sessions through guards. The fingerprints clients are given are value objects
  (fingerprint.rs, quic.rs, randomize.rs, network_partition.rs).

  The theories, each after the file it models:

    \<^item> \<open>Prelude\<close>: results (\<open>PyResult\<close>), their combinators (\<open>?\<close>, \<open>transpose\<close>, \<open>collect\<close>), machine words,
      \<open>f64\<close> and \<open>Duration\<close>, Rust strings, builder call logs, the collections \<open>res_simps\<close> and
      \<open>log_simps\<close>.
    \<^item> \<open>Interfaces\<close>: the contracts shared by several components, as locales: \<open>absorbing\<close> (a fact no step
      undoes), \<open>exhaustible\<close> (a machine that, once over, answers the same and stays over; it gives an \<open>absorbing\<close> fact
      by \<open>sublocale\<close>) and \<open>fused\<close> (one whose answers tell that it is over).
    \<^item> \<open>Errors\<close> (error.rs), \<open>Types\<close> (types.rs), \<open>Protocol\<close> (protocol.rs, priority.rs), \<open>Multipart\<close>
      (multipart.rs): the values and tables the other components use.
    \<^item> \<open>Middleware\<close> (middleware.rs): callback slots and the wrapper that runs them.
    \<^item> \<open>SessionState\<close> (session_state.rs): hook lists, closed flag and middleware slots as cells of a
      heap; \<open>close\<close> as the sequence of its atomic actions; the transition system \<open>step\<close> of everything
      that may happen between two of them; the guard of requests in flight.
    \<^item> \<open>Upload\<close> (upload.rs): classification of \<open>body_stream\<close> objects and the two streams.
    \<^item> \<open>Metrics\<close> (metrics.rs): per-host counters, histograms, the compare-and-swap loop of the duration sum,
      the Prometheus text.
    \<^item> \<open>Session\<close> (session.rs, first half): prepared requests, their translation to the upstream
      builder, validation, the run of a request.
    \<^item> \<open>Verbs\<close> (session.rs, second half): the methods of \<open>Session\<close> and \<open>BlockingSession\<close>.
    \<^item> \<open>ClientPool\<close> (client_pool.rs): rotation over clients.
    \<^item> \<open>Bridge\<close> (bridge.rs): the in-flight count, its guards and \<open>drain\<close> as a transition system.
    \<^item> \<open>Dns\<close> (dns.rs): address families and dial overrides, with the standard library's parsers of
      \<open>u16\<close> and \<open>SocketAddr\<close>.
    \<^item> \<open>Retry\<close> (retry.rs, hsts.rs) and \<open>Proxy\<close> (proxy.rs, masque.rs): policies and configurations.
    \<^item> \<open>Client\<close> (client.rs): both client classes, their presets and the sessions they make; \<open>ClientInfo\<close>: what
      they show of themselves.
    \<^item> \<open>Response\<close> (response.rs, first half): header maps, redirects, decoding, buffered responses with their text
      and JSON caches; \<open>Streaming\<close> (second half): the two streaming classes and iteration over them;
      \<open>Readers\<close>: the same reads by several tasks, any of which may be cancelled.
    \<^item> \<open>WebSocket\<close> (websocket.rs): messages, the methods of both classes, and the shared connection as a
      transition system of handles, releases and teardowns.
    \<^item> \<open>SessionPool\<close> (session_pool.rs): pools, leases and guards; the calls on upstream's pool are a log that is
      replayed against the discipline upstream expects.
    \<^item> \<open>SessionExtras\<close> (the rest of session.rs): cookies, prefetching, statistics, the blocking lifecycle.
    \<^item> \<open>Fingerprint\<close> (fingerprint.rs, quic.rs, randomize.rs, network_partition.rs): labels, constructors, presets,
      loading and saving of profiles, randomization and partition policies.
    \<^item> \<open>Module\<close> (lib.rs): the registered names, draining, the consistency check, the log level, the counters.
    \<^item> \<open>Shutdown\<close>: a session, its calls, which look at the closed flag first and enter the bridge later, their guards
      and the bridge, composed into one transition system; what is left to run once \<open>close\<close> has returned. \<open>Exchange\<close>: a request from the arguments of a method to the bytes the
      transport pulls, and an answer as metrics, hooks and the caller see it.
    \<^item> \<open>Representations\<close>: the \<open>__repr__\<close> methods, with the formatting of the standard library they use, the getters
      and the class constants.

  Correspondence. A struct is a record and an enum a datatype, with the source's field names where they
  do not clash; a function keeps its name, with the class in front where several share
  it (\<open>session_get\<close> and \<open>blocking_get\<close> are \<open>get\<close> of the two session classes). An upstream builder is the list
  of the calls made on it, in order, so that a theorem about the list holds for any builder; an upstream value that only passes
  through is a handle. A Python object is its identity, and a Python argument is classified by what
  the code tests of it (a string, an instance of the expected class, something else). Exceptions are values
  (\<open>exc\<close>) and every raise, early return and panic of the modelled code is a branch; a Rust panic is the
  \<open>PanicException\<close> PyO3 turns it into. Integers keep their width, and \<open>usize\<close> is 64 bits. A \<open>HashMap\<close> is an
  association list in its iteration order, which nothing relies on (\<open>connect_to_order_free\<close>).
  A string is its UTF-8 bytes. Of a long message literal the model keeps the leading words, with the
  formatted values as \<open>args\<close>.

  What the lemmas show. \<open>SessionState\<close>, \<open>Bridge\<close> and \<open>WebSocket\<close>: invariants of the transition systems by rule
  induction, through \<open>absorbing\<close>, interpreted on the closed flag, the closers' invariant, a session that has let
  go, the conservation of guards, the loop's queue, the handles of a connection and the refusals of a released
  one; \<open>SessionPool\<close> the same for leases. \<open>fused\<close> is interpreted on both upload streams, both streaming responses, both
  WebSocket classes and the pool guards, \<open>exhaustible\<close> on the log subscriber. \<open>Upload\<close>: delivery of everything pulled.
  \<open>Metrics\<close>: refinement of the log of recorded requests; \<open>Response\<close>: refinement of a response without caches;
  \<open>Streaming\<close>: termination of iteration; \<open>Readers\<close>: interleaved and cancelled reads refine the atomic operations.
  \<open>Shutdown\<close>: a request runs no hook for an answer that arrives after a close, no middleware callback runs, and the
  calls that had found the session open come to rest, by a measure on them.
  \<open>Exchange\<close>: a file given to a method is what is uploaded. \<open>Representations\<close>: a policy is told by what it
  prints. \<open>Session\<close>, \<open>Verbs\<close>, \<open>Client\<close>, \<open>Fingerprint\<close>: exact conditions
  of acceptance, what reaches upstream, round trips, parity of the asynchronous and the blocking classes.

  Interleaving. Where other threads or tasks matter, the steps between which they run are apart: the actions of
  \<open>close\<close>, the check and the submission of a call, the reads of a streaming response, the operations of a WebSocket. A
  request is split at its await, and what the rest of the process does there is an input (\<open>meanwhile\<close>). A
  definition with one heap argument reads it at the point where the code does.

  Bounds. Loops over finite inputs are structural recursion on the inputs: the polls of a stream, the
  attempts of the compare-and-swap loop, the counts a drain reads. A loop whose inputs run out before it is done
  says so in its value (\<open>Pending\<close>, \<open>None\<close>), never with an answer it did not give. Python's loop over a streaming response, which
  may not end, is a \<open>partial_function (option)\<close>. No fuel is used.

  Not modelled: logging, the tokio runtimes, what upstream prints of its own values and the numbers of its constants
  (parameters of the definitions that use them), \<open>create_future\<close> and \<open>__getattr__\<close> of the loop proxy (they forward), and
  the Python package around the extension. The order in which a mutex serves those who wait is left open.
\<close>

end
